(* ===== verification/Prelude.thy ===== *)
theory Prelude
  imports Main "HOL-Library.Sublist"
begin

text \<open>
  Shared vocabulary of the development: Go's 64-bit integers, byte strings and the few functions of
  Go's standard library the controllers use (decimal printing and scanning, hexadecimal encoding,
  \<open>strings.TrimRight\<close>, \<open>strings.Contains\<close>, \<open>strings.SplitN\<close>), the clock, and the
  collections of facts the component theories add to. A Go string is a sequence of bytes, as a
  \<open>char list\<close> is, and \<open>len\<close> counts bytes.
\<close>

named_theorems wp_simps \<open>weakest preconditions of programs and of the helpers they call\<close>

section \<open>Integers\<close>

text \<open>
  Go's \<open>int\<close> and \<open>int64\<close> are read as mathematical integers; where an operation can leave the
  64-bit range the result is wrapped explicitly. Division truncates towards zero.
\<close>

definition wrap64 :: "int \<Rightarrow> int" where
  "wrap64 x = (x + 2 ^ 63) mod 2 ^ 64 - 2 ^ 63"

definition in64 :: "int \<Rightarrow> bool" where
  "in64 x \<longleftrightarrow> - (2 ^ 63) \<le> x \<and> x < 2 ^ 63"

lemma wrap64_id: "in64 x \<Longrightarrow> wrap64 x = x"
  by (simp add: wrap64_def in64_def)

lemma in64_wrap64: "in64 (wrap64 x)"
proof -
  have "0 \<le> (x + 2 ^ 63) mod 2 ^ 64" "(x + 2 ^ 63) mod 2 ^ 64 < 2 ^ 64" by simp_all
  then show ?thesis by (simp add: wrap64_def in64_def)
qed

definition go_div :: "int \<Rightarrow> int \<Rightarrow> int" where
  "go_div a b = sgn a * sgn b * (\<bar>a\<bar> div \<bar>b\<bar>)"

lemma go_div_nonneg: "0 \<le> a \<Longrightarrow> 0 < b \<Longrightarrow> go_div a b = a div b"
  by (cases "a = 0") (simp_all add: go_div_def)

section \<open>Time\<close>

text \<open>
  A \<open>time.Time\<close> is the number of nanoseconds since the Unix epoch; the zero value, which
  \<open>IsZero\<close> recognises, is the first instant of year 1. A \<open>time.Duration\<close> is a number of
  nanoseconds. A pointer to a time is an option.
\<close>

type_synonym time = int
type_synonym duration = int

definition zero_time :: time where
  "zero_time = -62135596800000000000"

definition second :: duration where "second = 1000000000"

definition minute :: duration where "minute = 60 * second"

lemmas duration_defs = second_def minute_def

section \<open>Decimal numbers\<close>

definition digit_char :: "nat \<Rightarrow> char" where
  "digit_char n = char_of (48 + n)"

definition digit_val :: "char \<Rightarrow> nat" where
  "digit_val c = of_char c - 48"

definition is_digit :: "char \<Rightarrow> bool" where
  "is_digit c \<longleftrightarrow> 48 \<le> (of_char c :: nat) \<and> (of_char c :: nat) \<le> 57"

lemma digit_char_val: "n < 10 \<Longrightarrow> digit_val (digit_char n) = n"
  by (simp add: digit_val_def digit_char_def)

lemma is_digit_digit_char: "n < 10 \<Longrightarrow> is_digit (digit_char n)"
  by (simp add: is_digit_def digit_char_def)

fun digits_of :: "nat \<Rightarrow> string" where
  "digits_of n = (if n < 10 then [digit_char n] else digits_of (n div 10) @ [digit_char (n mod 10)])"

declare digits_of.simps [simp del]

text \<open>\<open>fmt.Sprintf("%d", i)\<close>.\<close>

definition itoa :: "int \<Rightarrow> string" where
  "itoa i = (if i < 0 then CHR ''-'' # digits_of (nat (- i)) else digits_of (nat i))"

definition digits_value :: "string \<Rightarrow> nat" where
  "digits_value s = foldl (\<lambda>a c. 10 * a + digit_val c) 0 s"

lemma digits_value_snoc: "digits_value (s @ [c]) = 10 * digits_value s + digit_val c"
  by (simp add: digits_value_def)

lemma digits_value_digits_of [simp]: "digits_value (digits_of n) = n"
proof (induction n rule: digits_of.induct)
  case (1 n)
  show ?case
  proof (cases "n < 10")
    case True
    then show ?thesis
      by (subst digits_of.simps) (simp add: digits_value_def digit_char_val)
  next
    case False
    with "1.IH" show ?thesis
      by (subst digits_of.simps) (simp add: digits_value_snoc digit_char_val)
  qed
qed

lemma digits_of_all_digits: "\<forall>c \<in> set (digits_of n). is_digit c"
proof (induction n rule: digits_of.induct)
  case (1 n)
  then show ?case
    by (subst digits_of.simps) (auto simp: is_digit_digit_char)
qed

lemma digits_of_nonempty [simp]: "digits_of n \<noteq> []"
  by (subst digits_of.simps) simp

lemma itoa_inj: "itoa i = itoa j \<Longrightarrow> i = j"
proof -
  have no_minus: "digits_of n \<noteq> CHR ''-'' # s" for n s
    using digits_of_all_digits [of n] by (auto simp: is_digit_def)
  have inj: "digits_of m = digits_of n \<Longrightarrow> m = n" for m n
    by (metis digits_value_digits_of)
  show "itoa i = itoa j \<Longrightarrow> i = j"
    using no_minus no_minus [symmetric]
    by (auto simp: itoa_def split: if_splits dest: inj)
qed

text \<open>
  \<open>fmt.Sscanf(s, "%d", &x)\<close> on one token: blanks are skipped, an optional sign is read, then at
  least one decimal digit; what follows the digits is not looked at. \<open>None\<close> is an error return,
  which leaves \<open>x\<close> as it was: no digit, or a value outside 64 bits.
\<close>

definition is_blank :: "char \<Rightarrow> bool" where
  "is_blank c \<longleftrightarrow> (of_char c :: nat) \<in> {9, 11, 12, 13, 32}"

definition scan_sign :: "string \<Rightarrow> int \<times> string" where
  "scan_sign s = (case s of
      [] \<Rightarrow> (1, [])
    | c # cs \<Rightarrow> if c = CHR ''-'' then (-1, cs) else if c = CHR ''+'' then (1, cs) else (1, s))"

definition sscanf_d :: "string \<Rightarrow> int option" where
  "sscanf_d s =
     (let (sg, rest) = scan_sign (dropWhile is_blank s);
          ds = takeWhile is_digit rest;
          v = sg * int (digits_value ds)
      in if ds = [] then None else if in64 v then Some v else None)"

lemma takeWhile_digits_of: "takeWhile is_digit (digits_of n) = digits_of n"
  using digits_of_all_digits [of n] by (simp add: takeWhile_eq_all_conv)

lemma scan_sign_digits: "scan_sign (digits_of n) = (1, digits_of n)"
  using digits_of_all_digits [of n]
  by (cases "digits_of n") (auto simp: scan_sign_def is_digit_def)

lemma dropWhile_blank_digits: "dropWhile is_blank (digits_of n) = digits_of n"
  using digits_of_all_digits [of n]
  by (cases "digits_of n") (auto simp: is_blank_def is_digit_def)

lemma sscanf_d_itoa: "in64 i \<Longrightarrow> sscanf_d (itoa i) = Some i"
proof (cases "i < 0")
  case True
  moreover assume "in64 i"
  moreover have "\<not> is_blank (CHR ''-'')" by (simp add: is_blank_def)
  ultimately show ?thesis
    by (simp add: sscanf_d_def itoa_def scan_sign_def takeWhile_digits_of)
next
  case False
  moreover assume "in64 i"
  ultimately show ?thesis
    by (simp add: sscanf_d_def itoa_def scan_sign_digits dropWhile_blank_digits takeWhile_digits_of)
qed

lemma itoa_no_dot: "CHR ''.'' \<notin> set (itoa i)"
  using digits_of_all_digits by (fastforce simp: itoa_def is_digit_def split: if_splits)

section \<open>Strings\<close>

text \<open>\<open>strings.Contains\<close>, \<open>strings.TrimRight(s, "-")\<close> and \<open>strings.SplitN(s, ".", 3)\<close>.\<close>

fun contains_str :: "string \<Rightarrow> string \<Rightarrow> bool" where
  "contains_str [] pat = (pat = [])"
| "contains_str (c # cs) pat = (prefix pat (c # cs) \<or> contains_str cs pat)"

definition trim_right_dash :: "string \<Rightarrow> string" where
  "trim_right_dash s = rev (dropWhile (\<lambda>c. c = CHR ''-'') (rev s))"

lemma length_trim_right_dash: "length (trim_right_dash s) \<le> length s"
  by (simp add: trim_right_dash_def) (metis length_dropWhile_le length_rev)

lemma trim_right_dash_last: "trim_right_dash s \<noteq> [] \<Longrightarrow> last (trim_right_dash s) \<noteq> CHR ''-''"
proof -
  assume "trim_right_dash s \<noteq> []"
  then have ne: "dropWhile (\<lambda>c. c = CHR ''-'') (rev s) \<noteq> []" by (simp add: trim_right_dash_def)
  then have "hd (dropWhile (\<lambda>c. c = CHR ''-'') (rev s)) \<noteq> CHR ''-''" by (rule hd_dropWhile)
  with ne show ?thesis by (simp add: trim_right_dash_def last_rev)
qed

lemma set_trim_right_dash: "set (trim_right_dash s) \<subseteq> set s"
  by (auto simp: trim_right_dash_def dest: set_dropWhileD)

definition split_dot :: "string \<Rightarrow> string \<times> string option" where
  "split_dot s = (case dropWhile (\<lambda>c. c \<noteq> CHR ''.'') s of
      [] \<Rightarrow> (s, None)
    | _ # rest \<Rightarrow> (takeWhile (\<lambda>c. c \<noteq> CHR ''.'') s, Some rest))"

definition splitn3_dot :: "string \<Rightarrow> string list" where
  "splitn3_dot s = (case split_dot s of
      (a, None) \<Rightarrow> [a]
    | (a, Some r) \<Rightarrow> (case split_dot r of
        (b, None) \<Rightarrow> [a, b]
      | (b, Some c) \<Rightarrow> [a, b, c]))"

lemma split_dot_append: "CHR ''.'' \<notin> set a \<Longrightarrow> split_dot (a @ CHR ''.'' # r) = (a, Some r)"
proof -
  assume "CHR ''.'' \<notin> set a"
  then have "\<forall>c \<in> set a. c \<noteq> CHR ''.''" by auto
  then have "dropWhile (\<lambda>c. c \<noteq> CHR ''.'') (a @ CHR ''.'' # r) = CHR ''.'' # r"
    and "takeWhile (\<lambda>c. c \<noteq> CHR ''.'') (a @ CHR ''.'' # r) = a"
    by (simp_all add: dropWhile_append takeWhile_append)
  then show ?thesis by (simp add: split_dot_def)
qed

lemma splitn3_dot_append:
  "CHR ''.'' \<notin> set a \<Longrightarrow> CHR ''.'' \<notin> set b \<Longrightarrow>
   splitn3_dot (a @ CHR ''.'' # b @ CHR ''.'' # c) = [a, b, c]"
  by (simp add: splitn3_dot_def split_dot_append)

text \<open>\<open>hex.EncodeToString\<close> and \<open>%x\<close> on a byte slice.\<close>

definition hex_digit :: "nat \<Rightarrow> char" where
  "hex_digit n = (if n < 10 then char_of (48 + n) else char_of (87 + n))"

definition hex :: "string \<Rightarrow> string" where
  "hex bs = concat (map (\<lambda>b. [hex_digit (of_char b div 16), hex_digit (of_char b mod 16)]) bs)"

lemma length_hex [simp]: "length (hex bs) = 2 * length bs"
  by (induction bs) (simp_all add: hex_def)

section \<open>Pointers, zero values, errors\<close>

text \<open>A nil-able pointer is an option; a map lookup of Go yields the zero value when absent.\<close>

definition lookup_str :: "('k \<rightharpoonup> string) \<Rightarrow> 'k \<Rightarrow> string" where
  "lookup_str m k = (case m k of None \<Rightarrow> '''' | Some v \<Rightarrow> v)"

lemma lookup_str_simps [simp]:
  "m k = None \<Longrightarrow> lookup_str m k = ''''"
  "m k = Some v \<Longrightarrow> lookup_str m k = v"
  by (simp_all add: lookup_str_def)

end
