(* ===== verification/Api_Types.thy ===== *)
theory Api_Types
  imports Prelude
begin

text \<open>
  The API types of the operator (\<open>api/v1alpha1/\<close>): the KnowledgeBase, IngestionRun, VectorIndex,
  Backup and Restore resources. A struct is a record whose fields carry a short prefix for their
  struct; an enumerated string that the code only compares is a datatype with a constructor for the
  empty string (the zero value); a pointer is an option; a slice is a list. Types of the Kubernetes
  API that the code only copies from a spec into an object (tolerations, affinity, node selectors)
  are strings standing for their serialised form. Fields of \<open>metav1.Condition\<close> other than the
  transition time, which no code reads, are kept.
\<close>

section \<open>Object metadata and conditions\<close>

record owner_ref =
  or_kind :: string
  or_name :: string

record object_meta =
  m_name :: string
  m_namespace :: string
  m_labels :: "string \<rightharpoonup> string"
  m_owners :: "owner_ref list"
  m_finalizers :: "string list"
  m_generation :: int
  m_resourceVersion :: string
  m_creationTimestamp :: time
  m_deletionTimestamp :: "time option"

datatype condition_status = ConditionTrue | ConditionFalse | ConditionUnknown

record condition =
  c_type :: string
  c_status :: condition_status
  c_reason :: string
  c_message :: string
  c_observedGeneration :: int

text \<open>Condition types (\<open>common_types.go\<close>).\<close>

definition ConditionReady :: string where "ConditionReady = ''Ready''"
definition ConditionIngesting :: string where "ConditionIngesting = ''Ingesting''"
definition ConditionEvaluated :: string where "ConditionEvaluated = ''Evaluated''"
definition ConditionAvailable :: string where "ConditionAvailable = ''Available''"

lemmas condition_type_defs =
  ConditionReady_def ConditionIngesting_def ConditionEvaluated_def ConditionAvailable_def

record secret_key_ref =
  skr_name :: string
  skr_key :: string

section \<open>KnowledgeBase\<close>

datatype source_type = SourceUnset | SourceGitHub | SourceS3 | SourceWeb

record github_source =
  gh_repo :: string
  gh_ref :: string
  gh_includeGlobs :: "string list"
  gh_tokenSecretRef :: "secret_key_ref option"

record s3_source =
  s3_bucket :: string
  s3_prefix :: string
  s3_region :: string
  s3_endpoint :: string
  s3_includeGlobs :: "string list"
  s3_accessKeySecretRef :: "secret_key_ref option"
  s3_secretKeySecretRef :: "secret_key_ref option"

record web_source =
  web_urls :: "string list"
  web_maxDepth :: int
  web_sameDomainOnly :: "bool option"
  web_maxPages :: int
  web_allowPrivateNetworks :: bool

record source =
  src_name :: string
  src_type :: source_type
  src_github :: "github_source option"
  src_s3 :: "s3_source option"
  src_web :: "web_source option"

text \<open>
  A chunking strategy is kept as its string: the code prints it into a Job label and reads it back.
\<close>

type_synonym chunking_strategy = string

definition ChunkSemantic :: chunking_strategy where "ChunkSemantic = ''semantic''"
definition ChunkRecursive :: chunking_strategy where "ChunkRecursive = ''recursive''"
definition ChunkFixed :: chunking_strategy where "ChunkFixed = ''fixed''"

lemmas strategy_defs = ChunkSemantic_def ChunkRecursive_def ChunkFixed_def

record chunking_spec =
  ch_strategy :: chunking_strategy
  ch_maxTokens :: int
  ch_overlap :: int

record embedding_spec =
  emb_model :: string
  emb_provider :: string
  emb_baseURL :: string
  emb_dimension :: int
  emb_queryPrefix :: string
  emb_documentPrefix :: string
  emb_apiKeySecretRef :: "secret_key_ref option"

record vector_store_spec =
  vs_type :: string
  vs_endpoint :: string
  vs_collection :: string
  vs_distance :: string
  vs_credentialsSecretRef :: "secret_key_ref option"

datatype ingest_mode = ModeUnset | IngestFull | IngestIncremental

text \<open>The string of a mode, as \<open>string(mode)\<close> and \<open>%s\<close> print it.\<close>

fun mode_string :: "ingest_mode \<Rightarrow> string" where
  "mode_string ModeUnset = ''''"
| "mode_string IngestFull = ''full''"
| "mode_string IngestIncremental = ''incremental''"

record resource_spec =
  rr_cpu :: string
  rr_memory :: string

record ingestion_spec =
  in_mode :: ingest_mode
  in_batchSize :: int
  in_resources :: "resource_spec option"
  in_serviceAccountName :: string
  in_nodeSelector :: string
  in_tolerations :: string
  in_affinity :: "string option"
  in_ttlSecondsAfterFinished :: "int option"
  in_activeDeadlineSeconds :: "int option"
  in_modelCacheSizeLimit :: string

record auto_tune_spec =
  at_enabled :: "bool option"
  at_maxAttempts :: int

record retrieval_quality_spec =
  rq_enabled :: "bool option"
  rq_evalSchedule :: string
  rq_datasetRef :: string
  rq_topK :: int
  rq_minimumRecallPercent :: int
  rq_autoTune :: "auto_tune_spec option"

record knowledge_base_spec =
  ks_sources :: "source list"
  ks_chunking :: chunking_spec
  ks_embedding :: embedding_spec
  ks_vectorStore :: vector_store_spec
  ks_freshnessSchedule :: string
  ks_ingestion :: ingestion_spec
  ks_retrievalQuality :: "retrieval_quality_spec option"
  ks_workerImage :: string
  ks_suspend :: bool

datatype kb_phase =
    PhaseUnset | PhasePending | PhaseIngesting | PhaseReady | PhaseDegraded | PhaseFailed
  | PhaseSuspended

record source_status =
  ss_name :: string
  ss_revision :: string
  ss_chunks :: int

record ingest_source_result =
  isr_name :: string
  isr_revision :: string
  isr_chunks :: int

record evaluation_status =
  ev_recallPercent :: int
  ev_p95LatencyMillis :: int
  ev_queries :: int
  ev_time :: "time option"

record knowledge_base_status =
  phase :: kb_phase
  observedGeneration :: int
  observedSpecHash :: string
  observedSecretsHash :: string
  lastFailedSpecHash :: string
  lastFailureTime :: "time option"
  observedEmbeddingModel :: string
  observedEmbedding :: "embedding_spec option"
  status_effectiveChunking :: "chunking_spec option"
  autoTuneAttempts :: int
  autoTuneStartedAt :: "time option"
  pendingRetune :: bool
  bestRecallPercent :: int
  bestChunking :: "chunking_spec option"
  evalRound :: int
  lastIndexedTime :: "time option"
  indexedChunks :: int
  lastCheckpoint :: "ingest_source_result list"
  status_sources :: "source_status list"
  evaluation :: "evaluation_status option"
  activeJob :: string
  activeJobStartedAt :: "time option"
  ingestRound :: int
  deferCronIngest :: bool
  conditions :: "condition list"

record knowledge_base =
  kb_meta :: object_meta
  spec :: knowledge_base_spec
  status :: knowledge_base_status

abbreviation kb_name :: "knowledge_base \<Rightarrow> string" where
  "kb_name kb \<equiv> m_name (kb_meta kb)"

abbreviation kb_namespace :: "knowledge_base \<Rightarrow> string" where
  "kb_namespace kb \<equiv> m_namespace (kb_meta kb)"

text \<open>An assignment \<open>kb.Status.F = v\<close> of the controllers.\<close>

definition upd_status ::
  "(knowledge_base_status \<Rightarrow> knowledge_base_status) \<Rightarrow> knowledge_base \<Rightarrow> knowledge_base" where
  "upd_status f kb = kb\<lparr>status := f (status kb)\<rparr>"

lemma upd_status_simps [simp]:
  "kb_meta (upd_status f kb) = kb_meta kb"
  "spec (upd_status f kb) = spec kb"
  "status (upd_status f kb) = f (status kb)"
  "upd_status f (upd_status g kb) = upd_status (f \<circ> g) kb"
  by (simp_all add: upd_status_def)

section \<open>IngestionRun\<close>

datatype ingestion_run_phase = RunUnset | IngestionRunRunning | IngestionRunSucceeded | IngestionRunFailed

record ingestion_run_spec =
  irs_knowledgeBaseRef :: string
  irs_mode :: ingest_mode
  irs_specHash :: string
  irs_effectiveChunking :: chunking_spec

record ingestion_run_status =
  ir_phase :: ingestion_run_phase
  ir_startTime :: "time option"
  ir_completionTime :: "time option"
  ir_totalChunks :: int
  ir_sources :: "source_status list"
  ir_error :: string

record ingestion_run =
  ir_meta :: object_meta
  ir_spec :: ingestion_run_spec
  ir_status :: ingestion_run_status

section \<open>VectorIndex\<close>

datatype vector_index_health = HealthUnset | IndexHealthy | IndexDegraded | IndexMissing | IndexUnknown

text \<open>The string of a health, as the conditions and messages print it.\<close>

fun health_string :: "vector_index_health \<Rightarrow> string" where
  "health_string HealthUnset = ''''"
| "health_string IndexHealthy = ''Healthy''"
| "health_string IndexDegraded = ''Degraded''"
| "health_string IndexMissing = ''Missing''"
| "health_string IndexUnknown = ''Unknown''"

record vector_index_spec =
  vis_knowledgeBaseRef :: string
  vis_store :: vector_store_spec
  vis_dimension :: int
  vis_probeIntervalSeconds :: int
  vis_probeTimeoutSeconds :: int

record vector_index_status =
  vst_observedGeneration :: int
  vst_health :: vector_index_health
  vst_pointCount :: int
  vst_dimension :: int
  vst_message :: string
  vst_lastProbeTime :: "time option"
  vst_conditions :: "condition list"

record vector_index =
  vi_meta :: object_meta
  vi_spec :: vector_index_spec
  vi_status :: vector_index_status

section \<open>Backup and Restore\<close>

datatype backup_phase =
  BackupPhaseUnset | BackupPhasePending | BackupPhaseRunning | BackupPhaseCompleted | BackupPhaseFailed

record s3_backup_target =
  s3b_endpoint :: string
  s3b_region :: string
  s3b_bucket :: string
  s3b_prefix :: string
  s3b_accessKeySecretRef :: secret_key_ref
  s3b_secretKeySecretRef :: secret_key_ref

record backup_spec =
  bs_knowledgeBaseRef :: string
  bs_s3 :: "s3_backup_target option"
  bs_suspend :: bool

record backup_status =
  bst_phase :: backup_phase
  bst_activeJob :: string
  bst_completionTime :: "time option"
  bst_backupID :: string
  bst_location :: string
  bst_totalPoints :: int
  bst_sizeBytes :: int
  bst_conditions :: "condition list"

record backup =
  bk_meta :: object_meta
  bk_spec :: backup_spec
  bk_status :: backup_status

datatype restore_phase =
  RestorePhaseUnset | RestorePhasePending | RestorePhaseRunning | RestorePhaseCompleted | RestorePhaseFailed

record restore_spec =
  rs_backupRef :: string
  rs_knowledgeBaseRef :: string
  rs_suspend :: bool

record restore_status =
  rst_phase :: restore_phase
  rst_activeJob :: string
  rst_completionTime :: "time option"
  rst_restoredPoints :: int
  rst_conditions :: "condition list"

record restore =
  rt_meta :: object_meta
  rt_spec :: restore_spec
  rt_status :: restore_status

section \<open>Retriever\<close>

record rerank_spec =
  rr_enabled :: "bool option"
  rr_model :: string
  rr_candidatePoolSize :: int

record rate_limit_spec =
  rl_enabled :: "bool option"
  rl_requestsPerMinute :: int
  rl_burst :: int
  rl_backend :: string
  rl_redisURLSecretRef :: "secret_key_ref option"
  rl_redisKeyPrefix :: string
  rl_clientIdentityHeader :: string

record autoscaling_spec =
  as_enabled :: "bool option"
  as_minReplicas :: int
  as_maxReplicas :: int
  as_targetCPU :: int

record retriever_ingress_spec =
  ri_host :: string
  ri_className :: string
  ri_path :: string
  ri_annotations :: "string \<rightharpoonup> string"
  ri_tlsSecretName :: string
  ri_clusterIssuer :: string

record oidc_spec =
  oi_issuerURL :: string
  oi_clientIDSecretRef :: secret_key_ref
  oi_clientSecretSecretRef :: secret_key_ref
  oi_cookieSecretRef :: secret_key_ref
  oi_emailDomains :: "string list"
  oi_groups :: "string list"
  oi_image :: string

record generation_spec =
  gn_enabled :: "bool option"
  gn_provider :: string
  gn_model :: string
  gn_baseURL :: string
  gn_apiKeySecretRef :: "secret_key_ref option"
  gn_maxTokens :: int
  gn_systemPrompt :: string

text \<open>\<open>corev1.ResourceRequirements\<close>: the requests and the limits by resource name.\<close>

record resource_lists =
  rl_requests :: "string \<rightharpoonup> string"
  rl_limits :: "string \<rightharpoonup> string"

record retriever_spec =
  rts_knowledgeBaseRef :: string
  rts_apiKeySecretRef :: "secret_key_ref option"
  rts_rateLimit :: "rate_limit_spec option"
  rts_maxConcurrentRequests :: int
  rts_maxRequestBodyBytes :: int
  rts_podDisruptionBudget :: "bool option"
  rts_autoscaling :: "autoscaling_spec option"
  rts_ingress :: "retriever_ingress_spec option"
  rts_oidc :: "oidc_spec option"
  rts_generation :: "generation_spec option"
  rts_topK :: int
  rts_hybrid :: bool
  rts_hybridDensePercent :: "int option"
  rts_scoreThresholdPercent :: int
  rts_rerank :: "rerank_spec option"
  rts_replicas :: int
  rts_image :: string
  rts_resources :: "resource_lists option"
  rts_nodeSelector :: string
  rts_tolerations :: string
  rts_affinity :: "string option"

record retriever_status =
  rtst_phase :: string
  rtst_observedGeneration :: int
  rtst_serviceEndpoint :: string
  rtst_publicEndpoint :: string
  rtst_readyReplicas :: int
  rtst_conditions :: "condition list"

record retriever =
  rtr_meta :: object_meta
  rtr_spec :: retriever_spec
  rtr_status :: retriever_status

end
