(* ===== verification/Effects.thy ===== *)
theory Effects
  imports Api_Types
begin

text \<open>
  What the controllers do to the world. The Kubernetes objects they build and read are records; a
  reconciler is a program: a tree whose inner nodes are calls of the Kubernetes client (and of the
  clock, the event recorder and the metrics registry) and whose branches are the answers the
  environment may give. Nothing is assumed of the API server: \<open>runs p tr r\<close> holds for every
  sequence of answers, with \<open>tr\<close> the calls made and the answers received, in order, and
  \<open>r\<close> the value returned, \<open>None\<close> for a run-time panic (a nil dereference,
  \<open>resource.MustParse\<close> on a bad quantity). Weakest preconditions \<open>wp\<close> are the proof
  method: each call has an equation and each helper of the controllers gets a lemma.
\<close>

section \<open>Errors and results\<close>

text \<open>
  An error of the API machinery carries the status reason that \<open>apierrors.IsNotFound\<close> and its
  siblings read, and its text; an error made by the code itself has reason \<open>OtherReason\<close>.
\<close>

datatype err_reason = NotFound | AlreadyExists | Conflict | Forbidden | OtherReason

datatype err = Err (reason: err_reason) (message: string)

definition is_not_found :: "err \<Rightarrow> bool" where
  "is_not_found e \<longleftrightarrow> reason e = NotFound"

definition is_already_exists :: "err \<Rightarrow> bool" where
  "is_already_exists e \<longleftrightarrow> reason e = AlreadyExists"

lemma err_reason_simps [simp]:
  "is_not_found (Err r m) = (r = NotFound)"
  "is_already_exists (Err r m) = (r = AlreadyExists)"
  by (simp_all add: is_not_found_def is_already_exists_def)

text \<open>\<open>client.IgnoreNotFound\<close>.\<close>

definition ignoreNotFound :: "err \<Rightarrow> err option" where
  "ignoreNotFound e = (if is_not_found e then None else Some e)"

text \<open>\<open>ctrl.Result\<close>, and the pair \<open>(ctrl.Result, error)\<close> a reconciler returns.\<close>

record ctrl_result =
  res_requeue :: bool
  res_requeueAfter :: duration

definition no_requeue :: ctrl_result where
  "no_requeue = \<lparr>res_requeue = False, res_requeueAfter = 0\<rparr>"

definition requeue_after :: "duration \<Rightarrow> ctrl_result" where
  "requeue_after d = \<lparr>res_requeue = False, res_requeueAfter = d\<rparr>"

definition requeue_now :: ctrl_result where
  "requeue_now = \<lparr>res_requeue = True, res_requeueAfter = 0\<rparr>"

lemmas requeue_defs = no_requeue_def requeue_after_def requeue_now_def

type_synonym reconcile_result = "ctrl_result \<times> err option"

section \<open>Kubernetes objects\<close>

record env_var =
  env_name :: string
  env_value :: string
  env_secret :: "secret_key_ref option"

record pod_security_context =
  psc_runAsNonRoot :: bool
  psc_runAsUser :: int
  psc_runAsGroup :: int
  psc_fsGroup :: int
  psc_seccompProfile :: string

record container_security_context =
  csc_runAsNonRoot :: bool
  csc_allowPrivilegeEscalation :: bool
  csc_readOnlyRootFilesystem :: bool
  csc_dropCapabilities :: "string list"
  csc_seccompProfile :: string

text \<open>An empty directory with an optional size limit, or a mounted ConfigMap.\<close>

datatype volume_source = EmptyDir "string option" | ConfigMapVolume string

record volume =
  vol_name :: string
  vol_source :: volume_source

record volume_mount =
  vm_name :: string
  vm_mountPath :: string
  vm_readOnly :: bool

record resource_requirements =
  req_cpu :: string
  req_memory :: string
  lim_cpu :: string
  lim_memory :: string

record container =
  con_name :: string
  con_image :: string
  con_imagePullPolicy :: string
  con_args :: "string list"
  con_env :: "env_var list"
  con_resources :: resource_requirements
  con_security :: container_security_context
  con_mounts :: "volume_mount list"

record pod_spec =
  pod_restartPolicy :: string
  pod_serviceAccountName :: string
  pod_priorityClassName :: string
  pod_terminationGracePeriodSeconds :: int
  pod_security :: pod_security_context
  pod_volumes :: "volume list"
  pod_nodeSelector :: string
  pod_tolerations :: string
  pod_affinity :: "string option"
  pod_containers :: "container list"

record job_condition =
  jc_type :: string
  jc_status :: condition_status

record job =
  job_meta :: object_meta
  job_backoffLimit :: int
  job_ttlSecondsAfterFinished :: int
  job_activeDeadlineSeconds :: "int option"
  job_templateLabels :: "string \<rightharpoonup> string"
  job_pod :: pod_spec
  job_conditions :: "job_condition list"

record config_map =
  cm_meta :: object_meta
  cm_data :: "string \<rightharpoonup> string"

record secret =
  sec_meta :: object_meta
  sec_data :: "string \<rightharpoonup> string"

record service_account =
  sa_meta :: object_meta
  sa_automountToken :: "bool option"

record policy_rule =
  pr_apiGroups :: "string list"
  pr_resources :: "string list"
  pr_resourceNames :: "string list"
  pr_verbs :: "string list"

record role =
  role_meta :: object_meta
  role_rules :: "policy_rule list"

record role_binding =
  rb_meta :: object_meta
  rb_roleKind :: string
  rb_roleName :: string
  rb_subjects :: "(string \<times> string \<times> string) list"

section \<open>Objects of a Retriever\<close>

text \<open>
  The objects the Retriever controller renders; the fields are those the code sets. An HTTP probe is
  a path, a port, and the initial delay, period and failure threshold (\<open>0\<close>: not set).
\<close>

record http_probe =
  hp_path :: string
  hp_port :: int
  hp_initialDelaySeconds :: int
  hp_periodSeconds :: int
  hp_failureThreshold :: int

record server_container =
  sc_name :: string
  sc_image :: string
  sc_imagePullPolicy :: string
  sc_args :: "string list"
  sc_ports :: "(int \<times> string) list"
  sc_env :: "env_var list"
  sc_resources :: resource_lists
  sc_security :: container_security_context
  sc_mounts :: "volume_mount list"
  sc_readiness :: "http_probe option"
  sc_liveness :: "http_probe option"
  sc_startup :: "http_probe option"

record topology_spread =
  ts_maxSkew :: int
  ts_topologyKey :: string
  ts_whenUnsatisfiable :: string
  ts_matchLabels :: "string \<rightharpoonup> string"

record server_pod =
  sp_automountToken :: "bool option"
  sp_priorityClassName :: string
  sp_terminationGracePeriodSeconds :: int
  sp_security :: pod_security_context
  sp_volumes :: "volume list"
  sp_nodeSelector :: string
  sp_tolerations :: string
  sp_affinity :: "string option"
  sp_topologySpread :: "topology_spread list"
  sp_containers :: "server_container list"

record deployment_spec =
  ds_replicas :: "int option"
  ds_matchLabels :: "string \<rightharpoonup> string"
  ds_templateLabels :: "string \<rightharpoonup> string"
  ds_templateAnnotations :: "string \<rightharpoonup> string"
  ds_pod :: server_pod

record deployment =
  dep_meta :: object_meta
  dep_spec :: deployment_spec
  dep_readyReplicas :: int

record service_port =
  svp_name :: string
  svp_port :: int
  svp_targetPort :: int

record service =
  svc_meta :: object_meta
  svc_annotations :: "string \<rightharpoonup> string"
  svc_selector :: "string \<rightharpoonup> string"
  svc_ports :: "service_port list"

record ingress_path =
  ip_host :: string
  ip_path :: string
  ip_pathType :: string
  ip_serviceName :: string
  ip_servicePort :: int

record ingress_spec =
  is_className :: "string option"
  is_tls :: "(string list \<times> string) list"
  is_paths :: "ingress_path list"

record ingress =
  ing_meta :: object_meta
  ing_annotations :: "string \<rightharpoonup> string"
  ing_spec :: ingress_spec

record network_policy_spec =
  nps_podSelector :: "string \<rightharpoonup> string"
  nps_policyTypes :: "string list"
  nps_ingressPorts :: "(string \<times> int) list list"

record network_policy =
  np_meta :: object_meta
  np_spec :: network_policy_spec

record disruption_budget_spec =
  pds_minAvailable :: int
  pds_selector :: "string \<rightharpoonup> string"

record disruption_budget =
  pdb_meta :: object_meta
  pdb_spec :: disruption_budget_spec

record autoscaler_spec =
  hps_targetKind :: string
  hps_targetName :: string
  hps_minReplicas :: int
  hps_maxReplicas :: int
  hps_cpuUtilization :: int

record autoscaler =
  hpa_meta :: object_meta
  hpa_spec :: autoscaler_spec

section \<open>Calls of a vector store\<close>

text \<open>
  An HTTP request of the health probes, its answer, and the calls of \<open>database/sql\<close>; a boolean
  that a query returns is the number one or zero.
\<close>

record http_request =
  hq_url :: string
  hq_headers :: "(string \<times> string) list"

record http_response =
  hr_status :: int
  hr_body :: string

datatype sql_call = SqlOpen string | SqlPing | SqlQuery string "string list"

type_synonym key = "string \<times> string"

datatype obj =
    OKB knowledge_base
  | OJob job
  | OConfigMap config_map
  | OServiceAccount service_account
  | ORole role
  | ORoleBinding role_binding
  | ORun ingestion_run
  | OVectorIndex vector_index
  | OBackup backup
  | ORestore restore
  | ORetriever retriever
  | ODeployment deployment
  | OService service
  | OIngress ingress
  | ONetworkPolicy network_policy
  | ODisruptionBudget disruption_budget
  | OAutoscaler autoscaler

datatype kind =
    KindJob | KindConfigMap | KindRun | KindDeployment | KindAutoscaler | KindDisruptionBudget | KindIngress
  | KindNetworkPolicy

datatype propagation = DefaultPropagation | BackgroundPropagation

datatype event_type = EventNormal | EventWarning

text \<open>Effects with no answer: Kubernetes events and metrics.\<close>

datatype emission =
    Event event_type string string
  | IngestionsTotal string string
  | IndexedChunksGauge string int
  | FreshnessGauge string time
  | RecallGauge string int
  | AutoTuneAttemptsGauge string int
  | AutoTuneBestRecallGauge string int
  | AutoTuneDuration string string duration

section \<open>Programs\<close>

text \<open>
  One constructor per client call. \<open>UpdateStatus\<close> is \<open>r.Status().Update\<close>, answered by the
  resource version the server assigned; \<open>StatusUpdate k st\<close> is one outcome of the
  conflict-retrying loop of \<open>KnowledgeBaseReconciler.statusUpdate\<close> that writes \<open>st\<close> (the
  theory \<open>Status_Update\<close> relates it to the loop's single attempts); \<open>CreateOrUpdateVI k f\<close> is
  \<open>controllerutil.CreateOrUpdate\<close> with the mutate callback \<open>f\<close>.
\<close>

datatype 'a prog =
    Done 'a
  | Panic
  | Emit emission "'a prog"
  | Now  "time \<Rightarrow> 'a prog"
  | GetKB key "(err + knowledge_base) \<Rightarrow> 'a prog"
  | GetJob key "(err + job) \<Rightarrow> 'a prog"
  | GetConfigMap key "(err + config_map) \<Rightarrow> 'a prog"
  | GetSecret key "(err + secret) \<Rightarrow> 'a prog"
  | GetServiceAccount key "(err + service_account) \<Rightarrow> 'a prog"
  | GetRole key "(err + role) \<Rightarrow> 'a prog"
  | GetRoleBinding key "(err + role_binding) \<Rightarrow> 'a prog"
  | GetRun key "(err + ingestion_run) \<Rightarrow> 'a prog"
  | GetBackup key "(err + backup) \<Rightarrow> 'a prog"
  | GetRestore key "(err + restore) \<Rightarrow> 'a prog"
  | GetRetriever key "(err + retriever) \<Rightarrow> 'a prog"
  | GetDeployment key "(err + deployment) \<Rightarrow> 'a prog"
  | GetService key "(err + service) \<Rightarrow> 'a prog"
  | GetIngress key "(err + ingress) \<Rightarrow> 'a prog"
  | GetNetworkPolicy key "(err + network_policy) \<Rightarrow> 'a prog"
  | GetDisruptionBudget key "(err + disruption_budget) \<Rightarrow> 'a prog"
  | GetAutoscaler key "(err + autoscaler) \<Rightarrow> 'a prog"
  | GetVectorIndex key "(err + vector_index) \<Rightarrow> 'a prog"
  | HttpDo http_request "(err + http_response) \<Rightarrow> 'a prog"
  | SqlDo sql_call "(err + int) \<Rightarrow> 'a prog"
  | ListRuns string string "(err + ingestion_run list) \<Rightarrow> 'a prog"
  | Create obj "(err option) \<Rightarrow> 'a prog"
  | Update obj "(err option) \<Rightarrow> 'a prog"
  | UpdateStatus obj "(err + string) \<Rightarrow> 'a prog"
  | StatusUpdate key knowledge_base_status "(err + string) \<Rightarrow> 'a prog"
  | Delete kind propagation key "(err option) \<Rightarrow> 'a prog"
  | CreateOrUpdateVI key "vector_index \<Rightarrow> err + vector_index" "(err option) \<Rightarrow> 'a prog"

text \<open>The record of a call and its answer.\<close>

datatype event =
    EvEmit emission
  | EvNow  time
  | EvGetKB key "err + knowledge_base"
  | EvGetJob key "err + job"
  | EvGetConfigMap key "err + config_map"
  | EvGetSecret key "err + secret"
  | EvGetServiceAccount key "err + service_account"
  | EvGetRole key "err + role"
  | EvGetRoleBinding key "err + role_binding"
  | EvGetRun key "err + ingestion_run"
  | EvGetBackup key "err + backup"
  | EvGetRestore key "err + restore"
  | EvGetRetriever key "err + retriever"
  | EvGetDeployment key "err + deployment"
  | EvGetService key "err + service"
  | EvGetIngress key "err + ingress"
  | EvGetNetworkPolicy key "err + network_policy"
  | EvGetDisruptionBudget key "err + disruption_budget"
  | EvGetAutoscaler key "err + autoscaler"
  | EvGetVectorIndex key "err + vector_index"
  | EvHttpDo http_request "err + http_response"
  | EvSqlDo sql_call "err + int"
  | EvListRuns string string "err + ingestion_run list"
  | EvCreate obj "err option"
  | EvUpdate obj "err option"
  | EvUpdateStatus obj "err + string"
  | EvStatusUpdate key knowledge_base_status "err + string"
  | EvDelete kind propagation key "err option"
  | EvCreateOrUpdateVI key "vector_index \<Rightarrow> err + vector_index" "err option"

primrec pbind :: "'a prog \<Rightarrow> ('a \<Rightarrow> 'b prog) \<Rightarrow> 'b prog" where
  "pbind (Done a) f = f a"
| "pbind Panic f = Panic"
| "pbind (Emit e p) f = Emit e (pbind p f)"
| "pbind (Now k) f = Now (\<lambda>r. pbind (k r) f)"
| "pbind (GetKB x k) f = GetKB x (\<lambda>r. pbind (k r) f)"
| "pbind (GetJob x k) f = GetJob x (\<lambda>r. pbind (k r) f)"
| "pbind (GetConfigMap x k) f = GetConfigMap x (\<lambda>r. pbind (k r) f)"
| "pbind (GetSecret x k) f = GetSecret x (\<lambda>r. pbind (k r) f)"
| "pbind (GetServiceAccount x k) f = GetServiceAccount x (\<lambda>r. pbind (k r) f)"
| "pbind (GetRole x k) f = GetRole x (\<lambda>r. pbind (k r) f)"
| "pbind (GetRoleBinding x k) f = GetRoleBinding x (\<lambda>r. pbind (k r) f)"
| "pbind (GetRun x k) f = GetRun x (\<lambda>r. pbind (k r) f)"
| "pbind (GetBackup x k) f = GetBackup x (\<lambda>r. pbind (k r) f)"
| "pbind (GetRestore x k) f = GetRestore x (\<lambda>r. pbind (k r) f)"
| "pbind (GetRetriever x k) f = GetRetriever x (\<lambda>r. pbind (k r) f)"
| "pbind (GetDeployment x k) f = GetDeployment x (\<lambda>r. pbind (k r) f)"
| "pbind (GetService x k) f = GetService x (\<lambda>r. pbind (k r) f)"
| "pbind (GetIngress x k) f = GetIngress x (\<lambda>r. pbind (k r) f)"
| "pbind (GetNetworkPolicy x k) f = GetNetworkPolicy x (\<lambda>r. pbind (k r) f)"
| "pbind (GetDisruptionBudget x k) f = GetDisruptionBudget x (\<lambda>r. pbind (k r) f)"
| "pbind (GetAutoscaler x k) f = GetAutoscaler x (\<lambda>r. pbind (k r) f)"
| "pbind (GetVectorIndex x k) f = GetVectorIndex x (\<lambda>r. pbind (k r) f)"
| "pbind (HttpDo x k) f = HttpDo x (\<lambda>r. pbind (k r) f)"
| "pbind (SqlDo x k) f = SqlDo x (\<lambda>r. pbind (k r) f)"
| "pbind (ListRuns x y k) f = ListRuns x y (\<lambda>r. pbind (k r) f)"
| "pbind (Create x k) f = Create x (\<lambda>r. pbind (k r) f)"
| "pbind (Update x k) f = Update x (\<lambda>r. pbind (k r) f)"
| "pbind (UpdateStatus x k) f = UpdateStatus x (\<lambda>r. pbind (k r) f)"
| "pbind (StatusUpdate x y k) f = StatusUpdate x y (\<lambda>r. pbind (k r) f)"
| "pbind (Delete x y z k) f = Delete x y z (\<lambda>r. pbind (k r) f)"
| "pbind (CreateOrUpdateVI x y k) f = CreateOrUpdateVI x y (\<lambda>r. pbind (k r) f)"

inductive runs :: "'a prog \<Rightarrow> event list \<Rightarrow> 'a option \<Rightarrow> bool" where
  runs_Done: "runs (Done a) [] (Some a)"
| runs_Panic: "runs Panic [] None"
| runs_Emit: "runs p tr a \<Longrightarrow> runs (Emit e p) (EvEmit e # tr) a"
| runs_Now: "runs (k r) tr a \<Longrightarrow> runs (Now k) (EvNow r # tr) a"
| runs_GetKB: "runs (k r) tr a \<Longrightarrow> runs (GetKB x k) (EvGetKB x r # tr) a"
| runs_GetJob: "runs (k r) tr a \<Longrightarrow> runs (GetJob x k) (EvGetJob x r # tr) a"
| runs_GetConfigMap: "runs (k r) tr a \<Longrightarrow> runs (GetConfigMap x k) (EvGetConfigMap x r # tr) a"
| runs_GetSecret: "runs (k r) tr a \<Longrightarrow> runs (GetSecret x k) (EvGetSecret x r # tr) a"
| runs_GetServiceAccount: "runs (k r) tr a \<Longrightarrow> runs (GetServiceAccount x k) (EvGetServiceAccount x r # tr) a"
| runs_GetRole: "runs (k r) tr a \<Longrightarrow> runs (GetRole x k) (EvGetRole x r # tr) a"
| runs_GetRoleBinding: "runs (k r) tr a \<Longrightarrow> runs (GetRoleBinding x k) (EvGetRoleBinding x r # tr) a"
| runs_GetRun: "runs (k r) tr a \<Longrightarrow> runs (GetRun x k) (EvGetRun x r # tr) a"
| runs_GetBackup: "runs (k r) tr a \<Longrightarrow> runs (GetBackup x k) (EvGetBackup x r # tr) a"
| runs_GetRestore: "runs (k r) tr a \<Longrightarrow> runs (GetRestore x k) (EvGetRestore x r # tr) a"
| runs_GetRetriever: "runs (k r) tr a \<Longrightarrow> runs (GetRetriever x k) (EvGetRetriever x r # tr) a"
| runs_GetDeployment: "runs (k r) tr a \<Longrightarrow> runs (GetDeployment x k) (EvGetDeployment x r # tr) a"
| runs_GetService: "runs (k r) tr a \<Longrightarrow> runs (GetService x k) (EvGetService x r # tr) a"
| runs_GetIngress: "runs (k r) tr a \<Longrightarrow> runs (GetIngress x k) (EvGetIngress x r # tr) a"
| runs_GetNetworkPolicy: "runs (k r) tr a \<Longrightarrow> runs (GetNetworkPolicy x k) (EvGetNetworkPolicy x r # tr) a"
| runs_GetDisruptionBudget: "runs (k r) tr a \<Longrightarrow> runs (GetDisruptionBudget x k) (EvGetDisruptionBudget x r # tr) a"
| runs_GetAutoscaler: "runs (k r) tr a \<Longrightarrow> runs (GetAutoscaler x k) (EvGetAutoscaler x r # tr) a"
| runs_GetVectorIndex: "runs (k r) tr a \<Longrightarrow> runs (GetVectorIndex x k) (EvGetVectorIndex x r # tr) a"
| runs_HttpDo: "runs (k r) tr a \<Longrightarrow> runs (HttpDo x k) (EvHttpDo x r # tr) a"
| runs_SqlDo: "runs (k r) tr a \<Longrightarrow> runs (SqlDo x k) (EvSqlDo x r # tr) a"
| runs_ListRuns: "runs (k r) tr a \<Longrightarrow> runs (ListRuns x y k) (EvListRuns x y r # tr) a"
| runs_Create: "runs (k r) tr a \<Longrightarrow> runs (Create x k) (EvCreate x r # tr) a"
| runs_Update: "runs (k r) tr a \<Longrightarrow> runs (Update x k) (EvUpdate x r # tr) a"
| runs_UpdateStatus: "runs (k r) tr a \<Longrightarrow> runs (UpdateStatus x k) (EvUpdateStatus x r # tr) a"
| runs_StatusUpdate: "runs (k r) tr a \<Longrightarrow> runs (StatusUpdate x y k) (EvStatusUpdate x y r # tr) a"
| runs_Delete: "runs (k r) tr a \<Longrightarrow> runs (Delete x y z k) (EvDelete x y z r # tr) a"
| runs_CreateOrUpdateVI: "runs (k r) tr a \<Longrightarrow> runs (CreateOrUpdateVI x y k) (EvCreateOrUpdateVI x y r # tr) a"

inductive_simps runs_Done_iff [simp]: "runs (Done x) tr a"

inductive_simps runs_Panic_iff [simp]: "runs Panic tr a"

inductive_simps runs_Emit_iff [simp]: "runs (Emit e p) tr a"

inductive_simps runs_Now_iff [simp]: "runs (Now k) tr a"

inductive_simps runs_GetKB_iff [simp]: "runs (GetKB x k) tr a"

inductive_simps runs_GetJob_iff [simp]: "runs (GetJob x k) tr a"

inductive_simps runs_GetConfigMap_iff [simp]: "runs (GetConfigMap x k) tr a"

inductive_simps runs_GetSecret_iff [simp]: "runs (GetSecret x k) tr a"

inductive_simps runs_GetServiceAccount_iff [simp]: "runs (GetServiceAccount x k) tr a"

inductive_simps runs_GetRole_iff [simp]: "runs (GetRole x k) tr a"

inductive_simps runs_GetRoleBinding_iff [simp]: "runs (GetRoleBinding x k) tr a"

inductive_simps runs_GetRun_iff [simp]: "runs (GetRun x k) tr a"

inductive_simps runs_GetBackup_iff [simp]: "runs (GetBackup x k) tr a"

inductive_simps runs_GetRestore_iff [simp]: "runs (GetRestore x k) tr a"

inductive_simps runs_GetRetriever_iff [simp]: "runs (GetRetriever x k) tr a"

inductive_simps runs_GetDeployment_iff [simp]: "runs (GetDeployment x k) tr a"

inductive_simps runs_GetService_iff [simp]: "runs (GetService x k) tr a"

inductive_simps runs_GetIngress_iff [simp]: "runs (GetIngress x k) tr a"

inductive_simps runs_GetNetworkPolicy_iff [simp]: "runs (GetNetworkPolicy x k) tr a"

inductive_simps runs_GetDisruptionBudget_iff [simp]: "runs (GetDisruptionBudget x k) tr a"

inductive_simps runs_GetAutoscaler_iff [simp]: "runs (GetAutoscaler x k) tr a"

inductive_simps runs_GetVectorIndex_iff [simp]: "runs (GetVectorIndex x k) tr a"

inductive_simps runs_HttpDo_iff [simp]: "runs (HttpDo x k) tr a"

inductive_simps runs_SqlDo_iff [simp]: "runs (SqlDo x k) tr a"

inductive_simps runs_ListRuns_iff [simp]: "runs (ListRuns x y k) tr a"

inductive_simps runs_Create_iff [simp]: "runs (Create x k) tr a"

inductive_simps runs_Update_iff [simp]: "runs (Update x k) tr a"

inductive_simps runs_UpdateStatus_iff [simp]: "runs (UpdateStatus x k) tr a"

inductive_simps runs_StatusUpdate_iff [simp]: "runs (StatusUpdate x y k) tr a"

inductive_simps runs_Delete_iff [simp]: "runs (Delete x y z k) tr a"

inductive_simps runs_CreateOrUpdateVI_iff [simp]: "runs (CreateOrUpdateVI x y k) tr a"

lemmas runs_simps =
  runs_Done_iff runs_Panic_iff runs_Emit_iff runs_Now_iff
  runs_GetKB_iff runs_GetJob_iff runs_GetConfigMap_iff runs_GetSecret_iff
  runs_GetServiceAccount_iff runs_GetRole_iff runs_GetRoleBinding_iff runs_GetRun_iff
  runs_GetBackup_iff runs_GetRestore_iff runs_GetRetriever_iff runs_GetDeployment_iff runs_GetService_iff
  runs_GetIngress_iff runs_GetNetworkPolicy_iff runs_GetDisruptionBudget_iff runs_GetAutoscaler_iff
  runs_GetVectorIndex_iff runs_HttpDo_iff runs_SqlDo_iff
  runs_ListRuns_iff runs_Create_iff
  runs_Update_iff runs_UpdateStatus_iff runs_StatusUpdate_iff runs_Delete_iff
  runs_CreateOrUpdateVI_iff

section \<open>Weakest preconditions\<close>

text \<open>
  \<open>wp p Q\<close>: every run of \<open>p\<close> ends with a trace and a result that satisfy \<open>Q\<close>.
\<close>

primrec wp :: "'a prog \<Rightarrow> (event list \<Rightarrow> 'a option \<Rightarrow> bool) \<Rightarrow> bool" where
  "wp (Done x) Q = Q [] (Some x)"
| "wp Panic Q = Q [] None"
| "wp (Emit e p) Q = wp p (\<lambda>tr. Q (EvEmit e # tr))"
| "wp (Now k) Q = (\<forall>r. wp (k r) (\<lambda>tr. Q (EvNow r # tr)))"
| "wp (GetKB x k) Q = (\<forall>r. wp (k r) (\<lambda>tr. Q (EvGetKB x r # tr)))"
| "wp (GetJob x k) Q = (\<forall>r. wp (k r) (\<lambda>tr. Q (EvGetJob x r # tr)))"
| "wp (GetConfigMap x k) Q = (\<forall>r. wp (k r) (\<lambda>tr. Q (EvGetConfigMap x r # tr)))"
| "wp (GetSecret x k) Q = (\<forall>r. wp (k r) (\<lambda>tr. Q (EvGetSecret x r # tr)))"
| "wp (GetServiceAccount x k) Q = (\<forall>r. wp (k r) (\<lambda>tr. Q (EvGetServiceAccount x r # tr)))"
| "wp (GetRole x k) Q = (\<forall>r. wp (k r) (\<lambda>tr. Q (EvGetRole x r # tr)))"
| "wp (GetRoleBinding x k) Q = (\<forall>r. wp (k r) (\<lambda>tr. Q (EvGetRoleBinding x r # tr)))"
| "wp (GetRun x k) Q = (\<forall>r. wp (k r) (\<lambda>tr. Q (EvGetRun x r # tr)))"
| "wp (GetBackup x k) Q = (\<forall>r. wp (k r) (\<lambda>tr. Q (EvGetBackup x r # tr)))"
| "wp (GetRestore x k) Q = (\<forall>r. wp (k r) (\<lambda>tr. Q (EvGetRestore x r # tr)))"
| "wp (GetRetriever x k) Q = (\<forall>r. wp (k r) (\<lambda>tr. Q (EvGetRetriever x r # tr)))"
| "wp (GetDeployment x k) Q = (\<forall>r. wp (k r) (\<lambda>tr. Q (EvGetDeployment x r # tr)))"
| "wp (GetService x k) Q = (\<forall>r. wp (k r) (\<lambda>tr. Q (EvGetService x r # tr)))"
| "wp (GetIngress x k) Q = (\<forall>r. wp (k r) (\<lambda>tr. Q (EvGetIngress x r # tr)))"
| "wp (GetNetworkPolicy x k) Q = (\<forall>r. wp (k r) (\<lambda>tr. Q (EvGetNetworkPolicy x r # tr)))"
| "wp (GetDisruptionBudget x k) Q = (\<forall>r. wp (k r) (\<lambda>tr. Q (EvGetDisruptionBudget x r # tr)))"
| "wp (GetAutoscaler x k) Q = (\<forall>r. wp (k r) (\<lambda>tr. Q (EvGetAutoscaler x r # tr)))"
| "wp (GetVectorIndex x k) Q = (\<forall>r. wp (k r) (\<lambda>tr. Q (EvGetVectorIndex x r # tr)))"
| "wp (HttpDo x k) Q = (\<forall>r. wp (k r) (\<lambda>tr. Q (EvHttpDo x r # tr)))"
| "wp (SqlDo x k) Q = (\<forall>r. wp (k r) (\<lambda>tr. Q (EvSqlDo x r # tr)))"
| "wp (ListRuns x y k) Q = (\<forall>r. wp (k r) (\<lambda>tr. Q (EvListRuns x y r # tr)))"
| "wp (Create x k) Q = (\<forall>r. wp (k r) (\<lambda>tr. Q (EvCreate x r # tr)))"
| "wp (Update x k) Q = (\<forall>r. wp (k r) (\<lambda>tr. Q (EvUpdate x r # tr)))"
| "wp (UpdateStatus x k) Q = (\<forall>r. wp (k r) (\<lambda>tr. Q (EvUpdateStatus x r # tr)))"
| "wp (StatusUpdate x y k) Q = (\<forall>r. wp (k r) (\<lambda>tr. Q (EvStatusUpdate x y r # tr)))"
| "wp (Delete x y z k) Q = (\<forall>r. wp (k r) (\<lambda>tr. Q (EvDelete x y z r # tr)))"
| "wp (CreateOrUpdateVI x y k) Q = (\<forall>r. wp (k r) (\<lambda>tr. Q (EvCreateOrUpdateVI x y r # tr)))"

declare wp.simps [wp_simps]

lemma wp_iff: "wp p Q \<longleftrightarrow> (\<forall>tr a. runs p tr a \<longrightarrow> Q tr a)"
proof (induction p arbitrary: Q)
  case (Done x)
  then show ?case by simp
next
  case Panic
  then show ?case by simp
qed (simp only: wp.simps runs_simps rangeI, blast)+

lemma wpI: "(\<And>tr a. runs p tr a \<Longrightarrow> Q tr a) \<Longrightarrow> wp p Q"
  unfolding wp_iff by blast

lemma wpD: "wp p Q \<Longrightarrow> runs p tr a \<Longrightarrow> Q tr a"
  unfolding wp_iff by blast

lemma wp_mono: "wp p Q \<Longrightarrow> (\<And>tr a. Q tr a \<Longrightarrow> R tr a) \<Longrightarrow> wp p R"
  unfolding wp_iff by blast

lemma wp_conj: "wp p (\<lambda>tr a. Q tr a \<and> R tr a) \<longleftrightarrow> wp p Q \<and> wp p R"
  unfolding wp_iff by blast

lemma wp_pbind [simp, wp_simps]:
  "wp (pbind p f) Q \<longleftrightarrow>
     wp p (\<lambda>tr r. case r of None \<Rightarrow> Q tr None | Some a \<Rightarrow> wp (f a) (\<lambda>tr'. Q (tr @ tr')))"
proof (induction p arbitrary: Q)
  case (Done x)
  then show ?case by simp
next
  case Panic
  then show ?case by simp
qed (simp only: wp.simps pbind.simps rangeI append_Cons)+

text \<open>Sequencing: a run of \<open>pbind p f\<close> is a run of \<open>p\<close> followed by one of \<open>f\<close>.\<close>

lemma runs_pbindI:
  "runs p tr1 (Some a) \<Longrightarrow> runs (f a) tr2 b \<Longrightarrow> runs (pbind p f) (tr1 @ tr2) b"
  by (induction p tr1 "Some a" rule: runs.induct)
    (simp_all only: pbind.simps append_Nil append_Cons runs.intros option.inject)

lemma runs_pbindD:
  assumes "runs (pbind p f) tr b"
  shows "(\<exists>tr1 tr2 a. tr = tr1 @ tr2 \<and> runs p tr1 (Some a) \<and> runs (f a) tr2 b)
     \<or> (runs p tr None \<and> b = None)" (is "?Q tr b")
proof -
  have "wp p (\<lambda>tr r. case r of None \<Rightarrow> ?Q tr None | Some a \<Rightarrow> wp (f a) (\<lambda>tr'. ?Q (tr @ tr')))"
  proof (rule wpI)
    fix tr r
    assume r: "runs p tr r"
    show "case r of None \<Rightarrow> ?Q tr None | Some a \<Rightarrow> wp (f a) (\<lambda>tr'. ?Q (tr @ tr'))"
    proof (cases r)
      case None
      with r show ?thesis by simp
    next
      case (Some a)
      with r have "wp (f a) (\<lambda>tr'. ?Q (tr @ tr'))" by (intro wpI) blast
      with Some show ?thesis by simp
    qed
  qed
  then have "wp (pbind p f) ?Q" by (simp only: wp_pbind)
  then show ?thesis using assms by (rule wpD)
qed

end
