(* ===== verification/Traces.thy ===== *)
theory Traces
  imports Effects
begin

text \<open>
  Two tools for programs. \<open>at_most P p n\<close>: no run of \<open>p\<close> makes more than \<open>n\<close> calls that satisfy
  \<open>P\<close>; it is proved by structure, so that a reconciler inherits it from its helpers. And an
  environment, which answers each call by a function of the call: \<open>exec\<close> runs a program against
  it, so that the properties can be tried on concrete inputs.
\<close>

lemma pbind_assoc: "pbind (pbind p f) g = pbind p (\<lambda>a. pbind (f a) g)"
proof (induction p)
  case (Done a)
  show ?case by (simp only: pbind.simps)
next
  case Panic
  show ?case by (simp only: pbind.simps)
qed (simp only: pbind.simps rangeI)+

lemma pbind_Done: "pbind p Done = p"
proof (induction p)
  case (Done a)
  show ?case by (simp only: pbind.simps)
next
  case Panic
  show ?case by (simp only: pbind.simps)
qed (simp only: pbind.simps rangeI)+

text \<open>The rule for a sequence whose first part is known by a postcondition.\<close>

lemma wp_bindI:
  assumes "wp p P" "\<And>tr a. P tr (Some a) \<Longrightarrow> wp (f a) (\<lambda>tr'. Q (tr @ tr'))" "\<And>tr. P tr None \<Longrightarrow> Q tr None"
  shows "wp (pbind p f) Q"
  unfolding wp_pbind
proof (rule wp_mono [OF assms(1)])
  fix tr r
  assume "P tr r"
  with assms(2,3) show "case r of None \<Rightarrow> Q tr None | Some a \<Rightarrow> wp (f a) (\<lambda>tr'. Q (tr @ tr'))"
    by (cases r) simp_all
qed

section \<open>Counting calls\<close>

primrec at_most :: "(event \<Rightarrow> bool) \<Rightarrow> 'a prog \<Rightarrow> nat \<Rightarrow> bool" where
  "at_most P (Done a) = (\<lambda>n. True)"
| "at_most P Panic = (\<lambda>n. True)"
| "at_most P (Emit e p) = (\<lambda>n. if P (EvEmit e) then 0 < n \<and> at_most P p (n - 1) else at_most P p n)"
| "at_most P (Now k) = (\<lambda>n. \<forall>r. if P (EvNow r) then 0 < n \<and> at_most P (k r) (n - 1) else at_most P (k r) n)"
| "at_most P (GetKB x k) = (\<lambda>n. \<forall>r. if P (EvGetKB x r) then 0 < n \<and> at_most P (k r) (n - 1) else at_most P (k r) n)"
| "at_most P (GetJob x k) = (\<lambda>n. \<forall>r. if P (EvGetJob x r) then 0 < n \<and> at_most P (k r) (n - 1) else at_most P (k r) n)"
| "at_most P (GetConfigMap x k) = (\<lambda>n. \<forall>r. if P (EvGetConfigMap x r) then 0 < n \<and> at_most P (k r) (n - 1) else at_most P (k r) n)"
| "at_most P (GetSecret x k) = (\<lambda>n. \<forall>r. if P (EvGetSecret x r) then 0 < n \<and> at_most P (k r) (n - 1) else at_most P (k r) n)"
| "at_most P (GetServiceAccount x k) = (\<lambda>n. \<forall>r. if P (EvGetServiceAccount x r) then 0 < n \<and> at_most P (k r) (n - 1) else at_most P (k r) n)"
| "at_most P (GetRole x k) = (\<lambda>n. \<forall>r. if P (EvGetRole x r) then 0 < n \<and> at_most P (k r) (n - 1) else at_most P (k r) n)"
| "at_most P (GetRoleBinding x k) = (\<lambda>n. \<forall>r. if P (EvGetRoleBinding x r) then 0 < n \<and> at_most P (k r) (n - 1) else at_most P (k r) n)"
| "at_most P (GetRun x k) = (\<lambda>n. \<forall>r. if P (EvGetRun x r) then 0 < n \<and> at_most P (k r) (n - 1) else at_most P (k r) n)"
| "at_most P (GetBackup x k) = (\<lambda>n. \<forall>r. if P (EvGetBackup x r) then 0 < n \<and> at_most P (k r) (n - 1) else at_most P (k r) n)"
| "at_most P (GetRestore x k) = (\<lambda>n. \<forall>r. if P (EvGetRestore x r) then 0 < n \<and> at_most P (k r) (n - 1) else at_most P (k r) n)"
| "at_most P (GetRetriever x k) = (\<lambda>n. \<forall>r. if P (EvGetRetriever x r) then 0 < n \<and> at_most P (k r) (n - 1) else at_most P (k r) n)"
| "at_most P (GetDeployment x k) = (\<lambda>n. \<forall>r. if P (EvGetDeployment x r) then 0 < n \<and> at_most P (k r) (n - 1) else at_most P (k r) n)"
| "at_most P (GetService x k) = (\<lambda>n. \<forall>r. if P (EvGetService x r) then 0 < n \<and> at_most P (k r) (n - 1) else at_most P (k r) n)"
| "at_most P (GetIngress x k) = (\<lambda>n. \<forall>r. if P (EvGetIngress x r) then 0 < n \<and> at_most P (k r) (n - 1) else at_most P (k r) n)"
| "at_most P (GetNetworkPolicy x k) = (\<lambda>n. \<forall>r. if P (EvGetNetworkPolicy x r) then 0 < n \<and> at_most P (k r) (n - 1) else at_most P (k r) n)"
| "at_most P (GetDisruptionBudget x k) = (\<lambda>n. \<forall>r. if P (EvGetDisruptionBudget x r) then 0 < n \<and> at_most P (k r) (n - 1) else at_most P (k r) n)"
| "at_most P (GetAutoscaler x k) = (\<lambda>n. \<forall>r. if P (EvGetAutoscaler x r) then 0 < n \<and> at_most P (k r) (n - 1) else at_most P (k r) n)"
| "at_most P (GetVectorIndex x k) = (\<lambda>n. \<forall>r. if P (EvGetVectorIndex x r) then 0 < n \<and> at_most P (k r) (n - 1) else at_most P (k r) n)"
| "at_most P (HttpDo x k) = (\<lambda>n. \<forall>r. if P (EvHttpDo x r) then 0 < n \<and> at_most P (k r) (n - 1) else at_most P (k r) n)"
| "at_most P (SqlDo x k) = (\<lambda>n. \<forall>r. if P (EvSqlDo x r) then 0 < n \<and> at_most P (k r) (n - 1) else at_most P (k r) n)"
| "at_most P (ListRuns x y k) = (\<lambda>n. \<forall>r. if P (EvListRuns x y r) then 0 < n \<and> at_most P (k r) (n - 1) else at_most P (k r) n)"
| "at_most P (Create x k) = (\<lambda>n. \<forall>r. if P (EvCreate x r) then 0 < n \<and> at_most P (k r) (n - 1) else at_most P (k r) n)"
| "at_most P (Update x k) = (\<lambda>n. \<forall>r. if P (EvUpdate x r) then 0 < n \<and> at_most P (k r) (n - 1) else at_most P (k r) n)"
| "at_most P (UpdateStatus x k) = (\<lambda>n. \<forall>r. if P (EvUpdateStatus x r) then 0 < n \<and> at_most P (k r) (n - 1) else at_most P (k r) n)"
| "at_most P (StatusUpdate x y k) = (\<lambda>n. \<forall>r. if P (EvStatusUpdate x y r) then 0 < n \<and> at_most P (k r) (n - 1) else at_most P (k r) n)"
| "at_most P (Delete x y z k) = (\<lambda>n. \<forall>r. if P (EvDelete x y z r) then 0 < n \<and> at_most P (k r) (n - 1) else at_most P (k r) n)"
| "at_most P (CreateOrUpdateVI x y k) = (\<lambda>n. \<forall>r. if P (EvCreateOrUpdateVI x y r) then 0 < n \<and> at_most P (k r) (n - 1) else at_most P (k r) n)"

abbreviation never :: "(event \<Rightarrow> bool) \<Rightarrow> 'a prog \<Rightarrow> bool" where
  "never P p \<equiv> at_most P p 0"

definition count_calls :: "(event \<Rightarrow> bool) \<Rightarrow> event list \<Rightarrow> nat" where
  "count_calls P tr = length (filter P tr)"

lemma count_calls_simps [simp]:
  "count_calls P [] = 0"
  "count_calls P (e # tr) = (if P e then Suc (count_calls P tr) else count_calls P tr)"
  "count_calls P (tr @ tr') = count_calls P tr + count_calls P tr'"
  by (simp_all add: count_calls_def)

lemma count_calls_0: "count_calls P tr = 0 \<longleftrightarrow> (\<forall>e \<in> set tr. \<not> P e)"
  by (simp add: count_calls_def filter_empty_conv)

lemma count_step: "(if b then 0 < n \<and> c (n - 1) else c n) \<Longrightarrow>
   (\<And>m. c m \<Longrightarrow> k \<le> m) \<Longrightarrow> (if b then Suc k else k) \<le> (n :: nat)"
  by (cases b) fastforce+

lemma at_most_count: "runs p tr a \<Longrightarrow> at_most P p n \<Longrightarrow> count_calls P tr \<le> n"
proof (induction p tr a arbitrary: n rule: runs.induct)
  case (runs_Done a)
  then show ?case by simp
next
  case runs_Panic
  then show ?case by simp
next
  case (runs_Emit p tr a e)
  then show ?case
    by (simp only: at_most.simps count_calls_simps) (rule count_step, assumption, blast)
qed (simp only: at_most.simps count_calls_simps, drule spec, rule count_step, assumption, blast)+

lemma never_runs: "runs p tr a \<Longrightarrow> never P p \<Longrightarrow> e \<in> set tr \<Longrightarrow> \<not> P e"
  using at_most_count [of p tr a P 0] count_calls_0 [of P tr] by auto

lemma step_mono:
  "if b then 0 < m \<and> A (m - 1) else A m \<Longrightarrow> m \<le> (n :: nat) \<Longrightarrow>
   (\<And>m n. A m \<Longrightarrow> m \<le> n \<Longrightarrow> A n) \<Longrightarrow> if b then 0 < n \<and> A (n - 1) else A n"
  by (cases b) (simp_all, meson diff_le_mono le_trans less_le_trans)

lemma wp_never: "never P p \<Longrightarrow> wp p (\<lambda>tr r. \<forall>e \<in> set tr. \<not> P e)"
proof (rule wpI)
  fix tr r
  assume "never P p" "runs p tr r"
  then have "count_calls P tr \<le> 0" using at_most_count by blast
  then show "\<forall>e \<in> set tr. \<not> P e" using count_calls_0 [of P tr] by simp
qed

lemma at_most_mono: "at_most P p m \<Longrightarrow> m \<le> n \<Longrightarrow> at_most P p n"
proof (induction p arbitrary: m n)
  case (Done a)
  show ?case by simp
next
  case Panic
  show ?case by simp
next
  case (Emit e p)
  from Emit.prems show ?case
    by (simp only: at_most.simps) (rule step_mono, assumption, assumption, rule Emit.IH)
qed (simp only: at_most.simps, intro allI, drule spec, rule step_mono, assumption, assumption, simp only: rangeI)+

lemma never_at_most: "never P p \<Longrightarrow> at_most P p n"
  by (erule at_most_mono) simp

lemma step_bind:
  assumes "if b then 0 < m \<and> A (m - 1) else A m" and B: "\<And>m. A m \<Longrightarrow> B (m + n)"
  shows "if b then 0 < m + n \<and> B (m + n - 1) else B (m + (n :: nat))"
proof (cases b)
  case True
  with assms(1) have "0 < m" "A (m - 1)" by simp_all
  then have "B (m - 1 + n)" by (intro B)
  moreover from \<open>0 < m\<close> have "m - 1 + n = m + n - 1" by simp
  ultimately show ?thesis using True \<open>0 < m\<close> by simp
next
  case False
  with assms(1) show ?thesis by (simp add: B)
qed

lemma at_most_pbind:
  assumes f: "\<And>a. at_most P (f a) n"
  shows "at_most P p m \<Longrightarrow> at_most P (pbind p f) (m + n)"
proof (induction p arbitrary: m)
  case (Done a)
  then show ?case using at_most_mono [OF f [of a], of "m + n"] by simp
next
  case Panic
  then show ?case by simp
next
  case (Emit e p)
  from Emit.prems show ?case
    by (simp only: at_most.simps pbind.simps) (rule step_bind, assumption, rule Emit.IH)
qed (simp only: at_most.simps pbind.simps, intro allI, drule spec, rule step_bind, assumption, simp only: rangeI)+

lemma never_pbind: "never P p \<Longrightarrow> (\<And>a. at_most P (f a) n) \<Longrightarrow> at_most P (pbind p f) n"
  using at_most_pbind [where m = 0 and p = p and P = P and f = f and n = n] by simp

lemma never_iff:
  "never P (Done a) = True" "never P Panic = True"
  "never P (Emit e p) = (\<not> P (EvEmit e) \<and> never P p)"
  "never P (Now k1) = (\<forall>r. \<not> P (EvNow r) \<and> never P (k1 r))"
  "never P (GetKB x2 k2) = (\<forall>r. \<not> P (EvGetKB x2 r) \<and> never P (k2 r))"
  "never P (GetJob x3 k3) = (\<forall>r. \<not> P (EvGetJob x3 r) \<and> never P (k3 r))"
  "never P (GetConfigMap x4 k4) = (\<forall>r. \<not> P (EvGetConfigMap x4 r) \<and> never P (k4 r))"
  "never P (GetSecret x5 k5) = (\<forall>r. \<not> P (EvGetSecret x5 r) \<and> never P (k5 r))"
  "never P (GetServiceAccount x6 k6) = (\<forall>r. \<not> P (EvGetServiceAccount x6 r) \<and> never P (k6 r))"
  "never P (GetRole x7 k7) = (\<forall>r. \<not> P (EvGetRole x7 r) \<and> never P (k7 r))"
  "never P (GetRoleBinding x8 k8) = (\<forall>r. \<not> P (EvGetRoleBinding x8 r) \<and> never P (k8 r))"
  "never P (GetRun x9 k9) = (\<forall>r. \<not> P (EvGetRun x9 r) \<and> never P (k9 r))"
  "never P (GetBackup x10 k10) = (\<forall>r. \<not> P (EvGetBackup x10 r) \<and> never P (k10 r))"
  "never P (GetRestore x11 k11) = (\<forall>r. \<not> P (EvGetRestore x11 r) \<and> never P (k11 r))"
  "never P (GetRetriever x111 k111) = (\<forall>r. \<not> P (EvGetRetriever x111 r) \<and> never P (k111 r))"
  "never P (GetDeployment x112 k112) = (\<forall>r. \<not> P (EvGetDeployment x112 r) \<and> never P (k112 r))"
  "never P (GetService x113 k113) = (\<forall>r. \<not> P (EvGetService x113 r) \<and> never P (k113 r))"
  "never P (GetIngress x114 k114) = (\<forall>r. \<not> P (EvGetIngress x114 r) \<and> never P (k114 r))"
  "never P (GetNetworkPolicy x115 k115) = (\<forall>r. \<not> P (EvGetNetworkPolicy x115 r) \<and> never P (k115 r))"
  "never P (GetDisruptionBudget x116 k116) = (\<forall>r. \<not> P (EvGetDisruptionBudget x116 r) \<and> never P (k116 r))"
  "never P (GetAutoscaler x117 k117) = (\<forall>r. \<not> P (EvGetAutoscaler x117 r) \<and> never P (k117 r))"
  "never P (GetVectorIndex x118 k118) = (\<forall>r. \<not> P (EvGetVectorIndex x118 r) \<and> never P (k118 r))"
  "never P (HttpDo x119 k119) = (\<forall>r. \<not> P (EvHttpDo x119 r) \<and> never P (k119 r))"
  "never P (SqlDo x120 k120) = (\<forall>r. \<not> P (EvSqlDo x120 r) \<and> never P (k120 r))"
  "never P (ListRuns x12 y12 k12) = (\<forall>r. \<not> P (EvListRuns x12 y12 r) \<and> never P (k12 r))"
  "never P (Create x13 k13) = (\<forall>r. \<not> P (EvCreate x13 r) \<and> never P (k13 r))"
  "never P (Update x14 k14) = (\<forall>r. \<not> P (EvUpdate x14 r) \<and> never P (k14 r))"
  "never P (UpdateStatus x15 k15) = (\<forall>r. \<not> P (EvUpdateStatus x15 r) \<and> never P (k15 r))"
  "never P (StatusUpdate x16 y16 k16) = (\<forall>r. \<not> P (EvStatusUpdate x16 y16 r) \<and> never P (k16 r))"
  "never P (Delete x17 y17 z17 k17) = (\<forall>r. \<not> P (EvDelete x17 y17 z17 r) \<and> never P (k17 r))"
  "never P (CreateOrUpdateVI x18 y18 k18) = (\<forall>r. \<not> P (EvCreateOrUpdateVI x18 y18 r) \<and> never P (k18 r))"
  by (simp_all only: at_most.simps less_numeral_extra(3)) auto

text \<open>The bound is exact: a program that never makes more than \<open>n\<close> such calls has the bound.\<close>

lemma wp_not_False: "\<not> wp p (\<lambda>tr r. False)"
proof (induction p)
  case (Done a)
  show ?case by simp
next
  case Panic
  show ?case by simp
next
  case (Emit e p)
  then show ?case by simp
qed (simp only: wp.simps rangeI not_all, blast)+

lemma count_step_iff:
  assumes "\<And>n. A n \<longleftrightarrow> wp p (\<lambda>tr r. count_calls P tr \<le> n)"
  shows "(if P e then 0 < n \<and> A (n - 1) else A n) \<longleftrightarrow> wp p (\<lambda>tr r. count_calls P (e # tr) \<le> n)"
  using wp_not_False [of p] by (cases n) (simp_all add: assms)

lemma at_most_iff: "at_most P p n \<longleftrightarrow> wp p (\<lambda>tr r. count_calls P tr \<le> n)"
proof (induction p arbitrary: n)
  case (Done a)
  show ?case by simp
next
  case Panic
  show ?case by simp
next
  case (Emit e p)
  show ?case by (simp only: at_most.simps wp.simps) (rule count_step_iff, rule Emit.IH)
qed (simp only: at_most.simps wp.simps, rule all_cong1, rule count_step_iff, simp only: rangeI)+

section \<open>Calls that come first\<close>

text \<open>In a guarded trace no \<open>P\<close> call comes before a \<open>G\<close> call.\<close>

fun guarded :: "(event \<Rightarrow> bool) \<Rightarrow> (event \<Rightarrow> bool) \<Rightarrow> event list \<Rightarrow> bool" where
  "guarded G P [] = True"
| "guarded G P (e # tr) = (G e \<or> (\<not> P e \<and> guarded G P tr))"

lemma guarded_append:
  "guarded G P (tr @ tr') \<longleftrightarrow> guarded G P tr \<and> ((\<exists>e \<in> set tr. G e) \<or> guarded G P tr')"
  by (induction tr) auto

lemma guarded_none: "\<forall>e \<in> set tr. \<not> P e \<Longrightarrow> guarded G P tr"
  by (induction tr) auto

lemma guarded_before: "guarded G P (pre @ e # post) \<Longrightarrow> P e \<Longrightarrow> \<not> G e \<Longrightarrow> \<exists>g \<in> set pre. G g"
  by (auto simp: guarded_append)

definition guards :: "(event \<Rightarrow> bool) \<Rightarrow> (event \<Rightarrow> bool) \<Rightarrow> 'a prog \<Rightarrow> bool" where
  "guards G P p \<longleftrightarrow> wp p (\<lambda>tr r. guarded G P tr)"

lemma guards_never: "never P p \<Longrightarrow> guards G P p"
  unfolding guards_def by (rule wp_mono [OF wp_never]) (auto intro: guarded_none)

lemma guards_bind: "never P p \<Longrightarrow> (\<And>a. guards G P (f a)) \<Longrightarrow> guards G P (pbind p f)"
  unfolding guards_def
proof (rule wp_bindI [OF wp_never])
  fix tr :: "event list" and a
  assume d: "\<forall>e \<in> set tr. \<not> P e" and f: "\<And>a. wp (f a) (\<lambda>tr r. guarded G P tr)"
  show "wp (f a) (\<lambda>tr' r. guarded G P (tr @ tr'))"
    by (rule wp_mono [OF f]) (simp add: guarded_append guarded_none [where P = P, OF d])
qed (auto intro: guarded_none)

lemma guards_simps [simp]:
  "guards G P (Done a)" "guards G P Panic"
  "\<not> G (EvEmit e) \<Longrightarrow> \<not> P (EvEmit e) \<Longrightarrow> guards G P (Emit e p) = guards G P p"
  "(\<And>t. \<not> G (EvNow t)) \<Longrightarrow> (\<And>t. \<not> P (EvNow t)) \<Longrightarrow> guards G P (Now k1) = (\<forall>t. guards G P (k1 t))"
  "(\<And>r. \<not> G (EvGetJob x r)) \<Longrightarrow> (\<And>r. \<not> P (EvGetJob x r)) \<Longrightarrow> guards G P (GetJob x k2) = (\<forall>r. guards G P (k2 r))"
  by (simp_all add: guards_def)

section \<open>Running against an environment\<close>

record environment =
  at_Now :: time
  at_GetKB :: "key \<Rightarrow> err + knowledge_base"
  at_GetJob :: "key \<Rightarrow> err + job"
  at_GetConfigMap :: "key \<Rightarrow> err + config_map"
  at_GetSecret :: "key \<Rightarrow> err + secret"
  at_GetServiceAccount :: "key \<Rightarrow> err + service_account"
  at_GetRole :: "key \<Rightarrow> err + role"
  at_GetRoleBinding :: "key \<Rightarrow> err + role_binding"
  at_GetRun :: "key \<Rightarrow> err + ingestion_run"
  at_GetBackup :: "key \<Rightarrow> err + backup"
  at_GetRestore :: "key \<Rightarrow> err + restore"
  at_GetRetriever :: "key \<Rightarrow> err + retriever"
  at_GetDeployment :: "key \<Rightarrow> err + deployment"
  at_GetService :: "key \<Rightarrow> err + service"
  at_GetIngress :: "key \<Rightarrow> err + ingress"
  at_GetNetworkPolicy :: "key \<Rightarrow> err + network_policy"
  at_GetDisruptionBudget :: "key \<Rightarrow> err + disruption_budget"
  at_GetAutoscaler :: "key \<Rightarrow> err + autoscaler"
  at_GetVectorIndex :: "key \<Rightarrow> err + vector_index"
  at_HttpDo :: "http_request \<Rightarrow> err + http_response"
  at_SqlDo :: "sql_call \<Rightarrow> err + int"
  at_ListRuns :: "string \<Rightarrow> string \<Rightarrow> err + ingestion_run list"
  at_Create :: "obj \<Rightarrow> err option"
  at_Update :: "obj \<Rightarrow> err option"
  at_UpdateStatus :: "obj \<Rightarrow> err + string"
  at_StatusUpdate :: "key \<Rightarrow> knowledge_base_status \<Rightarrow> err + string"
  at_Delete :: "kind \<Rightarrow> propagation \<Rightarrow> key \<Rightarrow> err option"
  at_CreateOrUpdateVI :: "key \<Rightarrow> (vector_index \<Rightarrow> err + vector_index) \<Rightarrow> err option"

primrec exec :: "environment \<Rightarrow> 'a prog \<Rightarrow> event list \<times> 'a option" where
  "exec S (Done a) = ([], Some a)"
| "exec S Panic = ([], None)"
| "exec S (Emit e p) = (let (tr, a) = exec S p in (EvEmit e # tr, a))"
| "exec S (Now k) = (let (tr, a) = exec S (k (at_Now S)) in (EvNow (at_Now S) # tr, a))"
| "exec S (GetKB x k) = (let (tr, a) = exec S (k (at_GetKB S x)) in (EvGetKB x (at_GetKB S x) # tr, a))"
| "exec S (GetJob x k) = (let (tr, a) = exec S (k (at_GetJob S x)) in (EvGetJob x (at_GetJob S x) # tr, a))"
| "exec S (GetConfigMap x k) = (let (tr, a) = exec S (k (at_GetConfigMap S x)) in (EvGetConfigMap x (at_GetConfigMap S x) # tr, a))"
| "exec S (GetSecret x k) = (let (tr, a) = exec S (k (at_GetSecret S x)) in (EvGetSecret x (at_GetSecret S x) # tr, a))"
| "exec S (GetServiceAccount x k) = (let (tr, a) = exec S (k (at_GetServiceAccount S x)) in (EvGetServiceAccount x (at_GetServiceAccount S x) # tr, a))"
| "exec S (GetRole x k) = (let (tr, a) = exec S (k (at_GetRole S x)) in (EvGetRole x (at_GetRole S x) # tr, a))"
| "exec S (GetRoleBinding x k) = (let (tr, a) = exec S (k (at_GetRoleBinding S x)) in (EvGetRoleBinding x (at_GetRoleBinding S x) # tr, a))"
| "exec S (GetRun x k) = (let (tr, a) = exec S (k (at_GetRun S x)) in (EvGetRun x (at_GetRun S x) # tr, a))"
| "exec S (GetBackup x k) = (let (tr, a) = exec S (k (at_GetBackup S x)) in (EvGetBackup x (at_GetBackup S x) # tr, a))"
| "exec S (GetRestore x k) = (let (tr, a) = exec S (k (at_GetRestore S x)) in (EvGetRestore x (at_GetRestore S x) # tr, a))"
| "exec S (GetRetriever x k) = (let (tr, a) = exec S (k (at_GetRetriever S x)) in (EvGetRetriever x (at_GetRetriever S x) # tr, a))"
| "exec S (GetDeployment x k) = (let (tr, a) = exec S (k (at_GetDeployment S x)) in (EvGetDeployment x (at_GetDeployment S x) # tr, a))"
| "exec S (GetService x k) = (let (tr, a) = exec S (k (at_GetService S x)) in (EvGetService x (at_GetService S x) # tr, a))"
| "exec S (GetIngress x k) = (let (tr, a) = exec S (k (at_GetIngress S x)) in (EvGetIngress x (at_GetIngress S x) # tr, a))"
| "exec S (GetNetworkPolicy x k) = (let (tr, a) = exec S (k (at_GetNetworkPolicy S x)) in (EvGetNetworkPolicy x (at_GetNetworkPolicy S x) # tr, a))"
| "exec S (GetDisruptionBudget x k) = (let (tr, a) = exec S (k (at_GetDisruptionBudget S x)) in (EvGetDisruptionBudget x (at_GetDisruptionBudget S x) # tr, a))"
| "exec S (GetAutoscaler x k) = (let (tr, a) = exec S (k (at_GetAutoscaler S x)) in (EvGetAutoscaler x (at_GetAutoscaler S x) # tr, a))"
| "exec S (GetVectorIndex x k) = (let (tr, a) = exec S (k (at_GetVectorIndex S x)) in (EvGetVectorIndex x (at_GetVectorIndex S x) # tr, a))"
| "exec S (HttpDo x k) = (let (tr, a) = exec S (k (at_HttpDo S x)) in (EvHttpDo x (at_HttpDo S x) # tr, a))"
| "exec S (SqlDo x k) = (let (tr, a) = exec S (k (at_SqlDo S x)) in (EvSqlDo x (at_SqlDo S x) # tr, a))"
| "exec S (ListRuns x y k) = (let (tr, a) = exec S (k (at_ListRuns S x y)) in (EvListRuns x y (at_ListRuns S x y) # tr, a))"
| "exec S (Create x k) = (let (tr, a) = exec S (k (at_Create S x)) in (EvCreate x (at_Create S x) # tr, a))"
| "exec S (Update x k) = (let (tr, a) = exec S (k (at_Update S x)) in (EvUpdate x (at_Update S x) # tr, a))"
| "exec S (UpdateStatus x k) = (let (tr, a) = exec S (k (at_UpdateStatus S x)) in (EvUpdateStatus x (at_UpdateStatus S x) # tr, a))"
| "exec S (StatusUpdate x y k) = (let (tr, a) = exec S (k (at_StatusUpdate S x y)) in (EvStatusUpdate x y (at_StatusUpdate S x y) # tr, a))"
| "exec S (Delete x y z k) = (let (tr, a) = exec S (k (at_Delete S x y z)) in (EvDelete x y z (at_Delete S x y z) # tr, a))"
| "exec S (CreateOrUpdateVI x y k) = (let (tr, a) = exec S (k (at_CreateOrUpdateVI S x y)) in (EvCreateOrUpdateVI x y (at_CreateOrUpdateVI S x y) # tr, a))"

lemma runs_exec: "runs p (fst (exec S p)) (snd (exec S p))"
proof (induction p)
  case (Done x)
  show ?case by (simp only: exec.simps fst_conv snd_conv runs.intros)
next
  case Panic
  show ?case by (simp only: exec.simps fst_conv snd_conv runs.intros)
qed (simp only: exec.simps Let_def split_beta fst_conv snd_conv, rule runs.intros, simp only: rangeI)+

definition exec_then :: "event list \<times> 'a option \<Rightarrow> ('a \<Rightarrow> event list \<times> 'b option) \<Rightarrow> event list \<times> 'b option" where
  "exec_then r g =
     (case snd r of None \<Rightarrow> (fst r, None) | Some a \<Rightarrow> (fst r @ fst (g a), snd (g a)))"

lemma exec_then_simps:
  "exec_then ([], Some a) g = g a"
  "exec_then ([], None) g = ([], None)"
  "exec_then (let (tr, a) = r in (e # tr, a)) g = (let (tr, a) = exec_then r g in (e # tr, a))"
  by (simp_all add: exec_then_def split_beta split: option.split)

lemma exec_then_pair:
  "exec_then (tr, None) g = (tr, None)"
  "exec_then (tr, Some a) g = (let (tr', b) = g a in (tr @ tr', b))"
  by (simp_all add: exec_then_def split_beta)

lemma exec_pbind: "exec S (pbind p f) = exec_then (exec S p) (\<lambda>a. exec S (f a))"
proof (induction p)
  case (Done a)
  show ?case by (simp only: exec.simps pbind.simps exec_then_simps)
next
  case Panic
  show ?case by (simp only: exec.simps pbind.simps exec_then_simps)
qed (simp only: exec.simps pbind.simps exec_then_simps rangeI)+

lemmas exec_simps = exec_pbind exec_then_pair Let_def

text \<open>The events of an execution carry the answers of the environment.\<close>

definition answered :: "environment \<Rightarrow> event \<Rightarrow> bool" where
  "answered S e = (case e of
      EvEmit x \<Rightarrow> True
    | EvNow r \<Rightarrow> r = at_Now S
    | EvGetKB x r \<Rightarrow> r = at_GetKB S x
    | EvGetJob x r \<Rightarrow> r = at_GetJob S x
    | EvGetConfigMap x r \<Rightarrow> r = at_GetConfigMap S x
    | EvGetSecret x r \<Rightarrow> r = at_GetSecret S x
    | EvGetServiceAccount x r \<Rightarrow> r = at_GetServiceAccount S x
    | EvGetRole x r \<Rightarrow> r = at_GetRole S x
    | EvGetRoleBinding x r \<Rightarrow> r = at_GetRoleBinding S x
    | EvGetRun x r \<Rightarrow> r = at_GetRun S x
    | EvGetBackup x r \<Rightarrow> r = at_GetBackup S x
    | EvGetRestore x r \<Rightarrow> r = at_GetRestore S x
    | EvGetRetriever x r \<Rightarrow> r = at_GetRetriever S x
    | EvGetDeployment x r \<Rightarrow> r = at_GetDeployment S x
    | EvGetService x r \<Rightarrow> r = at_GetService S x
    | EvGetIngress x r \<Rightarrow> r = at_GetIngress S x
    | EvGetNetworkPolicy x r \<Rightarrow> r = at_GetNetworkPolicy S x
    | EvGetDisruptionBudget x r \<Rightarrow> r = at_GetDisruptionBudget S x
    | EvGetAutoscaler x r \<Rightarrow> r = at_GetAutoscaler S x
    | EvGetVectorIndex x r \<Rightarrow> r = at_GetVectorIndex S x
    | EvHttpDo x r \<Rightarrow> r = at_HttpDo S x
    | EvSqlDo x r \<Rightarrow> r = at_SqlDo S x
    | EvListRuns x y r \<Rightarrow> r = at_ListRuns S x y
    | EvCreate x r \<Rightarrow> r = at_Create S x
    | EvUpdate x r \<Rightarrow> r = at_Update S x
    | EvUpdateStatus x r \<Rightarrow> r = at_UpdateStatus S x
    | EvStatusUpdate x y r \<Rightarrow> r = at_StatusUpdate S x y
    | EvDelete x y z r \<Rightarrow> r = at_Delete S x y z
    | EvCreateOrUpdateVI x y r \<Rightarrow> r = at_CreateOrUpdateVI S x y)"

lemma answered_simps [simp]:
  "answered S (EvEmit e)"
  "answered S (EvNow r0) = (r0 = at_Now S)"
  "answered S (EvGetKB x1 r1) = (r1 = at_GetKB S x1)"
  "answered S (EvGetJob x2 r2) = (r2 = at_GetJob S x2)"
  "answered S (EvGetConfigMap x3 r3) = (r3 = at_GetConfigMap S x3)"
  "answered S (EvGetSecret x4 r4) = (r4 = at_GetSecret S x4)"
  "answered S (EvGetServiceAccount x5 r5) = (r5 = at_GetServiceAccount S x5)"
  "answered S (EvGetRole x6 r6) = (r6 = at_GetRole S x6)"
  "answered S (EvGetRoleBinding x7 r7) = (r7 = at_GetRoleBinding S x7)"
  "answered S (EvGetRun x8 r8) = (r8 = at_GetRun S x8)"
  "answered S (EvGetBackup x9 r9) = (r9 = at_GetBackup S x9)"
  "answered S (EvGetRestore x10 r10) = (r10 = at_GetRestore S x10)"
  "answered S (EvGetRetriever x110 r110) = (r110 = at_GetRetriever S x110)"
  "answered S (EvGetDeployment x111 r111) = (r111 = at_GetDeployment S x111)"
  "answered S (EvGetService x112 r112) = (r112 = at_GetService S x112)"
  "answered S (EvGetIngress x113 r113) = (r113 = at_GetIngress S x113)"
  "answered S (EvGetNetworkPolicy x114 r114) = (r114 = at_GetNetworkPolicy S x114)"
  "answered S (EvGetDisruptionBudget x115 r115) = (r115 = at_GetDisruptionBudget S x115)"
  "answered S (EvGetAutoscaler x116 r116) = (r116 = at_GetAutoscaler S x116)"
  "answered S (EvGetVectorIndex x117 r117) = (r117 = at_GetVectorIndex S x117)"
  "answered S (EvHttpDo x118 r118) = (r118 = at_HttpDo S x118)"
  "answered S (EvSqlDo x119 r119) = (r119 = at_SqlDo S x119)"
  "answered S (EvListRuns x11 y11 r11) = (r11 = at_ListRuns S x11 y11)"
  "answered S (EvCreate x12 r12) = (r12 = at_Create S x12)"
  "answered S (EvUpdate x13 r13) = (r13 = at_Update S x13)"
  "answered S (EvUpdateStatus x14 r14) = (r14 = at_UpdateStatus S x14)"
  "answered S (EvStatusUpdate x15 y15 r15) = (r15 = at_StatusUpdate S x15 y15)"
  "answered S (EvDelete x16 y16 z16 r16) = (r16 = at_Delete S x16 y16 z16)"
  "answered S (EvCreateOrUpdateVI x17 y17 r17) = (r17 = at_CreateOrUpdateVI S x17 y17)"
  by (simp_all add: answered_def)

lemma answered_exec: "list_all (answered S) (fst (exec S p))"
proof (induction p)
  case (Done x)
  show ?case by (simp only: exec.simps fst_conv list.pred_inject)
next
  case Panic
  show ?case by (simp only: exec.simps fst_conv list.pred_inject)
qed (simp only: exec.simps Let_def split_beta fst_conv list.pred_inject answered_simps rangeI simp_thms)+

text \<open>An empty cluster that accepts everything.\<close>

definition nothing :: "'k \<Rightarrow> err + 'a" where
  "nothing k = Inl (Err NotFound ''not found'')"

definition empty_cluster :: "time \<Rightarrow> environment" where
  "empty_cluster t =
     \<lparr>at_Now = t,
      at_GetKB = nothing,
      at_GetJob = nothing,
      at_GetConfigMap = nothing,
      at_GetSecret = nothing,
      at_GetServiceAccount = nothing,
      at_GetRole = nothing,
      at_GetRoleBinding = nothing,
      at_GetRun = nothing,
      at_GetBackup = nothing,
      at_GetRestore = nothing,
      at_GetRetriever = nothing,
      at_GetDeployment = nothing,
      at_GetService = nothing,
      at_GetIngress = nothing,
      at_GetNetworkPolicy = nothing,
      at_GetDisruptionBudget = nothing,
      at_GetAutoscaler = nothing,
      at_GetVectorIndex = nothing,
      at_HttpDo = nothing,
      at_SqlDo = nothing,
      at_ListRuns = (\<lambda>n l. Inr []),
      at_Create = (\<lambda>x. None),
      at_Update = (\<lambda>x. None),
      at_UpdateStatus = (\<lambda>x. Inr ''2''),
      at_StatusUpdate = (\<lambda>k s. Inr ''2''),
      at_Delete = (\<lambda>k p n. None),
      at_CreateOrUpdateVI = (\<lambda>k f. None)\<rparr>"

lemma empty_cluster_sels [simp]:
  "at_Now (empty_cluster t) = t"
  "at_GetKB (empty_cluster t) = nothing"
  "at_GetJob (empty_cluster t) = nothing"
  "at_GetConfigMap (empty_cluster t) = nothing"
  "at_GetSecret (empty_cluster t) = nothing"
  "at_GetServiceAccount (empty_cluster t) = nothing"
  "at_GetRole (empty_cluster t) = nothing"
  "at_GetRoleBinding (empty_cluster t) = nothing"
  "at_GetRun (empty_cluster t) = nothing"
  "at_GetBackup (empty_cluster t) = nothing"
  "at_GetRestore (empty_cluster t) = nothing"
  "at_GetRetriever (empty_cluster t) = nothing"
  "at_GetDeployment (empty_cluster t) = nothing"
  "at_GetService (empty_cluster t) = nothing"
  "at_GetIngress (empty_cluster t) = nothing"
  "at_GetNetworkPolicy (empty_cluster t) = nothing"
  "at_GetDisruptionBudget (empty_cluster t) = nothing"
  "at_GetAutoscaler (empty_cluster t) = nothing"
  "at_GetVectorIndex (empty_cluster t) = nothing"
  "at_HttpDo (empty_cluster t) = nothing"
  "at_SqlDo (empty_cluster t) = nothing"
  "at_ListRuns (empty_cluster t) = (\<lambda>n l. Inr [])"
  "at_Create (empty_cluster t) = (\<lambda>x. None)"
  "at_Update (empty_cluster t) = (\<lambda>x. None)"
  "at_UpdateStatus (empty_cluster t) = (\<lambda>x. Inr ''2'')"
  "at_StatusUpdate (empty_cluster t) = (\<lambda>k s. Inr ''2'')"
  "at_Delete (empty_cluster t) = (\<lambda>k p n. None)"
  "at_CreateOrUpdateVI (empty_cluster t) = (\<lambda>k f. None)"
  by (simp_all add: empty_cluster_def)

end
