(* ===== verification/Lib.thy ===== *)
theory Lib
  imports Traces "HOL-Library.Multiset"
begin

text \<open>
  The code outside the repository that the controllers call as functions: the hash, the JSON codec,
  the cron parser, the condition, finalizer and owner-reference helpers of the Kubernetes libraries,
  the resource quantity parser, the trace propagator, the URL and request constructors and
  \<open>sort.Slice\<close>. They are the fields of one
  record, a parameter \<open>L\<close> of every definition that uses them; nothing is assumed of them unless a
  theorem names one of the documented properties below.
\<close>

record ingest_result =
  igr_totalChunks :: int
  igr_sources :: "ingest_source_result list"

record eval_result =
  er_recallPercent :: int
  er_p95LatencyMillis :: int
  er_queries :: int

record backup_result =
  br_backupID :: string
  br_totalPoints :: int
  br_sizeBytes :: int
  br_location :: string

record restore_result =
  rr_restoredPoints :: int

text \<open>What the health probes decode of the answers of Qdrant and of Milvus.\<close>

record qdrant_response =
  qr_pointsCount :: int
  qr_vectorSize :: int
  qr_status :: string

record milvus_response =
  mr_code :: int
  mr_collectionName :: string
  mr_numEntities :: int

record lib =
  sha256 :: "string \<Rightarrow> string"
  quote :: "string \<Rightarrow> string"
  cron_parse :: "string \<Rightarrow> (time \<Rightarrow> time) option"
  json_corpus :: "source list \<Rightarrow> chunking_spec \<Rightarrow> embedding_spec \<Rightarrow> vector_store_spec \<Rightarrow> string"
  json_spec :: "knowledge_base_spec \<Rightarrow> err + string"
  json_query_spec :: "embedding_spec \<Rightarrow> vector_store_spec \<Rightarrow> err + string"
  json_store_spec :: "vector_store_spec \<Rightarrow> err + string"
  json_sources :: "source_status list \<Rightarrow> string"
  parse_ingest_result :: "string \<Rightarrow> err + ingest_result"
  parse_eval_result :: "string \<Rightarrow> err + eval_result"
  parse_checkpoint :: "string \<Rightarrow> err + ingest_source_result list"
  parse_backup_result :: "string \<Rightarrow> err + backup_result"
  parse_restore_result :: "string \<Rightarrow> err + restore_result"
  set_status_condition :: "condition list \<Rightarrow> condition \<Rightarrow> condition list"
  find_status_condition :: "condition list \<Rightarrow> string \<Rightarrow> condition option"
  contains_finalizer :: "string list \<Rightarrow> string \<Rightarrow> bool"
  add_finalizer :: "string list \<Rightarrow> string \<Rightarrow> string list"
  remove_finalizer :: "string list \<Rightarrow> string \<Rightarrow> string list"
  set_controller_reference :: "owner_ref \<Rightarrow> object_meta \<Rightarrow> err + object_meta"
  quantity_error :: "string \<Rightarrow> err option"
  trace_carrier :: "(string \<times> string) list"
  sort_runs :: "ingestion_run list \<Rightarrow> ingestion_run list"
  request_error :: "string \<Rightarrow> err option"
  url_host :: "string \<Rightarrow> string option"
  parse_qdrant :: "string \<Rightarrow> err + qdrant_response"
  parse_milvus :: "string \<Rightarrow> err + milvus_response"

section \<open>Documented behaviour\<close>

text \<open>A SHA-256 digest is 32 bytes.\<close>

definition sha256_size :: "lib \<Rightarrow> bool" where
  "sha256_size L \<longleftrightarrow> (\<forall>s. length (sha256 L s) = 32)"

text \<open>
  \<open>meta.SetStatusCondition\<close> sets the condition of the given type and no other;
  \<open>meta.FindStatusCondition\<close> finds the condition of a type.
\<close>

definition conditions_documented :: "lib \<Rightarrow> bool" where
  "conditions_documented L \<longleftrightarrow>
     (\<forall>cs c. find_status_condition L (set_status_condition L cs c) (c_type c) = Some c) \<and>
     (\<forall>cs c t. t \<noteq> c_type c \<longrightarrow>
        find_status_condition L (set_status_condition L cs c) t = find_status_condition L cs t)"

text \<open>\<open>controllerutil\<close>'s finalizer helpers treat the finalizers as a set.\<close>

definition finalizers_documented :: "lib \<Rightarrow> bool" where
  "finalizers_documented L \<longleftrightarrow>
     (\<forall>fs f. contains_finalizer L fs f \<longleftrightarrow> f \<in> set fs) \<and>
     (\<forall>fs f. set (add_finalizer L fs f) = insert f (set fs)) \<and>
     (\<forall>fs f. set (remove_finalizer L fs f) = set fs - {f})"

text \<open>\<open>SetControllerReference\<close> changes the owner references only.\<close>

definition owner_refs_documented :: "lib \<Rightarrow> bool" where
  "owner_refs_documented L \<longleftrightarrow>
     (\<forall>ow m m'. set_controller_reference L ow m = Inr m' \<longrightarrow> (\<exists>os. m' = m\<lparr>m_owners := os\<rparr>))"

text \<open>
  \<open>sort.Slice\<close> permutes its slice into an order in which no later element is before an earlier
  one; the order of elements that compare equal is not determined.
\<close>

definition sort_documented :: "lib \<Rightarrow> bool" where
  "sort_documented L \<longleftrightarrow>
     (\<forall>rs. mset (sort_runs L rs) = mset rs \<and>
        sorted_wrt (\<lambda>a b. m_creationTimestamp (ir_meta a) \<le> m_creationTimestamp (ir_meta b)) (sort_runs L rs))"

text \<open>
  \<open>cron.Schedule.Next\<close> returns the next activation time later than the given one, and the zero
  time when there is none.
\<close>

definition cron_fires :: "(time \<Rightarrow> time) \<Rightarrow> time set \<Rightarrow> bool" where
  "cron_fires nxt S \<longleftrightarrow>
     (\<forall>t. (if \<exists>s \<in> S. t < s then nxt t \<in> S \<and> t < nxt t \<and> (\<forall>s \<in> S. t < s \<longrightarrow> nxt t \<le> s)
           else nxt t = zero_time))"

lemma find_set_condition:
  "conditions_documented L \<Longrightarrow>
   find_status_condition L (set_status_condition L cs c) t =
     (if t = c_type c then Some c else find_status_condition L cs t)"
  by (simp add: conditions_documented_def)

section \<open>A library that has the documented behaviour\<close>

text \<open>
  An instance on which the witnesses evaluate: the digest pads or cuts to 32 bytes, the JSON codec
  is a rudimentary one that answers fixed results, a cron expression with the text \<open>hourly\<close>
  fires at every full hour and \<open>never\<close> never fires.
\<close>

fun demo_set_condition :: "condition list \<Rightarrow> condition \<Rightarrow> condition list" where
  "demo_set_condition [] c = [c]"
| "demo_set_condition (d # ds) c = (if c_type d = c_type c then c # ds else d # demo_set_condition ds c)"

fun demo_find_condition :: "condition list \<Rightarrow> string \<Rightarrow> condition option" where
  "demo_find_condition [] t = None"
| "demo_find_condition (d # ds) t = (if c_type d = t then Some d else demo_find_condition ds t)"

definition demo_cron :: "string \<Rightarrow> (time \<Rightarrow> time) option" where
  "demo_cron s =
     (if s = ''hourly'' then Some (\<lambda>t. (t div (60 * minute) + 1) * (60 * minute))
      else if s = ''never'' then Some (\<lambda>t. zero_time) else None)"

definition demo_lib :: lib where
  "demo_lib =
     \<lparr>sha256 = (\<lambda>s. take 32 (s @ replicate 32 (CHR ''0''))),
      quote = (\<lambda>s. s),
      cron_parse = demo_cron,
      json_corpus = (\<lambda>ss c e v. concat (map src_name ss) @ ch_strategy c @ itoa (ch_maxTokens c) @ emb_model e),
      json_spec = (\<lambda>s. Inr ''spec''),
      json_query_spec = (\<lambda>e v. Inr ''query''),
      json_store_spec = (\<lambda>v. Inr ''store''),
      json_sources = (\<lambda>ss. concat (map ss_name ss)),
      parse_ingest_result = (\<lambda>s. Inr \<lparr>igr_totalChunks = int (length s), igr_sources = []\<rparr>),
      parse_eval_result = (\<lambda>s. Inr \<lparr>er_recallPercent = int (length s), er_p95LatencyMillis = 10, er_queries = 4\<rparr>),
      parse_checkpoint = (\<lambda>s. Inr []),
      parse_backup_result = (\<lambda>s. Inr \<lparr>br_backupID = s, br_totalPoints = 7, br_sizeBytes = 9, br_location = ''s3://b''\<rparr>),
      parse_restore_result = (\<lambda>s. Inr \<lparr>rr_restoredPoints = 7\<rparr>),
      set_status_condition = demo_set_condition,
      find_status_condition = demo_find_condition,
      contains_finalizer = (\<lambda>fs f. f \<in> set fs),
      add_finalizer = (\<lambda>fs f. if f \<in> set fs then fs else fs @ [f]),
      remove_finalizer = (\<lambda>fs f. filter (\<lambda>g. g \<noteq> f) fs),
      set_controller_reference = (\<lambda>ow m. Inr (m\<lparr>m_owners := [ow]\<rparr>)),
      quantity_error = (\<lambda>s. if s = ''bad'' then Some (Err OtherReason ''quantity'') else None),
      trace_carrier = [(''traceparent'', ''00'')],
      sort_runs = sort_key (\<lambda>r. m_creationTimestamp (ir_meta r)),
      request_error = (\<lambda>u. None),
      url_host = (\<lambda>u. Some u),
      parse_qdrant = (\<lambda>s. Inr \<lparr>qr_pointsCount = int (length s), qr_vectorSize = 8, qr_status = ''green''\<rparr>),
      parse_milvus = (\<lambda>s. Inr \<lparr>mr_code = 0, mr_collectionName = ''c'', mr_numEntities = int (length s)\<rparr>)\<rparr>"

lemma demo_lib_sels [simp]:
  "sha256 demo_lib = (\<lambda>s. take 32 (s @ replicate 32 (CHR ''0'')))"
  "quote demo_lib = (\<lambda>s. s)"
  "cron_parse demo_lib = demo_cron"
  "json_corpus demo_lib = (\<lambda>ss c e v. concat (map src_name ss) @ ch_strategy c @ itoa (ch_maxTokens c) @ emb_model e)"
  "json_spec demo_lib = (\<lambda>s. Inr ''spec'')"
  "json_query_spec demo_lib = (\<lambda>e v. Inr ''query'')"
  "json_store_spec demo_lib = (\<lambda>v. Inr ''store'')"
  "json_sources demo_lib = (\<lambda>ss. concat (map ss_name ss))"
  "parse_ingest_result demo_lib = (\<lambda>s. Inr \<lparr>igr_totalChunks = int (length s), igr_sources = []\<rparr>)"
  "parse_eval_result demo_lib = (\<lambda>s. Inr \<lparr>er_recallPercent = int (length s), er_p95LatencyMillis = 10, er_queries = 4\<rparr>)"
  "parse_checkpoint demo_lib = (\<lambda>s. Inr [])"
  "parse_backup_result demo_lib = (\<lambda>s. Inr \<lparr>br_backupID = s, br_totalPoints = 7, br_sizeBytes = 9, br_location = ''s3://b''\<rparr>)"
  "parse_restore_result demo_lib = (\<lambda>s. Inr \<lparr>rr_restoredPoints = 7\<rparr>)"
  "set_status_condition demo_lib = demo_set_condition"
  "find_status_condition demo_lib = demo_find_condition"
  "contains_finalizer demo_lib = (\<lambda>fs f. f \<in> set fs)"
  "add_finalizer demo_lib = (\<lambda>fs f. if f \<in> set fs then fs else fs @ [f])"
  "remove_finalizer demo_lib = (\<lambda>fs f. filter (\<lambda>g. g \<noteq> f) fs)"
  "set_controller_reference demo_lib = (\<lambda>ow m. Inr (m\<lparr>m_owners := [ow]\<rparr>))"
  "quantity_error demo_lib = (\<lambda>s. if s = ''bad'' then Some (Err OtherReason ''quantity'') else None)"
  "trace_carrier demo_lib = [(''traceparent'', ''00'')]"
  "sort_runs demo_lib = sort_key (\<lambda>r. m_creationTimestamp (ir_meta r))"
  "request_error demo_lib = (\<lambda>u. None)"
  "url_host demo_lib = (\<lambda>u. Some u)"
  "parse_qdrant demo_lib = (\<lambda>s. Inr \<lparr>qr_pointsCount = int (length s), qr_vectorSize = 8, qr_status = ''green''\<rparr>)"
  "parse_milvus demo_lib = (\<lambda>s. Inr \<lparr>mr_code = 0, mr_collectionName = ''c'', mr_numEntities = int (length s)\<rparr>)"
  by (simp_all add: demo_lib_def)

lemma demo_find_set:
  "demo_find_condition (demo_set_condition cs c) t = (if t = c_type c then Some c else demo_find_condition cs t)"
  by (induction cs) auto

lemma demo_lib_sha256: "sha256_size demo_lib"
  by (auto simp: demo_lib_def sha256_size_def min_def)

lemma demo_lib_conditions: "conditions_documented demo_lib"
  by (simp add: demo_lib_def conditions_documented_def demo_find_set)

lemma demo_lib_finalizers: "finalizers_documented demo_lib"
  by (auto simp: demo_lib_def finalizers_documented_def)

lemma demo_lib_owner_refs: "owner_refs_documented demo_lib"
  by (auto simp: demo_lib_def owner_refs_documented_def)

lemma demo_lib_sort: "sort_documented demo_lib"
proof -
  have "sorted_wrt (\<lambda>a b. f a \<le> (f b :: int)) (sort_key f xs)" for f and xs :: "ingestion_run list"
    using sorted_sort_key [of f xs] by (simp add: sorted_wrt_map)
  then show ?thesis by (simp add: demo_lib_def sort_documented_def)
qed

lemmas demo_lib_documented =
  demo_lib_sha256 demo_lib_conditions demo_lib_finalizers demo_lib_owner_refs demo_lib_sort

lemma demo_cron_never: "cron_fires (\<lambda>t. zero_time) {}"
  by (simp add: cron_fires_def)

end
