(* ===== verification/Scheduling.thy ===== *)
theory Scheduling
  imports Lib
begin

text \<open>
  Cron schedules (\<open>internal/controller/scheduling.go\<close>). The cron parser is the library's; a parsed
  schedule is its \<open>Next\<close> function.
\<close>

section \<open>The operations\<close>

definition nextFire :: "lib \<Rightarrow> string \<Rightarrow> time \<Rightarrow> time" where
  "nextFire L expr from =
     (if expr = '''' then zero_time
      else case cron_parse L expr of None \<Rightarrow> zero_time | Some nxt \<Rightarrow> nxt from)"

definition cronDue :: "lib \<Rightarrow> string \<Rightarrow> time \<Rightarrow> time \<Rightarrow> bool" where
  "cronDue L expr lastRun now =
     (if expr = '''' then False
      else case cron_parse L expr of
        None \<Rightarrow> False
      | Some nxt \<Rightarrow>
          if lastRun = zero_time then \<not> nxt (now - minute) > now
          else \<not> nxt lastRun > now)"

text \<open>The loop over the candidate times, with the initial value \<open>best\<close>.\<close>

fun pick_wake :: "time \<Rightarrow> time \<Rightarrow> time list \<Rightarrow> time" where
  "pick_wake now best [] = best"
| "pick_wake now best (t # ts) =
     (if t = zero_time then pick_wake now best ts
      else if t < best \<and> now < t then pick_wake now t ts
      else pick_wake now best ts)"

definition minWait :: duration where "minWait = 30 * second"

definition maxWait :: duration where "maxWait = 10 * minute"

definition clamp_wait :: "duration \<Rightarrow> duration" where
  "clamp_wait d = (if d < minWait then minWait else if maxWait < d then maxWait else d)"

text \<open>The clock is read twice: once for the candidates and once by \<open>time.Until\<close>.\<close>

definition requeueFor :: "time list \<Rightarrow> duration prog" where
  "requeueFor ts =
     Now (\<lambda>now. let best = pick_wake now (now + maxWait) ts
                in Now (\<lambda>now2. Done (clamp_wait (best - now2))))"

section \<open>Facts\<close>

lemma wait_bounds: "minWait \<le> maxWait" "0 < minWait"
  by (simp_all add: minWait_def maxWait_def duration_defs)

text \<open>The loop picks the least of its initial value and the candidates in the future.\<close>

definition future_candidates :: "time \<Rightarrow> time list \<Rightarrow> time set" where
  "future_candidates now ts = {t \<in> set ts. t \<noteq> zero_time \<and> now < t}"

lemma future_candidates_simps [simp]:
  "finite (future_candidates now ts)" "future_candidates now [] = {}"
  "future_candidates now (t # ts) =
     (if t \<noteq> zero_time \<and> now < t then insert t (future_candidates now ts) else future_candidates now ts)"
  by (auto simp: future_candidates_def)

lemma pick_wake_Min: "pick_wake now best ts = Min (insert best (future_candidates now ts))"
proof (induction ts arbitrary: best)
  case (Cons t ts)
  have Min_two: "Min (insert best (insert t (future_candidates now ts))) = Min (insert (min best t) (future_candidates now ts))"
    by (cases "future_candidates now ts = {}") (simp_all add: min.assoc)
  show ?case
  proof (cases "t \<noteq> zero_time \<and> now < t")
    case True
    then have "pick_wake now best (t # ts) = pick_wake now (min best t) ts" by (simp add: min_def)
    then show ?thesis unfolding Cons.IH using True by (simp add: Min_two del: Min_insert)
  next
    case False
    then show ?thesis by (auto simp: Cons.IH simp del: Min_insert)
  qed
qed simp

lemma clamp_wait_range: "minWait \<le> clamp_wait d" "clamp_wait d \<le> maxWait"
  using wait_bounds by (auto simp: clamp_wait_def)

lemma clamp_wait_max: "clamp_wait d = max minWait (min maxWait d)"
  using wait_bounds by (simp add: clamp_wait_def max_def min_def)

lemma wp_requeueFor [wp_simps]:
  "wp (requeueFor ts) Q \<longleftrightarrow>
     (\<forall>now now2. Q [EvNow now, EvNow now2]
        (Some (clamp_wait (pick_wake now (now + maxWait) ts - now2))))"
  by (simp add: requeueFor_def Let_def)

text \<open>
  A schedule that has fired since the last run is due, one that has not is not: with \<open>S\<close> the set
  of activation times of the expression, \<open>cronDue\<close> asks for an activation in \<open>(lastRun, now]\<close> (in the
  last minute when the action never ran).
\<close>

lemma cron_fires_due:
  assumes "cron_fires nxt S" "\<exists>s \<in> S. lastRun < s"
  shows "nxt lastRun \<le> now \<longleftrightarrow> (\<exists>s \<in> S. lastRun < s \<and> s \<le> now)"
proof -
  from assms have n: "nxt lastRun \<in> S" "lastRun < nxt lastRun" "\<forall>s \<in> S. lastRun < s \<longrightarrow> nxt lastRun \<le> s"
    unfolding cron_fires_def by meson+
  then show ?thesis by (meson order_trans)
qed

lemma cron_fires_never:
  assumes "cron_fires nxt S" "\<not> (\<exists>s \<in> S. lastRun < s)"
  shows "nxt lastRun = zero_time"
  using assms unfolding cron_fires_def by meson

text \<open>The time from which \<open>cronDue\<close> looks for an activation.\<close>

definition due_from :: "time \<Rightarrow> time \<Rightarrow> time" where
  "due_from lastRun now = (if lastRun = zero_time then now - minute else lastRun)"

lemma cronDue_parsed:
  "cron_parse L expr = Some nxt \<Longrightarrow> expr \<noteq> '''' \<Longrightarrow> cronDue L expr lastRun now \<longleftrightarrow> nxt (due_from lastRun now) \<le> now"
  by (simp add: cronDue_def due_from_def linorder_not_less)

text \<open>The schedule of the demonstration library: every full hour.\<close>

definition hour :: duration where "hour = 60 * minute"

definition hourly :: "time \<Rightarrow> time" where "hourly t = (t div hour + 1) * hour"

lemma hour_pos: "0 < hour"
  by (simp add: hour_def duration_defs)

lemma hourly_gt: "t < hourly t"
proof -
  have "t div hour * hour + t mod hour = t" by (rule div_mult_mod_eq)
  moreover have "t mod hour < hour" using hour_pos by (rule pos_mod_bound)
  ultimately show ?thesis unfolding hourly_def distrib_right by linarith
qed

lemma hourly_least: "hour dvd s \<Longrightarrow> t < s \<Longrightarrow> hourly t \<le> s"
proof -
  assume "hour dvd s" "t < s"
  then obtain k where s: "s = hour * k" by auto
  have "t div hour < k"
  proof (rule ccontr)
    assume "\<not> t div hour < k"
    then have "k * hour \<le> t div hour * hour" using hour_pos by simp
    moreover have "t div hour * hour \<le> t" using hour_pos by (simp add: minus_mod_eq_div_mult [symmetric])
    ultimately show False using \<open>t < s\<close> s by (simp add: mult.commute)
  qed
  then have "(t div hour + 1) * hour \<le> k * hour" using hour_pos by simp
  with s show ?thesis by (simp add: hourly_def mult.commute)
qed

lemma hourly_fires: "cron_fires hourly {s. hour dvd s}"
  unfolding cron_fires_def
proof (intro allI)
  fix t
  have "hour dvd hourly t" by (simp add: hourly_def)
  with hourly_gt [of t] hourly_least
  show "if \<exists>s \<in> {s. hour dvd s}. t < s
        then hourly t \<in> {s. hour dvd s} \<and> t < hourly t \<and> (\<forall>s \<in> {s. hour dvd s}. t < s \<longrightarrow> hourly t \<le> s)
        else hourly t = zero_time"
    by auto
qed

lemma demo_cron_parse:
  "cron_parse demo_lib ''hourly'' = Some hourly" "cron_parse demo_lib ''never'' = Some (\<lambda>t. zero_time)"
  by (simp_all add: demo_lib_def demo_cron_def hourly_def [abs_def] hour_def)

section \<open>Properties\<close>

text \<open>
  A schedule is due exactly when it fired since the last run: with \<open>S\<close> the activation times of
  the expression, \<open>cronDue\<close> holds iff an activation lies after the last run (after the last minute
  when the action never ran) and not after now.
\<close>

theorem cronDue_exact:
  assumes "cron_parse L expr = Some nxt" "cron_fires nxt S" "expr \<noteq> ''''"
    and "\<exists>s \<in> S. due_from lastRun now < s"
  shows "cronDue L expr lastRun now \<longleftrightarrow> (\<exists>s \<in> S. due_from lastRun now < s \<and> s \<le> now)"
  using assms by (simp add: cronDue_parsed cron_fires_due)

theorem cronDue_exact_witness:
  "cronDue demo_lib ''hourly'' 5 hour \<and> \<not> cronDue demo_lib ''hourly'' 5 (hour - 1)"
proof -
  have ex: "\<exists>s \<in> {s. hour dvd s}. due_from 5 now < s" for now
    by (rule bexI [of _ hour]) (simp_all add: due_from_def zero_time_def hour_def duration_defs)
  note due = cronDue_exact [OF demo_cron_parse(1) hourly_fires _ ex]
  have "\<not> (hour dvd s \<and> 5 < s \<and> s \<le> hour - 1)" for s
    using zdvd_imp_le [of hour s] by auto
  moreover have "due_from 5 now = 5" for now by (simp add: due_from_def zero_time_def)
  moreover have "5 < hour" by (simp add: hour_def duration_defs)
  ultimately show ?thesis
    using due [of hour] due [of "hour - 1"] bexI [of "\<lambda>s. 5 < s \<and> s \<le> hour" hour "{s. hour dvd s}"] by auto
qed

text \<open>
  A schedule that has no further activation is always due: the library answers the zero time
  for it, which is not after now. (A schedule such as the thirtieth of February re-ingests without
  end.)
\<close>

theorem cronDue_without_activation:
  assumes "cron_parse L expr = Some nxt" "cron_fires nxt S" "expr \<noteq> ''''"
    and "\<not> (\<exists>s \<in> S. due_from lastRun now < s)" "zero_time \<le> now"
  shows "cronDue L expr lastRun now"
  using assms by (simp add: cronDue_parsed cron_fires_never)

theorem cronDue_without_activation_witness: "cronDue demo_lib ''never'' 7 9"
  by (rule cronDue_without_activation [OF demo_cron_parse(2) demo_cron_never])
    (simp_all add: zero_time_def)

text \<open>
  C33. The sleep of a steady pass lasts until the first candidate in the future, or ten minutes from
  now if that is nearer, but never less than thirty seconds and never more than ten minutes.
  Candidates that are absent or past play no part. So it ends no later than the first future
  candidate, or after thirty seconds if that is nearer.
\<close>

theorem requeueFor_wakes_in_time:
  assumes "runs (requeueFor ts) tr r"
  shows "\<exists>now now2 d. tr = [EvNow now, EvNow now2] \<and> r = Some d \<and>
           d = max (30 * second) (min (10 * minute)
                 (Min (insert (now + 10 * minute) {t \<in> set ts. t \<noteq> zero_time \<and> now < t}) - now2)) \<and>
           (\<forall>t \<in> set ts. t \<noteq> zero_time \<and> now < t \<longrightarrow> d \<le> max (30 * second) (t - now2))"
proof -
  have "wp (requeueFor ts) (\<lambda>tr r. \<exists>now now2. tr = [EvNow now, EvNow now2] \<and>
      r = Some (clamp_wait (Min (insert (now + maxWait) (future_candidates now ts)) - now2)))"
    by (auto simp: wp_requeueFor pick_wake_Min)
  from wpD [OF this assms] obtain now now2 where tr: "tr = [EvNow now, EvNow now2]"
    and r: "r = Some (clamp_wait (Min (insert (now + maxWait) (future_candidates now ts)) - now2))" by blast
  have "clamp_wait (Min (insert (now + maxWait) (future_candidates now ts)) - now2) \<le> max minWait (t - now2)"
    if "t \<in> future_candidates now ts" for t
  proof -
    have "Min (insert (now + maxWait) (future_candidates now ts)) \<le> t" using that by (intro Min_le) simp_all
    then show ?thesis unfolding clamp_wait_max by linarith
  qed
  then show ?thesis
    using tr r by (simp add: clamp_wait_max future_candidates_def minWait_def maxWait_def)
qed

theorem requeueFor_wakes_in_time_witness:
  "runs (requeueFor [100 * second]) [EvNow 0, EvNow 0] (Some (100 * second)) \<and> 100 * second \<le> max (30 * second) (100 * second - 0)"
proof -
  have r: "runs (requeueFor [100 * second]) [EvNow 0, EvNow 0] (Some (100 * second))"
    by (simp add: requeueFor_def clamp_wait_def minWait_def maxWait_def zero_time_def duration_defs Let_def)
  have "100 * second \<noteq> zero_time" "0 < 100 * second" by (simp_all add: zero_time_def duration_defs)
  with requeueFor_wakes_in_time [OF r] r show ?thesis by fastforce
qed

end
