(* ===== verification/Decisions.thy ===== *)
theory Decisions
  imports Scheduling
begin

text \<open>
  The decision helpers of the KnowledgeBase controller
  (\<open>internal/controller/decision_helpers.go\<close>): which chunking is in force, when the index is stale,
  the auto-tune ladder, what a Job's conditions and labels say. A helper that reads the clock or
  records a metric is a program; the others are functions. Assignments to \<open>kb.Status\<close> return the
  updated KnowledgeBase.
\<close>

section \<open>Labels and job types (\<open>jobs.go\<close>)\<close>

definition labelManagedBy :: string where "labelManagedBy = ''app.kubernetes.io/managed-by''"
definition labelKB :: string where "labelKB = ''rag.furkan.dev/knowledgebase''"
definition labelJobType :: string where "labelJobType = ''rag.furkan.dev/job-type''"
definition labelSpecHash :: string where "labelSpecHash = ''rag.furkan.dev/spec-hash''"
definition labelSecretsHash :: string where "labelSecretsHash = ''rag.furkan.dev/secrets-hash''"
definition labelChunking :: string where "labelChunking = ''rag.furkan.dev/chunking''"

lemmas label_defs =
  labelManagedBy_def labelKB_def labelJobType_def labelSpecHash_def labelSecretsHash_def
  labelChunking_def

definition jobTypeIngest :: string where "jobTypeIngest = ''ingest''"
definition jobTypeEval :: string where "jobTypeEval = ''eval''"
definition jobTypeCleanup :: string where "jobTypeCleanup = ''cleanup''"

lemmas job_type_defs = jobTypeIngest_def jobTypeEval_def jobTypeCleanup_def

abbreviation job_name :: "job \<Rightarrow> string" where
  "job_name j \<equiv> m_name (job_meta j)"

definition jobType :: "job \<Rightarrow> string" where
  "jobType j = lookup_str (m_labels (job_meta j)) labelJobType"

section \<open>The chunking in force\<close>

definition specChunking :: "knowledge_base \<Rightarrow> chunking_spec" where
  "specChunking kb =
     (let c = ks_chunking (spec kb);
          c = (if ch_strategy c = '''' then c\<lparr>ch_strategy := ChunkSemantic\<rparr> else c);
          c = (if ch_maxTokens c = 0 then c\<lparr>ch_maxTokens := 800\<rparr> else c);
          c = (if ch_overlap c = 0 then c\<lparr>ch_overlap := 80\<rparr> else c)
      in c)"

definition effectiveChunking :: "knowledge_base \<Rightarrow> chunking_spec" where
  "effectiveChunking kb =
     (case status_effectiveChunking (status kb) of Some c \<Rightarrow> c | None \<Rightarrow> specChunking kb)"

definition corpusHash :: "lib \<Rightarrow> knowledge_base \<Rightarrow> string" where
  "corpusHash L kb =
     hex (take 8 (sha256 L (json_corpus L (ks_sources (spec kb)) (specChunking kb)
       (ks_embedding (spec kb)) (ks_vectorStore (spec kb)))))"

definition chunkFingerprint :: "lib \<Rightarrow> chunking_spec \<Rightarrow> string" where
  "chunkFingerprint L c =
     hex (take 3 (sha256 L (ch_strategy c @ ''|'' @ itoa (ch_maxTokens c) @ ''|'' @ itoa (ch_overlap c))))"

definition userEditedSpec :: "knowledge_base \<Rightarrow> string \<Rightarrow> bool" where
  "userEditedSpec kb desiredHash \<longleftrightarrow>
     status_effectiveChunking (status kb) \<noteq> None \<and>
     observedSpecHash (status kb) \<noteq> '''' \<and>
     observedSpecHash (status kb) \<noteq> desiredHash"

section \<open>When the index is stale\<close>

text \<open>\<open>var last time.Time; if p != nil { last = p.Time }\<close>.\<close>

definition time_or_zero :: "time option \<Rightarrow> time" where
  "time_or_zero p = (case p of None \<Rightarrow> zero_time | Some t \<Rightarrow> t)"

definition needsIngest :: "lib \<Rightarrow> knowledge_base \<Rightarrow> string \<Rightarrow> (string \<times> bool) prog" where
  "needsIngest L kb desiredHash =
     (if deferCronIngest (status kb) \<and> activeJob (status kb) = '''' then
        Done (''deferred cron ingestion'', True)
      else if pendingRetune (status kb) then Done (''auto-tune re-index'', True)
      else if observedSpecHash (status kb) = '''' then Done (''initial ingestion'', True)
      else if observedEmbeddingModel (status kb) \<noteq> emb_model (ks_embedding (spec kb)) then
        Done (''embedding model changed '' @ quote L (observedEmbeddingModel (status kb)) @ '' -> '' @
          quote L (emb_model (ks_embedding (spec kb))), True)
      else if observedSpecHash (status kb) \<noteq> desiredHash then
        Done (''spec changed (sources/chunking/embedding/store)'', True)
      else if ks_freshnessSchedule (spec kb) \<noteq> '''' then
        Now (\<lambda>now.
          if cronDue L (ks_freshnessSchedule (spec kb)) (time_or_zero (lastIndexedTime (status kb))) now
          then Done (''freshness window elapsed'', True)
          else Done ('''', False))
      else Done ('''', False))"

section \<open>The auto-tune ladder\<close>

definition chunkFloor :: int where "chunkFloor = 300"

definition rotateStrategy :: "chunking_strategy \<Rightarrow> chunking_strategy" where
  "rotateStrategy s =
     (if s = ChunkSemantic then ChunkRecursive
      else if s = ChunkRecursive then ChunkFixed
      else ChunkSemantic)"

definition nextChunking :: "chunking_spec \<Rightarrow> chunking_spec" where
  "nextChunking c =
     (if ch_maxTokens c \<le> chunkFloor \<and> go_div (ch_maxTokens c) 2 < wrap64 (ch_overlap c + 40) then
        \<lparr>ch_strategy = rotateStrategy (ch_strategy c), ch_maxTokens = 800, ch_overlap = 80\<rparr>
      else
        let c = c\<lparr>ch_overlap := wrap64 (ch_overlap c + 40)\<rparr> in
        if go_div (ch_maxTokens c) 2 < ch_overlap c then
          let c = (if chunkFloor < ch_maxTokens c then
                     let c = c\<lparr>ch_maxTokens := wrap64 (ch_maxTokens c - 200)\<rparr> in
                     if ch_maxTokens c < chunkFloor then c\<lparr>ch_maxTokens := chunkFloor\<rparr> else c
                   else c)
          in c\<lparr>ch_overlap := go_div (ch_maxTokens c) 5\<rparr>
        else c)"

definition applyAutoTune :: "knowledge_base \<Rightarrow> knowledge_base prog" where
  "applyAutoTune kb =
     (let eff = nextChunking (effectiveChunking kb);
          kb = upd_status (\<lambda>s. s\<lparr>status_effectiveChunking := Some eff,
                                  autoTuneAttempts := wrap64 (autoTuneAttempts s + 1)\<rparr>) kb;
          rest = (\<lambda>kb. Done (upd_status (\<lambda>s. s\<lparr>pendingRetune := True, evaluation := None\<rparr>) kb))
      in if autoTuneStartedAt (status kb) = None
         then Now (\<lambda>now. rest (upd_status (\<lambda>s. s\<lparr>autoTuneStartedAt := Some now\<rparr>) kb))
         else rest kb)"

definition recordBest :: "knowledge_base \<Rightarrow> int \<Rightarrow> knowledge_base" where
  "recordBest kb recall =
     (if bestChunking (status kb) = None \<or> bestRecallPercent (status kb) < recall
      then upd_status (\<lambda>s. s\<lparr>bestChunking := Some (effectiveChunking kb), bestRecallPercent := recall\<rparr>) kb
      else kb)"

definition settleOnBest :: "knowledge_base \<Rightarrow> knowledge_base \<times> bool" where
  "settleOnBest kb =
     (case bestChunking (status kb) of
        None \<Rightarrow> (kb, False)
      | Some best \<Rightarrow>
          if effectiveChunking kb = best then (kb, False)
          else (upd_status (\<lambda>s. s\<lparr>status_effectiveChunking := Some best, pendingRetune := True,
                                   evaluation := None\<rparr>) kb, True))"

definition autoTuneEnabled :: "retrieval_quality_spec option \<Rightarrow> bool" where
  "autoTuneEnabled rq =
     (case rq of None \<Rightarrow> False
      | Some q \<Rightarrow> (case rq_autoTune q of None \<Rightarrow> False | Some a \<Rightarrow> at_enabled a = Some True))"

definition autoTuneMax :: "retrieval_quality_spec option \<Rightarrow> int" where
  "autoTuneMax rq =
     (case rq of None \<Rightarrow> 3
      | Some q \<Rightarrow> (case rq_autoTune q of None \<Rightarrow> 3
          | Some a \<Rightarrow> if at_maxAttempts a = 0 then 3 else at_maxAttempts a))"

definition toSourceStatus :: "ingest_source_result list \<Rightarrow> source_status list" where
  "toSourceStatus rs =
     map (\<lambda>s. \<lparr>ss_name = isr_name s, ss_revision = isr_revision s, ss_chunks = isr_chunks s\<rparr>) rs"

text \<open>\<open>t.Sub(u)\<close> saturates at the limits of a 64-bit duration.\<close>

definition time_sub :: "time \<Rightarrow> time \<Rightarrow> duration" where
  "time_sub t u = max (- (2 ^ 63)) (min (2 ^ 63 - 1) (t - u))"

definition recordAutoTuneDuration :: "knowledge_base \<Rightarrow> string \<Rightarrow> time \<Rightarrow> knowledge_base prog" where
  "recordAutoTuneDuration kb result now =
     (case autoTuneStartedAt (status kb) of
        None \<Rightarrow> Done kb
      | Some started \<Rightarrow>
          if started = zero_time then Done kb
          else
            let dur = time_sub now started;
                done = Done (upd_status (\<lambda>s. s\<lparr>autoTuneStartedAt := None\<rparr>) kb)
            in if 0 < dur then Emit (AutoTuneDuration (kb_namespace kb) result dur) done else done)"

section \<open>Reading a Job\<close>

definition JobComplete :: string where "JobComplete = ''Complete''"
definition JobFailed :: string where "JobFailed = ''Failed''"

definition jobComplete :: "job \<Rightarrow> bool" where
  "jobComplete j =
     list_ex (\<lambda>c. jc_type c = JobComplete \<and> jc_status c = ConditionTrue) (job_conditions j)"

definition jobFailed :: "job \<Rightarrow> bool" where
  "jobFailed j =
     list_ex (\<lambda>c. jc_type c = JobFailed \<and> jc_status c = ConditionTrue) (job_conditions j)"

text \<open>The multiplication of two durations wraps in 64 bits.\<close>

definition isActiveJobTimedOut :: "job \<Rightarrow> time option \<Rightarrow> time \<Rightarrow> bool" where
  "isActiveJobTimedOut j started now =
     (case started of
        None \<Rightarrow> False
      | Some t \<Rightarrow>
          if t = zero_time then False
          else
            let deadline = (case job_activeDeadlineSeconds j of None \<Rightarrow> 7200 | Some d \<Rightarrow> d);
                cutoff = t + wrap64 (deadline * second) + 10 * minute
            in cutoff < now)"

definition jobSpecHash :: "job \<Rightarrow> string \<Rightarrow> string" where
  "jobSpecHash j fallback =
     (if lookup_str (m_labels (job_meta j)) labelSpecHash \<noteq> ''''
      then lookup_str (m_labels (job_meta j)) labelSpecHash else fallback)"

definition jobSecretsHash :: "job \<Rightarrow> string \<Rightarrow> string" where
  "jobSecretsHash j fallback =
     (if lookup_str (m_labels (job_meta j)) labelSecretsHash \<noteq> ''''
      then lookup_str (m_labels (job_meta j)) labelSecretsHash else fallback)"

definition activeIngestIsStale :: "job \<Rightarrow> string \<Rightarrow> string \<Rightarrow> string \<Rightarrow> string \<Rightarrow> bool" where
  "activeIngestIsStale j desiredHash desiredSecretsHash observedHash observedSecrets =
     (if jobType j \<noteq> jobTypeIngest then False
      else jobSpecHash j observedHash \<noteq> desiredHash \<or>
           jobSecretsHash j observedSecrets \<noteq> desiredSecretsHash)"

definition ingestFailureRetryDelay :: duration where
  "ingestFailureRetryDelay = 5 * minute"

definition ingestFailureRetryAfter :: "knowledge_base \<Rightarrow> string \<Rightarrow> time \<Rightarrow> duration" where
  "ingestFailureRetryAfter kb desiredHash now =
     (if phase (status kb) \<noteq> PhaseFailed \<or> lastFailedSpecHash (status kb) \<noteq> desiredHash then 0
      else case lastFailureTime (status kb) of
        None \<Rightarrow> 0
      | Some t \<Rightarrow>
          let remaining = time_sub (t + ingestFailureRetryDelay) now
          in if 0 < remaining then remaining else 0)"

definition jobEffectiveChunking :: "job \<Rightarrow> chunking_spec \<Rightarrow> chunking_spec" where
  "jobEffectiveChunking j fallback =
     (if lookup_str (m_labels (job_meta j)) labelChunking = '''' then fallback
      else
        let c = (case splitn3_dot (lookup_str (m_labels (job_meta j)) labelChunking) of
              [a, b, d] \<Rightarrow>
                \<lparr>ch_strategy = a,
                 ch_maxTokens = (case sscanf_d b of None \<Rightarrow> 0 | Some n \<Rightarrow> n),
                 ch_overlap = (case sscanf_d d of None \<Rightarrow> 0 | Some n \<Rightarrow> n)\<rparr>
            | _ \<Rightarrow> \<lparr>ch_strategy = '''', ch_maxTokens = 0, ch_overlap = 0\<rparr>)
        in if ch_strategy c = '''' then fallback else c)"

definition chunkingLabel :: "chunking_spec \<Rightarrow> string" where
  "chunkingLabel c = ch_strategy c @ ''.'' @ itoa (ch_maxTokens c) @ ''.'' @ itoa (ch_overlap c)"

section \<open>Conditions and errors\<close>

definition setCondition ::
  "lib \<Rightarrow> knowledge_base \<Rightarrow> string \<Rightarrow> condition_status \<Rightarrow> string \<Rightarrow> string \<Rightarrow> knowledge_base" where
  "setCondition L kb condType st rsn msg =
     upd_status (\<lambda>s. s\<lparr>conditions := set_status_condition L (conditions s)
       \<lparr>c_type = condType, c_status = st, c_reason = rsn, c_message = msg,
        c_observedGeneration = m_generation (kb_meta kb)\<rparr>\<rparr>) kb"

definition isQuotaExceeded :: "err \<Rightarrow> bool" where
  "isQuotaExceeded e \<longleftrightarrow>
     reason e = Forbidden \<and>
     (contains_str (message e) ''exceeded quota'' \<or> contains_str (message e) ''exceeded limitrange'')"

definition specConfigTooLargeUnchanged :: "lib \<Rightarrow> knowledge_base \<Rightarrow> bool" where
  "specConfigTooLargeUnchanged L kb =
     (case find_status_condition L (conditions (status kb)) ConditionReady of
        None \<Rightarrow> False
      | Some c \<Rightarrow> c_reason c = ''SpecConfigTooLarge'' \<and>
                  c_observedGeneration c = m_generation (kb_meta kb))"

section \<open>Facts about the readings of a Job\<close>

text \<open>The largest deadline, in seconds, whose nanoseconds fit 64 bits.\<close>

definition max_deadline :: int where "max_deadline = 9223372036"

lemma wrap64_deadline: "0 \<le> d \<Longrightarrow> d \<le> max_deadline \<Longrightarrow> wrap64 (d * second) = d * second"
  by (rule wrap64_id) (simp add: in64_def max_deadline_def second_def)

lemma isActiveJobTimedOut_iff:
  assumes "job_activeDeadlineSeconds j = Some d" "0 \<le> d" "d \<le> max_deadline" "t \<noteq> zero_time"
  shows "isActiveJobTimedOut j (Some t) now \<longleftrightarrow> t + d * second + 10 * minute < now"
  using assms by (simp add: isActiveJobTimedOut_def wrap64_deadline)

lemma chunking_label_roundtrip:
  assumes "lookup_str (m_labels (job_meta j)) labelChunking = chunkingLabel c"
    and "ch_strategy c \<noteq> ''''" "CHR ''.'' \<notin> set (ch_strategy c)" "in64 (ch_maxTokens c)" "in64 (ch_overlap c)"
  shows "jobEffectiveChunking j fallback = c"
proof -
  have "chunkingLabel c \<noteq> ''''" using assms(2) by (simp add: chunkingLabel_def)
  moreover have "splitn3_dot (chunkingLabel c) = [ch_strategy c, itoa (ch_maxTokens c), itoa (ch_overlap c)]"
    using splitn3_dot_append [OF assms(3) itoa_no_dot [of "ch_maxTokens c"], of "itoa (ch_overlap c)"]
    by (simp add: chunkingLabel_def)
  ultimately show ?thesis
    using assms by (simp add: jobEffectiveChunking_def sscanf_d_itoa)
qed

section \<open>Facts about the failure delay\<close>

lemma ingestFailureRetryAfter_nonneg: "0 \<le> ingestFailureRetryAfter kb h now"
  by (auto simp: ingestFailureRetryAfter_def Let_def split: option.split)

lemma ingestFailureRetryAfter_le:
  assumes "\<And>t. lastFailureTime (status kb) = Some t \<Longrightarrow> t \<le> now"
  shows "ingestFailureRetryAfter kb h now \<le> ingestFailureRetryDelay"
  using assms
  by (auto simp: ingestFailureRetryAfter_def Let_def time_sub_def ingestFailureRetryDelay_def duration_defs
      split: option.split)

lemma ingestFailureRetryAfter_pos:
  "0 < ingestFailureRetryAfter kb h now \<longleftrightarrow>
     phase (status kb) = PhaseFailed \<and> lastFailedSpecHash (status kb) = h \<and>
     (\<exists>t. lastFailureTime (status kb) = Some t \<and> now < t + ingestFailureRetryDelay)"
  by (auto simp: ingestFailureRetryAfter_def Let_def time_sub_def split: option.split)

section \<open>Facts about the ladder\<close>

text \<open>
  A configuration is usual when its sizes are nonnegative and far from the limits of the integers;
  it is proper when the overlap is at most half of the chunk. A step of the ladder leads from a
  usual configuration to a proper one.
\<close>

definition usual_chunking :: "chunking_spec \<Rightarrow> bool" where
  "usual_chunking c \<longleftrightarrow> 0 \<le> ch_maxTokens c \<and> ch_maxTokens c < 2 ^ 31 \<and> 0 \<le> ch_overlap c \<and> ch_overlap c < 2 ^ 31"

definition proper_chunking :: "chunking_spec \<Rightarrow> bool" where
  "proper_chunking c \<longleftrightarrow>
     0 \<le> ch_overlap c \<and> 2 * ch_overlap c \<le> ch_maxTokens c \<and> ch_maxTokens c < 2 ^ 31"

lemma proper_usual: "proper_chunking c \<Longrightarrow> usual_chunking c"
  by (simp add: proper_chunking_def usual_chunking_def)

lemma wrap64_small: "\<bar>x\<bar> < 2 ^ 62 \<Longrightarrow> wrap64 x = x"
  by (rule wrap64_id) (simp add: in64_def abs_less_iff)

text \<open>On usual configurations nothing wraps and the divisions are those of the integers.\<close>

definition next_rung :: "chunking_spec \<Rightarrow> chunking_spec" where
  "next_rung c =
     (if ch_overlap c + 40 \<le> ch_maxTokens c div 2 then c\<lparr>ch_overlap := ch_overlap c + 40\<rparr>
      else if ch_maxTokens c \<le> 300 then
        \<lparr>ch_strategy = rotateStrategy (ch_strategy c), ch_maxTokens = 800, ch_overlap = 80\<rparr>
      else let m = max 300 (ch_maxTokens c - 200)
           in c\<lparr>ch_maxTokens := m, ch_overlap := m div 5\<rparr>)"

lemma nextChunking_next_rung:
  assumes "usual_chunking c"
  shows "nextChunking c = next_rung c"
proof -
  have w: "wrap64 (ch_overlap c + 40) = ch_overlap c + 40" "wrap64 (ch_maxTokens c - 200) = ch_maxTokens c - 200"
    using assms by (simp_all add: wrap64_small usual_chunking_def abs_less_iff)
  have d: "go_div (ch_maxTokens c) 2 = ch_maxTokens c div 2"
    using assms by (simp add: go_div_nonneg usual_chunking_def)
  have d5: "300 \<le> ch_maxTokens c - 200 \<Longrightarrow> go_div (ch_maxTokens c - 200) 5 = (ch_maxTokens c - 200) div 5"
    "go_div 300 5 = 60"
    by (simp_all add: go_div_nonneg)
  show ?thesis
    using d5
    by (auto simp: nextChunking_def next_rung_def w d Let_def chunkFloor_def max_def not_le not_less)
qed

lemma proper_next_rung: "usual_chunking c \<Longrightarrow> proper_chunking (next_rung c)"
  by (auto simp: next_rung_def proper_chunking_def usual_chunking_def Let_def)

lemma proper_nextChunking: "usual_chunking c \<Longrightarrow> proper_chunking (nextChunking c)"
  by (simp add: nextChunking_next_rung proper_next_rung)

text \<open>The rank of a configuration falls until the strategy rotates.\<close>

definition ladder_rank :: "chunking_spec \<Rightarrow> nat \<times> nat" where
  "ladder_rank c = (nat (ch_maxTokens c - 300), nat (ch_maxTokens c div 2 - ch_overlap c))"

abbreviation ladder_less :: "((nat \<times> nat) \<times> nat \<times> nat) set" where
  "ladder_less \<equiv> less_than <*lex*> less_than"

lemma wf_ladder_less: "wf ladder_less"
  by (intro wf_lex_prod wf_less_than)

definition reset_chunking :: "chunking_strategy \<Rightarrow> chunking_spec" where
  "reset_chunking s = \<lparr>ch_strategy = s, ch_maxTokens = 800, ch_overlap = 80\<rparr>"

lemma next_rung_cases:
  assumes "usual_chunking c"
  shows "(ladder_rank (next_rung c), ladder_rank c) \<in> ladder_less \<and> ch_strategy (next_rung c) = ch_strategy c
    \<or> next_rung c = reset_chunking (rotateStrategy (ch_strategy c))"
  using assms
  by (auto simp: next_rung_def ladder_rank_def usual_chunking_def reset_chunking_def Let_def)

lemma ladder_rotates_aux:
  "usual_chunking c \<Longrightarrow>
   \<exists>n. (nextChunking ^^ Suc n) c = reset_chunking (rotateStrategy (ch_strategy c)) \<and>
       (\<forall>m \<le> n. ch_strategy ((nextChunking ^^ m) c) = ch_strategy c)"
proof (induction "ladder_rank c" arbitrary: c rule: wf_induct_rule [OF wf_ladder_less])
  case 1
  note c = \<open>usual_chunking c\<close>
  show ?case
  proof (cases "next_rung c = reset_chunking (rotateStrategy (ch_strategy c))")
    case True
    with c show ?thesis by (intro exI [of _ 0]) (simp add: nextChunking_next_rung)
  next
    case False
    with next_rung_cases [OF c] have less: "(ladder_rank (next_rung c), ladder_rank c) \<in> ladder_less"
      and st: "ch_strategy (next_rung c) = ch_strategy c" by auto
    from 1(1) [OF less proper_usual [OF proper_next_rung [OF c]]] st
    obtain n where n: "(nextChunking ^^ Suc n) (next_rung c) = reset_chunking (rotateStrategy (ch_strategy c))"
      and m: "\<forall>m \<le> n. ch_strategy ((nextChunking ^^ m) (next_rung c)) = ch_strategy c" by auto
    have shift: "(nextChunking ^^ Suc k) c = (nextChunking ^^ k) (next_rung c)" for k
      using c by (simp add: funpow_Suc_right nextChunking_next_rung del: funpow.simps)
    have "ch_strategy ((nextChunking ^^ k) c) = ch_strategy c" if "k \<le> Suc n" for k
      using that m shift by (cases k) (auto simp del: funpow.simps(2))
    with n show ?thesis by (intro exI [of _ "Suc n"]) (simp only: shift simp_thms, blast)
  qed
qed

section \<open>Programs of this theory\<close>

lemma wp_recordAutoTuneDuration [wp_simps]:
  "wp (recordAutoTuneDuration kb result now) Q \<longleftrightarrow>
     (case autoTuneStartedAt (status kb) of
        None \<Rightarrow> Q [] (Some kb)
      | Some t \<Rightarrow>
          if t = zero_time then Q [] (Some kb)
          else Q (if 0 < time_sub now t then [EvEmit (AutoTuneDuration (kb_namespace kb) result (time_sub now t))] else [])
                 (Some (upd_status (\<lambda>s. s\<lparr>autoTuneStartedAt := None\<rparr>) kb)))"
  by (auto simp: recordAutoTuneDuration_def Let_def split: option.split)

text \<open>The KnowledgeBase after a step of the ladder, with the start time of the run filled in.\<close>

definition tuned :: "time \<Rightarrow> knowledge_base \<Rightarrow> knowledge_base" where
  "tuned t kb =
     upd_status (\<lambda>s.
       let s = s\<lparr>status_effectiveChunking := Some (nextChunking (effectiveChunking kb)),
                 autoTuneAttempts := wrap64 (autoTuneAttempts s + 1)\<rparr>;
           s = (if autoTuneStartedAt s = None then s\<lparr>autoTuneStartedAt := Some t\<rparr> else s)
       in s\<lparr>pendingRetune := True, evaluation := None\<rparr>) kb"

lemma wp_applyAutoTune [wp_simps]:
  "wp (applyAutoTune kb) Q \<longleftrightarrow>
     (if autoTuneStartedAt (status kb) = None
      then \<forall>t. Q [EvNow t] (Some (tuned t kb)) else Q [] (Some (tuned 0 kb)))"
  by (auto simp: applyAutoTune_def tuned_def upd_status_def Let_def)

text \<open>Whether an ingestion is owed, given the reading of the clock.\<close>

definition ingest_owed :: "lib \<Rightarrow> knowledge_base \<Rightarrow> string \<Rightarrow> time \<Rightarrow> bool" where
  "ingest_owed L kb h now \<longleftrightarrow>
     (deferCronIngest (status kb) \<and> activeJob (status kb) = '''') \<or>
     pendingRetune (status kb) \<or>
     observedSpecHash (status kb) = '''' \<or>
     observedEmbeddingModel (status kb) \<noteq> emb_model (ks_embedding (spec kb)) \<or>
     observedSpecHash (status kb) \<noteq> h \<or>
     cronDue L (ks_freshnessSchedule (spec kb)) (time_or_zero (lastIndexedTime (status kb))) now"

lemma cronDue_empty [simp]: "\<not> cronDue L '''' lastRun now"
  by (simp add: cronDue_def)

lemma never_needsIngest:
  "(\<And>t. \<not> P (EvNow t)) \<Longrightarrow> never P (needsIngest L kb h)"
  by (simp add: needsIngest_def)

lemma never_recordAutoTuneDuration:
  "(\<And>e. \<not> P (EvEmit e)) \<Longrightarrow> never P (recordAutoTuneDuration kb r now)"
  by (auto simp: recordAutoTuneDuration_def Let_def split: option.split)

lemma never_applyAutoTune:
  "(\<And>t. \<not> P (EvNow t)) \<Longrightarrow> never P (applyAutoTune kb)"
  by (simp add: applyAutoTune_def Let_def)

section \<open>A KnowledgeBase to try things on\<close>

definition zero_status :: knowledge_base_status where
  "zero_status =
     \<lparr>phase = PhaseUnset, observedGeneration = 0, observedSpecHash = '''', observedSecretsHash = '''',
      lastFailedSpecHash = '''', lastFailureTime = None, observedEmbeddingModel = '''', observedEmbedding = None,
      status_effectiveChunking = None, autoTuneAttempts = 0, autoTuneStartedAt = None, pendingRetune = False,
      bestRecallPercent = 0, bestChunking = None, evalRound = 0, lastIndexedTime = None, indexedChunks = 0,
      lastCheckpoint = [], status_sources = [], evaluation = None, activeJob = '''', activeJobStartedAt = None,
      ingestRound = 0, deferCronIngest = False, conditions = []\<rparr>"

definition demo_spec :: knowledge_base_spec where
  "demo_spec =
     \<lparr>ks_sources = [\<lparr>src_name = ''docs'', src_type = SourceWeb, src_github = None, src_s3 = None,
        src_web = Some \<lparr>web_urls = [''u''], web_maxDepth = 1, web_sameDomainOnly = None, web_maxPages = 5,
                      web_allowPrivateNetworks = False\<rparr>\<rparr>],
      ks_chunking = \<lparr>ch_strategy = '''', ch_maxTokens = 0, ch_overlap = 0\<rparr>,
      ks_embedding = \<lparr>emb_model = ''m'', emb_provider = '''', emb_baseURL = '''', emb_dimension = 0,
        emb_queryPrefix = '''', emb_documentPrefix = '''',
        emb_apiKeySecretRef = Some \<lparr>skr_name = ''s'', skr_key = ''k''\<rparr>\<rparr>,
      ks_vectorStore = \<lparr>vs_type = ''qdrant'', vs_endpoint = ''e'', vs_collection = '''', vs_distance = '''',
        vs_credentialsSecretRef = None\<rparr>,
      ks_freshnessSchedule = ''hourly'',
      ks_ingestion = \<lparr>in_mode = ModeUnset, in_batchSize = 0, in_resources = None, in_serviceAccountName = '''',
        in_nodeSelector = '''', in_tolerations = '''', in_affinity = None, in_ttlSecondsAfterFinished = None,
        in_activeDeadlineSeconds = None, in_modelCacheSizeLimit = ''''\<rparr>,
      ks_retrievalQuality = Some \<lparr>rq_enabled = None, rq_evalSchedule = '''', rq_datasetRef = ''d'', rq_topK = 0,
        rq_minimumRecallPercent = 80,
        rq_autoTune = Some \<lparr>at_enabled = Some True, at_maxAttempts = 2\<rparr>\<rparr>,
      ks_workerImage = '''', ks_suspend = False\<rparr>"

definition demo_kb :: knowledge_base where
  "demo_kb =
     \<lparr>kb_meta = \<lparr>m_name = ''kb'', m_namespace = ''ns'', m_labels = (\<lambda>_. None), m_owners = [],
        m_finalizers = [''rag.furkan.dev/finalizer''], m_generation = 1, m_resourceVersion = ''1'',
        m_creationTimestamp = 0, m_deletionTimestamp = None\<rparr>,
      spec = demo_spec, status = zero_status\<rparr>"

lemmas demo_kb_defs = demo_kb_def demo_spec_def zero_status_def

lemma demo_kb_sels [simp]:
  "phase zero_status = PhaseUnset"
  "observedGeneration zero_status = 0"
  "observedSpecHash zero_status = ''''"
  "observedSecretsHash zero_status = ''''"
  "lastFailedSpecHash zero_status = ''''"
  "lastFailureTime zero_status = None"
  "observedEmbeddingModel zero_status = ''''"
  "observedEmbedding zero_status = None"
  "status_effectiveChunking zero_status = None"
  "autoTuneAttempts zero_status = 0"
  "autoTuneStartedAt zero_status = None"
  "pendingRetune zero_status = False"
  "bestRecallPercent zero_status = 0"
  "bestChunking zero_status = None"
  "evalRound zero_status = 0"
  "lastIndexedTime zero_status = None"
  "indexedChunks zero_status = 0"
  "lastCheckpoint zero_status = []"
  "status_sources zero_status = []"
  "evaluation zero_status = None"
  "activeJob zero_status = ''''"
  "activeJobStartedAt zero_status = None"
  "ingestRound zero_status = 0"
  "deferCronIngest zero_status = False"
  "conditions zero_status = []"
  "ks_sources demo_spec = [\<lparr>src_name = ''docs'', src_type = SourceWeb, src_github = None, src_s3 = None, src_web = Some \<lparr>web_urls = [''u''], web_maxDepth = 1, web_sameDomainOnly = None, web_maxPages = 5, web_allowPrivateNetworks = False\<rparr>\<rparr>]"
  "ks_chunking demo_spec = \<lparr>ch_strategy = '''', ch_maxTokens = 0, ch_overlap = 0\<rparr>"
  "ks_embedding demo_spec = \<lparr>emb_model = ''m'', emb_provider = '''', emb_baseURL = '''', emb_dimension = 0, emb_queryPrefix = '''', emb_documentPrefix = '''', emb_apiKeySecretRef = Some \<lparr>skr_name = ''s'', skr_key = ''k''\<rparr>\<rparr>"
  "ks_vectorStore demo_spec = \<lparr>vs_type = ''qdrant'', vs_endpoint = ''e'', vs_collection = '''', vs_distance = '''', vs_credentialsSecretRef = None\<rparr>"
  "ks_freshnessSchedule demo_spec = ''hourly''"
  "ks_ingestion demo_spec = \<lparr>in_mode = ModeUnset, in_batchSize = 0, in_resources = None, in_serviceAccountName = '''', in_nodeSelector = '''', in_tolerations = '''', in_affinity = None, in_ttlSecondsAfterFinished = None, in_activeDeadlineSeconds = None, in_modelCacheSizeLimit = ''''\<rparr>"
  "ks_retrievalQuality demo_spec = Some \<lparr>rq_enabled = None, rq_evalSchedule = '''', rq_datasetRef = ''d'', rq_topK = 0, rq_minimumRecallPercent = 80, rq_autoTune = Some \<lparr>at_enabled = Some True, at_maxAttempts = 2\<rparr>\<rparr>"
  "ks_workerImage demo_spec = ''''"
  "ks_suspend demo_spec = False"
  "kb_meta demo_kb = \<lparr>m_name = ''kb'', m_namespace = ''ns'', m_labels = (\<lambda>_. None), m_owners = [], m_finalizers = [''rag.furkan.dev/finalizer''], m_generation = 1, m_resourceVersion = ''1'', m_creationTimestamp = 0, m_deletionTimestamp = None\<rparr>"
  "spec demo_kb = demo_spec"
  "status demo_kb = zero_status"
  by (simp_all add: demo_kb_defs)

section \<open>Properties\<close>

text \<open>
  A step of the auto-tune ladder keeps the chunking proper: from sizes that are nonnegative and
  below two to the thirty-first, the new overlap is nonnegative and at most half of the new chunk,
  and the chunk is never shrunk below the floor of 300 tokens.
\<close>

theorem nextChunking_keeps_proper:
  assumes "usual_chunking c"
  shows "proper_chunking (nextChunking c) \<and> min chunkFloor (ch_maxTokens c) \<le> ch_maxTokens (nextChunking c)"
  using assms proper_nextChunking [of c]
  by (auto simp: nextChunking_next_rung next_rung_def Let_def chunkFloor_def)

theorem nextChunking_keeps_proper_witness:
  "usual_chunking \<lparr>ch_strategy = ''fixed'', ch_maxTokens = 350, ch_overlap = 170\<rparr> \<and>
   proper_chunking (nextChunking \<lparr>ch_strategy = ''fixed'', ch_maxTokens = 350, ch_overlap = 170\<rparr>)"
proof -
  have u: "usual_chunking \<lparr>ch_strategy = ''fixed'', ch_maxTokens = 350, ch_overlap = 170\<rparr>"
    by (simp add: usual_chunking_def)
  from nextChunking_keeps_proper [OF u] u show ?thesis by simp
qed

text \<open>
  C32. The ladder never gets stuck: from every usual configuration finitely many steps lead to the
  reset sizes (800 tokens, overlap 80) under the next split strategy, and the strategy does not
  change before.
\<close>

theorem ladder_rotates:
  assumes "usual_chunking c"
  shows "\<exists>n. (nextChunking ^^ Suc n) c = reset_chunking (rotateStrategy (ch_strategy c)) \<and>
             (\<forall>m \<le> n. ch_strategy ((nextChunking ^^ m) c) = ch_strategy c)"
  using assms by (rule ladder_rotates_aux)

theorem ladder_rotates_witness:
  "\<exists>n. (nextChunking ^^ Suc n) (reset_chunking ChunkSemantic) = reset_chunking ChunkRecursive"
proof -
  have u: "usual_chunking (reset_chunking ChunkSemantic)"
    by (simp add: usual_chunking_def reset_chunking_def)
  from ladder_rotates [OF u] show ?thesis
    by (auto simp: reset_chunking_def rotateStrategy_def)
qed

text \<open>
  A Job is given up exactly ten minutes after its deadline: with a known start and a deadline
  of at most 9223372036 seconds, \<open>isActiveJobTimedOut\<close> holds iff the deadline and the grace period
  have passed.
\<close>

theorem timed_out_after_deadline_and_grace:
  assumes "job_activeDeadlineSeconds j = Some d" "0 \<le> d" "d \<le> max_deadline" "t \<noteq> zero_time"
  shows "isActiveJobTimedOut j (Some t) now \<longleftrightarrow> t + d * second + 10 * minute < now"
  using assms by (rule isActiveJobTimedOut_iff)

definition demo_job :: job where
  "demo_job =
     \<lparr>job_meta = kb_meta demo_kb, job_backoffLimit = 2, job_ttlSecondsAfterFinished = 300,
      job_activeDeadlineSeconds = Some 60, job_templateLabels = (\<lambda>_. None),
      job_pod = \<lparr>pod_restartPolicy = '''', pod_serviceAccountName = '''', pod_priorityClassName = '''',
        pod_terminationGracePeriodSeconds = 0,
        pod_security = \<lparr>psc_runAsNonRoot = True, psc_runAsUser = 1, psc_runAsGroup = 1, psc_fsGroup = 1,
          psc_seccompProfile = ''''\<rparr>,
        pod_volumes = [], pod_nodeSelector = '''', pod_tolerations = '''', pod_affinity = None,
        pod_containers = []\<rparr>,
      job_conditions = []\<rparr>"

theorem timed_out_after_deadline_and_grace_witness:
  "isActiveJobTimedOut demo_job (Some 0) (660 * second + 1) \<and> \<not> isActiveJobTimedOut demo_job (Some 0) (660 * second)"
proof -
  have d: "job_activeDeadlineSeconds demo_job = Some 60" by (simp add: demo_job_def)
  have "isActiveJobTimedOut demo_job (Some 0) now \<longleftrightarrow> 0 + 60 * second + 10 * minute < now" for now
    by (rule timed_out_after_deadline_and_grace [OF d]) (simp_all add: max_deadline_def zero_time_def)
  then show ?thesis by (simp add: duration_defs)
qed

text \<open>
  A deadline of 9223372037 seconds or a little more overflows the nanoseconds of a duration:
  the Job counts as timed out at the very moment it starts.
\<close>

theorem deadline_overflow_times_out_at_once:
  assumes "job_activeDeadlineSeconds j = Some d" "max_deadline < d" "d \<le> 18446743473" "t \<noteq> zero_time"
  shows "isActiveJobTimedOut j (Some t) t"
proof -
  have "wrap64 (d * second) = d * second - 2 ^ 64"
  proof -
    have "0 \<le> d * second + 2 ^ 63 - 2 ^ 64" "d * second + 2 ^ 63 - 2 ^ 64 < 2 ^ 64"
      using assms(2,3) by (simp_all add: max_deadline_def second_def)
    then have "(d * second + 2 ^ 63 - 2 ^ 64) mod 2 ^ 64 = d * second + 2 ^ 63 - 2 ^ 64"
      by (rule mod_pos_pos_trivial)
    moreover have "(d * second + 2 ^ 63 - 2 ^ 64) mod 2 ^ 64 = (d * second + 2 ^ 63) mod 2 ^ 64"
      by (rule minus_mod_self2)
    ultimately show ?thesis by (simp add: wrap64_def)
  qed
  with assms show ?thesis
    by (simp add: isActiveJobTimedOut_def second_def minute_def)
qed

theorem deadline_overflow_times_out_at_once_witness:
  "isActiveJobTimedOut (demo_job\<lparr>job_activeDeadlineSeconds := Some 9223372037\<rparr>) (Some 0) 0"
  by (rule deadline_overflow_times_out_at_once [of _ 9223372037])
    (simp_all add: max_deadline_def zero_time_def)

text \<open>
  After a failed ingestion the same spec is not tried again for five minutes: the wait is
  positive exactly while the KnowledgeBase is in phase Failed for this spec and the five minutes
  are not over, and it never exceeds them when the failure lies in the past.
\<close>

theorem failure_backoff:
  assumes "\<forall>t. lastFailureTime (status kb) = Some t \<longrightarrow> t \<le> now"
  shows "0 \<le> ingestFailureRetryAfter kb h now \<and> ingestFailureRetryAfter kb h now \<le> 5 * minute \<and>
         (0 < ingestFailureRetryAfter kb h now \<longleftrightarrow>
            phase (status kb) = PhaseFailed \<and> lastFailedSpecHash (status kb) = h \<and>
            (\<exists>t. lastFailureTime (status kb) = Some t \<and> now < t + 5 * minute))"
  using assms ingestFailureRetryAfter_nonneg ingestFailureRetryAfter_le [of kb now h]
    ingestFailureRetryAfter_pos [of kb h now]
  by (simp add: ingestFailureRetryDelay_def)

theorem failure_backoff_witness:
  "0 < ingestFailureRetryAfter
     (upd_status (\<lambda>s. s\<lparr>phase := PhaseFailed, lastFailedSpecHash := ''h'', lastFailureTime := Some 0\<rparr>) demo_kb) ''h'' minute"
  using failure_backoff [of "upd_status (\<lambda>s. s\<lparr>phase := PhaseFailed, lastFailedSpecHash := ''h'', lastFailureTime := Some 0\<rparr>) demo_kb"
      minute "''h''"]
  by (simp add: duration_defs)

text \<open>
  The corpus fingerprint depends on the sources, the requested chunking, the embedding and the
  vector store only: neither the status - an auto-tuned chunking included - nor the schedule, the
  ingestion settings, the retrieval quality, the worker image or suspension move it.
\<close>

theorem corpusHash_depends_on_corpus:
  assumes "ks_sources (spec kb) = ks_sources (spec kb')" "ks_chunking (spec kb) = ks_chunking (spec kb')"
    and "ks_embedding (spec kb) = ks_embedding (spec kb')" "ks_vectorStore (spec kb) = ks_vectorStore (spec kb')"
  shows "corpusHash L kb = corpusHash L kb'"
  using assms by (simp add: corpusHash_def specChunking_def)

theorem corpusHash_depends_on_corpus_witness:
  "corpusHash demo_lib (upd_status (\<lambda>s. s\<lparr>status_effectiveChunking := Some (reset_chunking ChunkFixed)\<rparr>) demo_kb) =
   corpusHash demo_lib demo_kb \<and>
   effectiveChunking (upd_status (\<lambda>s. s\<lparr>status_effectiveChunking := Some (reset_chunking ChunkFixed)\<rparr>) demo_kb) \<noteq>
   effectiveChunking demo_kb"
proof
  show "corpusHash demo_lib (upd_status (\<lambda>s. s\<lparr>status_effectiveChunking := Some (reset_chunking ChunkFixed)\<rparr>) demo_kb) =
    corpusHash demo_lib demo_kb"
    by (rule corpusHash_depends_on_corpus) simp_all
  show "effectiveChunking (upd_status (\<lambda>s. s\<lparr>status_effectiveChunking := Some (reset_chunking ChunkFixed)\<rparr>) demo_kb) \<noteq>
    effectiveChunking demo_kb"
    by (simp add: effectiveChunking_def specChunking_def demo_kb_defs reset_chunking_def strategy_defs)
qed

end
