(* ===== verification/Naming.thy ===== *)
theory Naming
  imports Lib
begin

text \<open>
  The names of the objects the operator creates (\<open>internal/controller/jobs.go\<close>). Kubernetes
  limits a name used as a label to 63 bytes; a longer one is cut and made unique by a digest.
\<close>

section \<open>Bounded names\<close>

definition trunc_name :: "lib \<Rightarrow> string \<Rightarrow> string" where
  "trunc_name L name =
     (if length name \<le> 63 then name
      else let hash = hex (take 4 (sha256 L name));
               pre = trim_right_dash (take (63 - 1 - length hash) name)
           in pre @ ''-'' @ hash)"

definition name_with_suffix :: "lib \<Rightarrow> string \<Rightarrow> string \<Rightarrow> string" where
  "name_with_suffix L name sfx =
     (if length name + length sfx \<le> 63 then name @ sfx
      else let hash = hex (take 4 (sha256 L (name @ sfx)));
               maxBase = 63 - length sfx - 1 - length hash;
               base = trim_right_dash (take maxBase name)
           in base @ ''-'' @ hash @ sfx)"

definition resultConfigMapName :: "lib \<Rightarrow> string \<Rightarrow> string" where
  "resultConfigMapName L jobName = name_with_suffix L jobName ''-result''"

definition checkpointConfigMapName :: "lib \<Rightarrow> string \<Rightarrow> string" where
  "checkpointConfigMapName L jobName = name_with_suffix L jobName ''-checkpoint''"

definition specConfigMapName :: "lib \<Rightarrow> string \<Rightarrow> string" where
  "specConfigMapName L jobName = name_with_suffix L jobName ''-spec''"

lemma length_digest4: "sha256_size L \<Longrightarrow> length (hex (take 4 (sha256 L s))) = 8"
  by (simp add: sha256_size_def)

lemma length_trunc_name: "sha256_size L \<Longrightarrow> length (trunc_name L name) \<le> 63"
proof (cases "length name \<le> 63")
  case True
  then show ?thesis by (simp add: trunc_name_def)
next
  case False
  assume "sha256_size L"
  moreover have "length (trim_right_dash (take 54 name)) \<le> 54"
    using length_trim_right_dash [of "take 54 name"] by simp
  ultimately show ?thesis using False by (simp add: trunc_name_def Let_def sha256_size_def)
qed

lemma length_name_with_suffix:
  "sha256_size L \<Longrightarrow> length sfx \<le> 54 \<Longrightarrow> length (name_with_suffix L name sfx) \<le> 63"
proof (cases "length name + length sfx \<le> 63")
  case True
  then show ?thesis by (simp add: name_with_suffix_def)
next
  case False
  assume L: "sha256_size L" and s: "length sfx \<le> 54"
  have "length (trim_right_dash (take (54 - length sfx) name)) \<le> 54 - length sfx"
    using length_trim_right_dash [of "take (54 - length sfx) name"] by simp
  with L s False show ?thesis by (simp add: name_with_suffix_def Let_def sha256_size_def)
qed

lemma suffix_name_with_suffix: "suffix sfx (name_with_suffix L name sfx)"
  by (auto simp: name_with_suffix_def Let_def suffix_def)

lemma name_with_suffix_short: "length name + length sfx \<le> 63 \<Longrightarrow> name_with_suffix L name sfx = name @ sfx"
  by (simp add: name_with_suffix_def)

lemma trunc_name_short: "length name \<le> 63 \<Longrightarrow> trunc_name L name = name"
  by (simp add: trunc_name_def)

lemma trunc_name_idem: "sha256_size L \<Longrightarrow> trunc_name L (trunc_name L name) = trunc_name L name"
  using length_trunc_name by (simp add: trunc_name_short)

section \<open>The contract of a derived name\<close>

text \<open>
  The operator derives the names of a Job's ConfigMaps from the Job's name. Its clients rely on two
  laws: the name fits (when the digest has its documented size), and it shows what it is for by its
  suffix. Two namers with different last letters never answer the same name, whatever the digest.
\<close>

locale derived_name =
  fixes namer :: "string \<Rightarrow> string" and sfx :: string and digest_ok :: bool
  assumes name_fits: "digest_ok \<Longrightarrow> length (namer s) \<le> 63"
    and name_shows: "suffix sfx (namer s)"
    and name_keeps: "length s + length sfx \<le> 63 \<Longrightarrow> namer s = s @ sfx"
    and sfx_nonempty: "sfx \<noteq> []"
begin

lemma last_name: "last (namer s) = last sfx"
  using name_shows [of s] sfx_nonempty by (auto simp: suffix_def)

lemma name_nonempty: "namer s \<noteq> []"
  using name_shows [of s] sfx_nonempty by (auto simp: suffix_def)

lemma not_suffix_differs: "\<not> suffix sfx n \<Longrightarrow> namer s \<noteq> n"
  using name_shows [of s] by auto

lemma inj_short:
  "length s + length sfx \<le> 63 \<Longrightarrow> length t + length sfx \<le> 63 \<Longrightarrow> namer s = namer t \<Longrightarrow> s = t"
  by (simp add: name_keeps)

end

interpretation result_name: derived_name "resultConfigMapName L" "''-result''" "sha256_size L" for L
  by unfold_locales
    (simp_all add: resultConfigMapName_def length_name_with_suffix suffix_name_with_suffix
      name_with_suffix_short)

interpretation checkpoint_name: derived_name "checkpointConfigMapName L" "''-checkpoint''" "sha256_size L" for L
  by unfold_locales
    (simp_all add: checkpointConfigMapName_def length_name_with_suffix suffix_name_with_suffix
      name_with_suffix_short)

interpretation spec_name: derived_name "specConfigMapName L" "''-spec''" "sha256_size L" for L
  by unfold_locales
    (simp_all add: specConfigMapName_def length_name_with_suffix suffix_name_with_suffix
      name_with_suffix_short)

lemma derived_names_differ:
  "resultConfigMapName L a \<noteq> checkpointConfigMapName L b"
  "resultConfigMapName L a \<noteq> specConfigMapName L b"
  "checkpointConfigMapName L a \<noteq> specConfigMapName L b"
proof -
  have r: "suffix ''-result'' (resultConfigMapName L a)" by (rule result_name.name_shows)
  have "\<not> suffix ''-result'' (checkpointConfigMapName L b)" "\<not> suffix ''-result'' (specConfigMapName L b)"
    using checkpoint_name.name_shows [of L b] spec_name.name_shows [of L b] by (auto simp: suffix_def)
  with r show "resultConfigMapName L a \<noteq> checkpointConfigMapName L b"
    "resultConfigMapName L a \<noteq> specConfigMapName L b" by auto
  show "checkpointConfigMapName L a \<noteq> specConfigMapName L b"
    using checkpoint_name.last_name [of L a] spec_name.last_name [of L b] by auto
qed

section \<open>Properties\<close>

text \<open>
  C36. Every derived name fits the 63 bytes of a Kubernetes label, keeps its suffix, and the three
  ConfigMaps of the Jobs - result, checkpoint and spec - never share a name, whatever the Jobs'
  names are.
\<close>

theorem derived_names_fit_and_differ:
  assumes "sha256_size L"
  shows "length (resultConfigMapName L a) \<le> 63 \<and> length (checkpointConfigMapName L a) \<le> 63 \<and>
         length (specConfigMapName L a) \<le> 63 \<and> length (trunc_name L a) \<le> 63 \<and>
         distinct [resultConfigMapName L a, checkpointConfigMapName L b, specConfigMapName L c]"
  using result_name.name_fits checkpoint_name.name_fits spec_name.name_fits length_trunc_name assms
    derived_names_differ
  by simp

theorem derived_names_fit_and_differ_witness:
  "length (resultConfigMapName demo_lib (replicate 80 (CHR ''a''))) \<le> 63 \<and>
   length (trunc_name demo_lib (replicate 80 (CHR ''-''))) \<le> 63"
  using derived_names_fit_and_differ [OF demo_lib_sha256] by simp

end
