(* ===== verification/Jobs.thy ===== *)
theory Jobs
  imports Decisions Naming
begin

text \<open>
  The Jobs, ConfigMaps and pod templates the operator renders (\<open>internal/controller/jobs.go\<close>, with
  \<open>embeddingDimension\<close> of \<open>vectorindex_helpers.go\<close> and \<open>workerServiceAccountName\<close> of
  \<open>worker_identity.go\<close>). \<open>resource.MustParse\<close> panics on a bad quantity, so a builder is a
  program; the errors it returns are values.
\<close>

section \<open>Reading and deleting worker ConfigMaps\<close>

definition readResult :: "lib \<Rightarrow> (string \<Rightarrow> err + 'a) \<Rightarrow> string \<Rightarrow> string \<Rightarrow> (err + 'a) prog" where
  "readResult L parse ns jobName =
     (let name = resultConfigMapName L jobName
      in GetConfigMap (ns, name) (\<lambda>res.
           case res of
             Inl e \<Rightarrow> Done (Inl e)
           | Inr cm \<Rightarrow>
               (case cm_data cm ''result.json'' of
                  None \<Rightarrow> Done (Inl (Err OtherReason (''result configmap '' @ name @ '' missing result.json'')))
                | Some raw \<Rightarrow> Done (parse raw))))"

definition readCheckpointResult :: "lib \<Rightarrow> string \<Rightarrow> string \<Rightarrow> ingest_source_result list prog" where
  "readCheckpointResult L ns jobName =
     GetConfigMap (ns, checkpointConfigMapName L jobName) (\<lambda>res.
       case res of
         Inl e \<Rightarrow> Done []
       | Inr cm \<Rightarrow>
           (case cm_data cm ''checkpoint.json'' of
              None \<Rightarrow> Done []
            | Some raw \<Rightarrow>
                if raw = '''' then Done []
                else (case parse_checkpoint L raw of Inl e \<Rightarrow> Done [] | Inr rs \<Rightarrow> Done rs)))"

definition deleteResult :: "lib \<Rightarrow> string \<Rightarrow> string \<Rightarrow> unit prog" where
  "deleteResult L ns jobName =
     Delete KindConfigMap DefaultPropagation (ns, resultConfigMapName L jobName) (\<lambda>_. Done ())"

definition deleteSpecConfigMap :: "lib \<Rightarrow> string \<Rightarrow> string \<Rightarrow> unit prog" where
  "deleteSpecConfigMap L ns jobName =
     Delete KindConfigMap DefaultPropagation (ns, specConfigMapName L jobName) (\<lambda>_. Done ())"

definition deleteCheckpointConfigMap :: "lib \<Rightarrow> string \<Rightarrow> string \<Rightarrow> unit prog" where
  "deleteCheckpointConfigMap L ns jobName =
     Delete KindConfigMap DefaultPropagation (ns, checkpointConfigMapName L jobName) (\<lambda>_. Done ())"

text \<open>The error of the deletion is only logged.\<close>

definition deleteJob :: "job \<Rightarrow> unit prog" where
  "deleteJob j =
     Delete KindJob BackgroundPropagation (m_namespace (job_meta j), job_name j) (\<lambda>_. Done ())"

section \<open>The worker container\<close>

definition defaultWorkerImage :: string where
  "defaultWorkerImage = ''ghcr.io/furkandogmus/kuberag-worker:latest''"

definition workerImage :: "knowledge_base \<Rightarrow> string" where
  "workerImage kb = (if ks_workerImage (spec kb) \<noteq> '''' then ks_workerImage (spec kb) else defaultWorkerImage)"

definition workerServiceAccountName :: "lib \<Rightarrow> knowledge_base \<Rightarrow> string" where
  "workerServiceAccountName L kb =
     (if in_serviceAccountName (ks_ingestion (spec kb)) \<noteq> ''''
      then in_serviceAccountName (ks_ingestion (spec kb))
      else trunc_name L (kb_name kb @ ''-worker''))"

definition plainEnv :: "string \<Rightarrow> string \<Rightarrow> env_var" where
  "plainEnv n v = \<lparr>env_name = n, env_value = v, env_secret = None\<rparr>"

definition secretEnv :: "string \<Rightarrow> secret_key_ref \<Rightarrow> env_var" where
  "secretEnv n ref = \<lparr>env_name = n, env_value = '''', env_secret = Some ref\<rparr>"

definition sourceEnv :: "source \<Rightarrow> env_var list" where
  "sourceEnv s =
     (case (case src_github s of None \<Rightarrow> None | Some g \<Rightarrow> gh_tokenSecretRef g) of
        Some ref \<Rightarrow> [secretEnv (''GITHUB_TOKEN_'' @ src_name s) ref]
      | None \<Rightarrow>
          (case src_s3 s of
             None \<Rightarrow> []
           | Some b \<Rightarrow>
               (case s3_accessKeySecretRef b of None \<Rightarrow> [] | Some ref \<Rightarrow> [secretEnv (''S3_ACCESS_KEY_'' @ src_name s) ref]) @
               (case s3_secretKeySecretRef b of None \<Rightarrow> [] | Some ref \<Rightarrow> [secretEnv (''S3_SECRET_KEY_'' @ src_name s) ref])))"

definition credentialEnv :: "knowledge_base \<Rightarrow> env_var list" where
  "credentialEnv kb =
     concat (map sourceEnv (ks_sources (spec kb))) @
     (case emb_apiKeySecretRef (ks_embedding (spec kb)) of
        None \<Rightarrow> [] | Some ref \<Rightarrow> [secretEnv ''EMBEDDING_API_KEY'' ref]) @
     (case vs_credentialsSecretRef (ks_vectorStore (spec kb)) of
        None \<Rightarrow> [] | Some ref \<Rightarrow> [secretEnv ''VECTORSTORE_CREDENTIAL'' ref])"

definition resourceRequirements :: "lib \<Rightarrow> resource_spec option \<Rightarrow> err + resource_requirements" where
  "resourceRequirements L rr =
     (let out = \<lparr>req_cpu = ''250m'', req_memory = ''1Gi'', lim_cpu = ''2'', lim_memory = ''4Gi''\<rparr>
      in case rr of
           None \<Rightarrow> Inr out
         | Some r \<Rightarrow>
             (case (if rr_cpu r \<noteq> '''' then
                      (case quantity_error L (rr_cpu r) of
                         Some e \<Rightarrow> Inl (Err (reason e) (''invalid ingestion resources.cpu '' @ quote L (rr_cpu r) @ '': '' @ message e))
                       | None \<Rightarrow> Inr (out\<lparr>req_cpu := rr_cpu r, lim_cpu := rr_cpu r\<rparr>))
                    else Inr out) of
                Inl e \<Rightarrow> Inl e
              | Inr out \<Rightarrow>
                  if rr_memory r \<noteq> '''' then
                    (case quantity_error L (rr_memory r) of
                       Some e \<Rightarrow> Inl (Err (reason e) (''invalid ingestion resources.memory '' @ quote L (rr_memory r) @ '': '' @ message e))
                     | None \<Rightarrow> Inr (out\<lparr>req_memory := rr_memory r, lim_memory := rr_memory r\<rparr>))
                  else Inr out))"

section \<open>Security contexts and scratch space\<close>

definition nonRootUID :: int where "nonRootUID = 65532"

definition hardenedPodSecurityContext :: pod_security_context where
  "hardenedPodSecurityContext =
     \<lparr>psc_runAsNonRoot = True, psc_runAsUser = nonRootUID, psc_runAsGroup = nonRootUID,
      psc_fsGroup = nonRootUID, psc_seccompProfile = ''RuntimeDefault''\<rparr>"

definition hardenedContainerSecurityContext :: container_security_context where
  "hardenedContainerSecurityContext =
     \<lparr>csc_runAsNonRoot = True, csc_allowPrivilegeEscalation = False, csc_readOnlyRootFilesystem = True,
      csc_dropCapabilities = [''ALL''], csc_seccompProfile = ''RuntimeDefault''\<rparr>"

text \<open>\<open>MustParse\<close> panics when the size limit is no quantity.\<close>

definition scratchVolume :: "lib \<Rightarrow> string \<Rightarrow> volume prog" where
  "scratchVolume L cacheSizeLimit =
     (if cacheSizeLimit \<noteq> '''' then
        (case quantity_error L cacheSizeLimit of
           Some e \<Rightarrow> Panic
         | None \<Rightarrow> Done \<lparr>vol_name = ''scratch'', vol_source = EmptyDir (Some cacheSizeLimit)\<rparr>)
      else Done \<lparr>vol_name = ''scratch'', vol_source = EmptyDir None\<rparr>)"

definition scratchMount :: volume_mount where
  "scratchMount = \<lparr>vm_name = ''scratch'', vm_mountPath = ''/scratch'', vm_readOnly = False\<rparr>"

definition scratchEnv :: "env_var list" where
  "scratchEnv =
     [plainEnv ''HOME'' ''/scratch'',
      plainEnv ''TMPDIR'' ''/scratch'',
      plainEnv ''XDG_CACHE_HOME'' ''/scratch/.cache'',
      plainEnv ''HF_HOME'' ''/scratch/.cache/huggingface'',
      plainEnv ''FASTEMBED_CACHE_PATH'' ''/scratch/.cache/fastembed'',
      plainEnv ''PYTHONDONTWRITEBYTECODE'' ''1'']"

definition specVolume :: "string \<Rightarrow> volume" where
  "specVolume cmName = \<lparr>vol_name = ''spec'', vol_source = ConfigMapVolume cmName\<rparr>"

definition specMount :: volume_mount where
  "specMount = \<lparr>vm_name = ''spec'', vm_mountPath = ''/etc/kuberag'', vm_readOnly = True\<rparr>"

section \<open>The spec handed to the worker\<close>

definition embeddingDimension :: "embedding_spec \<Rightarrow> int" where
  "embeddingDimension e =
     (if 0 < emb_dimension e then emb_dimension e
      else if emb_model e = ''bge-small'' then 384
      else if emb_model e = ''bge-large'' then 1024
      else if emb_model e = ''text-embedding-004'' \<or> emb_model e = ''text-embedding-005'' then 768
      else if emb_model e = ''text-embedding-3-small'' then 1536
      else if emb_model e = ''text-embedding-3-large'' \<or> emb_model e = ''gemini-embedding-001'' then 3072
      else if emb_provider e = '''' \<or> emb_provider e = ''local'' then 384
      else 0)"

definition resolveDimension :: "embedding_spec \<Rightarrow> embedding_spec" where
  "resolveDimension e = (if emb_dimension e = 0 then e\<lparr>emb_dimension := embeddingDimension e\<rparr> else e)"

definition marshalEffectiveSpec :: "lib \<Rightarrow> knowledge_base \<Rightarrow> chunking_spec \<Rightarrow> err + string" where
  "marshalEffectiveSpec L kb eff =
     json_spec L ((spec kb)\<lparr>ks_chunking := eff, ks_embedding := resolveDimension (ks_embedding (spec kb))\<rparr>)"

definition marshalQuerySpec :: "lib \<Rightarrow> knowledge_base \<Rightarrow> err + string" where
  "marshalQuerySpec L kb =
     json_query_spec L (resolveDimension (ks_embedding (spec kb))) (ks_vectorStore (spec kb))"

definition marshalStoreSpec :: "lib \<Rightarrow> knowledge_base \<Rightarrow> err + string" where
  "marshalStoreSpec L kb = json_store_spec L (ks_vectorStore (spec kb))"

definition maxConfigMapBytes :: nat where "maxConfigMapBytes = 950 * 1024"

definition specConfigMapSizeOK :: "string \<Rightarrow> bool" where
  "specConfigMapSizeOK specJSON \<longleftrightarrow> length specJSON \<le> maxConfigMapBytes"

text \<open>The metadata of an object the controllers build: name, namespace, labels and nothing else.\<close>

definition new_meta :: "string \<Rightarrow> string \<Rightarrow> (string \<rightharpoonup> string) \<Rightarrow> object_meta" where
  "new_meta n ns ls =
     \<lparr>m_name = n, m_namespace = ns, m_labels = ls, m_owners = [], m_finalizers = [], m_generation = 0,
      m_resourceVersion = '''', m_creationTimestamp = zero_time, m_deletionTimestamp = None\<rparr>"

definition specConfigMap :: "string \<Rightarrow> string \<Rightarrow> string \<Rightarrow> config_map" where
  "specConfigMap ns name specJSON =
     \<lparr>cm_meta = new_meta name ns [labelManagedBy \<mapsto> ''kuberag''], cm_data = [''spec.json'' \<mapsto> specJSON]\<rparr>"

text \<open>Checkpointed sources are appended to the synced ones unless a synced one has the name.\<close>

definition mergeCheckpoint :: "knowledge_base_status \<Rightarrow> source_status list" where
  "mergeCheckpoint st =
     (let sources = status_sources st;
          seen = set (map ss_name sources)
      in if lastCheckpoint st \<noteq> []
         then sources @ toSourceStatus (filter (\<lambda>c. isr_name c \<notin> seen) (lastCheckpoint st))
         else sources)"

definition priorSourcesJSON :: "lib \<Rightarrow> knowledge_base \<Rightarrow> string" where
  "priorSourcesJSON L kb = json_sources L (mergeCheckpoint (status kb))"

definition defaultInt :: "int \<Rightarrow> int \<Rightarrow> int" where
  "defaultInt v def = (if v = 0 then def else v)"

definition ignoreAlreadyExists :: "err option \<Rightarrow> err option" where
  "ignoreAlreadyExists e =
     (case e of None \<Rightarrow> None | Some x \<Rightarrow> if is_already_exists x then None else Some x)"

section \<open>The Jobs\<close>

definition workerContainer ::
  "knowledge_base \<Rightarrow> string list \<Rightarrow> env_var list \<Rightarrow> resource_requirements \<Rightarrow> container" where
  "workerContainer kb args env res =
     \<lparr>con_name = ''worker'', con_image = workerImage kb, con_imagePullPolicy = ''IfNotPresent'',
      con_args = args, con_env = env, con_resources = res,
      con_security = hardenedContainerSecurityContext, con_mounts = [scratchMount, specMount]\<rparr>"

definition workerPod ::
  "lib \<Rightarrow> knowledge_base \<Rightarrow> volume list \<Rightarrow> container \<Rightarrow> pod_spec" where
  "workerPod L kb vols c =
     \<lparr>pod_restartPolicy = ''Never'', pod_serviceAccountName = workerServiceAccountName L kb,
      pod_priorityClassName = ''kuberag-system'', pod_terminationGracePeriodSeconds = 120,
      pod_security = hardenedPodSecurityContext, pod_volumes = vols,
      pod_nodeSelector = in_nodeSelector (ks_ingestion (spec kb)),
      pod_tolerations = in_tolerations (ks_ingestion (spec kb)),
      pod_affinity = in_affinity (ks_ingestion (spec kb)), pod_containers = [c]\<rparr>"

definition baseEnv :: "lib \<Rightarrow> knowledge_base \<Rightarrow> string \<Rightarrow> env_var list" where
  "baseEnv L kb name =
     [plainEnv ''KB_NAME'' (kb_name kb), plainEnv ''KB_NAMESPACE'' (kb_namespace kb),
      plainEnv ''KB_SPEC_PATH'' ''/etc/kuberag/spec.json'',
      plainEnv ''RESULT_CONFIGMAP'' (resultConfigMapName L name)]"

text \<open>The trace context of the pass, as the propagator wrote it to its carrier.\<close>

definition traceEnv :: "lib \<Rightarrow> env_var list" where
  "traceEnv L = map (\<lambda>(k, v). plainEnv k v) (trace_carrier L)"

definition baseJob ::
  "lib \<Rightarrow> knowledge_base \<Rightarrow> string \<Rightarrow> string \<Rightarrow> string \<Rightarrow> string \<Rightarrow> string \<Rightarrow> string list \<Rightarrow> env_var list
   \<Rightarrow> (err + job) prog" where
  "baseJob L kb name jobTypeLabel hash secretsHash specCMName args extraEnv =
     (let ttl = (case in_ttlSecondsAfterFinished (ks_ingestion (spec kb)) of None \<Rightarrow> 300 | Some t \<Rightarrow> t);
          activeDeadline = (case in_activeDeadlineSeconds (ks_ingestion (spec kb)) of None \<Rightarrow> 7200 | Some d \<Rightarrow> d);
          env = baseEnv L kb name @ traceEnv L @ scratchEnv @ extraEnv @ credentialEnv kb
      in case resourceRequirements L (in_resources (ks_ingestion (spec kb))) of
           Inl e \<Rightarrow> Done (Inl e)
         | Inr resources \<Rightarrow>
             let labels = [labelManagedBy \<mapsto> ''kuberag'', labelKB \<mapsto> kb_name kb, labelJobType \<mapsto> jobTypeLabel,
                           labelSpecHash \<mapsto> hash, labelSecretsHash \<mapsto> secretsHash]
             in pbind (scratchVolume L (in_modelCacheSizeLimit (ks_ingestion (spec kb)))) (\<lambda>scratch.
                Done (Inr \<lparr>job_meta = new_meta name (kb_namespace kb) labels,
                  job_backoffLimit = 2, job_ttlSecondsAfterFinished = ttl,
                  job_activeDeadlineSeconds = Some activeDeadline, job_templateLabels = labels,
                  job_pod = workerPod L kb [scratch, specVolume specCMName] (workerContainer kb args env resources),
                  job_conditions = []\<rparr>)))"

text \<open>
  The Job and its pod template share one map of labels, so that a label set on the Job is set on
  the template.
\<close>

definition set_job_label :: "string \<Rightarrow> string \<Rightarrow> job \<Rightarrow> job" where
  "set_job_label k v j =
     j\<lparr>job_meta := (job_meta j)\<lparr>m_labels := (m_labels (job_meta j))(k \<mapsto> v)\<rparr>,
       job_templateLabels := (job_templateLabels j)(k \<mapsto> v)\<rparr>"

definition ingestJobName :: "lib \<Rightarrow> knowledge_base \<Rightarrow> chunking_spec \<Rightarrow> string \<Rightarrow> string" where
  "ingestJobName L kb eff hash =
     trunc_name L (kb_name kb @ ''-ingest-r'' @ itoa (ingestRound (status kb)) @ ''-t'' @
       itoa (autoTuneAttempts (status kb)) @ ''-c'' @ chunkFingerprint L eff @ ''-'' @ hash)"

definition buildIngestJob ::
  "lib \<Rightarrow> knowledge_base \<Rightarrow> string \<Rightarrow> string \<Rightarrow> ingest_mode \<Rightarrow> chunking_spec \<Rightarrow> (err + job \<times> string) prog" where
  "buildIngestJob L kb hash secretsHash mode eff =
     (case marshalEffectiveSpec L kb eff of
        Inl e \<Rightarrow> Done (Inl e)
      | Inr specJSON \<Rightarrow>
          let name = ingestJobName L kb eff hash;
              env = [plainEnv ''INGEST_MODE'' (mode_string mode),
                     plainEnv ''INGEST_ROUND'' (itoa (ingestRound (status kb))),
                     plainEnv ''PRIOR_SOURCES_JSON'' (priorSourcesJSON L kb),
                     plainEnv ''CHECKPOINT_CONFIGMAP'' (checkpointConfigMapName L name)] @
                    (if lastCheckpoint (status kb) \<noteq> [] then [plainEnv ''RESUME_FROM_CHECKPOINT'' ''true''] else [])
          in pbind (baseJob L kb name jobTypeIngest hash secretsHash (specConfigMapName L name) [''ingest''] env) (\<lambda>r.
             case r of
               Inl e \<Rightarrow> Done (Inl e)
             | Inr j \<Rightarrow> Done (Inr (set_job_label labelChunking (chunkingLabel eff) j, specJSON))))"

definition evalJobName :: "lib \<Rightarrow> knowledge_base \<Rightarrow> int \<Rightarrow> string" where
  "evalJobName L kb round = trunc_name L (kb_name kb @ ''-eval-r'' @ itoa round)"

definition buildEvalJob ::
  "lib \<Rightarrow> knowledge_base \<Rightarrow> string \<Rightarrow> string \<Rightarrow> int \<Rightarrow> chunking_spec \<Rightarrow> (err + job \<times> string) prog" where
  "buildEvalJob L kb hash secretsHash round eff =
     (case marshalQuerySpec L kb of
        Inl e \<Rightarrow> Done (Inl e)
      | Inr specJSON \<Rightarrow>
          let name = evalJobName L kb round
          in case ks_retrievalQuality (spec kb) of
               None \<Rightarrow> Panic
             | Some rq \<Rightarrow>
                 let env = [plainEnv ''EVAL_DATASET_CONFIGMAP'' (rq_datasetRef rq),
                            plainEnv ''EVAL_TOPK'' (itoa (defaultInt (rq_topK rq) 8))]
                 in pbind (baseJob L kb name jobTypeEval hash secretsHash (specConfigMapName L name) [''eval''] env) (\<lambda>r.
                    case r of
                      Inl e \<Rightarrow> Done (Inl e)
                    | Inr j \<Rightarrow> Done (Inr (set_job_label labelChunking (chunkingLabel eff) j, specJSON))))"

definition cleanupJobName :: "lib \<Rightarrow> knowledge_base \<Rightarrow> string" where
  "cleanupJobName L kb = trunc_name L (kb_name kb @ ''-cleanup'')"

definition buildCleanupJob :: "lib \<Rightarrow> knowledge_base \<Rightarrow> string \<Rightarrow> (err + job \<times> string) prog" where
  "buildCleanupJob L kb secretsHash =
     (case marshalStoreSpec L kb of
        Inl e \<Rightarrow> Done (Inl e)
      | Inr specJSON \<Rightarrow>
          let name = cleanupJobName L kb
          in pbind (baseJob L kb name jobTypeCleanup '''' secretsHash (specConfigMapName L name) [''cleanup''] []) (\<lambda>r.
             case r of
               Inl e \<Rightarrow> Done (Inl e)
             | Inr j \<Rightarrow> Done (Inr (j\<lparr>job_backoffLimit := 1\<rparr>, specJSON))))"

section \<open>What the builders render\<close>

text \<open>
  A worker Pod is hardened: it runs as the non-root user on a read-only root file system without
  capabilities or privilege escalation, and mounts nothing but an empty directory and one
  ConfigMap.
\<close>

definition hardened_container :: "container \<Rightarrow> bool" where
  "hardened_container c \<longleftrightarrow>
     csc_runAsNonRoot (con_security c) \<and> \<not> csc_allowPrivilegeEscalation (con_security c) \<and>
     csc_readOnlyRootFilesystem (con_security c) \<and> csc_dropCapabilities (con_security c) = [''ALL''] \<and>
     csc_seccompProfile (con_security c) = ''RuntimeDefault''"

definition hardened_pod :: "pod_spec \<Rightarrow> bool" where
  "hardened_pod p \<longleftrightarrow>
     psc_runAsNonRoot (pod_security p) \<and> psc_runAsUser (pod_security p) \<noteq> 0 \<and>
     psc_runAsGroup (pod_security p) \<noteq> 0 \<and> psc_seccompProfile (pod_security p) = ''RuntimeDefault'' \<and>
     list_all hardened_container (pod_containers p) \<and>
     length (filter (\<lambda>v. case vol_source v of EmptyDir _ \<Rightarrow> False | ConfigMapVolume _ \<Rightarrow> True) (pod_volumes p)) \<le> 1"

text \<open>
  Credentials by reference only: a variable with a value of its own is one that may have it (\<open>plain\<close>
  of its name and value), and any other names a Secret, carries no value and is a credential that
  belongs to its name (\<open>cred\<close>).
\<close>

definition by_reference :: "(string \<Rightarrow> string \<Rightarrow> bool) \<Rightarrow> (string \<Rightarrow> secret_key_ref \<Rightarrow> bool) \<Rightarrow> env_var \<Rightarrow> bool" where
  "by_reference plain cred e \<longleftrightarrow>
     (case env_secret e of
        None \<Rightarrow> plain (env_name e) (env_value e)
      | Some r \<Rightarrow> env_value e = '''' \<and> cred (env_name e) r)"

text \<open>The plain variables of a worker: the listed ones and the entries of the trace context.\<close>

definition worker_plain_names :: "string list" where
  "worker_plain_names =
     [''KB_NAME'', ''KB_NAMESPACE'', ''KB_SPEC_PATH'', ''RESULT_CONFIGMAP'', ''HOME'', ''TMPDIR'', ''XDG_CACHE_HOME'',
      ''HF_HOME'', ''FASTEMBED_CACHE_PATH'', ''PYTHONDONTWRITEBYTECODE'', ''INGEST_MODE'', ''INGEST_ROUND'',
      ''PRIOR_SOURCES_JSON'', ''CHECKPOINT_CONFIGMAP'', ''RESUME_FROM_CHECKPOINT'', ''EVAL_DATASET_CONFIGMAP'', ''EVAL_TOPK'']"

definition worker_plain :: "lib \<Rightarrow> string \<Rightarrow> string \<Rightarrow> bool" where
  "worker_plain L n v \<longleftrightarrow> n \<in> set worker_plain_names \<or> (n, v) \<in> set (trace_carrier L)"

text \<open>The credentials of a worker: each variable names the Secret of the field it is for.\<close>

definition worker_credential :: "knowledge_base \<Rightarrow> string \<Rightarrow> secret_key_ref \<Rightarrow> bool" where
  "worker_credential kb n r \<longleftrightarrow>
     n = ''EMBEDDING_API_KEY'' \<and> emb_apiKeySecretRef (ks_embedding (spec kb)) = Some r \<or>
     n = ''VECTORSTORE_CREDENTIAL'' \<and> vs_credentialsSecretRef (ks_vectorStore (spec kb)) = Some r \<or>
     (\<exists>s \<in> set (ks_sources (spec kb)).
        (\<exists>g. src_github s = Some g \<and> gh_tokenSecretRef g = Some r \<and> n = ''GITHUB_TOKEN_'' @ src_name s) \<or>
        (\<exists>b. src_s3 s = Some b \<and>
           (s3_accessKeySecretRef b = Some r \<and> n = ''S3_ACCESS_KEY_'' @ src_name s \<or>
            s3_secretKeySecretRef b = Some r \<and> n = ''S3_SECRET_KEY_'' @ src_name s)))"

abbreviation worker_by_reference :: "lib \<Rightarrow> knowledge_base \<Rightarrow> env_var \<Rightarrow> bool" where
  "worker_by_reference L kb \<equiv> by_reference (worker_plain L) (worker_credential kb)"

text \<open>The secret references of a Pod.\<close>

definition pod_secret_refs :: "pod_spec \<Rightarrow> secret_key_ref list" where
  "pod_secret_refs p = concat (map (\<lambda>c. List.map_filter env_secret (con_env c)) (pod_containers p))"

definition rendered :: "lib \<Rightarrow> knowledge_base \<Rightarrow> string \<Rightarrow> string \<Rightarrow> string \<Rightarrow> string \<Rightarrow> job \<Rightarrow> bool" where
  "rendered L kb name ty hash secretsHash j \<longleftrightarrow>
     job_name j = name \<and> m_namespace (job_meta j) = kb_namespace kb \<and> m_owners (job_meta j) = [] \<and>
     jobType j = ty \<and> m_labels (job_meta j) labelKB = Some (kb_name kb) \<and>
     lookup_str (m_labels (job_meta j)) labelSpecHash = hash \<and>
     lookup_str (m_labels (job_meta j)) labelSecretsHash = secretsHash \<and>
     job_templateLabels j = m_labels (job_meta j) \<and>
     job_activeDeadlineSeconds j =
       Some (case in_activeDeadlineSeconds (ks_ingestion (spec kb)) of None \<Rightarrow> 7200 | Some d \<Rightarrow> d) \<and>
     job_conditions j = [] \<and>
     hardened_pod (job_pod j) \<and> pod_serviceAccountName (job_pod j) = workerServiceAccountName L kb \<and>
     list_all (\<lambda>c. list_all (worker_by_reference L kb) (con_env c)) (pod_containers (job_pod j))"

lemma wp_scratchVolume [wp_simps]:
  "wp (scratchVolume L s) Q \<longleftrightarrow>
     (if s \<noteq> '''' \<and> quantity_error L s \<noteq> None then Q [] None
      else Q [] (Some \<lparr>vol_name = ''scratch'', vol_source = EmptyDir (if s = '''' then None else Some s)\<rparr>))"
  by (auto simp: scratchVolume_def split: option.split)

lemma label_neqs [simp]:
  "labelManagedBy \<noteq> labelKB" "labelManagedBy \<noteq> labelJobType" "labelManagedBy \<noteq> labelSpecHash"
  "labelManagedBy \<noteq> labelSecretsHash" "labelManagedBy \<noteq> labelChunking" "labelKB \<noteq> labelJobType"
  "labelKB \<noteq> labelSpecHash" "labelKB \<noteq> labelSecretsHash" "labelKB \<noteq> labelChunking"
  "labelJobType \<noteq> labelSpecHash" "labelJobType \<noteq> labelSecretsHash" "labelJobType \<noteq> labelChunking"
  "labelSpecHash \<noteq> labelSecretsHash" "labelSpecHash \<noteq> labelChunking" "labelSecretsHash \<noteq> labelChunking"
  by (simp_all add: label_defs)

lemmas label_neqs' [simp] = label_neqs [symmetric]

lemma by_reference_simps [simp]:
  "by_reference plain cred (plainEnv n v) \<longleftrightarrow> plain n v" "by_reference plain cred (secretEnv n r) \<longleftrightarrow> cred n r"
  by (simp_all add: by_reference_def plainEnv_def secretEnv_def)

lemma worker_plain_simps [simp]:
  "worker_plain L ''KB_NAME'' v" "worker_plain L ''KB_NAMESPACE'' v" "worker_plain L ''KB_SPEC_PATH'' v"
  "worker_plain L ''RESULT_CONFIGMAP'' v" "worker_plain L ''HOME'' v" "worker_plain L ''TMPDIR'' v"
  "worker_plain L ''XDG_CACHE_HOME'' v" "worker_plain L ''HF_HOME'' v" "worker_plain L ''FASTEMBED_CACHE_PATH'' v"
  "worker_plain L ''PYTHONDONTWRITEBYTECODE'' v" "worker_plain L ''INGEST_MODE'' v" "worker_plain L ''INGEST_ROUND'' v"
  "worker_plain L ''PRIOR_SOURCES_JSON'' v" "worker_plain L ''CHECKPOINT_CONFIGMAP'' v"
  "worker_plain L ''RESUME_FROM_CHECKPOINT'' v" "worker_plain L ''EVAL_DATASET_CONFIGMAP'' v" "worker_plain L ''EVAL_TOPK'' v"
  by (simp_all add: worker_plain_def worker_plain_names_def)

lemma by_reference_sourceEnv: "s \<in> set (ks_sources (spec kb)) \<Longrightarrow> list_all (worker_by_reference L kb) (sourceEnv s)"
  by (auto simp: sourceEnv_def worker_credential_def split: option.split option.split_asm)

lemma by_reference_credentialEnv: "list_all (worker_by_reference L kb) (credentialEnv kb)"
proof -
  have "list_all (worker_by_reference L kb) (concat (map sourceEnv (ks_sources (spec kb))))"
    using by_reference_sourceEnv by (fastforce simp: list_all_iff)
  then show ?thesis by (auto simp: credentialEnv_def worker_credential_def split: option.split)
qed

lemma by_reference_scratchEnv: "list_all (worker_by_reference L kb) scratchEnv"
  by (simp add: scratchEnv_def)

lemma by_reference_traceEnv: "list_all (worker_by_reference L kb) (traceEnv L)"
  by (auto simp: traceEnv_def list_all_iff worker_plain_def)

lemma by_reference_baseEnv: "list_all (worker_by_reference L kb) (baseEnv L kb name)"
  by (simp add: baseEnv_def)

lemmas by_reference_envs =
  by_reference_credentialEnv by_reference_scratchEnv by_reference_traceEnv by_reference_baseEnv

lemma worker_sels [simp]:
  "pod_serviceAccountName (workerPod L kb vs c) = workerServiceAccountName L kb"
  "pod_containers (workerPod L kb vs c) = [c]"
  "pod_volumes (workerPod L kb vs c) = vs"
  "con_env (workerContainer kb args env res) = env"
  by (simp_all add: workerPod_def workerContainer_def)

lemma hardened_workerContainer: "hardened_container (workerContainer kb args env res)"
  by (simp add: hardened_container_def workerContainer_def hardenedContainerSecurityContext_def)

lemma hardened_workerPod:
  "hardened_pod (workerPod L kb [\<lparr>vol_name = n, vol_source = EmptyDir s\<rparr>, specVolume m] (workerContainer kb args env res))"
  by (simp add: hardened_pod_def workerPod_def hardenedPodSecurityContext_def nonRootUID_def hardened_workerContainer
      specVolume_def)

lemma wp_baseJob:
  assumes "list_all (worker_by_reference L kb) extraEnv"
  shows "wp (baseJob L kb name ty hash secretsHash cmName args extraEnv)
           (\<lambda>tr r. tr = [] \<and> (\<forall>j. r = Some (Inr j) \<longrightarrow> rendered L kb name ty hash secretsHash j))"
  using assms
  by (auto simp: baseJob_def Let_def wp_scratchVolume rendered_def new_meta_def jobType_def lookup_str_def
      hardened_workerPod by_reference_envs split: sum.split if_splits)

lemma rendered_set_label:
  "rendered L kb name ty hash secretsHash j \<Longrightarrow> rendered L kb name ty hash secretsHash (set_job_label labelChunking v j)"
  by (simp add: rendered_def set_job_label_def jobType_def lookup_str_def)

lemma set_job_label_chunking [simp]:
  "lookup_str (m_labels (job_meta (set_job_label k v j))) k = v"
  by (simp add: set_job_label_def lookup_str_def)

lemma wp_buildIngestJob:
  "wp (buildIngestJob L kb hash secretsHash mode eff)
     (\<lambda>tr r. tr = [] \<and> (\<forall>j s. r = Some (Inr (j, s)) \<longrightarrow>
        rendered L kb (ingestJobName L kb eff hash) jobTypeIngest hash secretsHash j \<and>
        lookup_str (m_labels (job_meta j)) labelChunking = chunkingLabel eff \<and>
        marshalEffectiveSpec L kb eff = Inr s))"
  by (auto simp: buildIngestJob_def Let_def by_reference_envs rendered_set_label split: sum.split
      simp del: wp_pbind intro!: wp_bindI [OF wp_baseJob])

lemma wp_buildEvalJob:
  "wp (buildEvalJob L kb hash secretsHash round eff)
     (\<lambda>tr r. tr = [] \<and> (\<forall>j s. r = Some (Inr (j, s)) \<longrightarrow>
        rendered L kb (evalJobName L kb round) jobTypeEval hash secretsHash j \<and>
        lookup_str (m_labels (job_meta j)) labelChunking = chunkingLabel eff \<and>
        marshalQuerySpec L kb = Inr s \<and> ks_retrievalQuality (spec kb) \<noteq> None))"
  by (auto simp: buildEvalJob_def Let_def by_reference_envs rendered_set_label split: sum.split option.split
      simp del: wp_pbind intro!: wp_bindI [OF wp_baseJob])

lemma rendered_backoff:
  "rendered L kb name ty hash secretsHash j \<Longrightarrow> rendered L kb name ty hash secretsHash (j\<lparr>job_backoffLimit := n\<rparr>)"
  by (simp add: rendered_def jobType_def)

lemma wp_buildCleanupJob:
  "wp (buildCleanupJob L kb secretsHash)
     (\<lambda>tr r. tr = [] \<and> (\<forall>j s. r = Some (Inr (j, s)) \<longrightarrow>
        rendered L kb (cleanupJobName L kb) jobTypeCleanup '''' secretsHash j \<and> marshalStoreSpec L kb = Inr s))"
  by (auto simp: buildCleanupJob_def Let_def rendered_backoff split: sum.split
      simp del: wp_pbind intro!: wp_bindI [OF wp_baseJob])

section \<open>Facts about names and checkpoints\<close>

lemma prefix_ne_simps: "a @ b = a @ c \<longleftrightarrow> b = c"
  by simp

lemma itoa_then_minus:
  assumes "itoa i @ CHR ''-'' # x = itoa j @ CHR ''-'' # y" "0 \<le> i" "0 \<le> j"
  shows "i = j"
proof -
  have no: "takeWhile (\<lambda>c. c \<noteq> CHR ''-'') (itoa n @ CHR ''-'' # z) = itoa n" if "0 \<le> n" for n z
  proof -
    have "\<forall>c \<in> set (itoa n). c \<noteq> CHR ''-''"
      using that digits_of_all_digits [of "nat n"] by (auto simp: itoa_def is_digit_def)
    then show ?thesis by (subst takeWhile_append2) auto
  qed
  have "itoa i = itoa j" using no [of i x] no [of j y] assms by simp
  then show ?thesis by (rule itoa_inj)
qed

lemma mergeCheckpoint_names:
  "map ss_name (mergeCheckpoint st) =
     map ss_name (status_sources st) @
     filter (\<lambda>n. n \<notin> ss_name ` set (status_sources st)) (map isr_name (lastCheckpoint st))"
  by (auto simp: mergeCheckpoint_def toSourceStatus_def Let_def comp_def filter_map)

lemma resolveDimension_embeddingDimension:
  "0 \<le> emb_dimension e \<Longrightarrow> emb_dimension (resolveDimension e) = embeddingDimension e"
  by (auto simp: resolveDimension_def embeddingDimension_def)

section \<open>Properties\<close>

text \<open>
  C26. An ingestion Job remembers what it was started for: reading its labels back gives the very
  chunking, spec hash and credential hash it was built with, whatever the status says by then, and
  it is not stale with respect to them. (The strategy is one of the API's names: not empty and
  without a dot.)
\<close>

theorem ingest_job_labels_roundtrip:
  assumes "runs (buildIngestJob L kb hash secretsHash mode eff) tr (Some (Inr (j, s)))"
    and "ch_strategy eff \<noteq> ''''" "CHR ''.'' \<notin> set (ch_strategy eff)" "in64 (ch_maxTokens eff)" "in64 (ch_overlap eff)"
    and "hash \<noteq> ''''" "secretsHash \<noteq> ''''"
  shows "jobType j = jobTypeIngest \<and> jobEffectiveChunking j fallback = eff \<and>
         jobSpecHash j h' = hash \<and> jobSecretsHash j s' = secretsHash \<and>
         \<not> activeIngestIsStale j hash secretsHash h' s'"
proof -
  from wpD [OF wp_buildIngestJob assms(1)]
  have r: "rendered L kb (ingestJobName L kb eff hash) jobTypeIngest hash secretsHash j"
    and l: "lookup_str (m_labels (job_meta j)) labelChunking = chunkingLabel eff" by auto
  from chunking_label_roundtrip [OF l assms(2-5)] r assms(6,7) show ?thesis
    by (simp add: rendered_def jobSpecHash_def jobSecretsHash_def activeIngestIsStale_def)
qed

lemma demo_ingest_job:
  "\<exists>j. runs (buildIngestJob demo_lib demo_kb ''h'' ''s'' IngestFull (reset_chunking ChunkFixed)) [] (Some (Inr (j, ''spec'')))"
  by (simp add: buildIngestJob_def marshalEffectiveSpec_def demo_lib_def baseJob_def resourceRequirements_def
      scratchVolume_def demo_kb_defs Let_def)

theorem ingest_job_labels_roundtrip_witness:
  "\<exists>j. runs (buildIngestJob demo_lib demo_kb ''h'' ''s'' IngestFull (reset_chunking ChunkFixed)) [] (Some (Inr (j, ''spec''))) \<and>
       jobEffectiveChunking j (reset_chunking ChunkSemantic) = reset_chunking ChunkFixed \<and> jobSpecHash j ''x'' = ''h''"
proof -
  obtain j where r: "runs (buildIngestJob demo_lib demo_kb ''h'' ''s'' IngestFull (reset_chunking ChunkFixed)) [] (Some (Inr (j, ''spec'')))"
    using demo_ingest_job by blast
  have side: "ch_strategy (reset_chunking ChunkFixed) \<noteq> ''''" "CHR ''.'' \<notin> set (ch_strategy (reset_chunking ChunkFixed))"
    "in64 (ch_maxTokens (reset_chunking ChunkFixed))" "in64 (ch_overlap (reset_chunking ChunkFixed))"
    "''h'' \<noteq> ''''" "''s'' \<noteq> ''''"
    by (simp_all add: reset_chunking_def strategy_defs in64_def)
  from ingest_job_labels_roundtrip [OF r side, where fallback = "reset_chunking ChunkSemantic" and h' = "''x''"] r
  show ?thesis by blast
qed

text \<open>
  C31. Every worker Pod the KnowledgeBase controller renders - for ingestion, evaluation or cleanup -
  is hardened (non-root, read-only root, no capabilities, no privilege escalation, at most one
  ConfigMap mounted) and runs under the worker's ServiceAccount. Of its environment only the listed
  variables and the trace context have a value of their own; every other variable is a credential,
  given by a reference to the Secret of the field of the spec it is named for, and carries no value.
\<close>

theorem worker_pods_are_hardened:
  assumes "runs (buildIngestJob L kb hash secretsHash mode eff) tr (Some (Inr (j, s))) \<or>
           runs (buildEvalJob L kb hash secretsHash round eff) tr (Some (Inr (j, s))) \<or>
           runs (buildCleanupJob L kb secretsHash) tr (Some (Inr (j, s)))"
  shows "hardened_pod (job_pod j) \<and> pod_serviceAccountName (job_pod j) = workerServiceAccountName L kb \<and>
         (\<forall>c \<in> set (pod_containers (job_pod j)). \<forall>e \<in> set (con_env c).
            (case env_secret e of
               None \<Rightarrow> env_name e \<in> set worker_plain_names \<or> (env_name e, env_value e) \<in> set (trace_carrier L)
             | Some r \<Rightarrow> env_value e = '''' \<and> worker_credential kb (env_name e) r)) \<and>
         job_templateLabels j = m_labels (job_meta j)"
proof -
  have "\<exists>name ty h. rendered L kb name ty h secretsHash j"
    using assms
  proof (elim disjE)
    assume "runs (buildIngestJob L kb hash secretsHash mode eff) tr (Some (Inr (j, s)))"
    from wpD [OF wp_buildIngestJob this] show ?thesis by blast
  next
    assume "runs (buildEvalJob L kb hash secretsHash round eff) tr (Some (Inr (j, s)))"
    from wpD [OF wp_buildEvalJob this] show ?thesis by blast
  next
    assume "runs (buildCleanupJob L kb secretsHash) tr (Some (Inr (j, s)))"
    from wpD [OF wp_buildCleanupJob this] show ?thesis by blast
  qed
  then show ?thesis unfolding rendered_def list_all_iff by_reference_def worker_plain_def by blast
qed

theorem worker_pods_are_hardened_witness:
  "\<exists>j. runs (buildIngestJob demo_lib demo_kb ''h'' ''s'' IngestFull (reset_chunking ChunkFixed)) [] (Some (Inr (j, ''spec''))) \<and>
       hardened_pod (job_pod j)"
  using demo_ingest_job worker_pods_are_hardened by blast

text \<open>
  Ingestion Jobs of different rounds have different names as long as the names fit without
  being cut (the fingerprints are the last parts of the name).
\<close>

theorem ingest_job_names_differ:
  assumes "kb_name kb = kb_name kb'" "ingestRound (status kb) \<noteq> ingestRound (status kb')"
    and "0 \<le> ingestRound (status kb)" "0 \<le> ingestRound (status kb')"
    and "length (kb_name kb @ ''-ingest-r'' @ itoa (ingestRound (status kb)) @ ''-t'' @
           itoa (autoTuneAttempts (status kb)) @ ''-c'' @ chunkFingerprint L eff @ ''-'' @ hash) \<le> 63"
    and "length (kb_name kb' @ ''-ingest-r'' @ itoa (ingestRound (status kb')) @ ''-t'' @
           itoa (autoTuneAttempts (status kb')) @ ''-c'' @ chunkFingerprint L eff' @ ''-'' @ hash') \<le> 63"
  shows "ingestJobName L kb eff hash \<noteq> ingestJobName L kb' eff' hash'"
proof
  assume "ingestJobName L kb eff hash = ingestJobName L kb' eff' hash'"
  then have "kb_name kb @ ''-ingest-r'' @ itoa (ingestRound (status kb)) @ ''-t'' @
           itoa (autoTuneAttempts (status kb)) @ ''-c'' @ chunkFingerprint L eff @ ''-'' @ hash =
         kb_name kb' @ ''-ingest-r'' @ itoa (ingestRound (status kb')) @ ''-t'' @
           itoa (autoTuneAttempts (status kb')) @ ''-c'' @ chunkFingerprint L eff' @ ''-'' @ hash'"
    unfolding ingestJobName_def trunc_name_short [OF assms(5)] trunc_name_short [OF assms(6)] .
  then have "itoa (ingestRound (status kb)) @ CHR ''-'' # ''t'' @
           itoa (autoTuneAttempts (status kb)) @ ''-c'' @ chunkFingerprint L eff @ ''-'' @ hash =
         itoa (ingestRound (status kb')) @ CHR ''-'' # ''t'' @
           itoa (autoTuneAttempts (status kb')) @ ''-c'' @ chunkFingerprint L eff' @ ''-'' @ hash'"
    using assms(1) by simp
  from itoa_then_minus [OF this assms(3,4)] assms(2) show False by contradiction
qed

theorem ingest_job_names_differ_witness:
  "ingestJobName demo_lib demo_kb (reset_chunking ChunkFixed) ''h'' \<noteq>
   ingestJobName demo_lib (upd_status (\<lambda>s. s\<lparr>ingestRound := 1\<rparr>) demo_kb) (reset_chunking ChunkFixed) ''h''"
proof (rule ingest_job_names_differ)
  have "length (chunkFingerprint L c) \<le> 44" for L c by (simp add: chunkFingerprint_def)
  then show "length (kb_name demo_kb @ ''-ingest-r'' @ itoa (ingestRound (status demo_kb)) @ ''-t'' @
           itoa (autoTuneAttempts (status demo_kb)) @ ''-c'' @ chunkFingerprint demo_lib (reset_chunking ChunkFixed) @ ''-'' @ ''h'') \<le> 63"
    and "length (kb_name (upd_status (\<lambda>s. s\<lparr>ingestRound := 1\<rparr>) demo_kb) @ ''-ingest-r'' @
           itoa (ingestRound (status (upd_status (\<lambda>s. s\<lparr>ingestRound := 1\<rparr>) demo_kb))) @ ''-t'' @
           itoa (autoTuneAttempts (status (upd_status (\<lambda>s. s\<lparr>ingestRound := 1\<rparr>) demo_kb))) @ ''-c'' @
           chunkFingerprint demo_lib (reset_chunking ChunkFixed) @ ''-'' @ ''h'') \<le> 63"
    by (simp_all add: demo_kb_defs itoa_def digits_of.simps)
qed (simp_all add: demo_kb_defs)

text \<open>
  The sources handed to the worker for an incremental run are the synced ones followed by the
  checkpointed ones that are not among them: no synced source is lost or overridden, and no name
  appears twice if neither list repeats one.
\<close>

theorem prior_sources_merge:
  assumes "distinct (map ss_name (status_sources st))" "distinct (map isr_name (lastCheckpoint st))"
  shows "distinct (map ss_name (mergeCheckpoint st)) \<and>
         ss_name ` set (mergeCheckpoint st) = ss_name ` set (status_sources st) \<union> isr_name ` set (lastCheckpoint st) \<and>
         take (length (status_sources st)) (mergeCheckpoint st) = status_sources st"
proof (intro conjI)
  show "distinct (map ss_name (mergeCheckpoint st))"
    using assms by (auto simp: mergeCheckpoint_names)
  have "set (map ss_name (mergeCheckpoint st)) = ss_name ` set (status_sources st) \<union> isr_name ` set (lastCheckpoint st)"
    unfolding mergeCheckpoint_names by auto
  then show "ss_name ` set (mergeCheckpoint st) = ss_name ` set (status_sources st) \<union> isr_name ` set (lastCheckpoint st)"
    by simp
  show "take (length (status_sources st)) (mergeCheckpoint st) = status_sources st"
    by (simp add: mergeCheckpoint_def Let_def)
qed

theorem prior_sources_merge_witness:
  "ss_name ` set (mergeCheckpoint (zero_status\<lparr>status_sources := [\<lparr>ss_name = ''a'', ss_revision = ''1'', ss_chunks = 3\<rparr>],
      lastCheckpoint := [\<lparr>isr_name = ''a'', isr_revision = ''2'', isr_chunks = 4\<rparr>, \<lparr>isr_name = ''b'', isr_revision = ''2'', isr_chunks = 4\<rparr>]\<rparr>))
   = {''a'', ''b''}"
  using prior_sources_merge [of "zero_status\<lparr>status_sources := [\<lparr>ss_name = ''a'', ss_revision = ''1'', ss_chunks = 3\<rparr>],
      lastCheckpoint := [\<lparr>isr_name = ''a'', isr_revision = ''2'', isr_chunks = 4\<rparr>, \<lparr>isr_name = ''b'', isr_revision = ''2'', isr_chunks = 4\<rparr>]\<rparr>"]
  by auto

text \<open>
  A model cache limit that is no quantity crashes the pass: with a spec that marshals and good
  resources, building the ingestion Job panics.
\<close>

theorem bad_cache_limit_panics:
  assumes "marshalEffectiveSpec L kb eff = Inr s" "resourceRequirements L (in_resources (ks_ingestion (spec kb))) = Inr q"
    and "in_modelCacheSizeLimit (ks_ingestion (spec kb)) \<noteq> ''''"
    and "quantity_error L (in_modelCacheSizeLimit (ks_ingestion (spec kb))) = Some e"
  shows "runs (buildIngestJob L kb hash secretsHash mode eff) tr r \<longleftrightarrow> tr = [] \<and> r = None"
  using assms by (simp add: buildIngestJob_def baseJob_def scratchVolume_def Let_def)

definition bad_limit_kb :: knowledge_base where
  "bad_limit_kb = demo_kb\<lparr>spec := demo_spec\<lparr>ks_ingestion := (ks_ingestion demo_spec)\<lparr>in_modelCacheSizeLimit := ''bad''\<rparr>\<rparr>\<rparr>"

theorem bad_cache_limit_panics_witness:
  "runs (buildIngestJob demo_lib bad_limit_kb ''h'' ''s'' IngestFull (reset_chunking ChunkFixed)) [] None"
proof -
  have "marshalEffectiveSpec demo_lib bad_limit_kb (reset_chunking ChunkFixed) = Inr ''spec''"
    by (simp add: marshalEffectiveSpec_def demo_lib_def)
  moreover have "resourceRequirements demo_lib (in_resources (ks_ingestion (spec bad_limit_kb))) =
      Inr \<lparr>req_cpu = ''250m'', req_memory = ''1Gi'', lim_cpu = ''2'', lim_memory = ''4Gi''\<rparr>"
    by (simp add: resourceRequirements_def bad_limit_kb_def demo_kb_defs)
  moreover have "in_modelCacheSizeLimit (ks_ingestion (spec bad_limit_kb)) \<noteq> ''''"
    "quantity_error demo_lib (in_modelCacheSizeLimit (ks_ingestion (spec bad_limit_kb))) = Some (Err OtherReason ''quantity'')"
    by (simp_all add: bad_limit_kb_def demo_kb_defs demo_lib_def)
  ultimately show ?thesis using bad_cache_limit_panics by blast
qed

end
