(* ===== verification/Worker_Identity.thy ===== *)
theory Worker_Identity
  imports Jobs "HOL-Library.Char_ord" "HOL-Library.List_Lexorder"
begin

text \<open>
  The worker's identity (\<open>internal/controller/worker_identity.go\<close>): the ServiceAccount, Role and
  RoleBinding a Job runs under, and the ConfigMaps it may write. A function that returns an
  \<open>error\<close> returns an \<open>err option\<close>.
\<close>

section \<open>The operations\<close>

definition kb_owner :: "knowledge_base \<Rightarrow> owner_ref" where
  "kb_owner kb = \<lparr>or_kind = ''KnowledgeBase'', or_name = kb_name kb\<rparr>"

definition validateCustomWorkerServiceAccount :: "lib \<Rightarrow> knowledge_base \<Rightarrow> err option prog" where
  "validateCustomWorkerServiceAccount L kb =
     (let sa = in_serviceAccountName (ks_ingestion (spec kb))
      in if sa = '''' then Done None
         else GetServiceAccount (kb_namespace kb, sa) (\<lambda>res.
           case res of
             Inl e \<Rightarrow>
               if is_not_found e
               then Done (Some (Err OtherReason (''ServiceAccount '' @ quote L sa @ '' not found'')))
               else Done (Some e)
           | Inr _ \<Rightarrow> Done None))"

definition applyWorkerServiceAccount :: "service_account \<Rightarrow> err option prog" where
  "applyWorkerServiceAccount desired =
     GetServiceAccount (m_namespace (sa_meta desired), m_name (sa_meta desired)) (\<lambda>res.
       case res of
         Inl e \<Rightarrow> if is_not_found e then Create (OServiceAccount desired) Done else Done (Some e)
       | Inr existing \<Rightarrow>
           Update (OServiceAccount
             (existing\<lparr>sa_meta := (sa_meta existing)\<lparr>m_labels := m_labels (sa_meta desired),
                                                   m_owners := m_owners (sa_meta desired)\<rparr>,
                       sa_automountToken := sa_automountToken desired\<rparr>)) Done)"

definition applyWorkerRole :: "role \<Rightarrow> err option prog" where
  "applyWorkerRole desired =
     GetRole (m_namespace (role_meta desired), m_name (role_meta desired)) (\<lambda>res.
       case res of
         Inl e \<Rightarrow> if is_not_found e then Create (ORole desired) Done else Done (Some e)
       | Inr existing \<Rightarrow>
           Update (ORole
             (existing\<lparr>role_meta := (role_meta existing)\<lparr>m_labels := m_labels (role_meta desired),
                                                       m_owners := m_owners (role_meta desired)\<rparr>,
                       role_rules := role_rules desired\<rparr>)) Done)"

definition applyWorkerRoleBinding :: "role_binding \<Rightarrow> err option prog" where
  "applyWorkerRoleBinding desired =
     GetRoleBinding (m_namespace (rb_meta desired), m_name (rb_meta desired)) (\<lambda>res.
       case res of
         Inl e \<Rightarrow> if is_not_found e then Create (ORoleBinding desired) Done else Done (Some e)
       | Inr existing \<Rightarrow>
           Update (ORoleBinding
             (existing\<lparr>rb_meta := (rb_meta existing)\<lparr>m_labels := m_labels (rb_meta desired),
                                                   m_owners := m_owners (rb_meta desired)\<rparr>,
                       rb_roleKind := rb_roleKind desired, rb_roleName := rb_roleName desired,
                       rb_subjects := rb_subjects desired\<rparr>)) Done)"

text \<open>The distinct nonempty names, sorted (\<open>sort.Strings\<close> compares bytes).\<close>

definition allowedNames :: "string list \<Rightarrow> string list" where
  "allowedNames allowed = sort (remdups (filter (\<lambda>c. c \<noteq> '''') allowed))"

definition workerRules :: "string list \<Rightarrow> policy_rule list" where
  "workerRules resourceNames =
     (if resourceNames \<noteq> [] then
        [\<lparr>pr_apiGroups = [''''], pr_resources = [''configmaps''], pr_resourceNames = resourceNames,
          pr_verbs = [''get'', ''update'', ''patch'']\<rparr>]
      else [])"

text \<open>\<open>if err := p; err != nil { return err }; q\<close>.\<close>

definition and_then :: "err option prog \<Rightarrow> err option prog \<Rightarrow> err option prog" where
  "and_then p q = pbind p (\<lambda>e. case e of Some x \<Rightarrow> Done (Some x) | None \<Rightarrow> q)"

definition ensureRole :: "role \<Rightarrow> string list \<Rightarrow> err option prog" where
  "ensureRole r resourceNames =
     (if resourceNames = [] then
        GetRole (m_namespace (role_meta r), m_name (role_meta r)) (\<lambda>res.
          case res of
            Inl e \<Rightarrow> if is_not_found e then Create (ORole r) Done else Done (Some e)
          | Inr _ \<Rightarrow> Done None)
      else applyWorkerRole r)"

definition workerBinding :: "string \<Rightarrow> string \<Rightarrow> object_meta \<Rightarrow> role_binding" where
  "workerBinding ns name m =
     \<lparr>rb_meta = m, rb_roleKind = ''Role'', rb_roleName = name,
      rb_subjects = [(''ServiceAccount'', name, ns)]\<rparr>"

definition ensureWorkerIdentity :: "lib \<Rightarrow> knowledge_base \<Rightarrow> string list \<Rightarrow> err option prog" where
  "ensureWorkerIdentity L kb allowed =
     (if in_serviceAccountName (ks_ingestion (spec kb)) \<noteq> '''' then Done None
      else
        let name = workerServiceAccountName L kb;
            meta = new_meta name (kb_namespace kb) [labelManagedBy \<mapsto> ''kuberag'', labelKB \<mapsto> kb_name kb]
        in case set_controller_reference L (kb_owner kb) meta of
             Inl e \<Rightarrow> Done (Some e)
           | Inr m \<Rightarrow>
               and_then (applyWorkerServiceAccount \<lparr>sa_meta = m, sa_automountToken = Some True\<rparr>)
               (let resourceNames = allowedNames allowed
                in case set_controller_reference L (kb_owner kb) meta of
                     Inl e \<Rightarrow> Done (Some e)
                   | Inr m \<Rightarrow>
                       and_then (ensureRole \<lparr>role_meta = m, role_rules = workerRules resourceNames\<rparr> resourceNames)
                       (case set_controller_reference L (kb_owner kb) meta of
                          Inl e \<Rightarrow> Done (Some e)
                        | Inr m \<Rightarrow> applyWorkerRoleBinding (workerBinding (kb_namespace kb) name m))))"

text \<open>An empty ConfigMap the worker fills; an existing one is kept.\<close>

definition ensureWorkerConfigMap :: "lib \<Rightarrow> knowledge_base \<Rightarrow> string \<Rightarrow> err option prog" where
  "ensureWorkerConfigMap L kb name =
     (case set_controller_reference L (kb_owner kb)
             (new_meta name (kb_namespace kb) [labelManagedBy \<mapsto> ''kuberag'', labelKB \<mapsto> kb_name kb]) of
        Inl e \<Rightarrow> Done (Some e)
      | Inr m \<Rightarrow>
          Create (OConfigMap \<lparr>cm_meta = m, cm_data = (\<lambda>_. None)\<rparr>) (\<lambda>r. Done (ignoreAlreadyExists r)))"

definition prepareWorkerJob :: "lib \<Rightarrow> knowledge_base \<Rightarrow> string \<Rightarrow> string list \<Rightarrow> err option prog" where
  "prepareWorkerJob L kb jobName additionalConfigMaps =
     and_then (ensureWorkerConfigMap L kb (resultConfigMapName L jobName))
     (and_then (ensureWorkerConfigMap L kb (checkpointConfigMapName L jobName))
     (ensureWorkerIdentity L kb
       ([resultConfigMapName L jobName, checkpointConfigMapName L jobName] @ additionalConfigMaps)))"

definition clearWorkerConfigMapAccess :: "lib \<Rightarrow> knowledge_base \<Rightarrow> unit prog" where
  "clearWorkerConfigMapAccess L kb =
     (if in_serviceAccountName (ks_ingestion (spec kb)) \<noteq> '''' then Done ()
      else
        GetRole (kb_namespace kb, workerServiceAccountName L kb) (\<lambda>res.
          case res of
            Inl e \<Rightarrow> Done ()
          | Inr r \<Rightarrow>
              if role_rules r = [] then Done ()
              else Update (ORole (r\<lparr>role_rules := []\<rparr>)) (\<lambda>_. Done ())))"

section \<open>What the helpers call\<close>

lemma and_then_simps [simp]:
  "and_then (Done None) q = q"
  "and_then (Done (Some e)) q = Done (Some e)"
  by (simp_all add: and_then_def)

lemma wp_and_then [wp_simps]:
  "wp (and_then p q) Q \<longleftrightarrow>
     wp p (\<lambda>tr r. case r of None \<Rightarrow> Q tr None | Some (Some e) \<Rightarrow> Q tr (Some (Some e))
                     | Some None \<Rightarrow> wp q (\<lambda>tr'. Q (tr @ tr')))"
proof -
  have "(\<lambda>tr r. case r of None \<Rightarrow> Q tr None
           | Some a \<Rightarrow> wp (case a of None \<Rightarrow> q | Some x \<Rightarrow> Done (Some x)) (\<lambda>tr'. Q (tr @ tr'))) =
        (\<lambda>tr r. case r of None \<Rightarrow> Q tr None | Some (Some e) \<Rightarrow> Q tr (Some (Some e))
                     | Some None \<Rightarrow> wp q (\<lambda>tr'. Q (tr @ tr')))"
    by (intro ext) (auto split: option.split)
  then show ?thesis by (simp add: and_then_def)
qed

lemma never_and_then: "never P p \<Longrightarrow> never P q \<Longrightarrow> never P (and_then p q)"
  unfolding and_then_def by (rule never_pbind) (auto split: option.split)

lemma set_allowedNames: "set (allowedNames xs) = set xs - {''''}"
  by (auto simp: allowedNames_def)

lemma allowedNames_sorted: "sorted (allowedNames xs)" "distinct (allowedNames xs)"
  by (simp_all add: allowedNames_def)

lemma never_validate:
  "(\<And>k r. \<not> P (EvGetServiceAccount k r)) \<Longrightarrow> never P (validateCustomWorkerServiceAccount L kb)"
  by (auto simp: validateCustomWorkerServiceAccount_def Let_def split: sum.split)

lemma never_clearWorkerConfigMapAccess:
  "(\<And>k r. \<not> P (EvGetRole k r)) \<Longrightarrow> (\<And>ro r. role_rules ro = [] \<Longrightarrow> \<not> P (EvUpdate (ORole ro) r)) \<Longrightarrow>
   never P (clearWorkerConfigMapAccess L kb)"
  by (auto simp: clearWorkerConfigMapAccess_def split: sum.split)

lemma never_ensureWorkerConfigMap:
  "(\<And>cm r. cm_data cm = Map.empty \<Longrightarrow> \<not> P (EvCreate (OConfigMap cm) r)) \<Longrightarrow> never P (ensureWorkerConfigMap L kb name)"
  by (auto simp: ensureWorkerConfigMap_def split: sum.split)

lemma never_applyWorkerServiceAccount:
  "(\<And>k r. \<not> P (EvGetServiceAccount k r)) \<Longrightarrow> (\<And>sa r. \<not> P (EvCreate (OServiceAccount sa) r)) \<Longrightarrow>
   (\<And>sa r. \<not> P (EvUpdate (OServiceAccount sa) r)) \<Longrightarrow> never P (applyWorkerServiceAccount sa)"
  by (auto simp: applyWorkerServiceAccount_def split: sum.split)

lemma never_applyWorkerRoleBinding:
  "(\<And>k r. \<not> P (EvGetRoleBinding k r)) \<Longrightarrow> (\<And>r. \<not> P (EvCreate (ORoleBinding rb) r)) \<Longrightarrow>
   (\<And>b r. rb_roleKind b = rb_roleKind rb \<Longrightarrow> rb_roleName b = rb_roleName rb \<Longrightarrow> rb_subjects b = rb_subjects rb \<Longrightarrow>
      \<not> P (EvUpdate (ORoleBinding b) r)) \<Longrightarrow> never P (applyWorkerRoleBinding rb)"
  by (auto simp: applyWorkerRoleBinding_def split: sum.split)

lemma never_ensureRole:
  "(\<And>k r. \<not> P (EvGetRole k r)) \<Longrightarrow> (\<And>r. \<not> P (EvCreate (ORole ro) r)) \<Longrightarrow>
   (\<And>b r. names \<noteq> [] \<Longrightarrow> role_rules b = role_rules ro \<Longrightarrow> \<not> P (EvUpdate (ORole b) r)) \<Longrightarrow>
   never P (ensureRole ro names)"
  by (auto simp: ensureRole_def applyWorkerRole_def split: sum.split)

text \<open>
  The calls of the identity: it reads and writes ServiceAccounts, Roles and RoleBindings, a written
  Role has the rules for the allowed names, and an existing Role is left alone when none is allowed.
\<close>

lemma never_ensureWorkerIdentity:
  assumes get: "\<And>k r. \<not> P (EvGetServiceAccount k r)" "\<And>k r. \<not> P (EvGetRole k r)" "\<And>k r. \<not> P (EvGetRoleBinding k r)"
    and sa: "\<And>sa r. \<not> P (EvCreate (OServiceAccount sa) r)" "\<And>sa r. \<not> P (EvUpdate (OServiceAccount sa) r)"
    and ro: "\<And>ro r. role_rules ro = workerRules (allowedNames allowed) \<Longrightarrow> \<not> P (EvCreate (ORole ro) r)"
      "\<And>ro r. allowedNames allowed \<noteq> [] \<Longrightarrow> role_rules ro = workerRules (allowedNames allowed) \<Longrightarrow> \<not> P (EvUpdate (ORole ro) r)"
    and rb: "\<And>rb r. rb_roleKind rb = ''Role'' \<Longrightarrow> rb_roleName rb = workerServiceAccountName L kb \<Longrightarrow>
        rb_subjects rb = [(''ServiceAccount'', workerServiceAccountName L kb, kb_namespace kb)] \<Longrightarrow> \<not> P (EvCreate (ORoleBinding rb) r)"
      "\<And>rb r. rb_roleKind rb = ''Role'' \<Longrightarrow> rb_roleName rb = workerServiceAccountName L kb \<Longrightarrow>
        rb_subjects rb = [(''ServiceAccount'', workerServiceAccountName L kb, kb_namespace kb)] \<Longrightarrow> \<not> P (EvUpdate (ORoleBinding rb) r)"
  shows "never P (ensureWorkerIdentity L kb allowed)"
proof -
  have "never P (applyWorkerServiceAccount s)" for s
    by (intro never_applyWorkerServiceAccount get sa)
  moreover have "never P (ensureRole \<lparr>role_meta = m, role_rules = workerRules (allowedNames allowed)\<rparr> (allowedNames allowed))" for m
    by (intro never_ensureRole get ro) simp_all
  moreover have "never P (applyWorkerRoleBinding (workerBinding (kb_namespace kb) (workerServiceAccountName L kb) m))" for m
    by (intro never_applyWorkerRoleBinding get rb) (simp_all add: workerBinding_def)
  ultimately show ?thesis
    by (auto simp: ensureWorkerIdentity_def Let_def intro!: never_and_then split: sum.split)
qed

lemma never_prepareWorkerJob:
  assumes "\<And>cm r. cm_data cm = Map.empty \<Longrightarrow> \<not> P (EvCreate (OConfigMap cm) r)"
    and "never P (ensureWorkerIdentity L kb ([resultConfigMapName L jn, checkpointConfigMapName L jn] @ extra))"
  shows "never P (prepareWorkerJob L kb jn extra)"
  using assms unfolding prepareWorkerJob_def by (intro never_and_then never_ensureWorkerConfigMap)

section \<open>Properties\<close>

definition worker_rule :: "string list \<Rightarrow> policy_rule" where
  "worker_rule names =
     \<lparr>pr_apiGroups = [''''], pr_resources = [''configmaps''], pr_resourceNames = names,
      pr_verbs = [''get'', ''update'', ''patch'']\<rparr>"

definition role_write :: "event \<Rightarrow> role option" where
  "role_write e =
     (case e of EvCreate x r \<Rightarrow> (case x of ORole ro \<Rightarrow> Some ro | _ \<Rightarrow> None)
      | EvUpdate x r \<Rightarrow> (case x of ORole ro \<Rightarrow> Some ro | _ \<Rightarrow> None) | _ \<Rightarrow> None)"

definition binding_write :: "event \<Rightarrow> role_binding option" where
  "binding_write e =
     (case e of EvCreate x r \<Rightarrow> (case x of ORoleBinding b \<Rightarrow> Some b | _ \<Rightarrow> None)
      | EvUpdate x r \<Rightarrow> (case x of ORoleBinding b \<Rightarrow> Some b | _ \<Rightarrow> None) | _ \<Rightarrow> None)"

text \<open>
  C20. Least privilege: preparing a worker Job writes no Role but one that allows reading and
  patching exactly the Job's result and checkpoint ConfigMaps and the named extra ones (the
  evaluation dataset), by name; and no RoleBinding but one that binds the worker's own
  ServiceAccount, in its namespace, to the worker's own Role. With a custom ServiceAccount no Role
  and no RoleBinding is written at all.
\<close>

theorem worker_role_is_least_privilege:
  assumes "runs (prepareWorkerJob L kb jn extra) tr r" "e \<in> set tr"
  shows "(\<forall>ro. role_write e = Some ro \<longrightarrow>
            in_serviceAccountName (ks_ingestion (spec kb)) = '''' \<and>
            (\<exists>names. role_rules ro = [worker_rule names] \<and> sorted names \<and> distinct names \<and>
               set names = {resultConfigMapName L jn, checkpointConfigMapName L jn} \<union> (set extra - {''''}))) \<and>
         (\<forall>b. binding_write e = Some b \<longrightarrow>
            in_serviceAccountName (ks_ingestion (spec kb)) = '''' \<and>
            rb_roleKind b = ''Role'' \<and> rb_roleName b = workerServiceAccountName L kb \<and>
            rb_subjects b = [(''ServiceAccount'', workerServiceAccountName L kb, kb_namespace kb)])" (is "?good e")
proof -
  let ?names = "allowedNames ([resultConfigMapName L jn, checkpointConfigMapName L jn] @ extra)"
  have set: "set ?names = {resultConfigMapName L jn, checkpointConfigMapName L jn} \<union> (set extra - {''''})"
    using result_name.name_nonempty checkpoint_name.name_nonempty by (auto simp: set_allowedNames)
  then have "?names \<noteq> []" by auto
  then have rules: "workerRules ?names = [worker_rule ?names]" by (simp add: workerRules_def worker_rule_def)
  have "never (\<lambda>e. \<not> ?good e) (ensureWorkerIdentity L kb ([resultConfigMapName L jn, checkpointConfigMapName L jn] @ extra))"
  proof (cases "in_serviceAccountName (ks_ingestion (spec kb)) = ''''")
    case True
    show ?thesis
      by (rule never_ensureWorkerIdentity)
        (use True set rules allowedNames_sorted in \<open>auto simp: role_write_def binding_write_def\<close>)
  next
    case False
    then show ?thesis by (simp add: ensureWorkerIdentity_def)
  qed
  then have "never (\<lambda>e. \<not> ?good e) (prepareWorkerJob L kb jn extra)"
    by (intro never_prepareWorkerJob) (simp_all add: role_write_def binding_write_def)
  with never_runs [OF assms(1) _ assms(2), of "\<lambda>e. \<not> ?good e"] show ?thesis by blast
qed

theorem worker_role_is_least_privilege_witness:
  "\<exists>e \<in> set (fst (exec (empty_cluster 0) (prepareWorkerJob demo_lib demo_kb ''j'' [''d'']))).
     \<exists>ro names. role_write e = Some ro \<and> role_rules ro = [worker_rule names] \<and> ''d'' \<in> set names"
proof -
  let ?tr = "fst (exec (empty_cluster 0) (prepareWorkerJob demo_lib demo_kb ''j'' [''d'']))"
  have "\<exists>e \<in> set ?tr. role_write e \<noteq> None"
    by (simp add: prepareWorkerJob_def ensureWorkerConfigMap_def ensureWorkerIdentity_def and_then_def exec_simps
        nothing_def ignoreAlreadyExists_def
        applyWorkerServiceAccount_def ensureRole_def applyWorkerRole_def applyWorkerRoleBinding_def role_write_def)
  then obtain e ro where e: "e \<in> set ?tr" "role_write e = Some ro" by auto
  from worker_role_is_least_privilege [OF runs_exec e(1), THEN conjunct1, THEN spec, THEN mp, OF e(2), THEN conjunct2]
  obtain names where n: "role_rules ro = [worker_rule names]"
    "set names = {resultConfigMapName demo_lib ''j'', checkpointConfigMapName demo_lib ''j''} \<union> (set [''d''] - {''''})"
    by metis
  have "''d'' \<in> set names" unfolding n(2) by simp
  with n(1) e show ?thesis by metis
qed

text \<open>
  Access is withdrawn: after a Job the worker's Role is written at most once, with no rules, and
  it is written whenever it could be read and had rules.
\<close>

theorem clear_access_revokes_all_rules:
  assumes "runs (clearWorkerConfigMapAccess L kb) tr r"
  shows "r = Some () \<and>
         (\<forall>e \<in> set tr. \<forall>ro. role_write e = Some ro \<longrightarrow> role_rules ro = []) \<and>
         (\<forall>k ro. EvGetRole k (Inr ro) \<in> set tr \<and> role_rules ro \<noteq> [] \<longrightarrow>
            k = (kb_namespace kb, workerServiceAccountName L kb) \<and>
            (\<exists>res. tr = [EvGetRole k (Inr ro), EvUpdate (ORole (ro\<lparr>role_rules := []\<rparr>)) res]))"
proof -
  have "wp (clearWorkerConfigMapAccess L kb) (\<lambda>tr r. r = Some () \<and>
         (\<forall>e \<in> set tr. \<forall>ro. role_write e = Some ro \<longrightarrow> role_rules ro = []) \<and>
         (\<forall>k ro. EvGetRole k (Inr ro) \<in> set tr \<and> role_rules ro \<noteq> [] \<longrightarrow>
            k = (kb_namespace kb, workerServiceAccountName L kb) \<and>
            (\<exists>res. tr = [EvGetRole k (Inr ro), EvUpdate (ORole (ro\<lparr>role_rules := []\<rparr>)) res])))"
    by (auto simp: clearWorkerConfigMapAccess_def role_write_def split: sum.split)
  then show ?thesis using assms by (rule wpD)
qed

definition granted_role :: role where
  "granted_role = \<lparr>role_meta = kb_meta demo_kb, role_rules = [worker_rule [''r'']]\<rparr>"

theorem clear_access_revokes_all_rules_witness:
  "runs (clearWorkerConfigMapAccess demo_lib demo_kb)
     [EvGetRole (''ns'', workerServiceAccountName demo_lib demo_kb) (Inr granted_role),
      EvUpdate (ORole (granted_role\<lparr>role_rules := []\<rparr>)) None] (Some ()) \<and>
   role_rules granted_role \<noteq> []"
proof -
  have r: "runs (clearWorkerConfigMapAccess demo_lib demo_kb)
     [EvGetRole (''ns'', workerServiceAccountName demo_lib demo_kb) (Inr granted_role),
      EvUpdate (ORole (granted_role\<lparr>role_rules := []\<rparr>)) None] (Some ())"
    by (simp add: clearWorkerConfigMapAccess_def granted_role_def demo_kb_defs)
  have ne: "role_rules granted_role \<noteq> []" by (simp add: granted_role_def)
  from clear_access_revokes_all_rules [OF r] r ne show ?thesis by blast
qed

end
