(* ===== verification/Status_Update.thy ===== *)
theory Status_Update
  imports Decisions
begin

text \<open>
  \<open>KnowledgeBaseReconciler.statusUpdate\<close> (\<open>internal/controller/knowledgebase_controller.go\<close>). The
  reconciler uses it as one call, \<open>StatusUpdate\<close>; here it is also written out as the loop it is:
  read the latest object, replace its status by the desired one, write, and start again on a
  conflict, at most five times (\<open>retry.DefaultRetry\<close>). \<open>expand\<close> puts the loop in the place of every
  call, and the refinement theorem says that the expanded program does what the program does.
\<close>

section \<open>The call and the loop\<close>

definition statusUpdate :: "knowledge_base \<Rightarrow> (knowledge_base \<times> err option) prog" where
  "statusUpdate kb =
     StatusUpdate (kb_namespace kb, kb_name kb) (status kb) (\<lambda>r.
       case r of
         Inl e \<Rightarrow> Done (kb, Some e)
       | Inr rv \<Rightarrow> Done (kb\<lparr>kb_meta := (kb_meta kb)\<lparr>m_resourceVersion := rv\<rparr>\<rparr>, None))"

text \<open>One attempt, answered by the new resource version.\<close>

definition status_attempt :: "key \<Rightarrow> knowledge_base_status \<Rightarrow> (err + string) prog" where
  "status_attempt k desired =
     GetKB k (\<lambda>r.
       case r of
         Inl e \<Rightarrow> Done (Inl e)
       | Inr latest \<Rightarrow> UpdateStatus (OKB (latest\<lparr>status := desired\<rparr>)) Done)"

text \<open>\<open>retry.RetryOnConflict\<close> with \<open>n\<close> attempts left after the first.\<close>

fun retry_on_conflict :: "nat \<Rightarrow> key \<Rightarrow> knowledge_base_status \<Rightarrow> (err + string) prog" where
  "retry_on_conflict 0 k desired = status_attempt k desired"
| "retry_on_conflict (Suc n) k desired =
     pbind (status_attempt k desired) (\<lambda>r.
       case r of
         Inl e \<Rightarrow> if reason e = Conflict then retry_on_conflict n k desired else Done (Inl e)
       | Inr rv \<Rightarrow> Done (Inr rv))"

definition default_retries :: nat where "default_retries = 4"

definition status_loop :: "key \<Rightarrow> knowledge_base_status \<Rightarrow> (err + string) prog" where
  "status_loop = retry_on_conflict default_retries"

section \<open>The loop in the place of the call\<close>

primrec expand :: "'a prog \<Rightarrow> 'a prog" where
  "expand (Done a) = Done a"
| "expand Panic = Panic"
| "expand (Emit e p) = Emit e (expand p)"
| "expand (StatusUpdate k st f) = pbind (status_loop k st) (\<lambda>r. expand (f r))"
| "expand (Now f) = Now (\<lambda>r. expand (f r))"
| "expand (GetKB x f) = GetKB x (\<lambda>r. expand (f r))"
| "expand (GetJob x f) = GetJob x (\<lambda>r. expand (f r))"
| "expand (GetConfigMap x f) = GetConfigMap x (\<lambda>r. expand (f r))"
| "expand (GetSecret x f) = GetSecret x (\<lambda>r. expand (f r))"
| "expand (GetServiceAccount x f) = GetServiceAccount x (\<lambda>r. expand (f r))"
| "expand (GetRole x f) = GetRole x (\<lambda>r. expand (f r))"
| "expand (GetRoleBinding x f) = GetRoleBinding x (\<lambda>r. expand (f r))"
| "expand (GetRun x f) = GetRun x (\<lambda>r. expand (f r))"
| "expand (GetBackup x f) = GetBackup x (\<lambda>r. expand (f r))"
| "expand (GetRestore x f) = GetRestore x (\<lambda>r. expand (f r))"
| "expand (GetRetriever x f) = GetRetriever x (\<lambda>r. expand (f r))"
| "expand (GetDeployment x f) = GetDeployment x (\<lambda>r. expand (f r))"
| "expand (GetService x f) = GetService x (\<lambda>r. expand (f r))"
| "expand (GetIngress x f) = GetIngress x (\<lambda>r. expand (f r))"
| "expand (GetNetworkPolicy x f) = GetNetworkPolicy x (\<lambda>r. expand (f r))"
| "expand (GetDisruptionBudget x f) = GetDisruptionBudget x (\<lambda>r. expand (f r))"
| "expand (GetAutoscaler x f) = GetAutoscaler x (\<lambda>r. expand (f r))"
| "expand (GetVectorIndex x f) = GetVectorIndex x (\<lambda>r. expand (f r))"
| "expand (HttpDo x f) = HttpDo x (\<lambda>r. expand (f r))"
| "expand (SqlDo x f) = SqlDo x (\<lambda>r. expand (f r))"
| "expand (ListRuns x y f) = ListRuns x y (\<lambda>r. expand (f r))"
| "expand (Create x f) = Create x (\<lambda>r. expand (f r))"
| "expand (Update x f) = Update x (\<lambda>r. expand (f r))"
| "expand (UpdateStatus x f) = UpdateStatus x (\<lambda>r. expand (f r))"
| "expand (Delete x y z f) = Delete x y z (\<lambda>r. expand (f r))"
| "expand (CreateOrUpdateVI x y f) = CreateOrUpdateVI x y (\<lambda>r. expand (f r))"

text \<open>
  What a conflict-retrying status write is allowed to do, stated on its events and without the loop:
  one to \<open>n\<close> tries, each of them a read that fails, or a read directly followed by the write of the
  object it returned with nothing but the status replaced. Every try but the last ended in a
  conflict, a conflict ends it only with the last of the \<open>n\<close> tries, and the answer is the outcome of
  the last try.
\<close>

definition one_try :: "key \<Rightarrow> knowledge_base_status \<Rightarrow> event list \<Rightarrow> err + string \<Rightarrow> bool" where
  "one_try k st seg out \<longleftrightarrow>
     (\<exists>e. seg = [EvGetKB k (Inl e)] \<and> out = Inl e) \<or>
     (\<exists>latest. seg = [EvGetKB k (Inr latest), EvUpdateStatus (OKB (latest\<lparr>status := st\<rparr>)) out])"

definition conflicting :: "err + string \<Rightarrow> bool" where
  "conflicting out \<longleftrightarrow> (case out of Inl e \<Rightarrow> reason e = Conflict | Inr rv \<Rightarrow> False)"

definition status_segment :: "nat \<Rightarrow> key \<Rightarrow> knowledge_base_status \<Rightarrow> event list \<Rightarrow> err + string \<Rightarrow> bool" where
  "status_segment n k st seg res \<longleftrightarrow>
     (\<exists>tries outs. seg = concat tries \<and> list_all2 (one_try k st) tries outs \<and> outs \<noteq> [] \<and> length outs \<le> n \<and>
        last outs = res \<and> list_all conflicting (butlast outs) \<and> (conflicting res \<longrightarrow> length outs = n))"

text \<open>A concrete trace refines an abstract one when each status call stands for such a segment.\<close>

inductive refines :: "event list \<Rightarrow> event list \<Rightarrow> bool" where
  refines_Nil: "refines [] []"
| refines_same: "refines atr ctr \<Longrightarrow> refines (e # atr) (e # ctr)"
| refines_write: "status_segment 5 k st seg res \<Longrightarrow> refines atr ctr \<Longrightarrow>
    refines (EvStatusUpdate k st res # atr) (seg @ ctr)"

definition refined_run :: "'a prog \<Rightarrow> event list \<Rightarrow> 'a option \<Rightarrow> bool" where
  "refined_run p ctr r \<longleftrightarrow> (\<exists>atr. runs p atr r \<and> refines atr ctr)"

lemma refined_run_step:
  assumes "wp q (refined_run p')" "\<And>atr r. runs p' atr r \<Longrightarrow> runs p (e # atr) r"
  shows "wp q (\<lambda>tr. refined_run p (e # tr))"
proof (rule wp_mono [OF assms(1)])
  fix ctr r
  assume "refined_run p' ctr r"
  then obtain atr where "runs p' atr r" "refines atr ctr" by (auto simp: refined_run_def)
  with assms(2) refines_same show "refined_run p (e # ctr) r" unfolding refined_run_def by blast
qed

section \<open>What the loop does\<close>

lemma wp_status_attempt:
  "wp (status_attempt k st) Q \<longleftrightarrow>
     (\<forall>e. Q [EvGetKB k (Inl e)] (Some (Inl e))) \<and>
     (\<forall>latest a. Q [EvGetKB k (Inr latest), EvUpdateStatus (OKB (latest\<lparr>status := st\<rparr>)) a] (Some a))"
proof -
  have "(\<forall>r :: err + knowledge_base. P r) \<longleftrightarrow> (\<forall>e. P (Inl e)) \<and> (\<forall>x. P (Inr x))" for P
    by (metis sumE)
  then show ?thesis by (simp add: status_attempt_def)
qed

lemma segment_last: "one_try k st seg res \<Longrightarrow> 0 < n \<Longrightarrow> (conflicting res \<Longrightarrow> n = 1) \<Longrightarrow> status_segment n k st seg res"
  unfolding status_segment_def by (rule exI [of _ "[seg]"], rule exI [of _ "[res]"]) auto

lemma segment_more:
  assumes "one_try k st seg out" "conflicting out" "status_segment n k st segs res"
  shows "status_segment (Suc n) k st (seg @ segs) res"
proof -
  from assms(3) obtain tries outs where "segs = concat tries" "list_all2 (one_try k st) tries outs" "outs \<noteq> []"
    "length outs \<le> n" "last outs = res" "list_all conflicting (butlast outs)" "conflicting res \<longrightarrow> length outs = n"
    unfolding status_segment_def by blast
  with assms(1,2) show ?thesis
    unfolding status_segment_def by (intro exI [of _ "seg # tries"] exI [of _ "out # outs"]) simp
qed

lemma one_try_simps:
  "one_try k st [EvGetKB k (Inl e)] (Inl e)"
  "one_try k st [EvGetKB k (Inr latest), EvUpdateStatus (OKB (latest\<lparr>status := st\<rparr>)) out] out"
  "conflicting (Inl e) \<longleftrightarrow> reason e = Conflict" "\<not> conflicting (Inr rv)"
  by (simp_all add: one_try_def conflicting_def)

definition loop_post :: "nat \<Rightarrow> key \<Rightarrow> knowledge_base_status \<Rightarrow> event list \<Rightarrow> (err + string) option \<Rightarrow> bool" where
  "loop_post n k st tr r \<longleftrightarrow> (\<exists>res. r = Some res \<and> status_segment n k st tr res)"

lemma loop_post_last: "one_try k st seg res \<Longrightarrow> 0 < n \<Longrightarrow> (conflicting res \<Longrightarrow> n = 1) \<Longrightarrow> loop_post n k st seg (Some res)"
  unfolding loop_post_def by (rule exI [of _ res]) (simp add: segment_last)

lemma loop_post_more:
  assumes "one_try k st seg (Inl e)" "reason e = Conflict" "loop_post n k st tr r"
  shows "loop_post (Suc n) k st (seg @ tr) r"
  using assms segment_more [OF assms(1)] by (auto simp: loop_post_def one_try_simps)

lemma wp_status_try:
  "wp (status_attempt k st) (\<lambda>tr r. \<exists>out. r = Some out \<and> one_try k st tr out)"
  by (auto simp: wp_status_attempt one_try_def)

lemma wp_retry_on_conflict: "wp (retry_on_conflict n k st) (loop_post (Suc n) k st)"
proof (induction n)
  case 0
  show ?case
    unfolding retry_on_conflict.simps
    by (rule wp_mono [OF wp_status_try]) (auto intro: loop_post_last)
next
  case (Suc n)
  show ?case
    unfolding retry_on_conflict.simps
  proof (rule wp_bindI [OF wp_status_try], goal_cases)
    case (1 tr out)
    then have t: "one_try k st tr out" by simp
    have done_: "wp (Done out) (\<lambda>tr'. loop_post (Suc (Suc n)) k st (tr @ tr'))" if "\<not> conflicting out"
      using loop_post_last [OF t] that by simp
    show ?case
    proof (cases out)
      case (Inl e)
      show ?thesis
      proof (cases "reason e = Conflict")
        case True
        have "wp (retry_on_conflict n k st) (\<lambda>tr'. loop_post (Suc (Suc n)) k st (tr @ tr'))"
          by (rule wp_mono [OF Suc]) (rule loop_post_more [OF t [unfolded Inl] True])
        with True show ?thesis by (simp add: Inl)
      qed (use done_ Inl in \<open>simp add: one_try_simps\<close>)
    qed (use done_ in \<open>simp add: one_try_simps\<close>)
  qed auto
qed

lemma status_loop_post: "runs (status_loop k st) tr r \<Longrightarrow> loop_post 5 k st tr r"
  using wpD [OF wp_retry_on_conflict [of default_retries k st]]
  unfolding status_loop_def default_retries_def by (simp add: numeral_eq_Suc)

text \<open>Reading a segment: every write follows its own read, and at most one write per try.\<close>

lemma tries_paired:
  "list_all2 (one_try k st) tries outs \<Longrightarrow> concat tries = pre @ EvUpdateStatus x a # post \<Longrightarrow>
   \<exists>pre' latest. pre = pre' @ [EvGetKB k (Inr latest)] \<and> x = OKB (latest\<lparr>status := st\<rparr>)"
proof (induction tries outs arbitrary: pre rule: list_all2_induct)
  case Nil
  then show ?case by simp
next
  case (Cons t ts o1 os)
  have rest: ?case if "pre = us @ vs" "concat ts = vs @ EvUpdateStatus x a # post" for us vs
    using Cons.IH [OF that(2)] that(1) by (metis append.assoc)
  from Cons.hyps(1) show ?case
    unfolding one_try_def
  proof (elim disjE exE conjE)
    fix e
    assume "t = [EvGetKB k (Inl e)]"
    with Cons.prems rest [of t] show ?thesis by (auto simp: Cons_eq_append_conv)
  next
    fix latest
    assume t: "t = [EvGetKB k (Inr latest), EvUpdateStatus (OKB (latest\<lparr>status := st\<rparr>)) o1]"
    with Cons.prems rest [of t] show ?thesis by (auto simp: Cons_eq_append_conv)
  qed
qed

lemma tries_writes:
  "list_all2 (one_try k st) tries outs \<Longrightarrow>
   count_calls (\<lambda>e. \<exists>x a. e = EvUpdateStatus x a) (concat tries) \<le> length outs"
  by (induction tries outs rule: list_all2_induct) (auto simp: one_try_def)

lemma tries_accepted:
  "list_all2 (one_try k st) tries outs \<Longrightarrow> (\<exists>x. EvUpdateStatus x (Inr rv) \<in> set (concat tries)) \<longleftrightarrow> Inr rv \<in> set outs"
  by (induction tries outs rule: list_all2_induct) (auto simp: one_try_def)

lemma accepted_last:
  assumes "list_all conflicting (butlast outs)" "outs \<noteq> []"
  shows "Inr rv \<in> set outs \<longleftrightarrow> last outs = Inr rv"
proof (cases outs rule: rev_cases)
  case (snoc us u)
  have "Inr rv \<notin> set us" using assms(1) by (auto simp: snoc list_all_iff one_try_simps)
  then show ?thesis by (auto simp: snoc)
qed (use assms(2) in simp)

lemma expand_refined_run: "wp (expand p) (refined_run p)"
proof (induction p)
  case (Done a)
  show ?case by (simp add: refined_run_def refines_Nil)
next
  case Panic
  show ?case by (simp add: refined_run_def refines_Nil)
next
  case (StatusUpdate k st f)
  show ?case
    unfolding expand.simps
  proof (rule wp_bindI)
    show "wp (status_loop k st) (loop_post 5 k st)"
      by (rule wpI) (rule status_loop_post)
  next
    fix tr res
    assume "loop_post 5 k st tr (Some res)"
    then have l: "status_segment 5 k st tr res" by (simp add: loop_post_def)
    show "wp (expand (f res)) (\<lambda>tr'. refined_run (StatusUpdate k st f) (tr @ tr'))"
    proof (rule wp_mono [OF StatusUpdate.IH [OF rangeI]])
      fix ctr r
      assume "refined_run (f res) ctr r"
      then obtain atr where "runs (f res) atr r" "refines atr ctr" by (auto simp: refined_run_def)
      with refines_write [OF l] show "refined_run (StatusUpdate k st f) (tr @ ctr) r"
        unfolding refined_run_def by (intro exI [of _ "EvStatusUpdate k st res # atr"]) simp
    qed
  next
    fix tr
    assume "loop_post 5 k st tr None"
    then show "refined_run (StatusUpdate k st f) tr None" by (simp add: loop_post_def)
  qed
next
  case (Emit e p)
  show ?case
    unfolding expand.simps wp.simps by (rule refined_run_step [OF Emit.IH]) (rule runs_Emit)
qed (simp only: expand.simps wp.simps, intro allI, rule refined_run_step, blast, erule runs.intros)+

section \<open>Properties\<close>

text \<open>
  C11. The status write is safe against concurrent writers: whatever the server answers, the loop
  returns; it writes at most five times, and the call directly before each write is the read of the
  very object that is written, with nothing but the status replaced by the desired one; it reports
  success exactly when a write was accepted, with the version of that write, and it gives up on a
  conflict only after five tries.
\<close>

theorem status_loop_correct:
  assumes "runs (status_loop k st) tr r"
  shows "\<exists>res. r = Some res \<and>
           count_calls (\<lambda>e. \<exists>x a. e = EvUpdateStatus x a) tr \<le> 5 \<and>
           (\<forall>pre x a post. tr = pre @ EvUpdateStatus x a # post \<longrightarrow>
              (\<exists>pre' latest. pre = pre' @ [EvGetKB k (Inr latest)] \<and> x = OKB (latest\<lparr>status := st\<rparr>))) \<and>
           (\<forall>rv. res = Inr rv \<longleftrightarrow> (\<exists>x. EvUpdateStatus x (Inr rv) \<in> set tr)) \<and>
           (\<forall>e. res = Inl e \<and> reason e = Conflict \<longrightarrow> count_calls (\<lambda>e. \<exists>a. e = EvGetKB k a) tr = 5)"
proof -
  obtain res tries outs where r: "r = Some res" and tr: "tr = concat tries" and outs: "outs \<noteq> []" "length outs \<le> 5"
    and t: "list_all2 (one_try k st) tries outs" and l: "last outs = res" "list_all conflicting (butlast outs)"
    and c: "conflicting res \<longrightarrow> length outs = 5"
    using status_loop_post [OF assms] unfolding loop_post_def status_segment_def by blast
  from t have reads: "count_calls (\<lambda>e. \<exists>a. e = EvGetKB k a) (concat tries) = length outs"
    by (induction tries outs rule: list_all2_induct) (auto simp: one_try_def)
  show ?thesis
    using tries_writes [OF t] tries_paired [OF t] tries_accepted [OF t] accepted_last [OF l(2) outs(1)] outs(2) l(1) c reads
    by (intro exI [of _ res]) (auto simp: r tr one_try_simps)
qed

text \<open>
  C35. Replacing every status write of a program by the conflict-retrying loop refines it: each run
  of the expanded program is a run of the program with the same result, in which each status write
  with its answer stands for at most five tries - a read directly followed by the write of the object
  read with the new status - of which all but the last ended in a conflict and the last gave the
  answer.
\<close>

theorem expanded_program_refines:
  assumes "runs (expand p) ctr r"
  shows "\<exists>atr. runs p atr r \<and> refines atr ctr"
  using wpD [OF expand_refined_run assms] by (simp add: refined_run_def)

definition conflict_then_ok :: "event list" where
  "conflict_then_ok =
     [EvGetKB (''ns'', ''kb'') (Inr demo_kb),
      EvUpdateStatus (OKB (demo_kb\<lparr>status := zero_status\<lparr>ingestRound := 1\<rparr>\<rparr>)) (Inl (Err Conflict ''c'')),
      EvGetKB (''ns'', ''kb'') (Inr demo_kb),
      EvUpdateStatus (OKB (demo_kb\<lparr>status := zero_status\<lparr>ingestRound := 1\<rparr>\<rparr>)) (Inr ''9'')]"

lemma conflict_then_ok_runs:
  "runs (status_loop (''ns'', ''kb'') (zero_status\<lparr>ingestRound := 1\<rparr>)) conflict_then_ok (Some (Inr ''9''))"
  by (simp add: status_loop_def default_retries_def numeral_eq_Suc conflict_then_ok_def status_attempt_def)

theorem status_loop_correct_witness:
  "count_calls (\<lambda>e. \<exists>x a. e = EvUpdateStatus x a) conflict_then_ok \<le> 5 \<and>
   (\<exists>x. EvUpdateStatus x (Inr ''9'') \<in> set conflict_then_ok)"
  using status_loop_correct [OF conflict_then_ok_runs] by blast

theorem expanded_program_refines_witness:
  "\<exists>atr. runs (statusUpdate (upd_status (\<lambda>s. s\<lparr>ingestRound := 1\<rparr>) demo_kb)) atr
           (Some (upd_status (\<lambda>s. s\<lparr>ingestRound := 1\<rparr>) demo_kb\<lparr>kb_meta := (kb_meta demo_kb)\<lparr>m_resourceVersion := ''9''\<rparr>\<rparr>, None)) \<and>
         refines atr conflict_then_ok"
proof -
  have "runs (expand (statusUpdate (upd_status (\<lambda>s. s\<lparr>ingestRound := 1\<rparr>) demo_kb))) (conflict_then_ok @ [])
          (Some (upd_status (\<lambda>s. s\<lparr>ingestRound := 1\<rparr>) demo_kb\<lparr>kb_meta := (kb_meta demo_kb)\<lparr>m_resourceVersion := ''9''\<rparr>\<rparr>, None))"
    unfolding statusUpdate_def expand.simps
    by (rule runs_pbindI [of _ _ "Inr ''9''"]) (use conflict_then_ok_runs in \<open>simp_all add: upd_status_def\<close>)
  from expanded_program_refines [OF this] show ?thesis by simp
qed

end
