(* ===== verification/Ingestion.thy ===== *)
theory Ingestion
  imports Worker_Identity Status_Update
begin

text \<open>
  Ingestion (\<open>internal/controller/ingestion_controller.go\<close>): a Job is started, watched and
  finalized, and each run leaves an IngestionRun record. A handler takes the KnowledgeBase it may
  modify; \<open>reconcileActiveJob\<close> returns it, because the reconciler goes on with it when the Job
  turned out to be gone.
\<close>

section \<open>Shared steps\<close>

text \<open>The Kubernetes event of a handler; the recorder is set up by \<open>cmd/main.go\<close>.\<close>

abbreviation emit_event :: "event_type \<Rightarrow> string \<Rightarrow> string \<Rightarrow> 'a prog \<Rightarrow> 'a prog" where
  "emit_event ty rsn msg k \<equiv> Emit (Event ty rsn msg) k"

abbreviation clearActiveJob :: "knowledge_base \<Rightarrow> knowledge_base" where
  "clearActiveJob kb \<equiv> upd_status (\<lambda>s. s\<lparr>activeJob := '''', activeJobStartedAt := None\<rparr>) kb"

text \<open>\<open>if err := r.statusUpdate(ctx, kb); err != nil { return ctrl.Result{}, err }; k\<close>.\<close>

definition save_then :: "knowledge_base \<Rightarrow> (knowledge_base \<Rightarrow> reconcile_result prog) \<Rightarrow> reconcile_result prog" where
  "save_then kb k =
     pbind (statusUpdate kb) (\<lambda>(kb, e). case e of Some x \<Rightarrow> Done (no_requeue, Some x) | None \<Rightarrow> k kb)"

text \<open>\<open>return ctrl.Result{}, r.statusUpdate(ctx, kb)\<close>.\<close>

definition save_return :: "knowledge_base \<Rightarrow> reconcile_result prog" where
  "save_return kb = pbind (statusUpdate kb) (\<lambda>(kb, e). Done (no_requeue, e))"

text \<open>A quota refusal: the condition is recorded, an event is sent and the pass is retried in a minute.\<close>

definition quota_exceeded :: "lib \<Rightarrow> knowledge_base \<Rightarrow> string \<Rightarrow> string \<Rightarrow> reconcile_result prog" where
  "quota_exceeded L kb msg note =
     save_then (setCondition L kb ConditionReady ConditionFalse ''ResourceQuotaExceeded'' msg) (\<lambda>kb.
       emit_event EventWarning ''ResourceQuotaExceeded'' note (Done (requeue_after minute, None)))"

definition spec_too_large :: "lib \<Rightarrow> knowledge_base \<Rightarrow> reconcile_result prog" where
  "spec_too_large L kb =
     save_return (setCondition L (upd_status (\<lambda>s. s\<lparr>phase := PhaseFailed\<rparr>) kb) ConditionReady ConditionFalse
       ''SpecConfigTooLarge''
       ''worker spec ConfigMap exceeds 1 MiB limit; reduce includeGlobs or web URLs, or split into multiple KnowledgeBases'')"

text \<open>
  The steps \<open>startIngest\<close> and \<open>startEval\<close> share, in their order: the size check, the spec
  ConfigMap, the worker's ConfigMaps and identity, the owner reference and the Job.
\<close>

definition launch_job ::
  "lib \<Rightarrow> knowledge_base \<Rightarrow> job \<Rightarrow> string \<Rightarrow> string list \<Rightarrow> (job \<Rightarrow> reconcile_result prog) \<Rightarrow> reconcile_result prog" where
  "launch_job L kb j specJSON extra k =
     (if \<not> specConfigMapSizeOK specJSON then spec_too_large L kb
      else Create (OConfigMap (specConfigMap (kb_namespace kb) (specConfigMapName L (job_name j)) specJSON)) (\<lambda>r.
        case ignoreAlreadyExists r of
          Some e \<Rightarrow>
            if isQuotaExceeded e
            then quota_exceeded L kb ''cannot create ConfigMap: resource quota exceeded''
                   ''resource quota prevents creating spec ConfigMap''
            else Done (no_requeue, Some e)
        | None \<Rightarrow>
            pbind (prepareWorkerJob L kb (job_name j) extra) (\<lambda>r.
            case r of
              Some e \<Rightarrow>
                if isQuotaExceeded e
                then quota_exceeded L kb ''cannot create worker resources: resource quota exceeded''
                       ''resource quota prevents creating worker identity/resources''
                else Done (no_requeue, Some e)
            | None \<Rightarrow>
                (case set_controller_reference L (kb_owner kb) (job_meta j) of
                   Inl e \<Rightarrow> Done (no_requeue, Some e)
                 | Inr m \<Rightarrow>
                     let j = j\<lparr>job_meta := m\<rparr>
                     in Create (OJob j) (\<lambda>r.
                        case r of
                          Some e \<Rightarrow>
                            if isQuotaExceeded e
                            then quota_exceeded L kb ''cannot create Job: resource quota exceeded''
                                   ''resource quota prevents creating worker Job''
                            else Done (no_requeue, ignoreAlreadyExists (Some e))
                        | None \<Rightarrow> k j)))))"

section \<open>IngestionRuns\<close>

definition finalizeIngestionRun ::
  "string \<Rightarrow> string \<Rightarrow> ingestion_run_phase \<Rightarrow> int \<Rightarrow> ingest_source_result list \<Rightarrow> string \<Rightarrow> unit prog" where
  "finalizeIngestionRun ns name ph chunks sources errMsg =
     GetRun (ns, name) (\<lambda>res.
       case res of
         Inl e \<Rightarrow> Done ()
       | Inr ir \<Rightarrow>
           Now (\<lambda>now.
             UpdateStatus (ORun (ir\<lparr>ir_status := (ir_status ir)
               \<lparr>ir_phase := ph, ir_completionTime := Some now, ir_totalChunks := chunks,
                ir_sources := toSourceStatus sources, ir_error := errMsg\<rparr>\<rparr>)) (\<lambda>_. Done ())))"

definition run_key :: "ingestion_run \<Rightarrow> key" where
  "run_key r = (m_namespace (ir_meta r), m_name (ir_meta r))"

fun delete_runs :: "ingestion_run list \<Rightarrow> unit prog" where
  "delete_runs [] = Done ()"
| "delete_runs (r # rs) = Delete KindRun DefaultPropagation (run_key r) (\<lambda>_. delete_runs rs)"

definition terminal_run :: "ingestion_run \<Rightarrow> bool" where
  "terminal_run r \<longleftrightarrow> ir_phase (ir_status r) = IngestionRunSucceeded \<or> ir_phase (ir_status r) = IngestionRunFailed"

definition pruneIngestionRuns :: "lib \<Rightarrow> string \<Rightarrow> string \<Rightarrow> unit prog" where
  "pruneIngestionRuns L ns kbName =
     ListRuns ns kbName (\<lambda>res.
       case res of
         Inl e \<Rightarrow> Done ()
       | Inr items \<Rightarrow>
           let terminal = filter terminal_run items
           in if length terminal \<le> 10 then Done ()
              else delete_runs (take (length terminal - 10) (sort_runs L terminal)))"

section \<open>Starting an ingestion\<close>

definition ingestMode :: "knowledge_base \<Rightarrow> string \<Rightarrow> ingest_mode" where
  "ingestMode kb rsn =
     (if prefix ''freshness'' rsn \<or> prefix ''deferred'' rsn then
        (if in_mode (ks_ingestion (spec kb)) = ModeUnset then IngestIncremental
         else in_mode (ks_ingestion (spec kb)))
      else IngestFull)"

definition newIngestionRun ::
  "lib \<Rightarrow> knowledge_base \<Rightarrow> string \<Rightarrow> ingest_mode \<Rightarrow> string \<Rightarrow> chunking_spec \<Rightarrow> ingestion_run" where
  "newIngestionRun L kb name mode hash eff =
     (let m = new_meta name (kb_namespace kb) [labelKB \<mapsto> kb_name kb, labelManagedBy \<mapsto> ''kuberag''];
          m = (case set_controller_reference L (kb_owner kb) m of Inl e \<Rightarrow> m | Inr m' \<Rightarrow> m')
      in \<lparr>ir_meta = m,
          ir_spec = \<lparr>irs_knowledgeBaseRef = kb_name kb, irs_mode = mode, irs_specHash = hash,
                     irs_effectiveChunking = eff\<rparr>,
          ir_status = \<lparr>ir_phase = RunUnset, ir_startTime = None, ir_completionTime = None,
                       ir_totalChunks = 0, ir_sources = [], ir_error = ''''\<rparr>\<rparr>)"

text \<open>The last steps: the run is marked as running, old runs are pruned and the status is written.\<close>

definition ingest_started ::
  "lib \<Rightarrow> knowledge_base \<Rightarrow> job \<Rightarrow> ingest_mode \<Rightarrow> string \<Rightarrow> reconcile_result prog" where
  "ingest_started L kb j mode rsn =
     pbind (pruneIngestionRuns L (kb_namespace kb) (kb_name kb)) (\<lambda>_.
       let kb = upd_status (\<lambda>s. s\<lparr>phase := PhaseIngesting, activeJob := job_name j\<rparr>) kb
       in Now (\<lambda>now.
          let kb = upd_status (\<lambda>s. s\<lparr>activeJobStartedAt := Some now\<rparr>) kb;
              kb = setCondition L kb ConditionIngesting ConditionTrue ''JobCreated''
                     (mode_string mode @ '' ingestion started ('' @ rsn @ '')'');
              kb = setCondition L kb ConditionReady ConditionFalse ''Ingesting'' ''ingestion in progress''
          in emit_event EventNormal ''IngestionStarted'' (mode_string mode @ '' ingestion: '' @ rsn)
             (save_then kb (\<lambda>kb. Done (requeue_after (10 * second), None)))))"

definition record_run ::
  "lib \<Rightarrow> knowledge_base \<Rightarrow> ingestion_run \<Rightarrow> reconcile_result prog \<Rightarrow> reconcile_result prog" where
  "record_run L kb ir k =
     (let running = (\<lambda>ir.
            if ir_phase (ir_status ir) = RunUnset then
              Now (\<lambda>now.
                UpdateStatus (ORun (ir\<lparr>ir_status := (ir_status ir)
                  \<lparr>ir_phase := IngestionRunRunning, ir_startTime := Some now\<rparr>\<rparr>)) (\<lambda>r.
                  case r of Inl e \<Rightarrow> Done (no_requeue, Some e) | Inr _ \<Rightarrow> k))
            else k)
      in Create (ORun ir) (\<lambda>r.
         case r of
           None \<Rightarrow> running ir
         | Some e \<Rightarrow>
             if isQuotaExceeded e
             then quota_exceeded L kb ''cannot create IngestionRun: resource quota exceeded''
                    ''resource quota prevents creating IngestionRun''
             else if \<not> is_already_exists e then Done (no_requeue, Some e)
             else GetRun (run_key ir) (\<lambda>res.
               case res of Inl e \<Rightarrow> Done (no_requeue, Some e) | Inr ir \<Rightarrow> running ir)))"

definition startIngest ::
  "lib \<Rightarrow> knowledge_base \<Rightarrow> chunking_spec \<Rightarrow> string \<Rightarrow> string \<Rightarrow> string \<Rightarrow> reconcile_result prog" where
  "startIngest L kb eff hash secretsHash rsn =
     (let kb = upd_status (\<lambda>s. s\<lparr>deferCronIngest := False\<rparr>) kb;
          mode = ingestMode kb rsn;
          kb = upd_status (\<lambda>s. s\<lparr>ingestRound := wrap64 (ingestRound s + 1)\<rparr>) kb
      in pbind (buildIngestJob L kb hash secretsHash mode eff) (\<lambda>built.
         case built of
           Inl e \<Rightarrow> Done (no_requeue, Some e)
         | Inr (j, specJSON) \<Rightarrow>
             launch_job L kb j specJSON [] (\<lambda>j.
               record_run L kb (newIngestionRun L kb (job_name j) mode hash eff)
                 (ingest_started L kb j mode rsn))))"

section \<open>Finishing an ingestion\<close>

type_synonym active_result = "ctrl_result \<times> bool \<times> err option"

text \<open>The deletions after a finished ingestion.\<close>

definition cleanup_ingest :: "lib \<Rightarrow> knowledge_base \<Rightarrow> job \<Rightarrow> unit prog" where
  "cleanup_ingest L kb j =
     pbind (deleteResult L (kb_namespace kb) (job_name j)) (\<lambda>_.
     pbind (deleteSpecConfigMap L (kb_namespace kb) (job_name j)) (\<lambda>_.
     pbind (deleteCheckpointConfigMap L (kb_namespace kb) (job_name j)) (\<lambda>_.
     deleteJob j)))"

definition ingest_failed_status ::
  "lib \<Rightarrow> knowledge_base \<Rightarrow> ingest_source_result list \<Rightarrow> string \<Rightarrow> time \<Rightarrow> knowledge_base" where
  "ingest_failed_status L kb checkpoint hash now =
     (let kb = upd_status (\<lambda>s. s\<lparr>phase := PhaseFailed, activeJob := '''', activeJobStartedAt := None,
                 lastCheckpoint := checkpoint, lastFailedSpecHash := hash, lastFailureTime := Some now\<rparr>) kb;
          kb = setCondition L kb ConditionReady ConditionFalse ''IngestionFailed'' ''ingestion job failed''
      in setCondition L kb ConditionIngesting ConditionFalse ''Failed'' ''ingestion job failed'')"

definition ingest_succeeded_status ::
  "lib \<Rightarrow> knowledge_base \<Rightarrow> ingest_result \<Rightarrow> chunking_spec \<Rightarrow> string \<Rightarrow> string \<Rightarrow> time \<Rightarrow> knowledge_base" where
  "ingest_succeeded_status L kb result eff hash secretsHash now =
     (let kb = upd_status (\<lambda>s. s\<lparr>phase := PhaseReady, observedSpecHash := hash,
                 observedSecretsHash := secretsHash, lastFailedSpecHash := '''', lastFailureTime := None,
                 lastCheckpoint := [], observedEmbeddingModel := emb_model (ks_embedding (spec kb)),
                 observedEmbedding := Some (ks_embedding (spec kb)),
                 status_effectiveChunking := Some eff, pendingRetune := False,
                 indexedChunks := igr_totalChunks result, status_sources := toSourceStatus (igr_sources result),
                 lastIndexedTime := Some now, activeJob := '''', activeJobStartedAt := None,
                 observedGeneration := m_generation (kb_meta kb)\<rparr>) kb;
          kb = setCondition L kb ConditionReady ConditionTrue ''IngestionComplete''
                 (''indexed '' @ itoa (igr_totalChunks result) @ '' chunks'')
      in setCondition L kb ConditionIngesting ConditionFalse ''Complete'' ''ingestion finished'')"

text \<open>\<open>if err := r.statusUpdate(ctx, kb); err != nil { return ctrl.Result{}, true, err }; k\<close>.\<close>

definition save_handled ::
  "knowledge_base \<Rightarrow> (knowledge_base \<Rightarrow> (knowledge_base \<times> active_result) prog) \<Rightarrow> (knowledge_base \<times> active_result) prog" where
  "save_handled kb k =
     pbind (statusUpdate kb) (\<lambda>(kb, e). case e of Some x \<Rightarrow> Done (kb, no_requeue, True, Some x) | None \<Rightarrow> k kb)"

definition recordIngestFailure ::
  "lib \<Rightarrow> knowledge_base \<Rightarrow> job \<Rightarrow> ingest_source_result list \<Rightarrow> string \<Rightarrow> (knowledge_base \<times> active_result) prog" where
  "recordIngestFailure L kb j checkpoint hash =
     pbind (clearWorkerConfigMapAccess L kb) (\<lambda>_.
     Now (\<lambda>now.
     Emit (IngestionsTotal (kb_namespace kb) ''failed'')
     (emit_event EventWarning ''IngestionFailed'' (''ingestion job '' @ job_name j @ '' failed'')
     (save_handled (ingest_failed_status L kb checkpoint hash now) (\<lambda>kb.
     pbind (finalizeIngestionRun (kb_namespace kb) (job_name j) IngestionRunFailed 0 [] ''ingestion job failed'') (\<lambda>_.
     pbind (cleanup_ingest L kb j) (\<lambda>_.
     Done (kb, requeue_after minute, True, None))))))))"

definition recordIngestSuccess ::
  "lib \<Rightarrow> knowledge_base \<Rightarrow> job \<Rightarrow> ingest_result \<Rightarrow> chunking_spec \<Rightarrow> string \<Rightarrow> string \<Rightarrow> (knowledge_base \<times> active_result) prog" where
  "recordIngestSuccess L kb j result eff hash secretsHash =
     pbind (clearWorkerConfigMapAccess L kb) (\<lambda>_.
     Now (\<lambda>now.
     Emit (IndexedChunksGauge (kb_namespace kb) (igr_totalChunks result))
     (Emit (FreshnessGauge (kb_namespace kb) now)
     (Emit (IngestionsTotal (kb_namespace kb) ''succeeded'')
     (emit_event EventNormal ''IngestionComplete'' (''indexed '' @ itoa (igr_totalChunks result) @ '' chunks'')
     (save_handled (ingest_succeeded_status L kb result eff hash secretsHash now) (\<lambda>kb.
     pbind (finalizeIngestionRun (kb_namespace kb) (job_name j) IngestionRunSucceeded
              (igr_totalChunks result) (igr_sources result) '''') (\<lambda>_.
     pbind (cleanup_ingest L kb j) (\<lambda>_.
     Done (kb, requeue_now, True, None))))))))))"

definition finalizeIngest ::
  "lib \<Rightarrow> knowledge_base \<Rightarrow> job \<Rightarrow> chunking_spec \<Rightarrow> string \<Rightarrow> string \<Rightarrow> (knowledge_base \<times> active_result) prog" where
  "finalizeIngest L kb j eff hash secretsHash =
     (if jobFailed j then
        pbind (readCheckpointResult L (kb_namespace kb) (job_name j)) (\<lambda>checkpoint.
        recordIngestFailure L kb j checkpoint hash)
      else
        pbind (readResult L (parse_ingest_result L) (kb_namespace kb) (job_name j)) (\<lambda>r.
        case r of
          Inl e \<Rightarrow> Done (kb, requeue_after (5 * second), True, None)
        | Inr result \<Rightarrow> recordIngestSuccess L kb j result eff hash secretsHash))"

section \<open>What the helpers call\<close>

lemma never_statusUpdate:
  "(\<And>r. \<not> P (EvStatusUpdate (kb_namespace kb, kb_name kb) (status kb) r)) \<Longrightarrow> never P (statusUpdate kb)"
  by (auto simp: statusUpdate_def split: sum.split)

lemma at_most_save_then:
  "(\<And>r. \<not> P (EvStatusUpdate (kb_namespace kb, kb_name kb) (status kb) r)) \<Longrightarrow>
   (\<And>kb. at_most P (k kb) n) \<Longrightarrow> at_most P (save_then kb k) n"
  unfolding save_then_def by (rule never_pbind [OF never_statusUpdate]) (auto split: option.split)

lemma at_most_save_handled:
  "(\<And>r. \<not> P (EvStatusUpdate (kb_namespace kb, kb_name kb) (status kb) r)) \<Longrightarrow>
   (\<And>kb. at_most P (k kb) n) \<Longrightarrow> at_most P (save_handled kb k) n"
  unfolding save_handled_def by (rule never_pbind [OF never_statusUpdate]) (auto split: option.split)

lemma never_save_return:
  "(\<And>r. \<not> P (EvStatusUpdate (kb_namespace kb, kb_name kb) (status kb) r)) \<Longrightarrow> never P (save_return kb)"
  unfolding save_return_def by (rule never_pbind [OF never_statusUpdate]) auto

lemma kb_meta_setCondition [simp]: "kb_meta (setCondition L kb t s rsn m) = kb_meta kb"
  by (simp add: setCondition_def)

lemma spec_setCondition [simp]: "spec (setCondition L kb t s rsn m) = spec kb"
  by (simp add: setCondition_def)

lemma status_setCondition [simp]:
  "phase (status (setCondition L kb t s rsn m)) = phase (status kb)"
  "observedGeneration (status (setCondition L kb t s rsn m)) = observedGeneration (status kb)"
  "observedSpecHash (status (setCondition L kb t s rsn m)) = observedSpecHash (status kb)"
  "observedSecretsHash (status (setCondition L kb t s rsn m)) = observedSecretsHash (status kb)"
  "lastFailedSpecHash (status (setCondition L kb t s rsn m)) = lastFailedSpecHash (status kb)"
  "lastFailureTime (status (setCondition L kb t s rsn m)) = lastFailureTime (status kb)"
  "observedEmbeddingModel (status (setCondition L kb t s rsn m)) = observedEmbeddingModel (status kb)"
  "observedEmbedding (status (setCondition L kb t s rsn m)) = observedEmbedding (status kb)"
  "status_effectiveChunking (status (setCondition L kb t s rsn m)) = status_effectiveChunking (status kb)"
  "autoTuneAttempts (status (setCondition L kb t s rsn m)) = autoTuneAttempts (status kb)"
  "autoTuneStartedAt (status (setCondition L kb t s rsn m)) = autoTuneStartedAt (status kb)"
  "pendingRetune (status (setCondition L kb t s rsn m)) = pendingRetune (status kb)"
  "bestRecallPercent (status (setCondition L kb t s rsn m)) = bestRecallPercent (status kb)"
  "bestChunking (status (setCondition L kb t s rsn m)) = bestChunking (status kb)"
  "evalRound (status (setCondition L kb t s rsn m)) = evalRound (status kb)"
  "lastIndexedTime (status (setCondition L kb t s rsn m)) = lastIndexedTime (status kb)"
  "indexedChunks (status (setCondition L kb t s rsn m)) = indexedChunks (status kb)"
  "lastCheckpoint (status (setCondition L kb t s rsn m)) = lastCheckpoint (status kb)"
  "status_sources (status (setCondition L kb t s rsn m)) = status_sources (status kb)"
  "evaluation (status (setCondition L kb t s rsn m)) = evaluation (status kb)"
  "activeJob (status (setCondition L kb t s rsn m)) = activeJob (status kb)"
  "activeJobStartedAt (status (setCondition L kb t s rsn m)) = activeJobStartedAt (status kb)"
  "ingestRound (status (setCondition L kb t s rsn m)) = ingestRound (status kb)"
  "deferCronIngest (status (setCondition L kb t s rsn m)) = deferCronIngest (status kb)"
  by (simp_all add: setCondition_def)

lemma never_readResult:
  "(\<And>r. \<not> P (EvGetConfigMap (ns, resultConfigMapName L jn) r)) \<Longrightarrow> never P (readResult L parse ns jn)"
  by (auto simp: readResult_def Let_def split: sum.split option.split)

lemma never_readCheckpointResult:
  "(\<And>r. \<not> P (EvGetConfigMap (ns, checkpointConfigMapName L jn) r)) \<Longrightarrow> never P (readCheckpointResult L ns jn)"
  by (auto simp: readCheckpointResult_def split: sum.split option.split)

lemma never_scratchVolume: "never P (scratchVolume L s)"
  by (auto simp: scratchVolume_def split: option.split)

lemma never_baseJob: "never P (baseJob L kb name ty hash secretsHash cmName args env)"
  by (auto simp: baseJob_def Let_def intro!: never_pbind never_scratchVolume split: sum.split)

lemma never_buildIngestJob: "never P (buildIngestJob L kb hash secretsHash mode eff)"
  by (auto simp: buildIngestJob_def Let_def intro!: never_pbind never_baseJob split: sum.split)

lemma never_buildEvalJob: "never P (buildEvalJob L kb hash secretsHash round eff)"
  by (auto simp: buildEvalJob_def Let_def intro!: never_pbind never_baseJob split: sum.split option.split)

lemma never_buildCleanupJob: "never P (buildCleanupJob L kb secretsHash)"
  by (auto simp: buildCleanupJob_def Let_def intro!: never_pbind never_baseJob split: sum.split)

lemma never_quota_exceeded:
  assumes "\<And>st r. st = status (setCondition L kb ConditionReady ConditionFalse ''ResourceQuotaExceeded'' msg) \<Longrightarrow>
             \<not> P (EvStatusUpdate (kb_namespace kb, kb_name kb) st r)" "\<And>e. \<not> P (EvEmit e)"
  shows "never P (quota_exceeded L kb msg note)"
  unfolding quota_exceeded_def using assms by (intro at_most_save_then) (simp_all add: never_iff)

lemma never_spec_too_large:
  assumes "\<And>st r. st = status (setCondition L (upd_status (\<lambda>s. s\<lparr>phase := PhaseFailed\<rparr>) kb) ConditionReady ConditionFalse
       ''SpecConfigTooLarge''
       ''worker spec ConfigMap exceeds 1 MiB limit; reduce includeGlobs or web URLs, or split into multiple KnowledgeBases'') \<Longrightarrow>
             \<not> P (EvStatusUpdate (kb_namespace kb, kb_name kb) st r)"
  shows "never P (spec_too_large L kb)"
  unfolding spec_too_large_def using assms by (intro never_save_return) simp

lemma never_finalizeIngestionRun:
  "(\<And>k r. \<not> P (EvGetRun k r)) \<Longrightarrow> (\<And>t. \<not> P (EvNow t)) \<Longrightarrow> (\<And>x r. \<not> P (EvUpdateStatus (ORun x) r)) \<Longrightarrow>
   never P (finalizeIngestionRun ns n ph c ss msg)"
  by (auto simp: finalizeIngestionRun_def split: sum.split)

lemma never_delete_runs:
  "(\<And>k r. \<not> P (EvDelete KindRun DefaultPropagation k r)) \<Longrightarrow> never P (delete_runs rs)"
  by (induction rs) auto

lemma never_pruneIngestionRuns:
  "(\<And>n k r. \<not> P (EvListRuns n k r)) \<Longrightarrow> (\<And>k r. \<not> P (EvDelete KindRun DefaultPropagation k r)) \<Longrightarrow>
   never P (pruneIngestionRuns L ns n)"
  by (auto simp: pruneIngestionRuns_def Let_def intro!: never_delete_runs split: sum.split)

lemma never_cleanup_ingest:
  "(\<And>k p n r. \<not> P (EvDelete k p n r)) \<Longrightarrow> never P (cleanup_ingest L kb j)"
  by (auto simp: cleanup_ingest_def deleteResult_def deleteSpecConfigMap_def deleteCheckpointConfigMap_def deleteJob_def)

lemmas never_helpers =
  never_statusUpdate never_readResult never_readCheckpointResult never_buildIngestJob never_buildEvalJob
  never_buildCleanupJob never_quota_exceeded never_spec_too_large never_finalizeIngestionRun
  never_pruneIngestionRuns never_cleanup_ingest never_clearWorkerConfigMapAccess never_prepareWorkerJob
  never_ensureWorkerIdentity

section \<open>Status writes and deletions\<close>

definition is_delete :: "event \<Rightarrow> bool" where
  "is_delete e \<longleftrightarrow> (case e of EvDelete k p n r \<Rightarrow> True | _ \<Rightarrow> False)"

definition saved :: "event \<Rightarrow> bool" where
  "saved e \<longleftrightarrow> (case e of EvStatusUpdate k st r \<Rightarrow> (case r of Inl _ \<Rightarrow> False | Inr _ \<Rightarrow> True) | _ \<Rightarrow> False)"

lemma is_delete_simps [simp]:
  "is_delete (EvDelete k p n r1)"
  "\<not> is_delete (EvGetConfigMap x r2)" "\<not> is_delete (EvGetRole x r3)" "\<not> is_delete (EvUpdate ob r4)"
  "\<not> is_delete (EvStatusUpdate x st r5)" "\<not> is_delete (EvNow t)" "\<not> is_delete (EvEmit em)"
  by (simp_all add: is_delete_def)

definition status_write :: "event \<Rightarrow> (key \<times> knowledge_base_status) option" where
  "status_write e = (case e of EvStatusUpdate k st r \<Rightarrow> Some (k, st) | _ \<Rightarrow> None)"

lemma status_write_simps [simp]:
  "status_write (EvStatusUpdate k st r1) = Some (k, st)"
  "status_write (EvGetConfigMap x r2) = None" "status_write (EvGetRole x r3) = None"
  "status_write (EvUpdate ob r4) = None" "status_write (EvDelete kd p n r5) = None"
  "status_write (EvNow t) = None" "status_write (EvEmit em) = None" "status_write (EvGetRun x r6) = None"
  "status_write (EvUpdateStatus ob r7) = None" "status_write (EvCreate ob r8) = None"
  "status_write (EvListRuns a b r9) = None" "status_write (EvGetServiceAccount x r10) = None"
  "status_write (EvGetRoleBinding x r11) = None" "status_write (EvGetJob x r12) = None"
  "status_write (EvGetSecret x r13) = None" "status_write (EvGetKB x r14) = None"
  "status_write (EvCreateOrUpdateVI x f r15) = None"
  by (simp_all add: status_write_def)

text \<open>No deletion comes before a status write that was accepted.\<close>

abbreviation saves_first :: "'a prog \<Rightarrow> bool" where
  "saves_first \<equiv> guards saved is_delete"

lemma saved_simps [simp]:
  "saved (EvStatusUpdate k st (Inr rv))" "\<not> saved (EvStatusUpdate k st (Inl e))"
  "\<not> saved (EvEmit em)" "\<not> saved (EvNow t)" "\<not> saved (EvGetJob x r)" "\<not> saved (EvDelete kd p n r1)"
  by (simp_all add: saved_def)

lemma saves_first_save_handled: "saves_first (save_handled kb k)"
  by (auto simp: guards_def save_handled_def statusUpdate_def split: sum.split intro!: wpI)

lemma saves_first_finalizeIngest: "saves_first (finalizeIngest L kb j eff hash secretsHash)"
  unfolding finalizeIngest_def recordIngestFailure_def recordIngestSuccess_def
  by (auto intro!: guards_bind never_readCheckpointResult never_readResult never_clearWorkerConfigMapAccess
      saves_first_save_handled split: sum.split)

end
