(* ===== verification/Evaluation.thy ===== *)
theory Evaluation
  imports Ingestion
begin

text \<open>
  Retrieval-quality evaluation (\<open>internal/controller/evaluation_controller.go\<close>): when it is due, how
  its Job is started, and what its result does to the KnowledgeBase - the recall gate and the
  auto-tune loop.
\<close>

section \<open>Starting\<close>

definition eval_started :: "lib \<Rightarrow> knowledge_base \<Rightarrow> job \<Rightarrow> reconcile_result prog" where
  "eval_started L kb j =
     (let kb = upd_status (\<lambda>s. s\<lparr>activeJob := job_name j\<rparr>) kb
      in Now (\<lambda>now.
         let kb = upd_status (\<lambda>s. s\<lparr>activeJobStartedAt := Some now\<rparr>) kb;
             kb = setCondition L kb ConditionEvaluated ConditionFalse ''Evaluating''
                    ''running retrieval-quality evaluation''
         in emit_event EventNormal ''EvaluationStarted'' ''running retrieval-quality evaluation''
            (save_then kb (\<lambda>kb. Done (requeue_after (10 * second), None)))))"

definition startEval ::
  "lib \<Rightarrow> knowledge_base \<Rightarrow> chunking_spec \<Rightarrow> string \<Rightarrow> string \<Rightarrow> reconcile_result prog" where
  "startEval L kb eff hash secretsHash =
     (let kb = upd_status (\<lambda>s. s\<lparr>evalRound := wrap64 (evalRound s + 1)\<rparr>) kb
      in pbind (buildEvalJob L kb hash secretsHash (evalRound (status kb)) eff) (\<lambda>built.
         case built of
           Inl e \<Rightarrow> Done (no_requeue, Some e)
         | Inr (j, specJSON) \<Rightarrow>
             (case ks_retrievalQuality (spec kb) of
                None \<Rightarrow> Panic
              | Some rq \<Rightarrow> launch_job L kb j specJSON [rq_datasetRef rq] (eval_started L kb))))"

section \<open>Finishing\<close>

definition percent_vs :: "string \<Rightarrow> int \<Rightarrow> string \<Rightarrow> int \<Rightarrow> string" where
  "percent_vs a recall b target = a @ itoa recall @ ''%'' @ b @ itoa target @ ''%''"

text \<open>Every branch ends the same way: the status is written and the worker's leavings are deleted.\<close>

definition finish_eval :: "lib \<Rightarrow> job \<Rightarrow> knowledge_base \<Rightarrow> (knowledge_base \<times> active_result) prog" where
  "finish_eval L j kb =
     save_handled kb (\<lambda>kb.
       pbind (deleteResult L (kb_namespace kb) (job_name j)) (\<lambda>_.
       pbind (deleteSpecConfigMap L (kb_namespace kb) (job_name j)) (\<lambda>_.
       Done (kb, requeue_now, True, None))))"

definition recall_met ::
  "lib \<Rightarrow> job \<Rightarrow> knowledge_base \<Rightarrow> int \<Rightarrow> int \<Rightarrow> (knowledge_base \<times> active_result) prog" where
  "recall_met L j kb recall target =
     (let kb = upd_status (\<lambda>s. s\<lparr>phase := PhaseReady\<rparr>) kb
      in Now (\<lambda>now.
         pbind (recordAutoTuneDuration kb ''converged'' now) (\<lambda>kb.
         let kb = upd_status (\<lambda>s. s\<lparr>autoTuneAttempts := 0, bestChunking := None, bestRecallPercent := 0\<rparr>) kb
         in Emit (AutoTuneAttemptsGauge (kb_namespace kb) 0)
            (Emit (AutoTuneBestRecallGauge (kb_namespace kb) recall)
            (let kb = setCondition L kb ConditionEvaluated ConditionTrue ''RecallMet''
                        (percent_vs ''recall '' recall '' >= target '' target)
             in emit_event EventNormal ''RecallMet'' (percent_vs ''recall '' recall '' meets target '' target)
                (finish_eval L j kb))))))"

definition tune_again ::
  "lib \<Rightarrow> job \<Rightarrow> knowledge_base \<Rightarrow> retrieval_quality_spec \<Rightarrow> int \<Rightarrow> (knowledge_base \<times> active_result) prog" where
  "tune_again L j kb rq recall =
     pbind (applyAutoTune kb) (\<lambda>kb.
       Emit (AutoTuneAttemptsGauge (kb_namespace kb) (autoTuneAttempts (status kb)))
       (let kb = setCondition L kb ConditionEvaluated ConditionFalse ''AutoTuning''
                   (percent_vs ''recall '' recall '' < target '' (rq_minimumRecallPercent rq) @
                    ''; tuning chunking (attempt '' @ itoa (autoTuneAttempts (status kb)) @ '')'')
        in emit_event EventNormal ''AutoTuning''
             (percent_vs ''recall '' recall '' below target '' (rq_minimumRecallPercent rq) @
              '', re-indexing with tuned chunking (attempt '' @ itoa (autoTuneAttempts (status kb)) @ ''/'' @
              itoa (autoTuneMax (Some rq)) @ '')'')
           (finish_eval L j kb)))"

definition settling ::
  "lib \<Rightarrow> job \<Rightarrow> knowledge_base \<Rightarrow> int \<Rightarrow> (knowledge_base \<times> active_result) prog" where
  "settling L j kb target =
     (let kb = setCondition L kb ConditionEvaluated ConditionFalse ''AutoTuneSettling''
                 (''auto-tune exhausted; reverting to best config (recall '' @
                  itoa (bestRecallPercent (status kb)) @ ''%)'')
      in emit_event EventNormal ''AutoTuneSettling''
           (percent_vs ''auto-tune exhausted, re-indexing with best config seen (recall ''
              (bestRecallPercent (status kb)) '' < target '' target @ '')'')
         (finish_eval L j kb))"

definition degraded ::
  "lib \<Rightarrow> job \<Rightarrow> knowledge_base \<Rightarrow> int \<Rightarrow> int \<Rightarrow> (knowledge_base \<times> active_result) prog" where
  "degraded L j kb recall target =
     (let kb = upd_status (\<lambda>s. s\<lparr>phase := PhaseDegraded\<rparr>) kb;
          msg = percent_vs ''recall '' recall '' < target '' target @
                '' (best '' @ itoa (bestRecallPercent (status kb)) @ ''%)'';
          kb = setCondition L kb ConditionReady ConditionFalse ''RecallBelowTarget'' msg;
          kb = setCondition L kb ConditionEvaluated ConditionFalse ''RecallBelowTarget'' msg
      in emit_event EventWarning ''RecallBelowTarget''
           (percent_vs ''recall '' recall '' below target '' target @ '' and auto-tune exhausted (best '' @
            itoa (bestRecallPercent (status kb)) @ ''%)'')
         (finish_eval L j kb))"

definition recall_below ::
  "lib \<Rightarrow> job \<Rightarrow> knowledge_base \<Rightarrow> retrieval_quality_spec \<Rightarrow> int \<Rightarrow> (knowledge_base \<times> active_result) prog" where
  "recall_below L j kb rq recall =
     (let kb = recordBest kb recall;
          target = rq_minimumRecallPercent rq
      in Emit (AutoTuneBestRecallGauge (kb_namespace kb) (bestRecallPercent (status kb)))
         (if autoTuneEnabled (Some rq) then
            if autoTuneAttempts (status kb) < autoTuneMax (Some rq) then tune_again L j kb rq recall
            else Now (\<lambda>now.
              pbind (recordAutoTuneDuration kb ''exhausted'' now) (\<lambda>kb.
              let (kb, settled) = settleOnBest kb
              in if settled then settling L j kb target else degraded L j kb recall target))
          else degraded L j kb recall target))"

definition no_dataset :: "lib \<Rightarrow> job \<Rightarrow> knowledge_base \<Rightarrow> (knowledge_base \<times> active_result) prog" where
  "no_dataset L j kb =
     (let kb = setCondition L kb ConditionEvaluated ConditionFalse ''NoDataset''
                 (''evaluation dataset empty; recall gate skipped '' @ [CHR 0xE2, CHR 0x80, CHR 0x94] @
                  '' add queries to the dataset ConfigMap'')
      in emit_event EventWarning ''EvalNoDataset''
           ''evaluation dataset empty; skipping recall gate and auto-tune'' (finish_eval L j kb))"

text \<open>
  The dereference of \<open>rq\<close> panics when the spec has no retrieval quality any more.
\<close>

definition eval_result_read ::
  "lib \<Rightarrow> job \<Rightarrow> knowledge_base \<Rightarrow> eval_result \<Rightarrow> time \<Rightarrow> (knowledge_base \<times> active_result) prog" where
  "eval_result_read L j kb result now =
     (let kb = upd_status (\<lambda>s. s\<lparr>evaluation := Some \<lparr>ev_recallPercent = er_recallPercent result,
                 ev_p95LatencyMillis = er_p95LatencyMillis result, ev_queries = er_queries result,
                 ev_time = Some now\<rparr>\<rparr>) kb
      in Emit (RecallGauge (kb_namespace kb) (er_recallPercent result))
         (if er_queries result = 0 then no_dataset L j kb
          else case ks_retrievalQuality (spec kb) of
            None \<Rightarrow> Panic
          | Some rq \<Rightarrow>
              let target = rq_minimumRecallPercent rq;
                  below = (0 < target \<and> er_recallPercent result < target)
              in if \<not> below then recall_met L j kb (er_recallPercent result) target
                 else recall_below L j kb rq (er_recallPercent result)))"

definition finalizeEval :: "lib \<Rightarrow> knowledge_base \<Rightarrow> job \<Rightarrow> (knowledge_base \<times> active_result) prog" where
  "finalizeEval L kb j =
     (let kb = clearActiveJob kb
      in if jobFailed j then
           pbind (clearWorkerConfigMapAccess L kb) (\<lambda>_.
           let kb = setCondition L kb ConditionEvaluated ConditionFalse ''EvalFailed'' ''evaluation job failed''
           in emit_event EventWarning ''EvalFailed'' (''evaluation job '' @ job_name j @ '' failed'')
              (finish_eval L j kb))
         else
           pbind (readResult L (parse_eval_result L) (kb_namespace kb) (job_name j)) (\<lambda>r.
           case r of
             Inl e \<Rightarrow> Done (kb, requeue_after (5 * second), True, None)
           | Inr result \<Rightarrow>
               pbind (clearWorkerConfigMapAccess L kb) (\<lambda>_.
               Now (\<lambda>now. eval_result_read L j kb result now))))"

section \<open>When an evaluation is due\<close>

definition evalDue :: "lib \<Rightarrow> knowledge_base \<Rightarrow> bool prog" where
  "evalDue L kb =
     (case ks_retrievalQuality (spec kb) of
        None \<Rightarrow> Done False
      | Some rq \<Rightarrow>
          if rq_enabled rq = Some False then Done False
          else if phase (status kb) \<noteq> PhaseReady \<and> phase (status kb) \<noteq> PhaseDegraded then Done False
          else if indexedChunks (status kb) = 0 then Done False
          else case evaluation (status kb) of
            None \<Rightarrow> Done True
          | Some ev \<Rightarrow>
              if rq_evalSchedule rq = '''' then Done False
              else Now (\<lambda>now. Done (cronDue L (rq_evalSchedule rq) (time_or_zero (ev_time ev)) now)))"

definition nextEvalFire :: "lib \<Rightarrow> knowledge_base \<Rightarrow> time \<Rightarrow> time" where
  "nextEvalFire L kb now =
     (case ks_retrievalQuality (spec kb) of
        None \<Rightarrow> zero_time
      | Some rq \<Rightarrow> nextFire L (rq_evalSchedule rq) now)"

end
