(* ===== verification/Secrets.thy ===== *)
theory Secrets
  imports Decisions
begin

text \<open>
  The fingerprint of the credentials a KnowledgeBase refers to (\<open>internal/controller/secrets.go\<close> and
  \<open>computeSecretsHash\<close> of \<open>decision_helpers.go\<close>). The hasher is the string of the bytes written
  to it so far.
\<close>

section \<open>The operations\<close>

definition appendSecretHash ::
  "string \<Rightarrow> string \<Rightarrow> secret_key_ref option \<Rightarrow> string \<Rightarrow> string prog" where
  "appendSecretHash ns label ref h =
     (case ref of
        None \<Rightarrow> Done h
      | Some r \<Rightarrow>
          let h = h @ label @ [CHR 0x00] @ skr_name r @ [CHR 0x00] @ skr_key r @ [CHR 0x00]
          in GetSecret (ns, skr_name r) (\<lambda>res.
               case res of
                 Inl e \<Rightarrow> Done (h @ [CHR 0x00])
               | Inr sec \<Rightarrow>
                   (case sec_data sec (skr_key r) of
                      Some v \<Rightarrow> Done (h @ [CHR 0x01] @ v @ [CHR 0x00])
                    | None \<Rightarrow> Done (h @ [CHR 0x00]))))"

text \<open>The loop over the sources; a source may have both a GitHub and an S3 part.\<close>

fun hash_sources :: "string \<Rightarrow> source list \<Rightarrow> string \<Rightarrow> string prog" where
  "hash_sources ns [] h = Done h"
| "hash_sources ns (s # ss) h =
     pbind (case src_github s of
              None \<Rightarrow> Done h
            | Some g \<Rightarrow>
                if gh_tokenSecretRef g = None then Done h
                else appendSecretHash ns (''source.github.'' @ src_name s) (gh_tokenSecretRef g) h) (\<lambda>h.
     pbind (case src_s3 s of
              None \<Rightarrow> Done h
            | Some b \<Rightarrow>
                pbind (appendSecretHash ns (''source.s3.access.'' @ src_name s) (s3_accessKeySecretRef b) h)
                  (appendSecretHash ns (''source.s3.secret.'' @ src_name s) (s3_secretKeySecretRef b))) (\<lambda>h.
     hash_sources ns ss h))"

definition computeSecretsHash :: "lib \<Rightarrow> knowledge_base \<Rightarrow> string prog" where
  "computeSecretsHash L kb =
     pbind (appendSecretHash (kb_namespace kb) ''vectorStore.credentials''
              (vs_credentialsSecretRef (ks_vectorStore (spec kb))) '''') (\<lambda>h.
     pbind (appendSecretHash (kb_namespace kb) ''embedding.apiKey''
              (emb_apiKeySecretRef (ks_embedding (spec kb))) h) (\<lambda>h.
     pbind (hash_sources (kb_namespace kb) (ks_sources (spec kb)) h) (\<lambda>h.
     Done (hex (take 4 (sha256 L h))))))"

section \<open>What is hashed\<close>

text \<open>
  The references of a spec with their labels, in the order the code visits them, and the bytes
  hashed for the values read (\<open>None\<close>: the secret or the key is missing).
\<close>

definition opt_ref :: "string \<Rightarrow> secret_key_ref option \<Rightarrow> (string \<times> secret_key_ref) list" where
  "opt_ref label ref = (case ref of None \<Rightarrow> [] | Some r \<Rightarrow> [(label, r)])"

definition source_refs :: "source \<Rightarrow> (string \<times> secret_key_ref) list" where
  "source_refs s =
     (case src_github s of None \<Rightarrow> []
      | Some g \<Rightarrow> opt_ref (''source.github.'' @ src_name s) (gh_tokenSecretRef g)) @
     (case src_s3 s of None \<Rightarrow> []
      | Some b \<Rightarrow> opt_ref (''source.s3.access.'' @ src_name s) (s3_accessKeySecretRef b) @
                 opt_ref (''source.s3.secret.'' @ src_name s) (s3_secretKeySecretRef b))"

definition secret_refs :: "knowledge_base \<Rightarrow> (string \<times> secret_key_ref) list" where
  "secret_refs kb =
     opt_ref ''vectorStore.credentials'' (vs_credentialsSecretRef (ks_vectorStore (spec kb))) @
     opt_ref ''embedding.apiKey'' (emb_apiKeySecretRef (ks_embedding (spec kb))) @
     concat (map source_refs (ks_sources (spec kb)))"

definition ref_prefix :: "string \<times> secret_key_ref \<Rightarrow> string" where
  "ref_prefix lr = fst lr @ [CHR 0x00] @ skr_name (snd lr) @ [CHR 0x00] @ skr_key (snd lr) @ [CHR 0x00]"

definition value_bytes :: "string option \<Rightarrow> string" where
  "value_bytes v = (case v of None \<Rightarrow> [CHR 0x00] | Some s \<Rightarrow> [CHR 0x01] @ s @ [CHR 0x00])"

fun material :: "(string \<times> secret_key_ref) list \<Rightarrow> string option list \<Rightarrow> string" where
  "material (r # rs) (v # vs) = ref_prefix r @ value_bytes v @ material rs vs"
| "material _ _ = ''''"

lemma material_append:
  "length rs = length vs \<Longrightarrow> material (rs @ rs') (vs @ vs') = material rs vs @ material rs' vs'"
  by (induction rs vs rule: list_induct2) simp_all

text \<open>
  What a read answers for a reference, and the reads of a list of references in order. A program
  appends the bytes of the references \<open>rs\<close> when it reads nothing but their secrets and appends
  what the answers determine.
\<close>

definition answer_of :: "string \<times> secret_key_ref \<Rightarrow> event \<Rightarrow> string option" where
  "answer_of r e =
     (case e of EvGetSecret k res \<Rightarrow> (case res of Inl _ \<Rightarrow> None | Inr sec \<Rightarrow> sec_data sec (skr_key (snd r)))
      | _ \<Rightarrow> None)"

definition secret_reads :: "string \<Rightarrow> (string \<times> secret_key_ref) list \<Rightarrow> event list \<Rightarrow> bool" where
  "secret_reads ns rs tr \<longleftrightarrow>
     list_all2 (\<lambda>r e. \<exists>res. e = EvGetSecret (ns, skr_name (snd r)) res) rs tr"

definition answers :: "(string \<times> secret_key_ref) list \<Rightarrow> event list \<Rightarrow> string option list" where
  "answers rs tr = map2 answer_of rs tr"

lemma secret_reads_length: "secret_reads ns rs tr \<Longrightarrow> length tr = length rs"
  by (simp add: secret_reads_def list_all2_lengthD)

lemma secret_reads_append:
  "secret_reads ns rs tr \<Longrightarrow> secret_reads ns rs' tr' \<Longrightarrow> secret_reads ns (rs @ rs') (tr @ tr')"
  by (simp add: secret_reads_def list_all2_appendI)

lemma answers_append:
  "length tr = length rs \<Longrightarrow> answers (rs @ rs') (tr @ tr') = answers rs tr @ answers rs' tr'"
  by (simp add: answers_def)

lemma length_answers: "length tr = length rs \<Longrightarrow> length (answers rs tr) = length rs"
  by (simp add: answers_def)

definition appends :: "string \<Rightarrow> (string \<times> secret_key_ref) list \<Rightarrow> (string \<Rightarrow> string prog) \<Rightarrow> bool" where
  "appends ns rs p \<longleftrightarrow>
     (\<forall>h. wp (p h) (\<lambda>tr r. secret_reads ns rs tr \<and> r = Some (h @ material rs (answers rs tr))))"

lemma appends_Done: "appends ns [] Done"
  by (simp add: appends_def secret_reads_def answers_def)

lemma appends_appendSecretHash: "appends ns (opt_ref label ref) (appendSecretHash ns label ref)"
  by (auto simp: appends_def appendSecretHash_def opt_ref_def secret_reads_def answers_def answer_of_def
      Let_def ref_prefix_def value_bytes_def split: sum.split option.split)

lemma appends_pbind:
  assumes "appends ns rs p" "appends ns rs' q"
  shows "appends ns (rs @ rs') (\<lambda>h. pbind (p h) q)"
  unfolding appends_def wp_pbind
proof (intro allI, rule wp_mono)
  fix h tr r
  show "wp (p h) (\<lambda>tr r. secret_reads ns rs tr \<and> r = Some (h @ material rs (answers rs tr)))"
    using assms(1) by (simp add: appends_def)
  assume "secret_reads ns rs tr \<and> r = Some (h @ material rs (answers rs tr))"
  then have tr: "secret_reads ns rs tr" and r: "r = Some (h @ material rs (answers rs tr))" by auto
  note len = secret_reads_length [OF tr]
  have "wp (q (h @ material rs (answers rs tr))) (\<lambda>tr' r. secret_reads ns rs' tr' \<and>
          r = Some ((h @ material rs (answers rs tr)) @ material rs' (answers rs' tr')))"
    using assms(2) unfolding appends_def by blast
  then have "wp (q (h @ material rs (answers rs tr))) (\<lambda>tr' r. secret_reads ns (rs @ rs') (tr @ tr') \<and>
          r = Some (h @ material (rs @ rs') (answers (rs @ rs') (tr @ tr'))))"
    by (rule wp_mono) (simp add: answers_append len length_answers material_append secret_reads_append tr)
  with r show "case r of None \<Rightarrow> secret_reads ns (rs @ rs') tr \<and>
        None = Some (h @ material (rs @ rs') (answers (rs @ rs') tr))
      | Some a \<Rightarrow> wp (q a) (\<lambda>tr' r. secret_reads ns (rs @ rs') (tr @ tr') \<and>
        r = Some (h @ material (rs @ rs') (answers (rs @ rs') (tr @ tr'))))"
    by simp
qed

lemma appends_guarded:
  "appends ns (opt_ref label ref) (\<lambda>h. if ref = None then Done h else appendSecretHash ns label ref h)"
proof (cases "ref = None")
  case True
  then show ?thesis by (simp add: opt_ref_def appends_def secret_reads_def answers_def)
next
  case False
  then show ?thesis by (simp only: if_False appends_appendSecretHash)
qed

lemma appends_hash_sources: "appends ns (concat (map source_refs ss)) (hash_sources ns ss)"
proof (induction ss)
  case Nil
  then show ?case by (simp add: appends_def secret_reads_def answers_def)
next
  case (Cons s ss)
  let ?g = "case src_github s of None \<Rightarrow> [] | Some g \<Rightarrow> opt_ref (''source.github.'' @ src_name s) (gh_tokenSecretRef g)"
  let ?b = "case src_s3 s of None \<Rightarrow> [] | Some b \<Rightarrow> opt_ref (''source.s3.access.'' @ src_name s) (s3_accessKeySecretRef b) @
                 opt_ref (''source.s3.secret.'' @ src_name s) (s3_secretKeySecretRef b)"
  have g: "appends ns ?g (\<lambda>h. case src_github s of None \<Rightarrow> Done h
            | Some g \<Rightarrow> if gh_tokenSecretRef g = None then Done h
                else appendSecretHash ns (''source.github.'' @ src_name s) (gh_tokenSecretRef g) h)"
    by (cases "src_github s") (simp_all only: option.case appends_Done appends_guarded)
  have b: "appends ns ?b (\<lambda>h. case src_s3 s of None \<Rightarrow> Done h
            | Some b \<Rightarrow> pbind (appendSecretHash ns (''source.s3.access.'' @ src_name s) (s3_accessKeySecretRef b) h)
                  (appendSecretHash ns (''source.s3.secret.'' @ src_name s) (s3_secretKeySecretRef b)))"
    by (cases "src_s3 s")
      (simp_all only: option.case appends_Done appends_pbind [OF appends_appendSecretHash appends_appendSecretHash])
  have "appends ns (?g @ ?b @ concat (map source_refs ss)) (hash_sources ns (s # ss))"
    unfolding appends_def hash_sources.simps
    by (rule appends_pbind [OF g appends_pbind [OF b Cons.IH], unfolded appends_def])
  then show ?case by (simp only: source_refs_def [of s] list.map concat.simps append_assoc)
qed

lemma wp_computeSecretsHash:
  "wp (computeSecretsHash L kb) (\<lambda>tr r. secret_reads (kb_namespace kb) (secret_refs kb) tr \<and>
     r = Some (hex (take 4 (sha256 L (material (secret_refs kb) (answers (secret_refs kb) tr))))))"
proof -
  note parts = appends_pbind [OF appends_appendSecretHash appends_pbind [OF appends_appendSecretHash appends_hash_sources]]
  have "wp (pbind (appendSecretHash (kb_namespace kb) ''vectorStore.credentials''
              (vs_credentialsSecretRef (ks_vectorStore (spec kb))) '''') (\<lambda>h.
     pbind (appendSecretHash (kb_namespace kb) ''embedding.apiKey''
              (emb_apiKeySecretRef (ks_embedding (spec kb))) h)
       (hash_sources (kb_namespace kb) (ks_sources (spec kb)))))
     (\<lambda>tr r. secret_reads (kb_namespace kb) (secret_refs kb) tr \<and>
       r = Some ([] @ material (secret_refs kb) (answers (secret_refs kb) tr)))"
    using parts unfolding appends_def secret_refs_def by blast
  then have "wp (pbind (pbind (appendSecretHash (kb_namespace kb) ''vectorStore.credentials''
              (vs_credentialsSecretRef (ks_vectorStore (spec kb))) '''') (\<lambda>h.
     pbind (appendSecretHash (kb_namespace kb) ''embedding.apiKey''
              (emb_apiKeySecretRef (ks_embedding (spec kb))) h)
       (hash_sources (kb_namespace kb) (ks_sources (spec kb))))) (\<lambda>h. Done (hex (take 4 (sha256 L h)))))
     (\<lambda>tr r. secret_reads (kb_namespace kb) (secret_refs kb) tr \<and>
       r = Some (hex (take 4 (sha256 L (material (secret_refs kb) (answers (secret_refs kb) tr))))))"
    by (subst wp_pbind, elim wp_mono) auto
  then show ?thesis by (simp only: computeSecretsHash_def pbind_assoc)
qed

text \<open>In an environment the answers are the values it holds.\<close>

definition secret_value :: "environment \<Rightarrow> string \<Rightarrow> string \<times> secret_key_ref \<Rightarrow> string option" where
  "secret_value S ns r =
     (case at_GetSecret S (ns, skr_name (snd r)) of Inl _ \<Rightarrow> None | Inr sec \<Rightarrow> sec_data sec (skr_key (snd r)))"

lemma answers_answered:
  "secret_reads ns rs tr \<Longrightarrow> list_all (answered S) tr \<Longrightarrow> answers rs tr = map (secret_value S ns) rs"
proof (induction rs arbitrary: tr)
  case (Cons r rs)
  from Cons.prems(1) obtain res tr' where tr: "tr = EvGetSecret (ns, skr_name (snd r)) res # tr'"
    and "secret_reads ns rs tr'" by (auto simp: secret_reads_def list_all2_Cons1)
  with Cons have "answers rs tr' = map (secret_value S ns) rs" by simp
  with tr Cons.prems(2) show ?case by (simp add: answers_def answer_of_def secret_value_def)
qed (simp add: answers_def)

lemma exec_computeSecretsHash:
  "snd (exec S (computeSecretsHash L kb)) =
     Some (hex (take 4 (sha256 L (material (secret_refs kb) (map (secret_value S (kb_namespace kb)) (secret_refs kb))))))"
  using wpD [OF wp_computeSecretsHash runs_exec, of kb S L] answers_answered [OF _ answered_exec] by metis

lemma answers_exec:
  "answers (secret_refs kb) (fst (exec S (computeSecretsHash L kb))) =
     map (secret_value S (kb_namespace kb)) (secret_refs kb)"
  using wpD [OF wp_computeSecretsHash runs_exec, of kb S L] answers_answered [OF _ answered_exec] by blast

section \<open>Rotation\<close>

text \<open>Values without a NUL byte are recovered from the bytes hashed.\<close>

lemma value_bytes_inj:
  assumes "\<forall>s. v = Some s \<longrightarrow> CHR 0x00 \<notin> set s" "\<forall>s. w = Some s \<longrightarrow> CHR 0x00 \<notin> set s"
    and "value_bytes v @ a = value_bytes w @ b"
  shows "v = w \<and> a = b"
proof (cases v; cases w)
  fix s t
  assume vw: "v = Some s" "w = Some t"
  with assms(3) have eq: "s @ CHR 0x00 # a = t @ CHR 0x00 # b" by (simp add: value_bytes_def)
  have "takeWhile (\<lambda>c. c \<noteq> CHR 0x00) (s @ CHR 0x00 # a) = s" "takeWhile (\<lambda>c. c \<noteq> CHR 0x00) (t @ CHR 0x00 # b) = t"
    using assms(1,2) vw by (auto simp: takeWhile_append takeWhile_eq_all_conv)
  with eq have "s = t" by simp
  with eq vw show ?thesis by simp
qed (use assms(3) in \<open>auto simp: value_bytes_def\<close>)

lemma material_inj:
  assumes "length rs = length vs" "length rs = length ws"
    and "\<forall>s. Some s \<in> set vs \<union> set ws \<longrightarrow> CHR 0x00 \<notin> set s"
    and "material rs vs = material rs ws"
  shows "vs = ws"
  using assms
proof (induction rs arbitrary: vs ws)
  case (Cons r rs)
  then obtain v vs' w ws' where "vs = v # vs'" "ws = w # ws'" by (metis Suc_length_conv)
  with Cons.prems have "v = w \<and> material rs vs' = material rs ws'"
    by (intro value_bytes_inj) auto
  with Cons \<open>vs = _\<close> \<open>ws = _\<close> show ?case by auto
qed simp

text \<open>Two references, and two contents of their secrets that are hashed alike.\<close>

definition nul_kb :: knowledge_base where
  "nul_kb = demo_kb\<lparr>spec := demo_spec\<lparr>ks_vectorStore := (ks_vectorStore demo_spec)
     \<lparr>vs_credentialsSecretRef := Some \<lparr>skr_name = ''a'', skr_key = ''k''\<rparr>\<rparr>\<rparr>\<rparr>"

definition nul_prefix :: string where
  "nul_prefix = ref_prefix (''embedding.apiKey'', \<lparr>skr_name = ''s'', skr_key = ''k''\<rparr>)"

definition nul_old :: "string \<Rightarrow> string option" where
  "nul_old n = Some (if n = ''a'' then CHR 0x00 # nul_prefix @ [CHR 0x01] else ''y'')"

definition nul_new :: "string \<Rightarrow> string option" where
  "nul_new n = Some (if n = ''a'' then '''' else CHR 0x00 # nul_prefix @ CHR 0x01 # ''y'')"

lemma nul_secret_refs:
  "secret_refs nul_kb = [(''vectorStore.credentials'', \<lparr>skr_name = ''a'', skr_key = ''k''\<rparr>),
                         (''embedding.apiKey'', \<lparr>skr_name = ''s'', skr_key = ''k''\<rparr>)]"
  by (simp add: secret_refs_def opt_ref_def source_refs_def nul_kb_def demo_kb_defs)

section \<open>Properties\<close>

text \<open>
  C18. The credential fingerprint reads the secrets the spec refers to, each reference once and in
  order, and no other object, and is the digest of what they answered. It covers the answers: two
  passes over the same spec that saw different values (or saw one missing) hash different bytes,
  if the values are free of NUL bytes.
\<close>

theorem secrets_hash_covers_references:
  assumes "runs (computeSecretsHash L kb) tr r" "runs (computeSecretsHash L kb) tr' r'"
    and "answers (secret_refs kb) tr \<noteq> answers (secret_refs kb) tr'"
    and "\<forall>s. Some s \<in> set (answers (secret_refs kb) tr) \<union> set (answers (secret_refs kb) tr') \<longrightarrow> CHR 0x00 \<notin> set s"
  shows "secret_reads (kb_namespace kb) (secret_refs kb) tr \<and>
         r = Some (hex (take 4 (sha256 L (material (secret_refs kb) (answers (secret_refs kb) tr))))) \<and>
         r' = Some (hex (take 4 (sha256 L (material (secret_refs kb) (answers (secret_refs kb) tr'))))) \<and>
         material (secret_refs kb) (answers (secret_refs kb) tr) \<noteq>
         material (secret_refs kb) (answers (secret_refs kb) tr')"
proof -
  from wpD [OF wp_computeSecretsHash assms(1)]
  have 1: "secret_reads (kb_namespace kb) (secret_refs kb) tr"
    "r = Some (hex (take 4 (sha256 L (material (secret_refs kb) (answers (secret_refs kb) tr)))))" by auto
  from wpD [OF wp_computeSecretsHash assms(2)]
  have 2: "secret_reads (kb_namespace kb) (secret_refs kb) tr'"
    "r' = Some (hex (take 4 (sha256 L (material (secret_refs kb) (answers (secret_refs kb) tr')))))" by auto
  have "length (answers (secret_refs kb) tr) = length (secret_refs kb)"
    "length (answers (secret_refs kb) tr') = length (secret_refs kb)"
    using 1(1) 2(1) by (simp_all add: length_answers secret_reads_length)
  then have "material (secret_refs kb) (answers (secret_refs kb) tr) \<noteq> material (secret_refs kb) (answers (secret_refs kb) tr')"
    using material_inj [OF _ _ assms(4)] assms(3) by metis
  with 1 2(2) show ?thesis by blast
qed

definition secret_env_with :: "(string \<Rightarrow> string option) \<Rightarrow> environment" where
  "secret_env_with f =
     (empty_cluster 0)\<lparr>at_GetSecret := (\<lambda>k. Inr \<lparr>sec_meta = kb_meta demo_kb, sec_data = (\<lambda>_. f (snd k))\<rparr>)\<rparr>"

lemma secret_value_with: "secret_value (secret_env_with f) ns r = f (skr_name (snd r))"
  by (simp add: secret_value_def secret_env_with_def)

lemma demo_secret_refs: "secret_refs demo_kb = [(''embedding.apiKey'', \<lparr>skr_name = ''s'', skr_key = ''k''\<rparr>)]"
  by (simp add: secret_refs_def opt_ref_def source_refs_def demo_kb_defs)

theorem secrets_hash_covers_references_witness:
  "material (secret_refs demo_kb) [Some ''old''] \<noteq> material (secret_refs demo_kb) [Some ''new'']"
proof -
  have a: "answers (secret_refs demo_kb) (fst (exec (secret_env_with (\<lambda>_. v)) (computeSecretsHash demo_lib demo_kb))) = [v]" for v
    unfolding answers_exec by (simp add: demo_secret_refs secret_value_with)
  have ne: "[Some ''old''] \<noteq> [Some ''new'']" by simp
  have nul: "\<forall>s. Some s \<in> set [Some ''old''] \<union> set [Some ''new''] \<longrightarrow> CHR 0x00 \<notin> set s" by simp
  show ?thesis
    using secrets_hash_covers_references
      [OF runs_exec runs_exec, of demo_kb "secret_env_with (\<lambda>_. Some ''old'')" demo_lib "secret_env_with (\<lambda>_. Some ''new'')",
       unfolded a, OF ne nul]
    by blast
qed

text \<open>
  With NUL bytes in a value the fingerprint is ambiguous: these two contents of two secrets give
  the same fingerprint whatever the digest is, so that such a rotation is not noticed.
\<close>

theorem nul_bytes_hide_rotation:
  "nul_old ''a'' \<noteq> nul_new ''a'' \<and> nul_old ''s'' \<noteq> nul_new ''s'' \<and>
   snd (exec (secret_env_with nul_old) (computeSecretsHash L nul_kb)) =
   snd (exec (secret_env_with nul_new) (computeSecretsHash L nul_kb))"
proof -
  have "material (secret_refs nul_kb) (map (secret_value (secret_env_with nul_old) ns) (secret_refs nul_kb)) =
      material (secret_refs nul_kb) (map (secret_value (secret_env_with nul_new) ns) (secret_refs nul_kb))" for ns
    by (simp add: nul_secret_refs secret_value_with nul_old_def nul_new_def value_bytes_def nul_prefix_def [symmetric])
  then show ?thesis
    unfolding exec_computeSecretsHash by (simp add: nul_old_def nul_new_def)
qed

end
