(* ===== verification/Deletion.thy ===== *)
theory Deletion
  imports Ingestion Secrets
begin

text \<open>
  Deletion of a KnowledgeBase (\<open>internal/controller/deletion_controller.go\<close>): a cleanup Job drops the
  remote collection, then the finalizer is released.
\<close>

definition kb_finalizer :: string where "kb_finalizer = ''rag.furkan.dev/finalizer''"

definition kb_finalizers :: "knowledge_base \<Rightarrow> string list" where
  "kb_finalizers kb = m_finalizers (kb_meta kb)"

definition set_kb_finalizers :: "string list \<Rightarrow> knowledge_base \<Rightarrow> knowledge_base" where
  "set_kb_finalizers fs kb = kb\<lparr>kb_meta := (kb_meta kb)\<lparr>m_finalizers := fs\<rparr>\<rparr>"

definition start_cleanup :: "lib \<Rightarrow> knowledge_base \<Rightarrow> reconcile_result prog" where
  "start_cleanup L kb =
     pbind (computeSecretsHash L kb) (\<lambda>secretsHash.
     pbind (buildCleanupJob L kb secretsHash) (\<lambda>built.
     case built of
       Inl e \<Rightarrow> Done (no_requeue, Some e)
     | Inr (cj, specJSON) \<Rightarrow>
         Create (OConfigMap (specConfigMap (kb_namespace kb) (specConfigMapName L (job_name cj)) specJSON)) (\<lambda>r.
         case ignoreAlreadyExists r of
           Some e \<Rightarrow> Done (no_requeue, Some e)
         | None \<Rightarrow>
             Create (OJob cj) (\<lambda>r.
             case ignoreAlreadyExists r of
               Some e \<Rightarrow> Done (no_requeue, Some e)
             | None \<Rightarrow>
                 emit_event EventNormal ''Cleanup'' ''dropping vector store collection''
                 (Done (requeue_after (5 * second), None))))))"

definition job_key :: "job \<Rightarrow> key" where
  "job_key j = (m_namespace (job_meta j), job_name j)"

definition reconcileDelete :: "lib \<Rightarrow> knowledge_base \<Rightarrow> reconcile_result prog" where
  "reconcileDelete L kb =
     (if \<not> contains_finalizer L (kb_finalizers kb) kb_finalizer then Done (no_requeue, None)
      else
        GetJob (kb_namespace kb, cleanupJobName L kb) (\<lambda>res.
        case res of
          Inl e \<Rightarrow> if is_not_found e then start_cleanup L kb else Done (no_requeue, Some e)
        | Inr j \<Rightarrow>
            if \<not> jobComplete j \<and> \<not> jobFailed j then Done (requeue_after (5 * second), None)
            else if jobFailed j then
              emit_event EventWarning ''CleanupFailed'' (''cleanup job '' @ job_name j @ '' failed; retrying'')
              (Delete KindJob BackgroundPropagation (job_key j) (\<lambda>_.
               Done (requeue_after (30 * second), None)))
            else
              Delete KindJob BackgroundPropagation (job_key j) (\<lambda>_.
              Update (OKB (set_kb_finalizers (remove_finalizer L (kb_finalizers kb) kb_finalizer) kb)) (\<lambda>r.
              Done (no_requeue, r)))))"

end
