(* ===== verification/KB_Reconcile.thy ===== *)
theory KB_Reconcile
  imports Evaluation Deletion
begin

text \<open>
  The KnowledgeBase reconciler (\<open>internal/controller/knowledgebase_controller.go\<close>, with
  \<open>reconcileActiveJob\<close> of \<open>ingestion_controller.go\<close> and \<open>ensureVectorIndex\<close> of
  \<open>vectorindex_helpers.go\<close>): one pass from reading the object to the next requeue, and the maps from
  a Secret or a ServiceAccount to the KnowledgeBases to reconcile.
\<close>

section \<open>The VectorIndex\<close>

definition vectorIndexMutate :: "lib \<Rightarrow> knowledge_base \<Rightarrow> vector_index \<Rightarrow> err + vector_index" where
  "vectorIndexMutate L kb vi =
     (let store = ks_vectorStore (spec kb);
          store = (if vs_collection store = '''' then store\<lparr>vs_collection := kb_name kb\<rparr> else store);
          sp = (vi_spec vi)\<lparr>vis_knowledgeBaseRef := kb_name kb, vis_store := store,
                            vis_dimension := embeddingDimension (ks_embedding (spec kb))\<rparr>;
          sp = (if vis_probeIntervalSeconds sp = 0 then sp\<lparr>vis_probeIntervalSeconds := 60\<rparr> else sp)
      in case set_controller_reference L (kb_owner kb) (vi_meta vi) of
           Inl e \<Rightarrow> Inl e
         | Inr m \<Rightarrow> Inr (vi\<lparr>vi_spec := sp, vi_meta := m\<rparr>))"

definition ensureVectorIndex :: "lib \<Rightarrow> knowledge_base \<Rightarrow> err option prog" where
  "ensureVectorIndex L kb =
     CreateOrUpdateVI (kb_namespace kb, trunc_name L (kb_name kb @ ''-index'')) (vectorIndexMutate L kb) Done"

section \<open>The Job in flight\<close>

definition reconcileActiveJob ::
  "lib \<Rightarrow> knowledge_base \<Rightarrow> chunking_spec \<Rightarrow> string \<Rightarrow> string \<Rightarrow> (knowledge_base \<times> active_result) prog" where
  "reconcileActiveJob L kb eff hash secretsHash =
     GetJob (kb_namespace kb, activeJob (status kb)) (\<lambda>res.
     case res of
       Inl e \<Rightarrow>
         if is_not_found e then
           pbind (statusUpdate (clearActiveJob kb)) (\<lambda>(kb, e). Done (kb, no_requeue, False, e))
         else Done (kb, no_requeue, True, Some e)
     | Inr j \<Rightarrow>
         if \<not> jobComplete j \<and> \<not> jobFailed j then
           (if jobType j = jobTypeIngest \<and> ks_freshnessSchedule (spec kb) \<noteq> '''' then
              Now (\<lambda>now.
                if cronDue L (ks_freshnessSchedule (spec kb)) (time_or_zero (lastIndexedTime (status kb))) now then
                  pbind (statusUpdate (upd_status (\<lambda>s. s\<lparr>deferCronIngest := True\<rparr>) kb)) (\<lambda>(kb, e).
                    Done (kb, requeue_after (10 * second), True, e))
                else Done (kb, requeue_after (10 * second), True, None))
            else Done (kb, requeue_after (10 * second), True, None))
         else if jobType j = jobTypeIngest then
           finalizeIngest L kb j (jobEffectiveChunking j eff) (jobSpecHash j hash) (jobSecretsHash j secretsHash)
         else if jobType j = jobTypeEval then finalizeEval L kb j
         else
           pbind (statusUpdate (clearActiveJob kb)) (\<lambda>(kb, e). Done (kb, no_requeue, True, e)))"

text \<open>The spec or the credentials changed while an ingestion runs: its Job is deleted.\<close>

definition cancelStaleJob :: "lib \<Rightarrow> knowledge_base \<Rightarrow> job \<Rightarrow> (knowledge_base \<times> err option) prog" where
  "cancelStaleJob L kb j =
     emit_event EventNormal ''IngestionCancelled'' (''spec or secrets changed; cancelling in-flight ingest '' @ job_name j)
     (Delete KindJob BackgroundPropagation (job_key j) (\<lambda>_.
     pbind (clearWorkerConfigMapAccess L kb) (\<lambda>_.
     statusUpdate (clearActiveJob kb))))"

text \<open>The Job ran past its deadline: it is deleted and counted as a failed ingestion.\<close>

definition clearStuckJob ::
  "lib \<Rightarrow> knowledge_base \<Rightarrow> job \<Rightarrow> string \<Rightarrow> (knowledge_base \<times> err option) prog" where
  "clearStuckJob L kb j chash =
     emit_event EventWarning ''IngestionStuck''
       (''active job '' @ job_name j @ '' has been running past ActiveDeadlineSeconds; clearing and retrying'')
     (Delete KindJob BackgroundPropagation (job_key j) (\<lambda>_.
     pbind (readCheckpointResult L (kb_namespace kb) (job_name j)) (\<lambda>checkpoint.
     pbind (clearWorkerConfigMapAccess L kb) (\<lambda>_.
     Now (\<lambda>now.
     statusUpdate (setCondition L
       (upd_status (\<lambda>s. s\<lparr>phase := PhaseFailed, lastFailureTime := Some now, lastFailedSpecHash := chash,
          lastCheckpoint := checkpoint\<rparr>) (clearActiveJob kb))
       ConditionReady ConditionFalse ''IngestionStuck'' ''active job exceeded ActiveDeadlineSeconds; cleared''))))))"

definition guardActiveJob ::
  "lib \<Rightarrow> knowledge_base \<Rightarrow> string \<Rightarrow> string \<Rightarrow> (knowledge_base \<times> err option) prog" where
  "guardActiveJob L kb chash secretsHash =
     (if activeJob (status kb) \<noteq> '''' \<and> activeJob (status kb) \<noteq> kb_name kb @ ''-cleanup'' then
        GetJob (kb_namespace kb, activeJob (status kb)) (\<lambda>res.
        case res of
          Inl e \<Rightarrow> Done (kb, None)
        | Inr j \<Rightarrow>
            if activeIngestIsStale j chash secretsHash (observedSpecHash (status kb)) (observedSecretsHash (status kb))
            then cancelStaleJob L kb j
            else Now (\<lambda>now.
              if isActiveJobTimedOut j (activeJobStartedAt (status kb)) now then clearStuckJob L kb j chash
              else Done (kb, None)))
      else Done (kb, None))"

section \<open>One pass\<close>

text \<open>New work, when no Job is in flight: ingestion first, then evaluation, else sleep.\<close>

definition decideWork ::
  "lib \<Rightarrow> knowledge_base \<Rightarrow> chunking_spec \<Rightarrow> string \<Rightarrow> string \<Rightarrow> reconcile_result prog" where
  "decideWork L kb eff chash secretsHash =
     Now (\<lambda>now.
     if 0 < ingestFailureRetryAfter kb chash now
     then Done (requeue_after (ingestFailureRetryAfter kb chash now), None)
     else if specConfigTooLargeUnchanged L kb then Done (no_requeue, None)
     else
       pbind (needsIngest L kb chash) (\<lambda>(rsn, need).
       if need then startIngest L kb eff chash secretsHash rsn
       else
         pbind (evalDue L kb) (\<lambda>due.
         if due then startEval L kb eff chash secretsHash
         else
           Now (\<lambda>now.
           pbind (requeueFor [nextFire L (ks_freshnessSchedule (spec kb)) now, nextEvalFire L kb now]) (\<lambda>next.
           Done (requeue_after next, None))))))"

definition reconcileWork ::
  "lib \<Rightarrow> knowledge_base \<Rightarrow> chunking_spec \<Rightarrow> string \<Rightarrow> string \<Rightarrow> reconcile_result prog" where
  "reconcileWork L kb eff chash secretsHash =
     pbind (guardActiveJob L kb chash secretsHash) (\<lambda>(kb, e).
     case e of
       Some x \<Rightarrow> Done (no_requeue, Some x)
     | None \<Rightarrow>
         if activeJob (status kb) \<noteq> '''' then
           pbind (reconcileActiveJob L kb eff chash secretsHash) (\<lambda>(kb, res, handled, e).
           if e \<noteq> None \<or> handled then Done (res, e) else decideWork L kb eff chash secretsHash)
         else decideWork L kb eff chash secretsHash)"

text \<open>The user edited the corpus spec while a tuned chunking was in force: the override is dropped.\<close>

definition dropOverride :: "lib \<Rightarrow> knowledge_base \<Rightarrow> string \<Rightarrow> knowledge_base prog" where
  "dropOverride L kb chash =
     (if userEditedSpec kb chash then
        Now (\<lambda>now.
        pbind (recordAutoTuneDuration kb ''reset'' now) (\<lambda>kb.
        Done (upd_status (\<lambda>s. s\<lparr>status_effectiveChunking := None, autoTuneAttempts := 0,
          bestChunking := None, bestRecallPercent := 0, pendingRetune := False\<rparr>) kb)))
      else Done kb)"

definition reconcileSuspended :: "lib \<Rightarrow> knowledge_base \<Rightarrow> reconcile_result prog" where
  "reconcileSuspended L kb =
     (if phase (status kb) \<noteq> PhaseSuspended then
        save_then (setCondition L (upd_status (\<lambda>s. s\<lparr>phase := PhaseSuspended\<rparr>) kb) ConditionReady ConditionFalse
          ''Suspended'' ''reconciliation suspended'') (\<lambda>kb. Done (no_requeue, None))
      else Done (no_requeue, None))"

definition reconcileActive :: "lib \<Rightarrow> knowledge_base \<Rightarrow> reconcile_result prog" where
  "reconcileActive L kb =
     pbind (computeSecretsHash L kb) (\<lambda>secretsHash.
     let chash = corpusHash L kb;
         kb = (if observedSecretsHash (status kb) \<noteq> secretsHash
               then upd_status (\<lambda>s. s\<lparr>observedSecretsHash := secretsHash\<rparr>) kb else kb)
     in pbind (dropOverride L kb chash) (\<lambda>kb.
        reconcileWork L kb (effectiveChunking kb) chash secretsHash))"

text \<open>A quota refusal of the identity or the index parks the KnowledgeBase as pending.\<close>

definition park_on_quota :: "lib \<Rightarrow> knowledge_base \<Rightarrow> string \<Rightarrow> string \<Rightarrow> err \<Rightarrow> reconcile_result prog" where
  "park_on_quota L kb msg note e =
     (if isQuotaExceeded e
      then quota_exceeded L (upd_status (\<lambda>s. s\<lparr>phase := PhasePending\<rparr>) kb) msg note
      else Done (no_requeue, Some e))"

definition reconcileLive :: "lib \<Rightarrow> knowledge_base \<Rightarrow> reconcile_result prog" where
  "reconcileLive L kb =
     pbind (validateCustomWorkerServiceAccount L kb) (\<lambda>r.
     case r of
       Some e \<Rightarrow>
         save_then (setCondition L (upd_status (\<lambda>s. s\<lparr>phase := PhasePending\<rparr>) kb) ConditionReady ConditionFalse
           ''WorkerServiceAccountUnavailable'' (message e)) (\<lambda>kb. Done (requeue_after (30 * second), None))
     | None \<Rightarrow>
         pbind (ensureWorkerIdentity L kb []) (\<lambda>r.
         case r of
           Some e \<Rightarrow>
             park_on_quota L kb ''cannot create worker identity: resource quota exceeded''
               ''resource quota prevents creating worker ServiceAccount/Role/RoleBinding'' e
         | None \<Rightarrow>
             pbind (ensureVectorIndex L kb) (\<lambda>r.
             case r of
               Some e \<Rightarrow>
                 park_on_quota L kb ''cannot create VectorIndex: resource quota exceeded''
                   ''resource quota prevents creating VectorIndex'' e
             | None \<Rightarrow>
                 if ks_suspend (spec kb) then reconcileSuspended L kb else reconcileActive L kb)))"

definition reconcile_kb :: "lib \<Rightarrow> knowledge_base \<Rightarrow> reconcile_result prog" where
  "reconcile_kb L kb =
     (if m_deletionTimestamp (kb_meta kb) \<noteq> None then reconcileDelete L kb
      else if \<not> contains_finalizer L (kb_finalizers kb) kb_finalizer then
        Update (OKB (set_kb_finalizers (add_finalizer L (kb_finalizers kb) kb_finalizer) kb)) (\<lambda>r.
        Done (no_requeue, r))
      else reconcileLive L kb)"

definition reconcile :: "lib \<Rightarrow> key \<Rightarrow> reconcile_result prog" where
  "reconcile L k =
     GetKB k (\<lambda>res.
     case res of
       Inl e \<Rightarrow> Done (no_requeue, ignoreNotFound e)
     | Inr kb \<Rightarrow>
         (case lastIndexedTime (status kb) of
            None \<Rightarrow> reconcile_kb L kb
          | Some t \<Rightarrow> Emit (FreshnessGauge (kb_namespace kb) t) (reconcile_kb L kb)))"

section \<open>Watches\<close>

definition referencesSecret :: "knowledge_base \<Rightarrow> string \<Rightarrow> bool" where
  "referencesSecret kb name =
     (let is = (\<lambda>ref. case ref of None \<Rightarrow> False | Some r \<Rightarrow> skr_name r = name)
      in is (vs_credentialsSecretRef (ks_vectorStore (spec kb))) \<or>
         is (emb_apiKeySecretRef (ks_embedding (spec kb))) \<or>
         list_ex (\<lambda>s.
           (case src_github s of None \<Rightarrow> False | Some g \<Rightarrow> is (gh_tokenSecretRef g)) \<or>
           (case src_s3 s of None \<Rightarrow> False
            | Some b \<Rightarrow> is (s3_accessKeySecretRef b) \<or> is (s3_secretKeySecretRef b))) (ks_sources (spec kb)))"

definition kb_request :: "knowledge_base \<Rightarrow> key" where
  "kb_request kb = (kb_namespace kb, kb_name kb)"

text \<open>The answer of the list call is the argument; an error maps to no request.\<close>

definition secretRequests :: "err + knowledge_base list \<Rightarrow> string \<Rightarrow> key list" where
  "secretRequests listed name =
     (case listed of Inl e \<Rightarrow> []
      | Inr items \<Rightarrow> map kb_request (filter (\<lambda>kb. referencesSecret kb name) items))"

definition serviceAccountRequests :: "err + knowledge_base list \<Rightarrow> string \<Rightarrow> key list" where
  "serviceAccountRequests listed name =
     (case listed of Inl e \<Rightarrow> []
      | Inr items \<Rightarrow> map kb_request (filter (\<lambda>kb. in_serviceAccountName (ks_ingestion (spec kb)) = name) items))"

end
