(* ===== verification/Wakeful.thy ===== *)
theory Wakeful
  imports KB_Reconcile
begin

text \<open>
  The KnowledgeBase reconciler does not stop by accident: a pass that ends without an error and
  without a requeue either changed the object it watches - which wakes it again - or waits for a
  reason that is listed.
\<close>

section \<open>What brings the next pass\<close>

text \<open>An accepted write of the KnowledgeBase, or a Job that existed already and is watched.\<close>

definition stirs :: "event \<Rightarrow> bool" where
  "stirs e = (case e of
     EvStatusUpdate k st r \<Rightarrow> (case r of Inl x \<Rightarrow> False | Inr rv \<Rightarrow> True)
   | EvUpdate ob r \<Rightarrow> (case ob of OKB kb \<Rightarrow> r = None | _ \<Rightarrow> False)
   | EvCreate ob r \<Rightarrow> (case ob of OJob j \<Rightarrow> (case r of None \<Rightarrow> False | Some x \<Rightarrow> is_already_exists x) | _ \<Rightarrow> False)
   | _ \<Rightarrow> False)"

definition wakes :: "ctrl_result \<Rightarrow> bool" where
  "wakes res \<longleftrightarrow> res_requeue res \<or> 0 < res_requeueAfter res"

lemma wakes_simps [simp]: "wakes requeue_now" "wakes (requeue_after d) \<longleftrightarrow> 0 < d" "\<not> wakes no_requeue"
  by (simp_all add: wakes_def requeue_defs)

definition awake :: "bool \<Rightarrow> event list \<Rightarrow> reconcile_result option \<Rightarrow> bool" where
  "awake P tr r \<longleftrightarrow> P \<or> list_ex stirs tr \<or> (case r of None \<Rightarrow> True | Some (res, e) \<Rightarrow> e \<noteq> None \<or> wakes res)"

abbreviation wakeful :: "bool \<Rightarrow> reconcile_result prog \<Rightarrow> bool" where
  "wakeful P p \<equiv> wp p (awake P)"

lemma awake_simps [simp]:
  "awake P tr None" "awake P tr (Some (res, Some x))"
  "awake P (ev # tr) = (\<lambda>r. stirs ev \<or> awake P tr r)" "awake P (tr @ tr') = (\<lambda>r. list_ex stirs tr \<or> awake P tr' r)"
  "awake P [] (Some (res, e)) \<longleftrightarrow> P \<or> e \<noteq> None \<or> wakes res" "awake True tr r"
  by (auto simp: awake_def fun_eq_iff)

lemma wakeful_True [simp]: "wakeful True p"
  by (rule wpI) simp

lemma wakeful_after: "wp p Q \<Longrightarrow> wp p (\<lambda>tr r. b \<or> Q tr r)"
  by (erule wp_mono) blast

lemma wp_anything [simp]: "wp p (\<lambda>tr r. True)"
  by (rule wpI) simp

lemma wakeful_bind:
  assumes "wp p (\<lambda>tr r. \<forall>a. r = Some a \<longrightarrow> list_ex stirs tr \<or> G a)" "\<And>a. G a \<Longrightarrow> wakeful P (f a)"
  shows "wakeful P (pbind p f)"
proof (rule wp_bindI [OF assms(1)], goal_cases)
  case (1 tr a)
  show ?case
  proof (cases "list_ex stirs tr")
    case True
    then show ?thesis by simp
  next
    case False
    with 1 have "G a" by simp
    with False assms(2) show ?thesis by simp
  qed
qed simp

lemma wakeful_then: "(\<And>a. wakeful P (f a)) \<Longrightarrow> wakeful P (pbind p f)"
  by (rule wakeful_bind [where G = "\<lambda>a. True"]) simp_all

section \<open>The helpers\<close>

lemma wp_statusUpdate_stirs:
  "wp (statusUpdate kb) (\<lambda>tr r. \<forall>kb' e. r = Some (kb', e) \<longrightarrow> list_ex stirs tr \<or> e \<noteq> None)"
  by (auto simp: statusUpdate_def stirs_def split: sum.split)

lemma wakeful_save_then: "wakeful P (save_then kb k)"
  unfolding save_then_def
  by (rule wakeful_bind [where G = "\<lambda>(kb, e). e \<noteq> None"])
    (auto intro: wp_mono [OF wp_statusUpdate_stirs] split: option.split)

lemma wakeful_save_return: "wakeful P (save_return kb)"
  unfolding save_return_def
  by (rule wakeful_bind [where G = "\<lambda>(kb, e). e \<noteq> None"])
    (auto intro: wp_mono [OF wp_statusUpdate_stirs])

lemma wakeful_quota: "wakeful P (quota_exceeded L kb msg nt)"
  unfolding quota_exceeded_def by (rule wakeful_save_then)

lemma wakeful_launch_job:
  assumes "\<And>j. wakeful P (k j)"
  shows "wakeful P (launch_job L kb j specJSON extra k)"
proof -
  have "wakeful P (spec_too_large L kb)" unfolding spec_too_large_def by (rule wakeful_save_return)
  then show ?thesis
    unfolding launch_job_def
    by (auto simp: wakeful_quota wakeful_after assms stirs_def ignoreAlreadyExists_def Let_def simp del: wp_pbind
        intro!: wakeful_then wakeful_after split: option.split sum.split)
qed

lemma wakeful_started: "wakeful P (ingest_started L kb j mode rsn)" "wakeful P (eval_started L kb j)"
  unfolding ingest_started_def eval_started_def Let_def
  by (auto simp: wakeful_save_then simp del: wp_pbind intro!: wakeful_then wakeful_after)

lemma wakeful_record_run: "wakeful P k \<Longrightarrow> wakeful P (record_run L kb ir k)"
  unfolding record_run_def Let_def
  by (auto simp: wakeful_quota intro!: wakeful_after split: option.split sum.split)

lemma wakeful_startIngest: "wakeful P (startIngest L kb eff hash secretsHash rsn)"
  unfolding startIngest_def Let_def
  by (auto simp del: wp_pbind intro!: wakeful_then wakeful_launch_job wakeful_record_run wakeful_started split: sum.split)

lemma wakeful_startEval: "wakeful P (startEval L kb eff hash secretsHash)"
  unfolding startEval_def Let_def
  by (auto simp del: wp_pbind intro!: wakeful_then wakeful_launch_job wakeful_started split: sum.split option.split)


section \<open>One pass\<close>

text \<open>The part of a pass that looks at the Job in flight either stirs, reports an error, or asks for a requeue.\<close>

definition handled_awake :: "event list \<Rightarrow> (knowledge_base \<times> active_result) option \<Rightarrow> bool" where
  "handled_awake tr r \<longleftrightarrow>
     list_ex stirs tr \<or> (case r of None \<Rightarrow> True | Some (kb, res, handled, e) \<Rightarrow> e \<noteq> None \<or> handled \<and> wakes res)"

lemma handled_awake_simps [simp]:
  "handled_awake tr None" "handled_awake tr (Some (kb, res, handled, Some e))"
  "handled_awake (ev # tr) = (\<lambda>r. stirs ev \<or> handled_awake tr r)"
  "handled_awake (tr @ tr') = (\<lambda>r. list_ex stirs tr \<or> handled_awake tr' r)"
  "handled_awake [] (Some (kb, res, handled, None)) \<longleftrightarrow> handled \<and> wakes res"
  by (auto simp: handled_awake_def fun_eq_iff)

lemma handled_then: "(\<And>a. wp (f a) handled_awake) \<Longrightarrow> wp (pbind p f) handled_awake"
  by (rule wp_bindI [OF wp_anything]) (auto intro: wakeful_after)

lemma handled_status:
  assumes "\<And>kb'. wp (f (kb', None)) (\<lambda>tr r. True)" "\<And>kb' x. wp (f (kb', Some x)) handled_awake"
  shows "wp (pbind (statusUpdate kb) f) handled_awake"
  using assms(2) unfolding statusUpdate_def by (auto simp: stirs_def split: sum.split intro!: wakeful_after)

lemma handled_save: "wp (save_handled kb k) handled_awake"
  unfolding save_handled_def by (rule handled_status) simp_all

lemma handled_finalizeIngest: "wp (finalizeIngest L kb j eff hash secretsHash) handled_awake"
  unfolding finalizeIngest_def recordIngestFailure_def recordIngestSuccess_def
  by (auto simp: handled_save second_def simp del: wp_pbind intro!: handled_then wakeful_after split: sum.split)

lemma handled_finish_eval: "wp (finish_eval L j kb) handled_awake"
  unfolding finish_eval_def by (rule handled_save)

lemma handled_finalizeEval: "wp (finalizeEval L kb j) handled_awake"
  unfolding finalizeEval_def eval_result_read_def no_dataset_def recall_met_def recall_below_def tune_again_def settling_def
    degraded_def Let_def
  by (auto simp: handled_finish_eval second_def simp del: wp_pbind intro!: handled_then wakeful_after
      split: sum.split option.split prod.split)

lemma handled_reconcileActiveJob: "wp (reconcileActiveJob L kb eff hash secretsHash) handled_awake"
  unfolding reconcileActiveJob_def
  by (auto simp: handled_finalizeIngest handled_finalizeEval second_def simp del: wp_pbind
      intro!: handled_status wakeful_after split: sum.split)

text \<open>What decides about parking: the conditions and the generation of the object read.\<close>

definition same_parking :: "knowledge_base \<Rightarrow> knowledge_base \<Rightarrow> bool" where
  "same_parking kb kb' \<longleftrightarrow> conditions (status kb') = conditions (status kb) \<and> kb_meta kb' = kb_meta kb"

lemma same_parking_unchanged: "same_parking kb kb' \<Longrightarrow> specConfigTooLargeUnchanged L kb' = specConfigTooLargeUnchanged L kb"
  by (simp add: same_parking_def specConfigTooLargeUnchanged_def split: option.split)

lemma clamp_wait_pos: "0 < clamp_wait d"
  using clamp_wait_range [of d] by (simp add: minWait_def duration_defs)

lemma wakeful_decideWork: "wakeful (specConfigTooLargeUnchanged L kb) (decideWork L kb eff chash secretsHash)"
proof (cases "specConfigTooLargeUnchanged L kb")
  case False
  have sleep: "wakeful False (pbind (requeueFor ts) (\<lambda>next. Done (requeue_after next, None)))" for ts
    by (rule wakeful_bind [where G = "\<lambda>d. 0 < d"]) (auto simp: wp_requeueFor clamp_wait_pos)
  with False show ?thesis
    unfolding decideWork_def
    by (auto simp: wakeful_startIngest wakeful_startEval simp del: wp_pbind intro!: sleep wakeful_then wakeful_after)
qed simp

text \<open>The object a status write or a guard leaves: saved, an error, or nothing that decides about parking changed.\<close>

definition parked :: "knowledge_base \<Rightarrow> event list \<Rightarrow> (knowledge_base \<times> err option) option \<Rightarrow> bool" where
  "parked kb tr r \<longleftrightarrow> list_ex stirs tr \<or>
     (case r of None \<Rightarrow> True | Some (kb', e) \<Rightarrow> e \<noteq> None \<or> same_parking kb kb')"

lemma parked_simps [simp]:
  "parked kb (ev # tr) = (\<lambda>r. stirs ev \<or> parked kb tr r)" "parked kb (tr @ tr') = (\<lambda>r. list_ex stirs tr \<or> parked kb tr' r)"
  "parked kb tr None" "parked kb [] (Some (kb', None)) \<longleftrightarrow> same_parking kb kb'" "same_parking kb kb"
  by (auto simp: parked_def fun_eq_iff same_parking_def)

lemma parked_status: "wp (statusUpdate kb') (parked kb)"
  by (rule wp_mono [OF wp_statusUpdate_stirs]) (auto simp: parked_def split: option.split)

lemma parked_then: "(\<And>a. wp (f a) (parked kb)) \<Longrightarrow> wp (pbind p f) (parked kb)"
  by (rule wp_bindI [OF wp_anything]) (auto intro: wakeful_after)

lemma parked_guardActiveJob: "wp (guardActiveJob L kb chash secretsHash) (parked kb)"
  unfolding guardActiveJob_def cancelStaleJob_def clearStuckJob_def
  by (auto simp: parked_status simp del: wp_pbind intro!: parked_then wakeful_after split: sum.split)

lemma wakeful_reconcileWork: "wakeful (specConfigTooLargeUnchanged L kb) (reconcileWork L kb eff chash secretsHash)"
  unfolding reconcileWork_def
proof (rule wakeful_bind [where G = "\<lambda>(kb', e). e \<noteq> None \<or> same_parking kb kb'"], goal_cases)
  case 1
  show ?case by (rule wp_mono [OF parked_guardActiveJob]) (auto simp: parked_def)
next
  case (2 a)
  obtain kb' e where a: "a = (kb', e)" by (cases a)
  have decide: "wakeful (specConfigTooLargeUnchanged L kb) (decideWork L k eff chash secretsHash)"
    if "same_parking kb k" for k
    using wakeful_decideWork [of L k] by (simp add: same_parking_unchanged [OF that])
  have work: "wakeful (specConfigTooLargeUnchanged L kb) (pbind (reconcileActiveJob L kb' eff chash secretsHash)
      (\<lambda>(kb, res, handled, e). if e \<noteq> None \<or> handled then Done (res, e) else decideWork L kb eff chash secretsHash))"
  proof (rule wakeful_bind [where G = "\<lambda>(kb, res, handled, e). e \<noteq> None \<or> handled \<and> wakes res"], goal_cases)
    case 1
    show ?case by (rule wp_mono [OF handled_reconcileActiveJob]) (auto simp: handled_awake_def)
  next
    case (2 r)
    then show ?case by (cases "snd (snd (snd r))") (auto split: prod.splits)
  qed
  show ?case
    using 2 decide [of kb'] work by (cases e) (auto simp: a)
qed

lemma wp_dropOverride_parking: "wp (dropOverride L kb chash) (\<lambda>tr r. \<forall>kb'. r = Some kb' \<longrightarrow> same_parking kb kb')"
  by (auto simp: dropOverride_def wp_recordAutoTuneDuration same_parking_def split: option.split)

lemma wakeful_reconcileActive: "wakeful (specConfigTooLargeUnchanged L kb) (reconcileActive L kb)"
proof -
  have "wakeful (specConfigTooLargeUnchanged L kb) (pbind (dropOverride L k chash) (\<lambda>kb. reconcileWork L kb (eff kb) chash h))"
    if "same_parking kb k" for k chash eff h
  proof (rule wakeful_bind [where G = "same_parking k"], goal_cases)
    case 1
    show ?case by (rule wp_mono [OF wp_dropOverride_parking]) auto
  next
    case (2 a)
    with that have "same_parking kb a" by (simp add: same_parking_def)
    with wakeful_reconcileWork [of L a] show ?case by (simp add: same_parking_unchanged)
  qed
  note drop = this
  show ?thesis
    unfolding reconcileActive_def Let_def
    by (rule wakeful_then) (rule drop, simp add: same_parking_def)
qed

lemma wakeful_more: "wakeful P p \<Longrightarrow> (P \<Longrightarrow> P') \<Longrightarrow> wakeful P' p"
  by (erule wp_mono) (auto simp: awake_def)

lemma wakeful_reconcileLive:
  "wakeful (ks_suspend (spec kb) \<or> specConfigTooLargeUnchanged L kb) (reconcileLive L kb)"
  using wakeful_reconcileActive [of L kb] unfolding reconcileLive_def park_on_quota_def
  by (cases "ks_suspend (spec kb)")
    (auto simp: wakeful_save_then wakeful_quota simp del: wp_pbind intro!: wakeful_then split: option.split)

lemma wakeful_reconcileDelete:
  "wakeful (\<not> contains_finalizer L (kb_finalizers kb) kb_finalizer) (reconcileDelete L kb)"
  unfolding reconcileDelete_def start_cleanup_def
  by (auto simp: stirs_def ignoreAlreadyExists_def second_def simp del: wp_pbind intro!: wakeful_then wakeful_after
      split: sum.split option.split)

lemma wakeful_reconcile_kb:
  "wakeful (m_deletionTimestamp (kb_meta kb) \<noteq> None \<and> \<not> contains_finalizer L (kb_finalizers kb) kb_finalizer \<or>
     m_deletionTimestamp (kb_meta kb) = None \<and> (ks_suspend (spec kb) \<or> specConfigTooLargeUnchanged L kb)) (reconcile_kb L kb)"
proof (cases "m_deletionTimestamp (kb_meta kb)")
  case None
  with wakeful_reconcileLive [of L kb] show ?thesis
    unfolding reconcile_kb_def by (auto simp: stirs_def intro!: wakeful_after split: option.split)
next
  case (Some t)
  with wakeful_reconcileDelete [of L kb] show ?thesis by (simp add: reconcile_kb_def)
qed

lemma stirred_cases:
  assumes "list_ex stirs tr"
  shows "(\<exists>k st rv. EvStatusUpdate k st (Inr rv) \<in> set tr) \<or> (\<exists>kb. EvUpdate (OKB kb) None \<in> set tr) \<or>
    (\<exists>j e. EvCreate (OJob j) (Some e) \<in> set tr \<and> is_already_exists e)"
  using assms unfolding list_ex_iff stirs_def
  by (fastforce split: event.splits sum.splits obj.splits option.splits)

text \<open>
  C3. The reconciler does not stop by accident.  A pass over a KnowledgeBase that ends without an
  error and without a requeue wrote the object (an accepted status write or update wakes the
  controller again) or met the Job it wanted to create; otherwise the object is under deletion
  with the finalizer gone, is suspended, or its current generation was already refused as too
  large.
\<close>

theorem no_silent_stop:
  assumes "runs (reconcile_kb L kb) tr (Some (res, None))"
    and "\<not> res_requeue res" "res_requeueAfter res \<le> 0"
  shows "(\<exists>k st rv. EvStatusUpdate k st (Inr rv) \<in> set tr) \<or> (\<exists>kb'. EvUpdate (OKB kb') None \<in> set tr) \<or>
    (\<exists>j e. EvCreate (OJob j) (Some e) \<in> set tr \<and> is_already_exists e) \<or>
    m_deletionTimestamp (kb_meta kb) \<noteq> None \<and> \<not> contains_finalizer L (kb_finalizers kb) kb_finalizer \<or>
    m_deletionTimestamp (kb_meta kb) = None \<and> (ks_suspend (spec kb) \<or> specConfigTooLargeUnchanged L kb)"
proof -
  have "\<not> wakes res"
    using assms(2,3) by (simp add: wakes_def)
  with wpD [OF wakeful_reconcile_kb assms(1)] show ?thesis
    using stirred_cases [of tr] unfolding awake_def by auto
qed


text \<open>A new KnowledgeBase: the first pass ends silently, having written its finalizer.\<close>

definition unguarded_kb :: knowledge_base where
  "unguarded_kb = set_kb_finalizers [] demo_kb"

theorem no_silent_stop_witness:
  "\<exists>tr. runs (reconcile_kb demo_lib unguarded_kb) tr (Some (no_requeue, None)) \<and>
     \<not> ks_suspend (spec unguarded_kb) \<and> \<not> specConfigTooLargeUnchanged demo_lib unguarded_kb \<and>
     (\<exists>kb'. EvUpdate (OKB kb') None \<in> set tr)"
proof -
  let ?tr = "[EvUpdate (OKB (set_kb_finalizers [kb_finalizer] unguarded_kb)) None]"
  have alive: "m_deletionTimestamp (kb_meta unguarded_kb) = None" "\<not> ks_suspend (spec unguarded_kb)"
    "\<not> specConfigTooLargeUnchanged demo_lib unguarded_kb" "\<not> contains_finalizer demo_lib (kb_finalizers unguarded_kb) kb_finalizer"
    "add_finalizer demo_lib (kb_finalizers unguarded_kb) kb_finalizer = [kb_finalizer]"
    by (simp_all add: unguarded_kb_def set_kb_finalizers_def kb_finalizers_def specConfigTooLargeUnchanged_def demo_kb_defs demo_lib_def)
  then have ran: "runs (reconcile_kb demo_lib unguarded_kb) ?tr (Some (no_requeue, None))"
    by (simp add: reconcile_kb_def runs.intros)
  from no_silent_stop [OF ran] alive(1-3) have "\<exists>kb'. EvUpdate (OKB kb') None \<in> set ?tr"
    by (simp add: requeue_defs)
  with ran alive(2,3) show ?thesis by blast
qed

end
