(* ===== verification/Launch.thy ===== *)
theory Launch
  imports Evaluation
begin

text \<open>
  How a worker Job is launched: the steps \<open>startIngest\<close> and \<open>startEval\<close> share end in one creation
  of one Job, which comes before the status that names it. A refused launch leaves the Job in
  flight, as the status has it, alone.
\<close>

section \<open>The launch as a contract\<close>

definition is_job_create :: "event \<Rightarrow> bool" where
  "is_job_create e \<longleftrightarrow> (case e of EvCreate x a \<Rightarrow> (case x of OJob j \<Rightarrow> True | _ \<Rightarrow> False) | _ \<Rightarrow> False)"

lemma is_job_create_simps [simp]:
  "is_job_create (EvCreate (OJob j) a)" "\<not> is_job_create (EvCreate (OConfigMap cm) a1)"
  "\<not> is_job_create (EvCreate (OServiceAccount sa) a2)" "\<not> is_job_create (EvCreate (ORole ro) a3)"
  "\<not> is_job_create (EvCreate (ORoleBinding rb) a4)" "\<not> is_job_create (EvCreate (ORun ir) a5)"
  "\<not> is_job_create (EvUpdate x a6)" "\<not> is_job_create (EvStatusUpdate x7 st a7)" "\<not> is_job_create (EvNow t)"
  "\<not> is_job_create (EvEmit em)" "\<not> is_job_create (EvGetRun x8 a8)" "\<not> is_job_create (EvUpdateStatus x9 a9)"
  "\<not> is_job_create (EvListRuns x10 y10 a10)" "\<not> is_job_create (EvDelete x11 p n a11)" "\<not> is_job_create (EvGetJob x12 a12)"
  "\<not> is_job_create (EvGetRole x13 a13)" "\<not> is_job_create (EvGetServiceAccount x14 a14)"
  "\<not> is_job_create (EvGetRoleBinding x15 a15)" "\<not> is_job_create (EvGetConfigMap x16 a16)"
  "\<not> is_job_create (EvGetSecret x17 a17)" "\<not> is_job_create (EvGetKB x18 a18)"
  "\<not> is_job_create (EvCreateOrUpdateVI x19 f a19)"
  by (simp_all add: is_job_create_def)

text \<open>A call that neither creates a Job nor writes a status; one that may write a status that keeps the Job in flight.\<close>

abbreviation quiet :: "event \<Rightarrow> bool" where
  "quiet e \<equiv> \<not> is_job_create e \<and> status_write e = None"

definition refusal :: "knowledge_base \<Rightarrow> event \<Rightarrow> bool" where
  "refusal kb e \<longleftrightarrow> \<not> is_job_create e \<and>
     (\<forall>k st. status_write e = Some (k, st) \<longrightarrow> k = (kb_namespace kb, kb_name kb) \<and> activeJob st = activeJob (status kb))"

lemma refusal_quiet: "quiet e \<Longrightarrow> refusal kb e"
  by (simp add: refusal_def)

lemma quiet_prepareWorkerJob: "never (\<lambda>e. \<not> quiet e) (prepareWorkerJob L kb jn extra)"
  by (intro never_prepareWorkerJob never_ensureWorkerIdentity) simp_all

lemma refusal_quota_exceeded: "never (\<lambda>e. \<not> refusal kb e) (quota_exceeded L kb msg nt)"
  by (intro never_quota_exceeded) (simp_all add: refusal_def)

lemma refusal_spec_too_large: "never (\<lambda>e. \<not> refusal kb e) (spec_too_large L kb)"
  by (intro never_spec_too_large) (simp add: refusal_def)

lemma wp_refusal: "never (\<lambda>e. \<not> refusal kb e) p \<Longrightarrow> wp p (\<lambda>tr r. \<forall>e \<in> set tr. refusal kb e)"
  using wp_never by fastforce

text \<open>
  The rule: a launch is refused before any Job is created, or the creation fails, or it finds the
  name taken and the pass ends there, or the Job exists and the caller goes on.
\<close>

lemma wp_launch_job:
  assumes refused: "\<And>tr r. \<forall>e \<in> set tr. refusal kb e \<Longrightarrow> Q tr r"
    and failed: "\<And>pre j' e post r. \<forall>e \<in> set pre. quiet e \<Longrightarrow> \<not> is_already_exists e \<Longrightarrow>
       \<forall>e \<in> set post. refusal kb e \<Longrightarrow> Q (pre @ EvCreate (OJob j') (Some e) # post) r"
    and taken: "\<And>pre j' e. \<forall>e \<in> set pre. quiet e \<Longrightarrow> is_already_exists e \<Longrightarrow>
       Q (pre @ [EvCreate (OJob j') (Some e)]) (Some (no_requeue, None))"
    and made: "\<And>pre m. \<forall>e \<in> set pre. quiet e \<Longrightarrow> set_controller_reference L (kb_owner kb) (job_meta j) = Inr m \<Longrightarrow>
       wp (k (j\<lparr>job_meta := m\<rparr>)) (\<lambda>post. Q (pre @ EvCreate (OJob (j\<lparr>job_meta := m\<rparr>)) None # post))"
  shows "wp (launch_job L kb j s extra k) Q"
proof -
  have pre: "wp (prepareWorkerJob L kb (job_name j) extra) (\<lambda>tr r. \<forall>e \<in> set tr. quiet e)"
    using wp_never [OF quiet_prepareWorkerJob] by (rule wp_mono) blast
  have quota: "wp (quota_exceeded L kb msg nt) (\<lambda>tr. Q (pre @ tr))" if "\<forall>e \<in> set pre. quiet e" for pre msg nt
    using that by (intro wp_mono [OF wp_refusal [OF refusal_quota_exceeded]] refused) (auto intro: refusal_quiet)
  have quota': "wp (quota_exceeded L kb msg nt) (\<lambda>tr. Q (pre @ EvCreate (OJob j') (Some e) # tr))"
    if "\<forall>e \<in> set pre. quiet e" "isQuotaExceeded e" for pre msg nt j' e
    using that by (intro wp_mono [OF wp_refusal [OF refusal_quota_exceeded]] failed)
      (simp_all add: isQuotaExceeded_def is_already_exists_def)
  have large: "wp (spec_too_large L kb) Q"
    by (intro wp_mono [OF wp_refusal [OF refusal_spec_too_large]] refused)
  have create: "wp (Create (OJob j') (\<lambda>r. case r of
           Some e \<Rightarrow> if isQuotaExceeded e then quota_exceeded L kb msg nt else Done (no_requeue, ignoreAlreadyExists (Some e))
         | None \<Rightarrow> k j')) (\<lambda>tr. Q (pre @ tr))"
    if p: "\<forall>e \<in> set pre. quiet e" and j': "j' = j\<lparr>job_meta := m\<rparr>" "set_controller_reference L (kb_owner kb) (job_meta j) = Inr m"
    for pre j' m msg nt
    using made [OF p j'(2)] taken [OF p] failed [OF p, where post = "[]"] quota' [OF p] j'(1)
    by (auto simp: ignoreAlreadyExists_def split: option.split)
  have done_: "wp (Done (no_requeue, Some e)) (\<lambda>tr. Q (pre @ tr))" if "\<forall>e \<in> set pre. quiet e" for pre e
    using that by (simp add: refused refusal_quiet)
  show ?thesis
  proof (cases "specConfigMapSizeOK s")
    case False
    then show ?thesis using large by (simp add: launch_job_def)
  next
    case True
    have t: "(\<not> specConfigMapSizeOK s) = False" using True by simp
    show ?thesis
      unfolding launch_job_def t if_False wp.simps
    proof (intro allI, goal_cases)
      case (1 r)
      let ?c = "EvCreate (OConfigMap (specConfigMap (kb_namespace kb) (specConfigMapName L (job_name j)) s)) r"
      show ?case
      proof (cases "ignoreAlreadyExists r")
        case (Some e)
        then show ?thesis using quota [of "[?c]"] done_ [of "[?c]"] by simp
      next
        case None
        have seq: "wp (pbind (prepareWorkerJob L kb (job_name j) extra) f) (\<lambda>tr. Q (?c # tr))"
          if f: "\<And>a tr. \<forall>e \<in> set tr. quiet e \<Longrightarrow> wp (f a) (\<lambda>tr'. Q ((?c # tr) @ tr'))" for f
          by (rule wp_bindI [OF pre]) (use f refused refusal_quiet in auto)
        show ?thesis
          unfolding None option.case
        proof (rule seq, goal_cases)
          case (1 a tr)
          then have q: "\<forall>e \<in> set (?c # tr). quiet e" by simp
          show ?case
          proof (cases a)
            case None
            then show ?thesis
              using done_ [OF q] create [OF q refl] by (cases "set_controller_reference L (kb_owner kb) (job_meta j)") (simp_all only: option.case sum.case Let_def)
          next
            case (Some e)
            then show ?thesis using quota [OF q] done_ [OF q] by (simp only: option.case split: if_splits) blast
          qed
        qed
      qed
    qed
  qed
qed


section \<open>Starting an ingestion\<close>

text \<open>The KnowledgeBase as \<open>startIngest\<close> goes on with it: a new round, the deferral consumed.\<close>

definition next_round :: "knowledge_base \<Rightarrow> knowledge_base" where
  "next_round kb = upd_status (\<lambda>s. s\<lparr>deferCronIngest := False, ingestRound := wrap64 (ingestRound s + 1)\<rparr>) kb"

lemma next_round_simps [simp]:
  "kb_meta (next_round kb) = kb_meta kb" "spec (next_round kb) = spec kb"
  "activeJob (status (next_round kb)) = activeJob (status kb)"
  "phase (status (next_round kb)) = phase (status kb)"
  "ingestRound (status (next_round kb)) = wrap64 (ingestRound (status kb) + 1)"
  "\<not> deferCronIngest (status (next_round kb))"
  by (simp_all add: next_round_def)

lemma ingestMode_status: "ingestMode (upd_status f kb) rsn = ingestMode kb rsn"
  by (simp add: ingestMode_def)

lemma startIngest_next_round:
  "startIngest L kb eff hash secretsHash rsn =
     pbind (buildIngestJob L (next_round kb) hash secretsHash (ingestMode kb rsn) eff) (\<lambda>built.
       case built of
         Inl e \<Rightarrow> Done (no_requeue, Some e)
       | Inr (j, specJSON) \<Rightarrow>
           launch_job L (next_round kb) j specJSON [] (\<lambda>j.
             record_run L (next_round kb) (newIngestionRun L (next_round kb) (job_name j) (ingestMode kb rsn) hash eff)
               (ingest_started L (next_round kb) j (ingestMode kb rsn) rsn)))"
  by (simp add: startIngest_def Let_def next_round_def upd_status_def ingestMode_def)

text \<open>The rule for \<open>startIngest\<close>, over the rule of the launch.\<close>

lemma wp_startIngest:
  assumes refused: "\<And>tr r. \<forall>e \<in> set tr. refusal kb e \<Longrightarrow> Q tr r"
    and failed: "\<And>pre j' e post r. \<forall>e \<in> set pre. quiet e \<Longrightarrow> \<not> is_already_exists e \<Longrightarrow>
       \<forall>e \<in> set post. refusal kb e \<Longrightarrow> Q (pre @ EvCreate (OJob j') (Some e) # post) r"
    and taken: "\<And>pre j' e. \<forall>e \<in> set pre. quiet e \<Longrightarrow> is_already_exists e \<Longrightarrow>
       Q (pre @ [EvCreate (OJob j') (Some e)]) (Some (no_requeue, None))"
    and made: "\<And>pre j m. \<forall>e \<in> set pre. quiet e \<Longrightarrow>
       rendered L (next_round kb) (ingestJobName L (next_round kb) eff hash) jobTypeIngest hash secretsHash j \<Longrightarrow>
       set_controller_reference L (kb_owner kb) (job_meta j) = Inr m \<Longrightarrow>
       wp (record_run L (next_round kb)
             (newIngestionRun L (next_round kb) (m_name m) (ingestMode kb rsn) hash eff)
             (ingest_started L (next_round kb) (j\<lparr>job_meta := m\<rparr>) (ingestMode kb rsn) rsn))
          (\<lambda>post. Q (pre @ EvCreate (OJob (j\<lparr>job_meta := m\<rparr>)) None # post))"
  shows "wp (startIngest L kb eff hash secretsHash rsn) Q"
  unfolding startIngest_next_round
proof (rule wp_bindI [OF wp_buildIngestJob], goal_cases)
  case (1 tr built)
  then have tr: "tr = []" by blast
  have own: "kb_owner (next_round kb) = kb_owner kb" by (simp add: kb_owner_def)
  have ref: "refusal (next_round kb) = refusal kb" by (simp add: refusal_def fun_eq_iff)
  show ?case
  proof (cases built)
    case (Inl e)
    then show ?thesis using tr refused by simp
  next
    case (Inr js)
    obtain j s where js: "js = (j, s)" by (cases js)
    have r: "rendered L (next_round kb) (ingestJobName L (next_round kb) eff hash) jobTypeIngest hash secretsHash j"
      using 1 Inr js by blast
    show ?thesis
      unfolding tr Inr js sum.case prod.case append_Nil
    proof (rule wp_launch_job, goal_cases)
      case (4 pre m)
      then show ?case using made [OF 4(1) r] own by simp
    qed (simp_all add: refused failed taken ref)
  qed
next
  case (2 tr)
  then show ?case using refused by simp
qed

text \<open>What \<open>record_run\<close> and \<open>ingest_started\<close> call.\<close>

lemma never_record_run:
  assumes "\<And>x r. \<not> P (EvCreate (ORun x) r)" "\<And>k r. \<not> P (EvGetRun k r)" "\<And>t. \<not> P (EvNow t)"
    and "\<And>x r. \<not> P (EvUpdateStatus (ORun x) r)" "\<And>e. \<not> P (EvEmit e)"
    and "\<And>st r. st = status (setCondition L kb ConditionReady ConditionFalse ''ResourceQuotaExceeded''
           ''cannot create IngestionRun: resource quota exceeded'') \<Longrightarrow> \<not> P (EvStatusUpdate (kb_namespace kb, kb_name kb) st r)"
    and "never P k"
  shows "never P (record_run L kb ir k)"
proof -
  have "never P (quota_exceeded L kb ''cannot create IngestionRun: resource quota exceeded'' nt)" for nt
    using assms(6) by (intro never_quota_exceeded) (simp_all add: assms(5))
  then show ?thesis
    using assms by (auto simp: record_run_def Let_def split: option.split sum.split)
qed

definition started_status :: "lib \<Rightarrow> knowledge_base \<Rightarrow> job \<Rightarrow> ingest_mode \<Rightarrow> string \<Rightarrow> time \<Rightarrow> knowledge_base" where
  "started_status L kb j mode rsn now =
     setCondition L
       (setCondition L (upd_status (\<lambda>s. s\<lparr>phase := PhaseIngesting, activeJob := job_name j, activeJobStartedAt := Some now\<rparr>) kb)
          ConditionIngesting ConditionTrue ''JobCreated'' (mode_string mode @ '' ingestion started ('' @ rsn @ '')''))
       ConditionReady ConditionFalse ''Ingesting'' ''ingestion in progress''"

lemma never_ingest_started:
  assumes "\<And>n k r. \<not> P (EvListRuns n k r)" "\<And>k r. \<not> P (EvDelete KindRun DefaultPropagation k r)"
    and "\<And>t. \<not> P (EvNow t)" "\<And>e. \<not> P (EvEmit e)"
    and "\<And>now r. \<not> P (EvStatusUpdate (kb_namespace kb, kb_name kb) (status (started_status L kb j mode rsn now)) r)"
  shows "never P (ingest_started L kb j mode rsn)"
proof -
  have "never P (save_then (started_status L kb j mode rsn now) (\<lambda>kb. Done x))" for now x
    using assms(5) by (intro at_most_save_then) (simp_all add: started_status_def)
  then show ?thesis
    unfolding ingest_started_def
    by (intro never_pbind never_pruneIngestionRuns assms)
      (auto simp: assms Let_def started_status_def upd_status_def)
qed


section \<open>Starting an evaluation\<close>

definition next_eval_round :: "knowledge_base \<Rightarrow> knowledge_base" where
  "next_eval_round kb = upd_status (\<lambda>s. s\<lparr>evalRound := wrap64 (evalRound s + 1)\<rparr>) kb"

lemma next_eval_round_simps [simp]:
  "kb_meta (next_eval_round kb) = kb_meta kb" "spec (next_eval_round kb) = spec kb"
  "activeJob (status (next_eval_round kb)) = activeJob (status kb)"
  "phase (status (next_eval_round kb)) = phase (status kb)"
  "evalRound (status (next_eval_round kb)) = wrap64 (evalRound (status kb) + 1)"
  by (simp_all add: next_eval_round_def)

lemma wp_startEval:
  assumes refused: "\<And>tr r. \<forall>e \<in> set tr. refusal kb e \<Longrightarrow> Q tr r"
    and failed: "\<And>pre j' e post r. \<forall>e \<in> set pre. quiet e \<Longrightarrow> \<not> is_already_exists e \<Longrightarrow>
       \<forall>e \<in> set post. refusal kb e \<Longrightarrow> Q (pre @ EvCreate (OJob j') (Some e) # post) r"
    and taken: "\<And>pre j' e. \<forall>e \<in> set pre. quiet e \<Longrightarrow> is_already_exists e \<Longrightarrow>
       Q (pre @ [EvCreate (OJob j') (Some e)]) (Some (no_requeue, None))"
    and made: "\<And>pre j m. \<forall>e \<in> set pre. quiet e \<Longrightarrow>
       rendered L (next_eval_round kb) (evalJobName L (next_eval_round kb) (wrap64 (evalRound (status kb) + 1)))
         jobTypeEval hash secretsHash j \<Longrightarrow>
       set_controller_reference L (kb_owner kb) (job_meta j) = Inr m \<Longrightarrow>
       wp (eval_started L (next_eval_round kb) (j\<lparr>job_meta := m\<rparr>))
          (\<lambda>post. Q (pre @ EvCreate (OJob (j\<lparr>job_meta := m\<rparr>)) None # post))"
  shows "wp (startEval L kb eff hash secretsHash) Q"
  unfolding startEval_def next_eval_round_def [symmetric] Let_def next_eval_round_simps
proof (rule wp_bindI [OF wp_buildEvalJob], goal_cases)
  case (1 tr built)
  then have tr: "tr = []" by blast
  have own: "kb_owner (next_eval_round kb) = kb_owner kb" by (simp add: kb_owner_def)
  have ref: "refusal (next_eval_round kb) = refusal kb" by (simp add: refusal_def fun_eq_iff)
  show ?case
  proof (cases built)
    case (Inl e)
    then show ?thesis using tr refused by simp
  next
    case (Inr js)
    obtain j s where js: "js = (j, s)" by (cases js)
    have r: "rendered L (next_eval_round kb) (evalJobName L (next_eval_round kb) (wrap64 (evalRound (status kb) + 1)))
         jobTypeEval hash secretsHash j"
      using 1 Inr js by blast
    obtain rq where rq: "ks_retrievalQuality (spec kb) = Some rq" using 1 Inr js by auto
    show ?thesis
      unfolding tr Inr js rq sum.case prod.case option.case append_Nil
    proof (rule wp_launch_job, goal_cases)
      case (4 pre m)
      then show ?case using made [OF 4(1) r] own by simp
    qed (simp_all add: refused failed taken ref)
  qed
next
  case (2 tr)
  then show ?case using refused by simp
qed

definition eval_started_status :: "lib \<Rightarrow> knowledge_base \<Rightarrow> job \<Rightarrow> time \<Rightarrow> knowledge_base" where
  "eval_started_status L kb j now =
     setCondition L (upd_status (\<lambda>s. s\<lparr>activeJob := job_name j, activeJobStartedAt := Some now\<rparr>) kb)
       ConditionEvaluated ConditionFalse ''Evaluating'' ''running retrieval-quality evaluation''"

lemma never_eval_started:
  assumes "\<And>t. \<not> P (EvNow t)" "\<And>e. \<not> P (EvEmit e)"
    and "\<And>now r. \<not> P (EvStatusUpdate (kb_namespace kb, kb_name kb) (status (eval_started_status L kb j now)) r)"
  shows "never P (eval_started L kb j)"
proof -
  have "never P (save_then (eval_started_status L kb j now) (\<lambda>kb. Done x))" for now x
    using assms(3) by (intro at_most_save_then) (simp_all add: eval_started_status_def)
  then show ?thesis by (simp add: eval_started_def Let_def assms eval_started_status_def upd_status_def)
qed

section \<open>What a launch writes\<close>

lemma refusal_status_write [simp]:
  "refusal kb (EvStatusUpdate k st a) \<longleftrightarrow> k = (kb_namespace kb, kb_name kb) \<and> activeJob st = activeJob (status kb)"
  by (auto simp: refusal_def)

lemma refused_status: "\<forall>e \<in> set tr. refusal kb e \<Longrightarrow> EvStatusUpdate k st a \<in> set tr \<Longrightarrow> activeJob st = activeJob (status kb)"
  by force

lemma quiet_status: "\<forall>e \<in> set tr. quiet e \<Longrightarrow> EvStatusUpdate k st a \<notin> set tr"
  by force

lemma quiet_create: "\<forall>e \<in> set tr. quiet e \<Longrightarrow> EvCreate (OJob j) a \<notin> set tr"
  by force

lemma refused_create: "\<forall>e \<in> set tr. refusal kb e \<Longrightarrow> EvCreate (OJob j) a \<notin> set tr"
  by (force simp: refusal_def)

lemma owner_refs_name: "owner_refs_documented L \<Longrightarrow> set_controller_reference L ow m = Inr m' \<Longrightarrow> m_name m' = m_name m \<and> m_labels m' = m_labels m"
  unfolding owner_refs_documented_def by fastforce

text \<open>After the creation of the Job: no other Job, and a refusal or the status of the started ingestion.\<close>

lemma wp_after_ingest_job:
  "wp (record_run L (next_round kb) ir (ingest_started L (next_round kb) j mode rsn))
     (\<lambda>tr r. \<forall>e \<in> set tr. \<not> is_job_create e \<and> (\<forall>k st. status_write e = Some (k, st) \<longrightarrow>
        k = (kb_namespace kb, kb_name kb) \<and>
        (activeJob st = activeJob (status kb) \<or> (\<exists>now. st = status (started_status L (next_round kb) j mode rsn now)))))"
proof -
  let ?P = "\<lambda>e. is_job_create e \<or> (\<exists>k st. status_write e = Some (k, st) \<and> \<not> (k = (kb_namespace kb, kb_name kb) \<and>
        (activeJob st = activeJob (status kb) \<or> (\<exists>now. st = status (started_status L (next_round kb) j mode rsn now)))))"
  have "never ?P (ingest_started L (next_round kb) j mode rsn)"
    by (rule never_ingest_started) auto
  then have "never ?P (record_run L (next_round kb) ir (ingest_started L (next_round kb) j mode rsn))"
    by (intro never_record_run) auto
  then show ?thesis by (rule wp_mono [OF wp_never]) blast
qed

lemma wp_after_eval_job:
  "wp (eval_started L (next_eval_round kb) j)
     (\<lambda>tr r. \<forall>e \<in> set tr. \<not> is_job_create e \<and> (\<forall>k st. status_write e = Some (k, st) \<longrightarrow>
        k = (kb_namespace kb, kb_name kb) \<and> (\<exists>now. st = status (eval_started_status L (next_eval_round kb) j now))))"
proof -
  have "never (\<lambda>e. is_job_create e \<or> (\<exists>k st. status_write e = Some (k, st) \<and> \<not> (k = (kb_namespace kb, kb_name kb) \<and>
        (\<exists>now. st = status (eval_started_status L (next_eval_round kb) j now)))))
      (eval_started L (next_eval_round kb) j)"
    by (rule never_eval_started) auto
  then show ?thesis by (rule wp_mono [OF wp_never]) blast
qed

section \<open>The contract of a launch\<close>

text \<open>
  What \<open>startIngest\<close> and \<open>startEval\<close> promise the reconciler: the launch is refused before a Job is
  created, or its creation fails - quietly, if the name is taken - or exactly one Job is created.
\<close>

definition launch_trace :: "knowledge_base \<Rightarrow> event list \<Rightarrow> reconcile_result option \<Rightarrow> bool" where
  "launch_trace kb tr r \<longleftrightarrow>
     (\<forall>e \<in> set tr. refusal kb e) \<or>
     (\<exists>pre j e post. tr = pre @ EvCreate (OJob j) (Some e) # post \<and> (\<forall>x \<in> set pre. quiet x) \<and> (\<forall>x \<in> set post. refusal kb x) \<and>
        (is_already_exists e \<longrightarrow> post = [] \<and> r = Some (no_requeue, None))) \<or>
     (\<exists>pre j post. tr = pre @ EvCreate (OJob j) None # post \<and> (\<forall>x \<in> set pre. quiet x) \<and> (\<forall>x \<in> set post. \<not> is_job_create x))"

locale launch =
  fixes kb :: knowledge_base and start :: "reconcile_result prog"
  assumes launches: "wp start (launch_trace kb)"
begin

lemma one_creation: "at_most is_job_create start 1"
  unfolding at_most_iff
proof (rule wp_mono [OF launches])
  have none: "count_calls is_job_create tr = 0" if "\<forall>e \<in> set tr. \<not> is_job_create e" for tr
    using that by (simp add: count_calls_0)
  have quiet: "count_calls is_job_create tr = 0" if "\<forall>e \<in> set tr. quiet e" for tr
    using that by (intro none) blast
  have ref: "count_calls is_job_create tr = 0" if "\<forall>e \<in> set tr. refusal kb e" for tr
    using that by (intro none) (auto simp: refusal_def)
  fix tr r
  assume "launch_trace kb tr r"
  then show "count_calls is_job_create tr \<le> 1"
    unfolding launch_trace_def
  proof (elim disjE exE conjE)
    assume "\<forall>e \<in> set tr. refusal kb e"
    from ref [OF this] show ?thesis by linarith
  next
    fix pre j e post
    assume tr: "tr = pre @ EvCreate (OJob j) (Some e) # post" and "\<forall>x \<in> set pre. quiet x" "\<forall>x \<in> set post. refusal kb x"
    then have "count_calls is_job_create pre = 0" "count_calls is_job_create post = 0" by (simp_all only: quiet ref)
    then show ?thesis unfolding tr by simp
  next
    fix pre j post
    assume tr: "tr = pre @ EvCreate (OJob j) None # post" and "\<forall>x \<in> set pre. quiet x" "\<forall>x \<in> set post. \<not> is_job_create x"
    then have "count_calls is_job_create pre = 0" "count_calls is_job_create post = 0" by (simp_all only: quiet none)
    then show ?thesis unfolding tr by simp
  qed
qed

lemma taken:
  assumes "runs start tr r" "EvCreate (OJob j) (Some e) \<in> set tr" "is_already_exists e"
  shows "r = Some (no_requeue, None) \<and> (\<forall>k st a. EvStatusUpdate k st a \<notin> set tr)"
  using wpD [OF launches assms(1)] unfolding launch_trace_def
proof (elim disjE exE conjE)
  assume "\<forall>e \<in> set tr. refusal kb e"
  then show ?thesis using refused_create assms(2) by blast
next
  fix pre j' e' post
  assume tr: "tr = pre @ EvCreate (OJob j') (Some e') # post" and p: "\<forall>x \<in> set pre. quiet x" "\<forall>x \<in> set post. refusal kb x"
    and ex: "is_already_exists e' \<longrightarrow> post = [] \<and> r = Some (no_requeue, None)"
  have "e' = e" using assms(2) tr quiet_create [OF p(1)] refused_create [OF p(2)] by auto
  then show ?thesis using ex assms(3) quiet_status [OF p(1)] tr by auto
next
  fix pre j' post
  assume "tr = pre @ EvCreate (OJob j') None # post" "\<forall>x \<in> set pre. quiet x" "\<forall>x \<in> set post. \<not> is_job_create x"
  note tr = this(1) and p = this(2,3)
  have "EvCreate (OJob j) (Some e) \<notin> set post"
    using p(2) is_job_create_simps(1) by blast
  then show ?thesis using assms(2) quiet_create [OF p(1)] by (simp add: tr)
qed

end

lemma launch_refused: "\<forall>e \<in> set tr. refusal kb e \<Longrightarrow> launch_trace kb tr r"
  unfolding launch_trace_def by (rule disjI1)

lemma launch_failed:
  assumes "\<forall>e \<in> set pre. quiet e" "\<not> is_already_exists e'" "\<forall>e \<in> set post. refusal kb e"
  shows "launch_trace kb (pre @ EvCreate (OJob j) (Some e') # post) r"
  unfolding launch_trace_def
  by (rule disjI2, rule disjI1, intro exI conjI, rule refl, rule assms(1), rule assms(3)) (use assms(2) in simp)

lemma launch_taken:
  assumes "\<forall>e \<in> set pre. quiet e"
  shows "launch_trace kb (pre @ [EvCreate (OJob j) (Some e')]) (Some (no_requeue, None))"
  unfolding launch_trace_def
  by (rule disjI2, rule disjI1, intro exI conjI, rule refl, rule assms(1)) simp_all

lemma launch_made:
  assumes "\<forall>e \<in> set pre. quiet e" "\<forall>e \<in> set post. \<not> is_job_create e"
  shows "launch_trace kb (pre @ EvCreate (OJob j) None # post) r"
  unfolding launch_trace_def
  by (rule disjI2, rule disjI2, intro exI conjI, rule refl, rule assms(1), rule assms(2))

lemma wp_launch_made:
  assumes "\<forall>e \<in> set pre. quiet e" "wp p (\<lambda>tr r. \<forall>e \<in> set tr. \<not> is_job_create e)"
  shows "wp p (\<lambda>post. launch_trace kb (pre @ EvCreate (OJob j) None # post))"
  by (rule wp_mono [OF assms(2)]) (rule launch_made [OF assms(1)])

interpretation ingest: launch kb "startIngest L kb eff hash secretsHash rsn" for L kb eff hash secretsHash rsn
proof
  have quiet_run: "wp (record_run L (next_round kb) ir (ingest_started L (next_round kb) j mode rsn))
      (\<lambda>tr r. \<forall>e \<in> set tr. \<not> is_job_create e)" for ir j mode
    by (rule wp_mono [OF wp_after_ingest_job]) blast
  show "wp (startIngest L kb eff hash secretsHash rsn) (launch_trace kb)"
    by (rule wp_startIngest) (rule launch_refused launch_failed launch_taken wp_launch_made; (assumption | rule quiet_run))+
qed

interpretation eval: launch kb "startEval L kb eff hash secretsHash" for L kb eff hash secretsHash
proof
  have quiet_eval: "wp (eval_started L (next_eval_round kb) j) (\<lambda>tr r. \<forall>e \<in> set tr. \<not> is_job_create e)" for j
    by (rule wp_mono [OF wp_after_eval_job]) blast
  show "wp (startEval L kb eff hash secretsHash) (launch_trace kb)"
    by (rule wp_startEval) (rule launch_refused launch_failed launch_taken wp_launch_made; (assumption | rule quiet_eval))+
qed

section \<open>The status that names a new Job\<close>

lemma absent_split:
  assumes "e \<notin> set tr" "tr @ tr' = pre @ e # post"
  obtains pre' where "pre = tr @ pre'" "tr' = pre' @ e # post"
proof -
  have "pre = tr @ drop (length tr) pre \<and> tr' = drop (length tr) pre @ e # post"
    using assms
  proof (induction tr arbitrary: pre)
    case (Cons x xs)
    then show ?case by (cases pre) auto
  qed simp
  then show ?thesis by (intro that) blast+
qed

text \<open>A status write after a quiet prefix and a creation has the creation before it.\<close>

lemma after_quiet:
  assumes "\<forall>e \<in> set pre. quiet e" "pre @ EvCreate (OJob j) a # post = pre' @ EvStatusUpdate k st b # post'"
  shows "EvCreate (OJob j) a \<in> set pre' \<and> EvStatusUpdate k st b \<in> set post"
  using assms
proof (induction pre arbitrary: pre')
  case Nil
  then show ?case by (cases pre') auto
next
  case (Cons x xs)
  then show ?case by (cases pre') auto
qed

text \<open>
  \<open>names_new made kb tr\<close>: in \<open>tr\<close>, a status with another Job in flight than \<open>kb\<close> has comes after the
  accepted creation of that Job, and \<open>made\<close> holds of the Job and the status.
\<close>

definition names_new :: "(job \<Rightarrow> knowledge_base_status \<Rightarrow> bool) \<Rightarrow> knowledge_base \<Rightarrow> event list \<Rightarrow> bool" where
  "names_new made kb tr \<longleftrightarrow>
     (\<forall>pre k st a post. tr = pre @ EvStatusUpdate k st a # post \<longrightarrow> activeJob st \<noteq> activeJob (status kb) \<longrightarrow>
        (\<exists>j. EvCreate (OJob j) None \<in> set pre \<and> activeJob st = job_name j \<and> made j st))"

lemma names_new_refused: "\<forall>e \<in> set tr. refusal kb e \<Longrightarrow> names_new made kb tr"
  unfolding names_new_def by (force dest: refused_status)

lemma names_new_failed:
  assumes "\<forall>e \<in> set pre. quiet e" "\<forall>e \<in> set post. refusal kb e"
  shows "names_new made kb (pre @ EvCreate (OJob j) a # post)"
  unfolding names_new_def using assms(2) after_quiet [OF assms(1)] refused_status by metis

lemma names_new_made:
  assumes "\<forall>e \<in> set pre. quiet e"
    and "\<And>k st a. EvStatusUpdate k st a \<in> set post \<Longrightarrow> activeJob st \<noteq> activeJob (status kb) \<Longrightarrow> activeJob st = job_name j \<and> made j st"
  shows "names_new made kb (pre @ EvCreate (OJob j) None # post)"
  unfolding names_new_def using assms(2) after_quiet [OF assms(1)] by metis

lemma startIngest_names_new:
  assumes "owner_refs_documented L"
  shows "wp (startIngest L kb eff hash secretsHash rsn) (\<lambda>tr r. names_new (\<lambda>j st. jobType j = jobTypeIngest \<and>
     job_name j = ingestJobName L (next_round kb) eff hash \<and> phase st = PhaseIngesting \<and> activeJobStartedAt st \<noteq> None \<and>
     ingestRound st = wrap64 (ingestRound (status kb) + 1) \<and> \<not> deferCronIngest st) kb tr)"
proof (rule wp_startIngest, goal_cases)
  case (3 pre j' e)
  then show ?case using names_new_failed [of pre "[]"] by simp
next
  case (4 pre j m)
  let ?j = "j\<lparr>job_meta := m\<rparr>"
  have j: "job_name ?j = ingestJobName L (next_round kb) eff hash" "jobType ?j = jobTypeIngest"
    using owner_refs_name [OF assms(1) 4(3)] 4(2) by (simp_all add: rendered_def jobType_def)
  show ?case
    by (rule wp_mono [OF wp_after_ingest_job], rule names_new_made [OF 4(1)])
      (use j in \<open>fastforce simp: started_status_def\<close>)
qed (simp_all add: names_new_refused names_new_failed)

lemma startEval_names_new:
  assumes "owner_refs_documented L"
  shows "wp (startEval L kb eff hash secretsHash) (\<lambda>tr r. names_new (\<lambda>j st. jobType j = jobTypeEval \<and>
     job_name j = evalJobName L (next_eval_round kb) (wrap64 (evalRound (status kb) + 1)) \<and> activeJobStartedAt st \<noteq> None \<and>
     evalRound st = wrap64 (evalRound (status kb) + 1)) kb tr)"
proof (rule wp_startEval, goal_cases)
  case (3 pre j' e)
  then show ?case using names_new_failed [of pre "[]"] by simp
next
  case (4 pre j m)
  let ?j = "j\<lparr>job_meta := m\<rparr>"
  have j: "job_name ?j = evalJobName L (next_eval_round kb) (wrap64 (evalRound (status kb) + 1))" "jobType ?j = jobTypeEval"
    using owner_refs_name [OF assms(1) 4(3)] 4(2) by (simp_all add: rendered_def jobType_def)
  show ?case
    by (rule wp_mono [OF wp_after_eval_job], rule names_new_made [OF 4(1)])
      (use j in \<open>fastforce simp: eval_started_status_def\<close>)
qed (simp_all add: names_new_refused names_new_failed)

section \<open>Properties\<close>

lemmas launch_defs =
  startIngest_def buildIngestJob_def marshalEffectiveSpec_def baseJob_def resourceRequirements_def scratchVolume_def
  launch_job_def specConfigMapSizeOK_def maxConfigMapBytes_def prepareWorkerJob_def ensureWorkerConfigMap_def
  ensureWorkerIdentity_def and_then_def nothing_def ignoreAlreadyExists_def applyWorkerServiceAccount_def ensureRole_def
  applyWorkerRole_def applyWorkerRoleBinding_def record_run_def ingest_started_def newIngestionRun_def
  pruneIngestionRuns_def save_then_def statusUpdate_def set_job_label_def exec_simps

lemma ingestJobName_nonempty: "ingestJobName L kb eff h \<noteq> ''''"
  by (simp add: ingestJobName_def trunc_name_def Let_def)

text \<open>
  A Job that exists already is not adopted: when the creation finds the name taken, the pass ends
  without an error, without a requeue and without any status write, so that nothing ever watches
  that Job and its result is lost.
\<close>

theorem existing_job_is_not_adopted:
  assumes "runs (startIngest L kb eff hash secretsHash rsn) tr r \<or> runs (startEval L kb eff hash secretsHash) tr r"
    and "EvCreate (OJob j) (Some e) \<in> set tr" "is_already_exists e"
  shows "r = Some (no_requeue, None) \<and> (\<forall>k st a. EvStatusUpdate k st a \<notin> set tr)"
  using assms(1)
  by (elim disjE) (rule ingest.taken [OF _ assms(2,3)], assumption, rule eval.taken [OF _ assms(2,3)], assumption)

definition taken_cluster :: environment where
  "taken_cluster = (empty_cluster 0)\<lparr>at_Create := (\<lambda>x. case x of OJob j \<Rightarrow> Some (Err AlreadyExists ''exists'') | _ \<Rightarrow> None)\<rparr>"

theorem existing_job_is_not_adopted_witness:
  "snd (exec taken_cluster (startIngest demo_lib demo_kb (reset_chunking ChunkFixed) ''h'' ''s'' ''initial ingestion'')) =
     Some (no_requeue, None)"
proof -
  have "\<exists>j e. EvCreate (OJob j) (Some e) \<in> set (fst (exec taken_cluster
      (startIngest demo_lib demo_kb (reset_chunking ChunkFixed) ''h'' ''s'' ''initial ingestion''))) \<and> is_already_exists e"
    by (simp add: launch_defs taken_cluster_def isQuotaExceeded_def)
  then obtain j e where e: "EvCreate (OJob j) (Some e) \<in> set (fst (exec taken_cluster
      (startIngest demo_lib demo_kb (reset_chunking ChunkFixed) ''h'' ''s'' ''initial ingestion'')))" "is_already_exists e"
    by blast
  from existing_job_is_not_adopted [OF disjI1 [OF runs_exec] e] show ?thesis by blast
qed

end
