(* ===== verification/Ingestion_Correct.thy ===== *)
theory Ingestion_Correct
  imports Ingestion
begin

text \<open>
  What the status says after an ingestion ended (\<open>finalizeIngest\<close>), which runs the history keeps
  (\<open>pruneIngestionRuns\<close>), and how the reason of an ingestion decides its mode.
\<close>

section \<open>What a finished ingestion records\<close>

lemma wp_readResult_post:
  "wp (readResult L parse ns jn) (\<lambda>tr r. \<exists>a res. tr = [EvGetConfigMap (ns, resultConfigMapName L jn) a] \<and> r = Some res \<and>
     (\<forall>result. res = Inr result \<longrightarrow> (\<exists>cm raw. a = Inr cm \<and> cm_data cm ''result.json'' = Some raw \<and> parse raw = Inr result)))"
  by (auto simp: readResult_def Let_def split: sum.split option.split)

lemma kb_meta_ingest_status [simp]:
  "kb_meta (ingest_succeeded_status L kb result eff hash secretsHash now) = kb_meta kb"
  "kb_meta (ingest_failed_status L kb cp hash now) = kb_meta kb"
  by (simp_all add: ingest_succeeded_status_def ingest_failed_status_def Let_def)

lemma never_recordIngestSuccess:
  assumes "\<And>k r. \<not> P (EvGetRole k r)" "\<And>ro r. role_rules ro = [] \<Longrightarrow> \<not> P (EvUpdate (ORole ro) r)"
    and "\<And>t. \<not> P (EvNow t)" "\<And>e. \<not> P (EvEmit e)" "\<And>k r. \<not> P (EvGetRun k r)" "\<And>x r. \<not> P (EvUpdateStatus (ORun x) r)"
    and "\<And>k p n r. \<not> P (EvDelete k p n r)"
    and "\<And>now r. \<not> P (EvStatusUpdate (kb_namespace kb, kb_name kb)
            (status (ingest_succeeded_status L kb result eff hash secretsHash now)) r)"
  shows "never P (recordIngestSuccess L kb j result eff hash secretsHash)"
proof -
  have saveh: "never P (save_handled (ingest_succeeded_status L kb result eff hash secretsHash now) k)"
    if "\<And>kb. never P (k kb)" for now k
    using that assms(8) by (intro at_most_save_handled) simp_all
  show ?thesis
    unfolding recordIngestSuccess_def
    by (rule never_pbind [OF never_clearWorkerConfigMapAccess [OF assms(1,2)]], assumption)
      (simp add: assms, intro allI saveh never_pbind never_finalizeIngestionRun never_cleanup_ingest assms, simp)
qed

text \<open>A successful ingestion is recorded from the result the worker left, and from nothing else.\<close>

lemma wp_finalizeIngest_success:
  assumes "\<not> jobFailed j"
  shows "wp (finalizeIngest L kb j eff hash secretsHash) (\<lambda>tr r. \<forall>e \<in> set tr. \<forall>k st. status_write e = Some (k, st) \<longrightarrow>
     (\<exists>cm raw result now.
        EvGetConfigMap (kb_namespace kb, resultConfigMapName L (job_name j)) (Inr cm) \<in> set tr \<and>
        cm_data cm ''result.json'' = Some raw \<and> parse_ingest_result L raw = Inr result \<and>
        k = (kb_namespace kb, kb_name kb) \<and>
        st = status (ingest_succeeded_status L kb result eff hash secretsHash now)))"
proof -
  have tail: "never (\<lambda>e. \<exists>k st. status_write e = Some (k, st) \<and> \<not> (\<exists>now. k = (kb_namespace kb, kb_name kb) \<and>
          st = status (ingest_succeeded_status L kb result eff hash secretsHash now)))
        (recordIngestSuccess L kb j result eff hash secretsHash)" for result
    by (rule never_recordIngestSuccess) auto
  show ?thesis
    unfolding finalizeIngest_def if_not_P [OF assms]
  proof (rule wp_bindI [OF wp_readResult_post], goal_cases)
    case (1 tr res)
    then show ?case
    proof (cases res)
      case (Inr result)
      from 1 Inr obtain cm raw where tr: "tr = [EvGetConfigMap (kb_namespace kb, resultConfigMapName L (job_name j)) (Inr cm)]"
        and cm: "cm_data cm ''result.json'' = Some raw" "parse_ingest_result L raw = Inr result" by auto
      show ?thesis
        unfolding Inr sum.case by (rule wp_mono [OF wp_never [OF tail]]) (use tr cm in fastforce)
    qed auto
  qed auto
qed

text \<open>A failed ingestion: the status is written once, from the checkpoint read first and the one clock reading before it.\<close>

definition found_checkpoint :: "lib \<Rightarrow> err + config_map \<Rightarrow> ingest_source_result list" where
  "found_checkpoint L a =
     (case a of
        Inl e \<Rightarrow> []
      | Inr cm \<Rightarrow>
          (case cm_data cm ''checkpoint.json'' of
             None \<Rightarrow> []
           | Some raw \<Rightarrow> if raw = '''' then [] else (case parse_checkpoint L raw of Inl e \<Rightarrow> [] | Inr cp \<Rightarrow> cp)))"

lemma wp_readCheckpoint_post:
  "wp (readCheckpointResult L ns jn)
     (\<lambda>tr r. \<exists>a. tr = [EvGetConfigMap (ns, checkpointConfigMapName L jn) a] \<and> r = Some (found_checkpoint L a))"
  by (auto simp: readCheckpointResult_def found_checkpoint_def split: sum.split option.split)

lemma only_such_event:
  assumes "xs @ e # ys = pre @ e' # post" "P e'" "\<forall>x \<in> set xs. \<not> P x" "\<forall>y \<in> set ys. \<not> P y"
  shows "pre = xs \<and> e' = e \<and> post = ys"
  using assms(1,3)
proof (induction xs arbitrary: pre)
  case Nil
  then show ?case using assms(2,4) by (cases pre) auto
next
  case (Cons x xs)
  then show ?case using assms(2) by (cases pre) auto
qed

text \<open>The status write of a failed ingestion and what comes before it.\<close>

definition failure_recorded :: "lib \<Rightarrow> knowledge_base \<Rightarrow> ingest_source_result list \<Rightarrow> string \<Rightarrow> event list \<Rightarrow> bool" where
  "failure_recorded L kb cp hash tr \<longleftrightarrow>
     (\<forall>pre k st a post. tr = pre @ EvStatusUpdate k st a # post \<longrightarrow> k = (kb_namespace kb, kb_name kb) \<and>
        (\<exists>now. st = status (ingest_failed_status L kb cp hash now) \<and> (\<forall>t. EvNow t \<in> set pre \<longleftrightarrow> t = now)))"

lemma failure_recorded_none: "\<forall>e \<in> set tr. status_write e = None \<Longrightarrow> failure_recorded L kb cp hash tr"
  unfolding failure_recorded_def by fastforce

lemma failure_recordedI:
  assumes "\<forall>e \<in> set xs. status_write e = None \<and> (\<forall>t. e \<noteq> EvNow t)" "\<forall>e \<in> set ys. status_write e = None"
  shows "failure_recorded L kb cp hash (xs @ EvNow now # EvEmit e1 # EvEmit e2 #
     EvStatusUpdate (kb_namespace kb, kb_name kb) (status (ingest_failed_status L kb cp hash now)) a # ys)"
  unfolding failure_recorded_def
proof (intro allI impI, goal_cases)
  case (1 pre k st a' post)
  then have eq: "(xs @ [EvNow now, EvEmit e1, EvEmit e2]) @
     EvStatusUpdate (kb_namespace kb, kb_name kb) (status (ingest_failed_status L kb cp hash now)) a # ys =
     pre @ EvStatusUpdate k st a' # post" by simp
  have "pre = xs @ [EvNow now, EvEmit e1, EvEmit e2] \<and> EvStatusUpdate k st a' =
     EvStatusUpdate (kb_namespace kb, kb_name kb) (status (ingest_failed_status L kb cp hash now)) a \<and> post = ys"
    by (rule only_such_event [where P = "\<lambda>e. status_write e \<noteq> None", OF eq]) (use assms in auto)
  then show ?case using assms(1) by auto
qed

lemma wp_recordIngestFailure: "wp (recordIngestFailure L kb j cp hash) (\<lambda>tr r. failure_recorded L kb cp hash tr)"
proof -
  have clear: "wp (clearWorkerConfigMapAccess L kb) (\<lambda>tr r. \<forall>e \<in> set tr. status_write e = None \<and> (\<forall>t. e \<noteq> EvNow t))"
    by (rule wp_mono [OF wp_never [OF never_clearWorkerConfigMapAccess
        [where P = "\<lambda>e. \<not> (status_write e = None \<and> (\<forall>t. e \<noteq> EvNow t))"]]]) (simp, simp, blast)
  have rest: "wp (pbind (finalizeIngestionRun ns n ph c ss msg) (\<lambda>_. pbind (cleanup_ingest L kb' j) (\<lambda>_. Done x)))
      (\<lambda>tr r. \<forall>e \<in> set tr. status_write e = None)" for ns n ph c ss msg kb' and x :: "knowledge_base \<times> active_result"
  proof -
    have "never (\<lambda>e. status_write e \<noteq> None) (pbind (finalizeIngestionRun ns n ph c ss msg) (\<lambda>_. pbind (cleanup_ingest L kb' j) (\<lambda>_. Done x)))"
      by (auto intro!: never_pbind never_finalizeIngestionRun never_cleanup_ingest)
    from wp_never [OF this] show ?thesis by (rule wp_mono) blast
  qed
  show ?thesis
    unfolding recordIngestFailure_def
  proof (rule wp_bindI [OF clear], goal_cases)
    case (1 tr u)
    have saved: "wp (save_handled (ingest_failed_status L kb cp hash now) (\<lambda>kb'.
          pbind (finalizeIngestionRun (kb_namespace kb') n ph c ss msg) (\<lambda>_. pbind (cleanup_ingest L kb' j) (\<lambda>_. Done (kb', x)))))
        (\<lambda>tr' r. failure_recorded L kb cp hash (tr @ EvNow now # EvEmit e1 # EvEmit e2 # tr'))" for now n ph c ss msg x e1 e2
      unfolding save_handled_def statusUpdate_def
      by (auto simp: failure_recordedI [OF 1] simp del: wp_pbind split: sum.split
          intro!: wp_mono [OF rest] failure_recordedI [OF 1])
    show ?case unfolding wp.simps by (intro allI saved)
  qed (rule failure_recorded_none, blast)
qed

lemma wp_finalizeIngest_failure:
  assumes "jobFailed j"
  shows "wp (finalizeIngest L kb j eff hash secretsHash) (\<lambda>tr r. \<exists>a rest.
     tr = EvGetConfigMap (kb_namespace kb, checkpointConfigMapName L (job_name j)) a # rest \<and>
     failure_recorded L kb (found_checkpoint L a) hash rest)"
  unfolding finalizeIngest_def if_P [OF assms]
  by (rule wp_bindI [OF wp_readCheckpoint_post]) (auto intro!: wp_mono [OF wp_recordIngestFailure])


section \<open>Properties\<close>

text \<open>
  C6. A successful ingestion is recorded from the worker's result and from nothing else: a status
  written by \<open>finalizeIngest\<close> for a Job that did not fail carries the counts and sources of a result
  that was read and parsed, says Ready, and names the fingerprints and the chunking of the Job. With
  it nothing is owed any more - for the same corpus - but a deferred or a due cron ingestion, and no
  failure delay holds.
\<close>

theorem ingest_success_settles:
  assumes "runs (finalizeIngest L kb j eff hash secretsHash) tr r" "\<not> jobFailed j" "hash \<noteq> ''''"
    and "EvStatusUpdate k st a \<in> set tr"
  shows "k = (kb_namespace kb, kb_name kb) \<and>
     (\<exists>cm raw result now.
        EvGetConfigMap (kb_namespace kb, resultConfigMapName L (job_name j)) (Inr cm) \<in> set tr \<and>
        cm_data cm ''result.json'' = Some raw \<and> parse_ingest_result L raw = Inr result \<and>
        indexedChunks st = igr_totalChunks result \<and> status_sources st = toSourceStatus (igr_sources result) \<and>
        lastIndexedTime st = Some now) \<and>
     phase st = PhaseReady \<and> observedSpecHash st = hash \<and> observedSecretsHash st = secretsHash \<and>
     status_effectiveChunking st = Some eff \<and> observedEmbedding st = Some (ks_embedding (spec kb)) \<and>
     activeJob st = '''' \<and> lastCheckpoint st = [] \<and>
     (\<forall>h now. ingestFailureRetryAfter (kb\<lparr>status := st\<rparr>) h now = 0) \<and>
     (\<forall>now. ingest_owed L (kb\<lparr>status := st\<rparr>) hash now \<longleftrightarrow>
        deferCronIngest (status kb) \<or>
        cronDue L (ks_freshnessSchedule (spec kb)) (time_or_zero (lastIndexedTime st)) now)"
  using wpD [OF wp_finalizeIngest_success [OF assms(2)] assms(1)] assms(3,4)
  by (fastforce simp: ingest_succeeded_status_def Let_def ingestFailureRetryAfter_def ingest_owed_def)

text \<open>A finished Job of the sample KnowledgeBase, and a cluster that holds what its worker left.\<close>

definition ended_job :: "string \<Rightarrow> job" where
  "ended_job cond = demo_job\<lparr>job_conditions := [\<lparr>jc_type = cond, jc_status = ConditionTrue\<rparr>]\<rparr>"

definition result_cluster :: environment where
  "result_cluster = (empty_cluster 100)\<lparr>at_GetConfigMap := (\<lambda>k. Inr \<lparr>cm_meta = kb_meta demo_kb,
     cm_data = [''result.json'' \<mapsto> ''abc'', ''checkpoint.json'' \<mapsto> ''{}'']\<rparr>)\<rparr>"

lemma result_cluster_sels [simp]:
  "at_Now result_cluster = 100"
  "at_GetConfigMap result_cluster = (\<lambda>k. Inr \<lparr>cm_meta = kb_meta demo_kb,
     cm_data = [''result.json'' \<mapsto> ''abc'', ''checkpoint.json'' \<mapsto> ''{}'']\<rparr>)"
  "at_GetRole result_cluster = nothing" "at_GetRun result_cluster = nothing"
  "at_StatusUpdate result_cluster = (\<lambda>k s. Inr ''2'')" "at_Delete result_cluster = (\<lambda>k p n. None)"
  by (simp_all add: result_cluster_def)

lemma ended_job_simps [simp]:
  "jobFailed (ended_job c) = (c = ''Failed'')" "job_name (ended_job c) = ''kb''"
  by (simp_all add: ended_job_def jobFailed_def JobFailed_def demo_job_def)

lemmas finalize_defs =
  finalizeIngest_def recordIngestSuccess_def recordIngestFailure_def readResult_def readCheckpointResult_def
  clearWorkerConfigMapAccess_def save_handled_def statusUpdate_def finalizeIngestionRun_def cleanup_ingest_def
  deleteResult_def deleteSpecConfigMap_def deleteCheckpointConfigMap_def deleteJob_def nothing_def

theorem ingest_success_settles_witness:
  "\<exists>st. EvStatusUpdate (''ns'', ''kb'') st (Inr ''2'')
          \<in> set (fst (exec result_cluster (finalizeIngest demo_lib demo_kb (ended_job ''Complete'') (reset_chunking ''fixed'') ''h'' ''s''))) \<and>
        phase st = PhaseReady \<and> observedSpecHash st = ''h'' \<and> (\<forall>h now. ingestFailureRetryAfter (demo_kb\<lparr>status := st\<rparr>) h now = 0)"
proof -
  let ?p = "finalizeIngest demo_lib demo_kb (ended_job ''Complete'') (reset_chunking ''fixed'') ''h'' ''s''"
  let ?st = "status (ingest_succeeded_status demo_lib demo_kb \<lparr>igr_totalChunks = 3, igr_sources = []\<rparr>
               (reset_chunking ''fixed'') ''h'' ''s'' 100)"
  have e: "EvStatusUpdate (''ns'', ''kb'') ?st (Inr ''2'') \<in> set (fst (exec result_cluster ?p))"
    by (simp add: finalize_defs exec_simps)
  have "\<not> jobFailed (ended_job ''Complete'')" "''h'' \<noteq> ''''" by simp_all
  from ingest_success_settles [OF runs_exec this e] e show ?thesis by blast
qed

text \<open>
  C10. A failed ingestion changes nothing of what the status says about the index - fingerprint,
  chunks, sources, embedding, time -, records the checkpoint the worker left (the parsed one, none
  if there is none to read) and the clock reading before the write as the time of the failure, and
  holds the same spec back for five minutes from then.
\<close>

theorem ingest_failure_keeps_index:
  assumes "runs (finalizeIngest L kb j eff hash secretsHash) tr r" "jobFailed j"
    and "tr = pre @ EvStatusUpdate k st a # post"
  shows "k = (kb_namespace kb, kb_name kb) \<and> phase st = PhaseFailed \<and> activeJob st = '''' \<and>
     observedSpecHash st = observedSpecHash (status kb) \<and> indexedChunks st = indexedChunks (status kb) \<and>
     status_sources st = status_sources (status kb) \<and> lastIndexedTime st = lastIndexedTime (status kb) \<and>
     observedEmbedding st = observedEmbedding (status kb) \<and>
     (\<exists>cm. hd pre = EvGetConfigMap (kb_namespace kb, checkpointConfigMapName L (job_name j)) cm \<and>
        lastCheckpoint st =
          (case cm of
             Inl e \<Rightarrow> []
           | Inr m \<Rightarrow>
               (case cm_data m ''checkpoint.json'' of
                  None \<Rightarrow> []
                | Some raw \<Rightarrow> if raw = '''' then [] else (case parse_checkpoint L raw of Inl e \<Rightarrow> [] | Inr cp \<Rightarrow> cp)))) \<and>
     (\<exists>t. (\<forall>u. EvNow u \<in> set pre \<longleftrightarrow> u = t) \<and> lastFailureTime st = Some t \<and>
        (\<forall>now. 0 < ingestFailureRetryAfter (kb\<lparr>status := st\<rparr>) hash now \<longleftrightarrow> now < t + 5 * minute))"
proof -
  have delay: "0 < ingestFailureRetryAfter (kb\<lparr>status := st\<rparr>) hash now \<longleftrightarrow> now < t + 5 * minute"
    if "phase st = PhaseFailed" "lastFailedSpecHash st = hash" "lastFailureTime st = Some t" for t now
    using that by (simp add: ingestFailureRetryAfter_pos ingestFailureRetryDelay_def)
  from wpD [OF wp_finalizeIngest_failure [OF assms(2)] assms(1)] obtain cm rest
    where tr: "tr = EvGetConfigMap (kb_namespace kb, checkpointConfigMapName L (job_name j)) cm # rest"
      and rest: "failure_recorded L kb (found_checkpoint L cm) hash rest" by blast
  from assms(3) tr obtain pre' where pre: "pre = EvGetConfigMap (kb_namespace kb, checkpointConfigMapName L (job_name j)) cm # pre'"
    and r: "rest = pre' @ EvStatusUpdate k st a # post" by (cases pre) auto
  from rest r obtain now where k: "k = (kb_namespace kb, kb_name kb)"
    and st: "st = status (ingest_failed_status L kb (found_checkpoint L cm) hash now)"
    and now: "\<And>t. EvNow t \<in> set pre' \<longleftrightarrow> t = now" unfolding failure_recorded_def by blast
  have f: "phase st = PhaseFailed" "lastFailedSpecHash st = hash" "lastFailureTime st = Some now" "activeJob st = ''''"
    "lastCheckpoint st = found_checkpoint L cm"
    "observedSpecHash st = observedSpecHash (status kb)" "indexedChunks st = indexedChunks (status kb)"
    "status_sources st = status_sources (status kb)" "lastIndexedTime st = lastIndexedTime (status kb)"
    "observedEmbedding st = observedEmbedding (status kb)"
    by (simp_all add: st ingest_failed_status_def Let_def)
  show ?thesis
    unfolding k f(4-) using f(1-3) delay [OF f(1-3)] by (simp add: pre now found_checkpoint_def)
qed

theorem ingest_failure_keeps_index_witness:
  "\<exists>pre k st a post. fst (exec result_cluster (finalizeIngest demo_lib demo_kb (ended_job ''Failed'') (reset_chunking ''fixed'') ''h'' ''s''))
       = pre @ EvStatusUpdate k st a # post \<and>
     phase st = PhaseFailed \<and> lastFailureTime st = Some 100 \<and> indexedChunks st = indexedChunks (status demo_kb)"
proof -
  let ?tr = "fst (exec result_cluster (finalizeIngest demo_lib demo_kb (ended_job ''Failed'') (reset_chunking ''fixed'') ''h'' ''s''))"
  have "\<exists>k st a. EvStatusUpdate k st a \<in> set ?tr" by (simp add: finalize_defs exec_simps)
  then obtain pre k st a post where tr: "?tr = pre @ EvStatusUpdate k st a # post" by (metis split_list)
  have "jobFailed (ended_job ''Failed'')" by simp
  note now = ingest_failure_keeps_index [OF runs_exec this tr]
  then obtain t where t: "EvNow t \<in> set pre" "lastFailureTime st = Some t" by blast
  from t(1) have "EvNow t \<in> set ?tr" unfolding tr by simp
  then have "t = 100" using answered_exec [of result_cluster] by (fastforce simp: list_all_iff dest: bspec)
  with now t(2) tr show ?thesis by blast
qed

text \<open>
  C34. The history keeps the ten newest terminal runs: what \<open>pruneIngestionRuns\<close> deletes and what it
  keeps are together the terminal runs of the list, at most ten are kept - all, if there are no more -
  none of the deleted is newer than a kept one, and a run that is not terminal is never deleted.
\<close>

definition deleted_runs :: "event list \<Rightarrow> key list" where
  "deleted_runs tr = concat (map (\<lambda>e. case e of EvDelete kd p k a \<Rightarrow> if kd = KindRun then [k] else [] | _ \<Rightarrow> []) tr)"

lemma wp_delete_runs:
  "wp (delete_runs rs) (\<lambda>tr r. r = Some () \<and> length tr = length rs \<and> deleted_runs tr = map run_key rs)"
  by (induction rs) (auto simp: deleted_runs_def elim!: wp_mono)

lemma prune_split:
  assumes "sort_documented L" "10 < length rs"
  shows "mset (take (length rs - 10) (sort_runs L rs)) + mset (drop (length rs - 10) (sort_runs L rs)) = mset rs \<and>
    length (drop (length rs - 10) (sort_runs L rs)) = 10 \<and>
    (\<forall>d \<in> set (take (length rs - 10) (sort_runs L rs)). \<forall>c \<in> set (drop (length rs - 10) (sort_runs L rs)).
       m_creationTimestamp (ir_meta d) \<le> m_creationTimestamp (ir_meta c))"
proof -
  let ?s = "sort_runs L rs"
  have m: "mset ?s = mset rs"
    and srt: "sorted_wrt (\<lambda>a b. m_creationTimestamp (ir_meta a) \<le> m_creationTimestamp (ir_meta b)) ?s"
    using assms(1) by (auto simp: sort_documented_def)
  have l: "length ?s = length rs" by (rule mset_eq_length [OF m])
  have "sorted_wrt (\<lambda>a b. m_creationTimestamp (ir_meta a) \<le> m_creationTimestamp (ir_meta b))
      (take (length rs - 10) ?s @ drop (length rs - 10) ?s)"
    using srt by simp
  then have "\<forall>d \<in> set (take (length rs - 10) ?s). \<forall>c \<in> set (drop (length rs - 10) ?s).
      m_creationTimestamp (ir_meta d) \<le> m_creationTimestamp (ir_meta c)"
    unfolding sorted_wrt_append by blast
  then show ?thesis
    using m l assms(2) by (simp add: mset_append [symmetric] del: mset_append)
qed

theorem pruning_keeps_newest_terminal:
  assumes "sort_documented L" "runs (pruneIngestionRuns L ns n) tr r"
  shows "r = Some () \<and>
     (\<exists>a rest. tr = EvListRuns ns n a # rest \<and>
        (case a of
           Inl e \<Rightarrow> rest = []
         | Inr items \<Rightarrow>
             (\<exists>deleted kept. deleted_runs rest = map run_key deleted \<and> length rest = length deleted \<and>
                mset deleted + mset kept = mset (filter terminal_run items) \<and>
                length kept = min 10 (length (filter terminal_run items)) \<and>
                (\<forall>d \<in> set deleted. \<forall>c \<in> set kept.
                   m_creationTimestamp (ir_meta d) \<le> m_creationTimestamp (ir_meta c)))))"
proof (rule wpD [OF _ assms(2)], unfold pruneIngestionRuns_def wp.simps, intro allI, goal_cases)
  case (1 a)
  show ?case
  proof (cases a)
    case (Inr items)
    let ?t = "filter terminal_run items"
    show ?thesis
    proof (cases "length ?t \<le> 10")
      case True
      then show ?thesis using Inr
        by (auto simp: deleted_runs_def intro!: exI [of _ "[]"] exI [of _ ?t])
    next
      case False
      then have ten: "10 < length ?t" by simp
      let ?d = "take (length ?t - 10) (sort_runs L ?t)"
      let ?k = "drop (length ?t - 10) (sort_runs L ?t)"
      note split = prune_split [OF assms(1) ten]
      have "length ?k = min 10 (length ?t)"
        using split [THEN conjunct2, THEN conjunct1] ten by linarith
      with split have fin: "\<exists>deleted kept. deleted_runs tr = map run_key deleted \<and> length tr = length deleted \<and>
          mset deleted + mset kept = mset ?t \<and> length kept = min 10 (length ?t) \<and>
          (\<forall>d \<in> set deleted. \<forall>c \<in> set kept. m_creationTimestamp (ir_meta d) \<le> m_creationTimestamp (ir_meta c))"
        if "length tr = length ?d" "deleted_runs tr = map run_key ?d" for tr
        using that by blast
      show ?thesis
        unfolding Inr sum.case Let_def if_not_P [OF False]
        by (rule wp_mono [OF wp_delete_runs])
          (elim conjE, intro conjI, assumption, rule exI, rule exI, rule conjI, rule refl,
            unfold sum.case, rule fin, assumption+)
    qed
  qed simp
qed


text \<open>Eleven finished runs, the oldest first, and one that is still running.\<close>

definition sample_run :: "ingestion_run_phase \<Rightarrow> int \<Rightarrow> ingestion_run" where
  "sample_run ph n =
     \<lparr>ir_meta = (new_meta (itoa n) ''ns'' Map.empty)\<lparr>m_creationTimestamp := n\<rparr>,
      ir_spec = \<lparr>irs_knowledgeBaseRef = ''kb'', irs_mode = IngestFull, irs_specHash = ''h'',
                 irs_effectiveChunking = reset_chunking ''fixed''\<rparr>,
      ir_status = \<lparr>ir_phase = ph, ir_startTime = None, ir_completionTime = None,
                   ir_totalChunks = 0, ir_sources = [], ir_error = ''''\<rparr>\<rparr>"

definition history_cluster :: environment where
  "history_cluster = (empty_cluster 100)\<lparr>at_ListRuns := (\<lambda>n l. Inr
     (sample_run IngestionRunRunning 0 # map (sample_run IngestionRunSucceeded) [1, 2, 3, 4, 5, 6, 7, 8, 9, 10, 11]))\<rparr>"

theorem pruning_keeps_newest_terminal_witness:
  "\<exists>deleted kept. deleted_runs (fst (exec history_cluster (pruneIngestionRuns demo_lib ''ns'' ''kb''))) = map run_key deleted \<and>
     mset deleted + mset kept = mset (map (sample_run IngestionRunSucceeded) [1, 2, 3, 4, 5, 6, 7, 8, 9, 10, 11]) \<and>
     length kept = 10"
proof -
  let ?items = "sample_run IngestionRunRunning 0 # map (sample_run IngestionRunSucceeded) [1, 2, 3, 4, 5, 6, 7, 8, 9, 10, 11]"
  have f: "filter terminal_run ?items = map (sample_run IngestionRunSucceeded) [1, 2, 3, 4, 5, 6, 7, 8, 9, 10, 11]"
    by (simp add: terminal_run_def sample_run_def)
  have "\<exists>rest. fst (exec history_cluster (pruneIngestionRuns demo_lib ''ns'' ''kb'')) = EvListRuns ''ns'' ''kb'' (Inr ?items) # rest"
    by (simp add: pruneIngestionRuns_def history_cluster_def split_beta Let_def)
  then obtain rest where tr: "fst (exec history_cluster (pruneIngestionRuns demo_lib ''ns'' ''kb'')) = EvListRuns ''ns'' ''kb'' (Inr ?items) # rest" ..
  obtain a rest' where a: "EvListRuns ''ns'' ''kb'' (Inr ?items) # rest = EvListRuns ''ns'' ''kb'' a # rest'"
    and c: "case a of Inl e \<Rightarrow> rest' = [] | Inr items \<Rightarrow>
       (\<exists>deleted kept. deleted_runs rest' = map run_key deleted \<and> length rest' = length deleted \<and>
          mset deleted + mset kept = mset (filter terminal_run items) \<and>
          length kept = min 10 (length (filter terminal_run items)) \<and>
          (\<forall>d \<in> set deleted. \<forall>c \<in> set kept. m_creationTimestamp (ir_meta d) \<le> m_creationTimestamp (ir_meta c)))"
    using pruning_keeps_newest_terminal [OF demo_lib_sort runs_exec, of history_cluster "''ns''" "''kb''", unfolded tr] by blast
  from a have a: "a = Inr ?items" and r: "rest' = rest" by (simp_all only: list.inject event.inject)
  have "\<exists>deleted kept. deleted_runs rest = map run_key deleted \<and>
      mset deleted + mset kept = mset (filter terminal_run ?items) \<and> length kept = min 10 (length (filter terminal_run ?items))"
    using c unfolding a r sum.case by blast
  moreover have ten: "min 10 (length (filter terminal_run ?items)) = 10" unfolding f by simp
  moreover have del: "deleted_runs (EvListRuns ''ns'' ''kb'' (Inr ?items) # rest) = deleted_runs rest"
    by (simp only: deleted_runs_def list.map event.case concat.simps append_Nil)
  ultimately show ?thesis unfolding tr del f by (simp only:)
qed

text \<open>
  C14. When an ingestion is owed, why, and how much of it: \<open>needsIngest\<close> is asked and its reason is
  given to \<open>ingestMode\<close>. A deferred cron ingestion, with no Job in flight, comes first and runs in
  the mode of the spec (incremental, if it names none), whatever else is owed. Otherwise a pending
  re-index, a first ingestion, a changed embedding model and a changed corpus are owed, named in this
  order, and always run in full. Only if none of them holds is the clock read: then a due schedule is
  a re-sync in the mode of the spec, and nothing else is owed.
\<close>

definition resync_mode :: "knowledge_base \<Rightarrow> ingest_mode" where
  "resync_mode kb = (if in_mode (ks_ingestion (spec kb)) = ModeUnset then IngestIncremental else in_mode (ks_ingestion (spec kb)))"

theorem ingest_decision_and_mode:
  fixes kb :: knowledge_base
  defines "waiting \<equiv> deferCronIngest (status kb) \<and> activeJob (status kb) = ''''"
    and "never_done \<equiv> observedSpecHash (status kb) = ''''"
    and "new_model \<equiv> observedEmbeddingModel (status kb) \<noteq> emb_model (ks_embedding (spec kb))"
  assumes "runs (needsIngest L kb h) tr r"
  shows "\<exists>rsn need. r = Some (rsn, need) \<and>
     (if waiting \<or> pendingRetune (status kb) \<or> never_done \<or> new_model \<or> observedSpecHash (status kb) \<noteq> h
      then tr = [] \<and> need \<and> ingestMode kb rsn = (if waiting then resync_mode kb else IngestFull) \<and>
           (rsn = ''auto-tune re-index'' \<longleftrightarrow> \<not> waiting \<and> pendingRetune (status kb)) \<and>
           (rsn = ''initial ingestion'' \<longleftrightarrow> \<not> waiting \<and> \<not> pendingRetune (status kb) \<and> never_done) \<and>
           (prefix ''embedding model changed '' rsn \<longleftrightarrow>
              \<not> waiting \<and> \<not> pendingRetune (status kb) \<and> \<not> never_done \<and> new_model)
      else if ks_freshnessSchedule (spec kb) = '''' then tr = [] \<and> \<not> need
      else \<exists>now. tr = [EvNow now] \<and>
             need = cronDue L (ks_freshnessSchedule (spec kb)) (time_or_zero (lastIndexedTime (status kb))) now \<and>
             (need \<longrightarrow> ingestMode kb rsn = resync_mode kb))"
proof -
  have "wp (needsIngest L kb h) (\<lambda>tr r. \<exists>rsn need. r = Some (rsn, need) \<and>
     (if waiting \<or> pendingRetune (status kb) \<or> never_done \<or> new_model \<or> observedSpecHash (status kb) \<noteq> h
      then tr = [] \<and> need \<and> ingestMode kb rsn = (if waiting then resync_mode kb else IngestFull) \<and>
           (rsn = ''auto-tune re-index'' \<longleftrightarrow> \<not> waiting \<and> pendingRetune (status kb)) \<and>
           (rsn = ''initial ingestion'' \<longleftrightarrow> \<not> waiting \<and> \<not> pendingRetune (status kb) \<and> never_done) \<and>
           (prefix ''embedding model changed '' rsn \<longleftrightarrow>
              \<not> waiting \<and> \<not> pendingRetune (status kb) \<and> \<not> never_done \<and> new_model)
      else if ks_freshnessSchedule (spec kb) = '''' then tr = [] \<and> \<not> need
      else \<exists>now. tr = [EvNow now] \<and>
             need = cronDue L (ks_freshnessSchedule (spec kb)) (time_or_zero (lastIndexedTime (status kb))) now \<and>
             (need \<longrightarrow> ingestMode kb rsn = resync_mode kb)))"
    unfolding waiting_def never_done_def new_model_def
    by (auto simp: needsIngest_def ingestMode_def resync_mode_def)
  then show ?thesis using assms(4) by (rule wpD)
qed

text \<open>The corpus of the sample KnowledgeBase changes while a cron ingestion is deferred: not all of it is read again.\<close>

theorem ingest_decision_and_mode_witness:
  "runs (needsIngest demo_lib (upd_status (\<lambda>s. s\<lparr>deferCronIngest := True\<rparr>) demo_kb) ''h'') [] (Some (''deferred cron ingestion'', True)) \<and>
   ingestMode (upd_status (\<lambda>s. s\<lparr>deferCronIngest := True\<rparr>) demo_kb) ''deferred cron ingestion'' = IngestIncremental"
proof -
  have r: "runs (needsIngest demo_lib (upd_status (\<lambda>s. s\<lparr>deferCronIngest := True\<rparr>) demo_kb) ''h'') []
      (Some (''deferred cron ingestion'', True))"
    by (simp add: needsIngest_def)
  have "in_mode (ks_ingestion (spec (upd_status (\<lambda>s. s\<lparr>deferCronIngest := True\<rparr>) demo_kb))) = ModeUnset"
    by (simp add: demo_kb_defs)
  then have "resync_mode (upd_status (\<lambda>s. s\<lparr>deferCronIngest := True\<rparr>) demo_kb) = IngestIncremental"
    by (simp add: resync_mode_def)
  with ingest_decision_and_mode [OF r] r show ?thesis by simp
qed

text \<open>
  A deferred cron ingestion hides a change of the spec: when one is pending, the ingestion that
  \<open>needsIngest\<close> asks for is incremental (for the default mode) although the corpus changed; without
  the deferral the same change is ingested in full, unless the deferral or the schedule is the only
  reason.
\<close>

theorem deferral_makes_spec_change_incremental:
  assumes "runs (needsIngest L kb h) tr (Some (rsn, need))" "activeJob (status kb) = ''''"
    and "observedSpecHash (status kb) \<noteq> h" "in_mode (ks_ingestion (spec kb)) = ModeUnset"
  shows "need \<and> ingestMode kb rsn = (if deferCronIngest (status kb) then IngestIncremental else IngestFull)"
  using assms by (auto simp: needsIngest_def ingestMode_def split: if_splits)

theorem deferral_makes_spec_change_incremental_witness:
  "\<exists>rsn. ingestMode (upd_status (\<lambda>s. s\<lparr>deferCronIngest := True\<rparr>) demo_kb) rsn = IngestIncremental"
proof -
  have r: "runs (needsIngest demo_lib (upd_status (\<lambda>s. s\<lparr>deferCronIngest := True\<rparr>) demo_kb) ''h'') []
      (Some (''deferred cron ingestion'', True))"
    by (simp add: needsIngest_def)
  from deferral_makes_spec_change_incremental [OF r] show ?thesis by auto
qed

end
