(* ===== verification/Single_Flight.thy ===== *)
theory Single_Flight
  imports Launch Ingestion_Correct KB_Reconcile
begin

text \<open>
  One pass of the KnowledgeBase reconciler as a whole: it creates at most one Job; it creates one
  beside a Job in flight only after that Job was found gone or was deleted and the status says so;
  a suspended KnowledgeBase gets no new work; what a worker left is deleted only after the status
  that records it was saved.
\<close>

section \<open>The parts of a pass that create no Job\<close>

abbreviation no_job :: "'a prog \<Rightarrow> bool" where
  "no_job \<equiv> never is_job_create"

lemma no_job_status: "no_job (statusUpdate kb)" "no_job (save_return kb)"
  by (rule never_statusUpdate never_save_return; simp)+

lemma no_job_save_then: "(\<And>kb. at_most is_job_create (k kb) n) \<Longrightarrow> at_most is_job_create (save_then kb k) n"
  by (rule at_most_save_then) simp_all

lemma no_job_save_handled: "(\<And>kb. no_job (k kb)) \<Longrightarrow> no_job (save_handled kb k)"
  by (rule at_most_save_handled) simp_all

lemma no_job_identity: "no_job (ensureWorkerIdentity L kb allowed)"
  by (rule never_ensureWorkerIdentity) simp_all

lemma no_job_clear: "no_job (clearWorkerConfigMapAccess L kb)"
  by (rule never_clearWorkerConfigMapAccess) simp_all

lemma no_job_quota: "no_job (quota_exceeded L kb msg nt)"
  by (rule never_quota_exceeded) simp_all

lemma no_job_read: "no_job (readResult L parse ns jn)" "no_job (readCheckpointResult L ns jn)"
  by (rule never_readResult never_readCheckpointResult; simp)+

lemma no_job_cleanup: "no_job (cleanup_ingest L kb j)"
  by (rule never_cleanup_ingest) simp

lemma no_job_run: "no_job (finalizeIngestionRun ns n ph c ss msg)"
  by (rule never_finalizeIngestionRun) simp_all

lemma no_job_deletes: "no_job (deleteResult L ns jn)" "no_job (deleteSpecConfigMap L ns jn)"
  by (simp_all add: deleteResult_def deleteSpecConfigMap_def)

lemma no_job_tune: "no_job (recordAutoTuneDuration kb res now)" "no_job (applyAutoTune kb)"
  by (rule never_recordAutoTuneDuration never_applyAutoTune; simp)+

lemmas no_job_parts =
  no_job_status no_job_save_handled no_job_identity no_job_clear no_job_quota no_job_read no_job_cleanup
  no_job_run no_job_deletes no_job_tune

lemma no_job_finalizeIngest: "no_job (finalizeIngest L kb j eff hash secretsHash)"
  unfolding finalizeIngest_def recordIngestFailure_def recordIngestSuccess_def
  by (auto simp: never_iff intro!: never_pbind no_job_parts split: sum.split)

lemma no_job_finish_eval: "no_job (finish_eval L j kb)"
  unfolding finish_eval_def by (auto simp: never_iff intro!: never_pbind no_job_parts)

lemmas no_job_eval_parts = never_iff never_pbind no_job_tune no_job_finish_eval Let_def

lemma no_job_no_dataset: "no_job (no_dataset L j kb)"
  by (simp add: no_dataset_def no_job_eval_parts)

lemma no_job_recall_met: "no_job (recall_met L j kb recall target)"
  by (simp add: recall_met_def no_job_eval_parts)

lemma no_job_tune_again: "no_job (tune_again L j kb rq recall)"
  by (simp add: tune_again_def no_job_eval_parts)

lemma no_job_settling: "no_job (settling L j kb target)"
  by (simp add: settling_def no_job_eval_parts)

lemma no_job_degraded: "no_job (degraded L j kb recall target)"
  by (simp add: degraded_def no_job_eval_parts)

lemma no_job_recall_below: "no_job (recall_below L j kb rq recall)"
  by (simp add: recall_below_def no_job_eval_parts no_job_tune_again no_job_settling no_job_degraded split: prod.split)

lemma no_job_eval_result_read: "no_job (eval_result_read L j kb result now)"
  by (simp add: eval_result_read_def no_job_eval_parts no_job_no_dataset no_job_recall_met no_job_recall_below
      split: option.split)

lemma no_job_finalizeEval: "no_job (finalizeEval L kb j)"
  by (simp add: finalizeEval_def no_job_eval_parts no_job_clear no_job_read no_job_eval_result_read split: sum.split)

lemma no_job_reconcileActiveJob: "no_job (reconcileActiveJob L kb eff hash secretsHash)"
  unfolding reconcileActiveJob_def
  by (auto simp: never_iff intro!: never_pbind no_job_parts no_job_finalizeIngest no_job_finalizeEval
      split: sum.split prod.split)

lemma no_job_guardActiveJob: "no_job (guardActiveJob L kb chash secretsHash)"
  unfolding guardActiveJob_def cancelStaleJob_def clearStuckJob_def
  by (auto simp: never_iff intro!: never_pbind no_job_parts split: sum.split)

lemma no_job_needsIngest: "no_job (needsIngest L kb h)"
  by (rule never_needsIngest) simp

lemma no_job_evalDue: "no_job (evalDue L kb)"
  by (auto simp: evalDue_def never_iff split: option.split)

lemma no_job_requeueFor: "no_job (requeueFor ts)"
  by (auto simp: requeueFor_def Let_def never_iff)

lemmas one_creation = ingest.one_creation [unfolded One_nat_def] eval.one_creation [unfolded One_nat_def]

lemma one_job_decideWork: "at_most is_job_create (decideWork L kb eff chash secretsHash) 1"
  by (simp add: decideWork_def never_pbind no_job_needsIngest no_job_evalDue no_job_requeueFor one_creation split: prod.split)

lemma one_job_reconcileWork: "at_most is_job_create (reconcileWork L kb eff chash secretsHash) 1"
  using one_job_decideWork
  by (simp add: reconcileWork_def never_pbind no_job_guardActiveJob no_job_reconcileActiveJob split: prod.split option.split)

lemma no_job_dropOverride: "no_job (dropOverride L kb chash)"
  by (simp add: dropOverride_def never_pbind no_job_tune)

lemma never_computeSecretsHash:
  assumes "\<And>k r. \<not> P (EvGetSecret k r)"
  shows "never P (computeSecretsHash L kb)"
proof -
  have quiet: "\<not> P e" if "secret_reads (kb_namespace kb) (secret_refs kb) tr" "e \<in> set tr" for e tr
    using that assms by (auto simp: secret_reads_def list_all2_conv_all_nth in_set_conv_nth)
  have "wp (computeSecretsHash L kb) (\<lambda>tr r. count_calls P tr \<le> 0)"
    by (rule wp_mono [OF wp_computeSecretsHash]) (use quiet in \<open>auto simp: count_calls_0\<close>)
  then show ?thesis by (simp add: at_most_iff)
qed

lemma no_job_computeSecretsHash: "no_job (computeSecretsHash L kb)"
  by (rule never_computeSecretsHash) simp

lemma one_job_reconcileActive: "at_most is_job_create (reconcileActive L kb) 1"
  using one_job_reconcileWork
  by (simp add: reconcileActive_def Let_def never_pbind no_job_computeSecretsHash no_job_dropOverride)

lemma no_job_reconcileSuspended: "no_job (reconcileSuspended L kb)"
  by (simp add: reconcileSuspended_def no_job_save_then)

lemma no_job_validate: "no_job (validateCustomWorkerServiceAccount L kb)"
  by (simp add: validateCustomWorkerServiceAccount_def Let_def split: sum.split)

lemma no_job_ensureVectorIndex: "no_job (ensureVectorIndex L kb)"
  by (simp add: ensureVectorIndex_def)

lemma no_job_park: "no_job (park_on_quota L kb msg nt e)"
  by (simp add: park_on_quota_def no_job_quota)

lemma one_job_reconcileLive: "at_most is_job_create (reconcileLive L kb) 1"
  using one_job_reconcileActive
  by (simp add: reconcileLive_def never_pbind no_job_validate no_job_identity no_job_ensureVectorIndex
      never_at_most [OF no_job_park] no_job_save_then never_at_most [OF no_job_reconcileSuspended] split: option.split)

lemma one_job_start_cleanup: "at_most is_job_create (start_cleanup L kb) 1"
  by (simp add: start_cleanup_def never_pbind no_job_computeSecretsHash never_buildCleanupJob split: sum.split option.split prod.split)

lemma one_job_reconcileDelete: "at_most is_job_create (reconcileDelete L kb) 1"
  using one_job_start_cleanup by (simp add: reconcileDelete_def split: sum.split)

lemma one_job_reconcile: "at_most is_job_create (reconcile L k) 1"
  using one_job_reconcileLive one_job_reconcileDelete
  by (simp add: reconcile_def reconcile_kb_def split: sum.split option.split)


section \<open>A new Job beside one in flight\<close>

text \<open>
  The Job in flight is out of the way: it was not found, or it was found and its deletion was
  requested; and a status that names no Job was saved.
\<close>

definition cleared :: "knowledge_base \<Rightarrow> event list \<Rightarrow> bool" where
  "cleared kb tr \<longleftrightarrow>
     (\<exists>st rv. EvStatusUpdate (kb_namespace kb, kb_name kb) st (Inr rv) \<in> set tr \<and> activeJob st = '''') \<and>
     ((\<exists>e. EvGetJob (kb_namespace kb, activeJob (status kb)) (Inl e) \<in> set tr \<and> is_not_found e) \<or>
      (\<exists>old b. EvGetJob (kb_namespace kb, activeJob (status kb)) (Inr old) \<in> set tr \<and>
         EvDelete KindJob BackgroundPropagation (job_key old) b \<in> set tr))"

definition after_clear :: "knowledge_base \<Rightarrow> event list \<Rightarrow> bool" where
  "after_clear kb tr \<longleftrightarrow> (\<forall>pre j a post. tr = pre @ EvCreate (OJob j) a # post \<longrightarrow> cleared kb pre)"

lemma cleared_append: "cleared kb tr \<Longrightarrow> cleared kb (tr @ tr')" "cleared kb tr' \<Longrightarrow> cleared kb (tr @ tr')"
  unfolding cleared_def by (simp_all only: set_append Un_iff) blast+

lemma no_create_split:
  assumes "\<forall>e \<in> set tr. \<not> is_job_create e" "tr @ tr' = pre @ EvCreate (OJob j) a # post"
  obtains pre' where "pre = tr @ pre'" "tr' = pre' @ EvCreate (OJob j) a # post"
  using absent_split [OF _ assms(2)] assms(1) is_job_create_simps(1) by blast

lemma after_clear_append:
  assumes "\<forall>e \<in> set tr. \<not> is_job_create e" "after_clear kb tr' \<or> cleared kb tr"
  shows "after_clear kb (tr @ tr')"
  unfolding after_clear_def
proof (intro allI impI)
  fix pre j a post
  assume "tr @ tr' = pre @ EvCreate (OJob j) a # post"
  then obtain pre' where pre': "pre = tr @ pre'" "tr' = pre' @ EvCreate (OJob j) a # post"
    by (rule no_create_split [OF assms(1)])
  show "cleared kb pre"
    using assms(2)
  proof
    assume "after_clear kb tr'"
    then have "cleared kb pre'" using pre'(2) unfolding after_clear_def by blast
    then show ?thesis unfolding pre'(1) by (rule cleared_append)
  next
    assume "cleared kb tr"
    then show ?thesis unfolding pre'(1) by (rule cleared_append)
  qed
qed

lemma after_clear_none: "\<forall>e \<in> set tr. \<not> is_job_create e \<Longrightarrow> after_clear kb tr"
  unfolding after_clear_def by fastforce

lemma wp_after_clear_never: "no_job p \<Longrightarrow> wp p (\<lambda>tr r. after_clear kb tr)"
  by (rule wp_mono [OF wp_never]) (assumption, rule after_clear_none)

lemma wp_after_clear_bind:
  assumes "no_job p" "\<And>a. wp (f a) (\<lambda>tr r. after_clear kb tr)"
  shows "wp (pbind p f) (\<lambda>tr r. after_clear kb tr)"
proof (rule wp_bindI [OF wp_never [OF assms(1)]])
  fix tr a
  assume "\<forall>e \<in> set tr. \<not> is_job_create e"
  then show "wp (f a) (\<lambda>tr' r. after_clear kb (tr @ tr'))"
    by (intro wp_mono [OF assms(2)] after_clear_append disjI1)
qed (rule after_clear_none)

lemma wp_statusUpdate_post:
  "wp (statusUpdate kb) (\<lambda>tr r. \<exists>a kb' e. tr = [EvStatusUpdate (kb_namespace kb, kb_name kb) (status kb) a] \<and> r = Some (kb', e) \<and>
     status kb' = status kb \<and> (e = None \<longrightarrow> (\<exists>rv. a = Inr rv)))"
  by (auto simp: statusUpdate_def split: sum.split)

text \<open>The two ways of giving up the Job in flight end in its deletion and a saved status without it.\<close>

definition given_up :: "knowledge_base \<Rightarrow> job \<Rightarrow> event list \<Rightarrow> (knowledge_base \<times> err option) option \<Rightarrow> bool" where
  "given_up kb j tr r \<longleftrightarrow> (\<forall>kb'. r = Some (kb', None) \<longrightarrow>
     activeJob (status kb') = '''' \<and>
     (\<exists>st rv. EvStatusUpdate (kb_namespace kb, kb_name kb) st (Inr rv) \<in> set tr \<and> activeJob st = '''') \<and>
     (\<exists>b. EvDelete KindJob BackgroundPropagation (job_key j) b \<in> set tr))"

lemma wp_give_up:
  assumes "activeJob (status kb') = ''''" "kb_namespace kb' = kb_namespace kb" "kb_name kb' = kb_name kb"
    and "EvDelete KindJob BackgroundPropagation (job_key j) b \<in> set tr"
  shows "wp (statusUpdate kb') (\<lambda>tr'. given_up kb j (tr @ tr'))"
  by (rule wp_mono [OF wp_statusUpdate_post]) (use assms in \<open>fastforce simp: given_up_def\<close>)

lemma wp_any: "wp p (\<lambda>tr r. True)"
  by (simp add: wp_iff)

lemma given_up_None: "given_up kb j tr None"
  by (simp add: given_up_def)

lemma wp_cancelStaleJob: "wp (cancelStaleJob L kb j) (given_up kb j)"
  unfolding cancelStaleJob_def wp.simps
proof (intro allI, rule wp_bindI [OF wp_any], goal_cases)
  case (1 b tr a)
  show ?case
    using wp_give_up [of "clearActiveJob kb" kb j b "EvEmit e # EvDelete KindJob BackgroundPropagation (job_key j) b # tr" for e]
    by simp
qed (rule given_up_None)

lemma wp_clearStuckJob: "wp (clearStuckJob L kb j chash) (given_up kb j)"
  unfolding clearStuckJob_def wp.simps
proof (intro allI, rule wp_bindI [OF wp_any], goal_cases)
  case (1 b tr cp)
  show ?case
  proof (rule wp_bindI [OF wp_any], goal_cases)
    case (1 tr' u)
    show ?case
      unfolding wp.simps
      using wp_give_up [where j = j and b = b and kb = kb and
          tr = "EvEmit e # EvDelete KindJob BackgroundPropagation (job_key j) b # tr @ tr' @ [EvNow t]" for e t]
      by simp
  qed (rule given_up_None)
qed (rule given_up_None)

lemma given_up_cleared:
  assumes "given_up kb j tr r" "EvGetJob (kb_namespace kb, activeJob (status kb)) (Inr j) \<in> set tr'" "set tr \<subseteq> set tr'"
    and "r = Some (kb', None)"
  shows "activeJob (status kb') = '''' \<and> cleared kb tr'"
  using assms unfolding given_up_def cleared_def by blast

lemma wp_guardActiveJob:
  "wp (guardActiveJob L kb chash secretsHash) (\<lambda>tr r. \<forall>kb'. r = Some (kb', None) \<longrightarrow>
     kb' = kb \<or> (activeJob (status kb') = '''' \<and> cleared kb tr))"
proof -
  have up: "wp p (\<lambda>tr r. \<forall>kb'. r = Some (kb', None) \<longrightarrow> kb' = kb \<or>
       (activeJob (status kb') = '''' \<and> cleared kb (EvGetJob (kb_namespace kb, activeJob (status kb)) (Inr j) # pre @ tr)))"
    if "wp p (given_up kb j)" for p j pre
    by (rule wp_mono [OF that]) (intro allI impI disjI2, erule given_up_cleared, simp, force, assumption)
  show ?thesis
    unfolding guardActiveJob_def
    using up [OF wp_cancelStaleJob, where pre = "[]"] up [OF wp_clearStuckJob, where pre = "[EvNow t]" for t]
    by (auto split: sum.split)
qed

text \<open>The reconciler goes on after \<open>reconcileActiveJob\<close> only when the Job was gone.\<close>

definition handled :: "(knowledge_base \<times> active_result) option \<Rightarrow> bool" where
  "handled r \<longleftrightarrow> (\<forall>kb' res e. r = Some (kb', res, False, e) \<longrightarrow> e \<noteq> None)"

lemma handled_simps [simp]:
  "handled None" "handled (Some (kb, res, True, e))" "handled (Some (kb, res, h, Some x))"
  by (simp_all add: handled_def)

abbreviation handles :: "(knowledge_base \<times> active_result) prog \<Rightarrow> bool" where
  "handles p \<equiv> wp p (\<lambda>tr r. handled r)"

lemma handles_bind: "(\<And>a. handles (f a)) \<Longrightarrow> handles (pbind p f)"
  by (rule wp_bindI [OF wp_any]) (simp_all del: wp_pbind)

lemma handles_save_handled: "(\<And>kb. handles (k kb)) \<Longrightarrow> handles (save_handled kb k)"
  unfolding save_handled_def by (rule handles_bind) (simp split: prod.split option.split)

lemma handles_finish_eval: "handles (finish_eval L j kb)"
  unfolding finish_eval_def by (intro handles_save_handled handles_bind) simp

lemmas handles_parts = handles_bind handles_finish_eval Let_def

lemma handles_recall_below: "handles (recall_below L j kb rq recall)"
  by (simp add: recall_below_def tune_again_def settling_def degraded_def handles_parts split: prod.split del: wp_pbind)

lemma handles_finalizeEval: "handles (finalizeEval L kb j)"
  by (simp add: finalizeEval_def eval_result_read_def no_dataset_def recall_met_def handles_parts handles_recall_below
      split: sum.split option.split del: wp_pbind)

lemma handles_finalizeIngest: "handles (finalizeIngest L kb j eff hash secretsHash)"
  by (simp add: finalizeIngest_def recordIngestFailure_def recordIngestSuccess_def handles_bind handles_save_handled
      split: sum.split del: wp_pbind)

lemma wp_reconcileActiveJob_unhandled:
  "wp (reconcileActiveJob L kb eff hash secretsHash) (\<lambda>tr r. handled r \<or> cleared kb tr)"
proof -
  have gone: "wp (statusUpdate (clearActiveJob kb)) (\<lambda>tr r. r \<noteq> None \<and> (snd (the r) \<noteq> None \<or>
      cleared kb (EvGetJob (kb_namespace kb, activeJob (status kb)) (Inl e) # tr)))" if "is_not_found e" for e
    by (rule wp_mono [OF wp_statusUpdate_post]) (use that in \<open>auto simp: cleared_def\<close>)
  have or: "wp p (\<lambda>tr r. handled r \<or> cleared kb (pre @ tr))" if "handles p" for p pre
    by (rule wp_mono [OF that]) simp
  show ?thesis
    unfolding reconcileActiveJob_def wp.simps
  proof (intro allI, goal_cases)
    case (1 res)
    show ?case
    proof (cases res)
      case (Inl e)
      show ?thesis
      proof (cases "is_not_found e")
        case True
        then show ?thesis
          unfolding Inl sum.case if_P [OF True]
          by (intro wp_bindI [OF gone [OF True]]) (auto split: prod.split)
      qed (simp add: Inl)
    next
      case (Inr j)
      show ?thesis
        unfolding Inr sum.case
        by (rule or [where pre = "[EvGetJob k r]" for k r, simplified])
          (simp add: handles_bind handles_finalizeIngest handles_finalizeEval split: prod.split del: wp_pbind)
    qed
  qed
qed


text \<open>With a Job in flight, every part of the pass creates a Job only after that one is out of the way.\<close>

lemma cleared_fields:
  "kb_namespace kb' = kb_namespace kb \<Longrightarrow> kb_name kb' = kb_name kb \<Longrightarrow> activeJob (status kb') = activeJob (status kb) \<Longrightarrow>
   cleared kb' = cleared kb"
  by (rule ext) (simp only: cleared_def)

lemma after_clear_fields:
  "kb_namespace kb' = kb_namespace kb \<Longrightarrow> kb_name kb' = kb_name kb \<Longrightarrow> activeJob (status kb') = activeJob (status kb) \<Longrightarrow>
   after_clear kb' = after_clear kb"
  by (rule ext) (simp only: after_clear_def cleared_fields [of kb' kb])

lemma wp_conjI: "wp p Q \<Longrightarrow> wp p R \<Longrightarrow> wp p (\<lambda>tr r. Q tr r \<and> R tr r)"
  by (simp add: wp_iff)

lemma wp_cleared_then: "\<forall>e \<in> set tr. \<not> is_job_create e \<Longrightarrow> cleared kb tr \<Longrightarrow> wp p (\<lambda>tr' r. after_clear kb (tr @ tr'))"
  by (rule wpI, rule after_clear_append) simp_all

lemma reconcileWork_after_clear:
  assumes "activeJob (status kb) \<noteq> ''''"
  shows "wp (reconcileWork L kb eff chash secretsHash) (\<lambda>tr r. after_clear kb tr)"
proof -
  let ?active = "pbind (reconcileActiveJob L kb eff chash secretsHash) (\<lambda>(kb, res, handled, e).
           if e \<noteq> None \<or> handled then Done (res, e) else decideWork L kb eff chash secretsHash)"
  have active: "wp ?active (\<lambda>tr r. after_clear kb tr)"
  proof (rule wp_bindI [OF wp_conjI [OF wp_never [OF no_job_reconcileActiveJob] wp_reconcileActiveJob_unhandled]], goal_cases)
    case (1 tr a)
    obtain kb' res h e where a: "a = (kb', res, h, e)" by (cases a) auto
    show ?case
    proof (cases "e \<noteq> None \<or> h")
      case True
      then show ?thesis using 1 a by (auto intro!: after_clear_none)
    next
      case False
      then have "\<not> handled (Some a)" using a by (auto simp: handled_def)
      then show ?thesis using 1 by (intro wp_cleared_then) auto
    qed
  qed (simp add: after_clear_none)
  show ?thesis
    unfolding reconcileWork_def
  proof (rule wp_bindI [OF wp_conjI [OF wp_never [OF no_job_guardActiveJob] wp_guardActiveJob]], goal_cases)
    case (1 tr a)
    obtain kb' e where a: "a = (kb', e)" by (cases a)
    show ?case
    proof (cases e)
      case None
      with 1 a consider "kb' = kb" | "cleared kb tr" by auto
      then show ?thesis
      proof cases
        case 1
        have no: "\<forall>e \<in> set tr. \<not> is_job_create e" using \<open>_ \<and> _\<close> by blast
        have "wp ?active (\<lambda>tr' r. after_clear kb (tr @ tr'))"
          by (rule wp_mono [OF active]) (rule after_clear_append [OF no disjI1])
        then show ?thesis using assms unfolding a None \<open>kb' = kb\<close> by simp
      next
        case 2
        then show ?thesis using 1 by (intro wp_cleared_then) auto
      qed
    next
      case (Some x)
      then show ?thesis using 1 a by (auto intro!: after_clear_none)
    qed
  qed (simp add: after_clear_none)
qed

lemma wp_dropOverride_active:
  "wp (dropOverride L kb chash) (\<lambda>tr r. \<forall>kb'. r = Some kb' \<longrightarrow> kb_meta kb' = kb_meta kb \<and> spec kb' = spec kb \<and>
     activeJob (status kb') = activeJob (status kb))"
  by (auto simp: dropOverride_def wp_recordAutoTuneDuration split: option.split)

lemma reconcileActive_after_clear:
  assumes "activeJob (status kb) \<noteq> ''''"
  shows "wp (reconcileActive L kb) (\<lambda>tr r. after_clear kb tr)"
proof -
  have drop: "wp (pbind (dropOverride L kb' chash) (\<lambda>kb. reconcileWork L kb (effectiveChunking kb) chash secretsHash))
      (\<lambda>tr r. after_clear kb tr)"
    if kb': "kb_meta kb' = kb_meta kb" "activeJob (status kb') = activeJob (status kb)" for kb' chash secretsHash
  proof (rule wp_bindI [OF wp_conjI [OF wp_never [OF no_job_dropOverride] wp_dropOverride_active]], goal_cases)
    case (1 tr kb2)
    then have f: "after_clear kb2 = after_clear kb" and n: "activeJob (status kb2) \<noteq> ''''"
      using kb' assms by (auto intro!: after_clear_fields)
    show ?case
      by (rule wp_mono [OF reconcileWork_after_clear [OF n]]) (use 1 f in \<open>auto intro!: after_clear_append\<close>)
  qed (simp add: after_clear_none)
  show ?thesis
    unfolding reconcileActive_def
    by (rule wp_after_clear_bind [OF no_job_computeSecretsHash]) (auto simp: Let_def intro!: drop simp del: wp_pbind)
qed

lemma reconcileLive_after_clear:
  assumes "activeJob (status kb) \<noteq> ''''"
  shows "wp (reconcileLive L kb) (\<lambda>tr r. after_clear kb tr)"
  unfolding reconcileLive_def
  using reconcileActive_after_clear [OF assms] wp_after_clear_never [OF no_job_reconcileSuspended]
    wp_after_clear_never [OF no_job_park] wp_after_clear_never [OF no_job_save_then]
  by (auto intro!: wp_after_clear_bind no_job_validate no_job_identity no_job_ensureVectorIndex split: option.split
      simp del: wp_pbind)


text \<open>Under deletion only the cleanup Job is created, and only when the look-up did not find it.\<close>

definition cleanup_launched :: "lib \<Rightarrow> knowledge_base \<Rightarrow> event list \<Rightarrow> bool" where
  "cleanup_launched L kb tr \<longleftrightarrow> (\<forall>pre j a post. tr = pre @ EvCreate (OJob j) a # post \<longrightarrow>
     jobType j = jobTypeCleanup \<and> job_name j = cleanupJobName L kb \<and>
     (\<exists>e. EvGetJob (kb_namespace kb, cleanupJobName L kb) (Inl e) \<in> set pre \<and> is_not_found e))"

lemma wp_start_cleanup_create:
  "wp (start_cleanup L kb) (\<lambda>tr r. \<forall>j a. EvCreate (OJob j) a \<in> set tr \<longrightarrow>
     jobType j = jobTypeCleanup \<and> job_name j = cleanupJobName L kb)"
  unfolding start_cleanup_def
proof (rule wp_bindI [OF wp_never [OF no_job_computeSecretsHash]], goal_cases)
  case (1 tr s)
  then have no: "EvCreate (OJob j) a \<notin> set tr" for j a using is_job_create_simps(1) by blast
  show ?case
  proof (rule wp_bindI [OF wp_buildCleanupJob], goal_cases)
    case (1 tr' built)
    then show ?case
      by (cases built) (auto simp: no rendered_def split: option.split)
  qed (simp add: no)
qed (use is_job_create_simps(1) in blast)

lemma cleanup_launched_none: "\<forall>e \<in> set tr. \<not> is_job_create e \<Longrightarrow> cleanup_launched L kb tr"
  unfolding cleanup_launched_def by fastforce

lemma cleanup_launched_after:
  assumes "\<forall>j a. EvCreate (OJob j) a \<in> set tr \<longrightarrow> jobType j = jobTypeCleanup \<and> job_name j = cleanupJobName L kb" "is_not_found e"
  shows "cleanup_launched L kb (EvGetJob (kb_namespace kb, cleanupJobName L kb) (Inl e) # tr)"
  unfolding cleanup_launched_def
proof (intro allI impI, goal_cases)
  case (1 pre j a post)
  then obtain pre' where pre: "pre = EvGetJob (kb_namespace kb, cleanupJobName L kb) (Inl e) # pre'"
    and tr: "tr = pre' @ EvCreate (OJob j) a # post" by (cases pre) auto
  have "EvCreate (OJob j) a \<in> set tr" by (simp add: tr)
  then show ?case using assms by (auto simp: pre)
qed

lemma wp_reconcileDelete_create: "wp (reconcileDelete L kb) (\<lambda>tr r. cleanup_launched L kb tr)"
proof -
  have "wp (start_cleanup L kb)
      (\<lambda>tr r. cleanup_launched L kb (EvGetJob (kb_namespace kb, cleanupJobName L kb) (Inl e) # tr))" if "is_not_found e" for e
    by (rule wp_mono [OF wp_start_cleanup_create]) (rule cleanup_launched_after, assumption, rule that)
  then show ?thesis
    unfolding reconcileDelete_def by (auto simp: cleanup_launched_none split: sum.split)
qed

section \<open>Deletions wait for the status\<close>

lemma saves_first_finish_eval: "saves_first (finish_eval L j kb)"
  unfolding finish_eval_def by (rule saves_first_save_handled)

lemma no_delete_tune: "never is_delete (recordAutoTuneDuration kb res now)" "never is_delete (applyAutoTune kb)"
  by (rule never_recordAutoTuneDuration never_applyAutoTune; simp)+

lemmas saves_first_eval_parts =
  saves_first_finish_eval guards_bind no_delete_tune never_readResult never_clearWorkerConfigMapAccess Let_def

lemma saves_first_recall_below: "saves_first (recall_below L j kb rq recall)"
  by (simp add: recall_below_def tune_again_def settling_def degraded_def saves_first_eval_parts split: prod.split)

lemma saves_first_finalizeEval: "saves_first (finalizeEval L kb j)"
  by (simp add: finalizeEval_def eval_result_read_def no_dataset_def recall_met_def saves_first_eval_parts
      saves_first_recall_below split: sum.split option.split)

lemma is_delete_GetJob [simp]: "\<not> is_delete (EvGetJob k r)"
  by (simp add: is_delete_def)

lemma saves_first_reconcileActiveJob: "saves_first (reconcileActiveJob L kb eff hash secretsHash)"
  by (simp add: reconcileActiveJob_def saves_first_finalizeIngest saves_first_finalizeEval guards_bind
      never_statusUpdate split: sum.split prod.split)

text \<open>A launch deletes old runs of the history only, and only once its Job was created.\<close>

lemma is_delete_others [simp]:
  "\<not> is_delete (EvCreate x1 r1)" "\<not> is_delete (EvGetServiceAccount x2 r2)" "\<not> is_delete (EvGetRoleBinding x3 r3)"
  "\<not> is_delete (EvGetRun x4 r4)" "\<not> is_delete (EvUpdateStatus x5 r5)" "\<not> is_delete (EvListRuns x6 y6 r6)"
  "\<not> is_delete (EvGetSecret x7 r7)" "\<not> is_delete (EvCreateOrUpdateVI x8 f8 r8)"
  by (simp_all add: is_delete_def)

definition job_created :: "event \<Rightarrow> bool" where
  "job_created e \<longleftrightarrow> (\<exists>j. e = EvCreate (OJob j) None)"

definition other_delete :: "event \<Rightarrow> bool" where
  "other_delete e \<longleftrightarrow> is_delete e \<and> (\<forall>p n a. e \<noteq> EvDelete KindRun p n a)"

lemma other_delete_simps [simp]:
  "\<not> other_delete (EvDelete KindRun p n a)" "\<not> is_delete e \<Longrightarrow> \<not> other_delete e"
  by (simp_all add: other_delete_def)

lemma never_weaken: "never P p \<Longrightarrow> (\<And>e. Q e \<Longrightarrow> P e) \<Longrightarrow> never Q p"
  unfolding at_most_iff [of Q] by (rule wp_mono [OF wp_never], assumption) (auto simp: count_calls_0)

lemma guards_Create:
  "guards G P (Create x k) \<longleftrightarrow> (\<forall>r. G (EvCreate x r) \<or> \<not> P (EvCreate x r) \<and> guards G P (k r))"
proof -
  have "wp p (\<lambda>tr r. b \<or> c \<and> guarded G P tr) \<longleftrightarrow> b \<or> c \<and> wp p (\<lambda>tr r. guarded G P tr)" for b c and p :: "'a prog"
    using wp_not_False [of p] by (cases b; cases c) (simp_all add: wp_any)
  then show ?thesis by (simp add: guards_def)
qed

lemma no_delete_helpers:
  "never is_delete (spec_too_large L kb)" "never is_delete (quota_exceeded L kb msg nt)"
  "never is_delete (prepareWorkerJob L kb jn ex)" "never is_delete (ensureWorkerIdentity L kb ex)"
  "never is_delete (computeSecretsHash L kb)" "never is_delete (clearWorkerConfigMapAccess L kb)"
  "never is_delete (readCheckpointResult L ns jn)" "never is_delete (statusUpdate kb)"
  "never is_delete (needsIngest L kb h)" "never is_delete (evalDue L kb)" "never is_delete (requeueFor ts)"
  by (auto intro!: never_helpers never_computeSecretsHash never_needsIngest simp: evalDue_def requeueFor_def Let_def
      split: option.split)

lemma no_other_delete: "never is_delete p \<Longrightarrow> never other_delete p"
  by (erule never_weaken) (simp add: other_delete_def)

lemma launch_deletes:
  assumes "\<And>j. never other_delete (k j)"
  shows "guards job_created is_delete (launch_job L kb j s extra k)" "never other_delete (launch_job L kb j s extra k)"
proof -
  show "never other_delete (launch_job L kb j s extra k)"
    unfolding launch_job_def
    by (auto simp: Let_def assms intro!: never_pbind no_other_delete [OF no_delete_helpers(1)] no_other_delete [OF no_delete_helpers(2)]
        no_other_delete [OF no_delete_helpers(3)] split: option.split sum.split)
  show "guards job_created is_delete (launch_job L kb j s extra k)"
    unfolding launch_job_def
    by (auto simp: Let_def guards_Create job_created_def intro!: guards_bind no_delete_helpers
        guards_never [OF no_delete_helpers(1)] guards_never [OF no_delete_helpers(2)] split: option.split sum.split)
qed

lemma startIngest_deletes:
  "guards job_created is_delete (startIngest L kb eff hash secretsHash rsn)"
  "never other_delete (startIngest L kb eff hash secretsHash rsn)"
proof -
  have k: "never other_delete (record_run L kb ir (ingest_started L kb j mode rsn))" for kb ir j mode
    by (intro never_record_run never_ingest_started) simp_all
  show "guards job_created is_delete (startIngest L kb eff hash secretsHash rsn)"
    unfolding startIngest_next_round
    by (auto intro!: guards_bind never_buildIngestJob launch_deletes(1) k split: sum.split)
  show "never other_delete (startIngest L kb eff hash secretsHash rsn)"
    unfolding startIngest_next_round
    by (auto intro!: never_pbind never_buildIngestJob launch_deletes(2) k split: sum.split)
qed

lemma startEval_deletes:
  "guards job_created is_delete (startEval L kb eff hash secretsHash)"
  "never other_delete (startEval L kb eff hash secretsHash)"
proof -
  have k: "never other_delete (eval_started L kb j)" for kb j
    by (intro never_eval_started) simp_all
  show "guards job_created is_delete (startEval L kb eff hash secretsHash)"
    unfolding startEval_def Let_def
    by (auto intro!: guards_bind never_buildEvalJob launch_deletes(1) k split: sum.split option.split)
  show "never other_delete (startEval L kb eff hash secretsHash)"
    unfolding startEval_def Let_def
    by (auto intro!: never_pbind never_buildEvalJob launch_deletes(2) k split: sum.split option.split)
qed

text \<open>
  Why a pass may delete something, from what happened before: the status was saved, the Job of a new
  ingestion exists and the history is pruned, or the Job in flight was read and is stale or stuck.
\<close>

definition given_reason :: "knowledge_base \<Rightarrow> string \<Rightarrow> string \<Rightarrow> event list \<Rightarrow> kind \<Rightarrow> key \<Rightarrow> bool" where
  "given_reason kb chash s pre kd n \<longleftrightarrow>
     (\<exists>e \<in> set pre. saved e) \<or>
     kd = KindRun \<and> (\<exists>j. EvCreate (OJob j) None \<in> set pre) \<or>
     kd = KindJob \<and> (\<exists>old. EvGetJob (kb_namespace kb, activeJob (status kb)) (Inr old) \<in> set pre \<and> n = job_key old \<and>
        (jobType old = jobTypeIngest \<and>
           (jobSpecHash old (observedSpecHash (status kb)) \<noteq> chash \<or> jobSecretsHash old (observedSecretsHash (status kb)) \<noteq> s) \<or>
         (\<exists>now. EvNow now \<in> set pre \<and> isActiveJobTimedOut old (activeJobStartedAt (status kb)) now)))"

definition reasoned :: "knowledge_base \<Rightarrow> string \<Rightarrow> string \<Rightarrow> event list \<Rightarrow> bool" where
  "reasoned kb chash s tr \<longleftrightarrow> (\<forall>pre kd p n a post. tr = pre @ EvDelete kd p n a # post \<longrightarrow> given_reason kb chash s pre kd n)"

lemma given_reason_append: "given_reason kb chash s pre kd n \<Longrightarrow> given_reason kb chash s (us @ pre) kd n"
  unfolding given_reason_def by auto

lemma reasoned_none: "\<forall>e \<in> set tr. \<not> is_delete e \<Longrightarrow> reasoned kb chash s tr"
  unfolding reasoned_def by fastforce

lemma reasoned_append:
  assumes "reasoned kb chash s tr" "reasoned kb chash s tr'"
  shows "reasoned kb chash s (tr @ tr')"
  unfolding reasoned_def
proof (intro allI impI)
  fix pre kd p n a post
  assume "tr @ tr' = pre @ EvDelete kd p n a # post"
  then obtain us where "tr = pre @ us \<and> us @ tr' = EvDelete kd p n a # post \<or> tr @ us = pre \<and> tr' = us @ EvDelete kd p n a # post"
    by (auto simp: append_eq_append_conv2)
  then show "given_reason kb chash s pre kd n"
  proof (elim disjE conjE)
    assume us: "tr = pre @ us" "us @ tr' = EvDelete kd p n a # post"
    show ?thesis
    proof (cases us)
      case Nil
      then show ?thesis using us assms(2) unfolding reasoned_def by (metis append_Nil given_reason_append append_Nil2)
    next
      case (Cons e es)
      with us have "tr = pre @ EvDelete kd p n a # es" by simp
      then show ?thesis using assms(1) unfolding reasoned_def by blast
    qed
  next
    assume "tr @ us = pre" "tr' = us @ EvDelete kd p n a # post"
    then show ?thesis using assms(2) given_reason_append unfolding reasoned_def by blast
  qed
qed

lemma wp_reasoned_bind:
  assumes "wp p (\<lambda>tr r. reasoned kb chash s tr)" "\<And>a. wp (f a) (\<lambda>tr r. reasoned kb chash s tr)"
  shows "wp (pbind p f) (\<lambda>tr r. reasoned kb chash s tr)"
  by (rule wp_bindI [OF assms(1)]) (auto intro!: wp_mono [OF assms(2)] reasoned_append)

lemma reasoned_saved: "guarded saved is_delete tr \<Longrightarrow> reasoned kb chash s tr"
  unfolding reasoned_def given_reason_def
  by (metis guarded_before is_delete_simps(1) saved_simps(6))

lemma reasoned_created:
  assumes "guarded job_created is_delete tr" "\<forall>e \<in> set tr. \<not> other_delete e"
  shows "reasoned kb chash s tr"
  unfolding reasoned_def given_reason_def
proof (intro allI impI, goal_cases)
  case (1 pre kd p n a post)
  have "\<exists>g \<in> set pre. job_created g"
    by (rule guarded_before [OF assms(1) [unfolded 1]]) (simp_all add: job_created_def)
  moreover have "kd = KindRun" using assms(2) unfolding 1 by (auto simp: other_delete_def)
  ultimately show ?case by (auto simp: job_created_def)
qed

lemma wp_reasoned_none: "never is_delete p \<Longrightarrow> wp p (\<lambda>tr r. reasoned kb chash s tr)"
  by (rule wp_mono [OF wp_never]) (assumption, rule reasoned_none)

lemma wp_reasoned_created:
  assumes "guards job_created is_delete p" "never other_delete p"
  shows "wp p (\<lambda>tr r. reasoned kb chash s tr)"
  by (rule wp_mono [OF wp_conjI [OF assms(1) [unfolded guards_def] wp_never [OF assms(2)]]])
    (blast intro: reasoned_created)

lemma wp_reasoned_saved: "saves_first p \<Longrightarrow> wp p (\<lambda>tr r. reasoned kb chash s tr)"
  unfolding guards_def by (rule wp_mono) (assumption, rule reasoned_saved)

lemma wp_reasoned_Now: "(\<And>t. wp (k t) (\<lambda>tr r. reasoned kb chash s tr)) \<Longrightarrow> wp (Now k) (\<lambda>tr r. reasoned kb chash s tr)"
  using wp_reasoned_bind [OF wp_reasoned_none, of "Now Done" k kb chash s] by simp

lemma decideWork_reasoned: "wp (decideWork L kb' eff chash' s') (\<lambda>tr r. reasoned kb chash s tr)"
proof -
  have idle: "wp (Now (\<lambda>now. pbind (requeueFor (f now)) (\<lambda>next. Done (x next)))) (\<lambda>tr r. reasoned kb chash s tr)" for f x
    by (intro wp_reasoned_none) (simp add: never_pbind no_delete_helpers)
  have eval: "wp (pbind (evalDue L kb') (\<lambda>due. if due then startEval L kb' eff chash' s' else Now (\<lambda>now.
        pbind (requeueFor (f now)) (\<lambda>next. Done (x next))))) (\<lambda>tr r. reasoned kb chash s tr)" for f x
    by (rule wp_reasoned_bind [OF wp_reasoned_none [OF no_delete_helpers(10)]])
      (simp add: idle wp_reasoned_created startEval_deletes del: wp.simps)
  show ?thesis
    unfolding decideWork_def
  proof (rule wp_reasoned_Now, goal_cases)
    case (1 t)
    have work: "wp (pbind (needsIngest L kb' chash') (\<lambda>(rsn, need). if need then startIngest L kb' eff chash' s' rsn
        else pbind (evalDue L kb') (\<lambda>due. if due then startEval L kb' eff chash' s' else Now (\<lambda>now.
          pbind (requeueFor (f now)) (\<lambda>next. Done (x next)))))) (\<lambda>tr r. reasoned kb chash s tr)" for f x
      by (rule wp_reasoned_bind [OF wp_reasoned_none [OF no_delete_helpers(9)]])
        (simp add: eval wp_reasoned_created startIngest_deletes split: prod.split del: wp.simps wp_pbind)
    show ?case using work by (simp add: reasoned_none del: wp_pbind)
  qed
qed

lemma guardActiveJob_reasoned:
  "wp (guardActiveJob L kb chash s) (\<lambda>tr r. reasoned kb chash s tr)"
proof -
  have gone: "wp p (\<lambda>tr r. reasoned kb chash s (EvGetJob (kb_namespace kb, activeJob (status kb)) (Inr j) # mid @
        EvEmit e # EvDelete KindJob BackgroundPropagation (job_key j) b # tr))"
    if "never is_delete p" "\<forall>e \<in> set mid. \<not> is_delete e"
      "given_reason kb chash s (EvGetJob (kb_namespace kb, activeJob (status kb)) (Inr j) # mid @ [EvEmit e]) KindJob (job_key j)"
    for p :: "(knowledge_base \<times> err option) prog" and j mid e b
  proof (rule wp_mono [OF wp_reasoned_none [OF that(1)]])
    fix tr :: "event list"
    assume tr: "reasoned kb chash s tr"
    let ?pre = "EvGetJob (kb_namespace kb, activeJob (status kb)) (Inr j) # mid @ [EvEmit e]"
    have one: "reasoned kb chash s (?pre @ [EvDelete KindJob BackgroundPropagation (job_key j) b])"
      unfolding reasoned_def
    proof (intro allI impI, goal_cases)
      case (1 pre kd p n a post)
      then have "pre = ?pre \<and> EvDelete kd p n a = EvDelete KindJob BackgroundPropagation (job_key j) b \<and> post = []"
        by (intro only_such_event [where P = is_delete]) (use that(2) in auto)
      then show ?case using that(3) by simp
    qed
    show "reasoned kb chash s (EvGetJob (kb_namespace kb, activeJob (status kb)) (Inr j) # mid @
        EvEmit e # EvDelete KindJob BackgroundPropagation (job_key j) b # tr)"
      using reasoned_append [OF one tr] by simp
  qed
  have cancel: "wp (cancelStaleJob L kb j) (\<lambda>tr r. reasoned kb chash s (EvGetJob (kb_namespace kb, activeJob (status kb)) (Inr j) # tr))"
    if "activeIngestIsStale j chash s (observedSpecHash (status kb)) (observedSecretsHash (status kb))" for j
    unfolding cancelStaleJob_def wp.simps
    by (intro allI gone [where mid = "[]", simplified]) 
      (use that in \<open>auto simp: given_reason_def activeIngestIsStale_def split: if_splits intro!: never_pbind no_delete_helpers\<close>)
  have stuck: "wp (clearStuckJob L kb j chash)
      (\<lambda>tr r. reasoned kb chash s (EvGetJob (kb_namespace kb, activeJob (status kb)) (Inr j) # EvNow now # tr))"
    if "isActiveJobTimedOut j (activeJobStartedAt (status kb)) now" for j now
    unfolding clearStuckJob_def wp.simps
    by (intro allI gone [where mid = "[EvNow now]", simplified])
      (use that in \<open>auto simp: given_reason_def intro!: never_pbind no_delete_helpers\<close>)
  show ?thesis
    unfolding guardActiveJob_def
    by (auto simp: cancel stuck reasoned_none split: sum.split)
qed

lemma reconcileWork_reasoned: "wp (reconcileWork L kb eff chash s) (\<lambda>tr r. reasoned kb chash s tr)"
proof -
  have active: "wp (pbind (reconcileActiveJob L kb' eff chash s) (\<lambda>(kb, res, handled, e).
      if e \<noteq> None \<or> handled then Done (res, e) else decideWork L kb eff chash s)) (\<lambda>tr r. reasoned kb chash s tr)" for kb'
    by (rule wp_reasoned_bind [OF wp_reasoned_saved [OF saves_first_reconcileActiveJob]])
      (simp add: decideWork_reasoned reasoned_none split: prod.split)
  show ?thesis
    unfolding reconcileWork_def
  proof (rule wp_reasoned_bind [OF guardActiveJob_reasoned], goal_cases)
    case (1 a)
    obtain kb' e where a: "a = (kb', e)" by (cases a)
    show ?case
      unfolding a prod.case
      by (cases e) (use active [of kb'] decideWork_reasoned in \<open>simp_all only: option.case wp.simps reasoned_none list.set ball_empty
        split: if_split, simp\<close>)
  qed
qed

text \<open>The whole pass: what the parts before \<open>reconcileWork\<close> read is what the reasons are about.\<close>

definition pass_reason :: "lib \<Rightarrow> knowledge_base \<Rightarrow> event list \<Rightarrow> kind \<Rightarrow> key \<Rightarrow> bool" where
  "pass_reason L kb pre kd n \<longleftrightarrow>
     (\<exists>us vs ws s. pre = us @ vs @ ws \<and> runs (computeSecretsHash L kb) vs (Some s) \<and>
        given_reason (upd_status (\<lambda>st. st\<lparr>observedSecretsHash := s\<rparr>) kb) (corpusHash L kb) s ws kd n)"

definition pass_reasoned :: "lib \<Rightarrow> knowledge_base \<Rightarrow> event list \<Rightarrow> bool" where
  "pass_reasoned L kb tr \<longleftrightarrow> (\<forall>pre kd p n a post. tr = pre @ EvDelete kd p n a # post \<longrightarrow> pass_reason L kb pre kd n)"

lemma pass_reasoned_none: "\<forall>e \<in> set tr. \<not> is_delete e \<Longrightarrow> pass_reasoned L kb tr"
  unfolding pass_reasoned_def by fastforce

lemma no_delete_split:
  assumes "\<forall>e \<in> set tr. \<not> is_delete e" "tr @ tr' = pre @ EvDelete kd p n a # post"
  obtains pre' where "pre = tr @ pre'" "tr' = pre' @ EvDelete kd p n a # post"
  using absent_split [OF _ assms(2)] assms(1) is_delete_simps(1) by blast

lemma pass_reasoned_append:
  assumes "\<forall>e \<in> set tr. \<not> is_delete e" "pass_reasoned L kb tr'"
  shows "pass_reasoned L kb (tr @ tr')"
  unfolding pass_reasoned_def
proof (intro allI impI)
  fix pre kd p n a post
  assume "tr @ tr' = pre @ EvDelete kd p n a # post"
  then obtain pre' where "pre = tr @ pre'" "tr' = pre' @ EvDelete kd p n a # post"
    by (rule no_delete_split [OF assms(1)])
  with assms(2) obtain us vs ws s where "pre' = us @ vs @ ws" "runs (computeSecretsHash L kb) vs (Some s)"
    "given_reason (upd_status (\<lambda>st. st\<lparr>observedSecretsHash := s\<rparr>) kb) (corpusHash L kb) s ws kd n"
    unfolding pass_reasoned_def pass_reason_def by blast
  then show "pass_reason L kb pre kd n"
    unfolding pass_reason_def \<open>pre = tr @ pre'\<close> by (intro exI [of _ "tr @ us"] exI [of _ vs] exI [of _ ws] exI [of _ s]) simp
qed

lemma given_reason_fields:
  "kb_namespace kb' = kb_namespace kb \<Longrightarrow> activeJob (status kb') = activeJob (status kb) \<Longrightarrow>
   observedSpecHash (status kb') = observedSpecHash (status kb) \<Longrightarrow> observedSecretsHash (status kb') = observedSecretsHash (status kb) \<Longrightarrow>
   activeJobStartedAt (status kb') = activeJobStartedAt (status kb) \<Longrightarrow> given_reason kb' = given_reason kb"
  unfolding given_reason_def fun_eq_iff by simp

lemma wp_dropOverride_fields:
  "wp (dropOverride L kb chash) (\<lambda>tr r. (\<forall>e \<in> set tr. \<not> is_delete e) \<and> (\<forall>kb'. r = Some kb' \<longrightarrow>
     given_reason kb' = given_reason kb))"
  by (auto simp: dropOverride_def wp_recordAutoTuneDuration intro!: given_reason_fields split: option.split)

lemma reconcileActive_reasoned: "wp (reconcileActive L kb) (\<lambda>tr r. pass_reasoned L kb tr)"
  unfolding reconcileActive_def
proof (rule wp_bindI [where P = "\<lambda>tr r. runs (computeSecretsHash L kb) tr r \<and> (\<forall>e \<in> set tr. \<not> is_delete e)"], goal_cases)
  case 1
  show ?case using never_runs [OF _ no_delete_helpers(5)] by (blast intro: wpI)
next
  case (2 vs s)
  then have vs: "runs (computeSecretsHash L kb) vs (Some s)" "\<forall>e \<in> set vs. \<not> is_delete e" by simp_all
  let ?kb = "upd_status (\<lambda>st. st\<lparr>observedSecretsHash := s\<rparr>) kb"
  have kb: "(if observedSecretsHash (status kb) \<noteq> s then ?kb else kb) = ?kb"
    by (auto simp: upd_status_def)
  have work: "pass_reasoned L kb (vs @ tr @ tr')"
    if tr: "\<forall>e \<in> set tr. \<not> is_delete e" and tr': "reasoned ?kb (corpusHash L kb) s tr'" for tr tr'
    unfolding pass_reasoned_def pass_reason_def
  proof (intro allI impI)
    fix pre kd p n a post
    assume "vs @ tr @ tr' = pre @ EvDelete kd p n a # post"
    then obtain pre' where pre: "pre = vs @ pre'" "tr @ tr' = pre' @ EvDelete kd p n a # post"
      by (rule no_delete_split [OF vs(2)])
    then obtain ws where ws: "pre' = tr @ ws" "tr' = ws @ EvDelete kd p n a # post"
      using no_delete_split [OF tr] by metis
    have "given_reason ?kb (corpusHash L kb) s pre' kd n"
      using tr' ws given_reason_append unfolding reasoned_def by blast
    then show "\<exists>us vs ws s. pre = us @ vs @ ws \<and> runs (computeSecretsHash L kb) vs (Some s) \<and>
        given_reason (upd_status (\<lambda>st. st\<lparr>observedSecretsHash := s\<rparr>) kb) (corpusHash L kb) s ws kd n"
      using vs(1) pre(1) by (intro exI [of _ "[]"] exI [of _ vs] exI [of _ pre'] exI [of _ s]) simp
  qed
  show ?case
    unfolding Let_def kb
  proof (rule wp_bindI [OF wp_dropOverride_fields], goal_cases)
    case (1 tr kb')
    then have "reasoned ?kb = reasoned kb'" by (simp add: reasoned_def fun_eq_iff)
    with reconcileWork_reasoned [of L kb' "effectiveChunking kb'" "corpusHash L kb" s]
    have "wp (reconcileWork L kb' (effectiveChunking kb') (corpusHash L kb) s) (\<lambda>tr r. reasoned ?kb (corpusHash L kb) s tr)"
      by simp
    then show ?case by (rule wp_mono) (use work 1 in blast)
  qed (use vs(2) in \<open>auto intro!: pass_reasoned_none\<close>)
qed (rule pass_reasoned_none, blast)

lemma wp_pass_bind:
  assumes "never is_delete p" "\<And>a. wp (f a) (\<lambda>tr r. pass_reasoned L kb tr)"
  shows "wp (pbind p f) (\<lambda>tr r. pass_reasoned L kb tr)"
proof (rule wp_bindI [OF wp_never [OF assms(1)]], goal_cases)
  case (1 tr a)
  then show ?case by (intro wp_mono [OF assms(2)] pass_reasoned_append)
qed (rule pass_reasoned_none)

lemma wp_pass_none: "never is_delete p \<Longrightarrow> wp p (\<lambda>tr r. pass_reasoned L kb tr)"
  by (rule wp_mono [OF wp_never]) (assumption, rule pass_reasoned_none)

lemma reconcileLive_reasoned: "wp (reconcileLive L kb) (\<lambda>tr r. pass_reasoned L kb tr)"
proof -
  have save: "never is_delete (save_then kb' (\<lambda>kb. Done x))" for kb' x
    by (rule at_most_save_then) simp_all
  have "never is_delete (park_on_quota L kb msg nt e)" "never is_delete (reconcileSuspended L kb)" for msg nt e
    by (simp_all add: park_on_quota_def no_delete_helpers reconcileSuspended_def save)
  note rest = this [THEN wp_pass_none] save [THEN wp_pass_none]
  have quiet: "never is_delete (validateCustomWorkerServiceAccount L kb)" "never is_delete (ensureVectorIndex L kb)"
    by (rule never_validate, simp, simp add: ensureVectorIndex_def)
  show ?thesis
    unfolding reconcileLive_def
    by (auto simp: reconcileActive_reasoned rest simp del: wp_pbind intro!: wp_pass_bind quiet no_delete_helpers(4)
        split: option.split)
qed

text \<open>Under deletion only a finished cleanup Job is deleted.\<close>

definition cleanup_reasoned :: "lib \<Rightarrow> knowledge_base \<Rightarrow> event list \<Rightarrow> bool" where
  "cleanup_reasoned L kb tr \<longleftrightarrow> (\<forall>pre kd p n a post. tr = pre @ EvDelete kd p n a # post \<longrightarrow> kd = KindJob \<and>
     (\<exists>old. EvGetJob (kb_namespace kb, cleanupJobName L kb) (Inr old) \<in> set pre \<and> n = job_key old \<and> (jobComplete old \<or> jobFailed old)))"

lemma reconcileDelete_reasoned: "wp (reconcileDelete L kb) (\<lambda>tr r. cleanup_reasoned L kb tr)"
proof -
  have none: "cleanup_reasoned L kb tr" if "\<forall>e \<in> set tr. \<not> is_delete e" for tr
    using that unfolding cleanup_reasoned_def by fastforce
  have "never is_delete (start_cleanup L kb)"
    unfolding start_cleanup_def
    by (auto intro!: never_pbind no_delete_helpers(5) never_buildCleanupJob split: sum.split option.split)
  from wp_never [OF this] have start: "wp (start_cleanup L kb) (\<lambda>tr r. cleanup_reasoned L kb (EvGetJob k a # tr))" for k a
    by (rule wp_mono) (rule none, simp)
  show ?thesis
    unfolding reconcileDelete_def
    by (simp add: start none split: sum.split) (simp add: cleanup_reasoned_def Cons_eq_append_conv)
qed

section \<open>Properties\<close>

text \<open>
  C2. One pass of the reconciler creates at most one Job, whatever the API server answers.
\<close>

theorem one_job_per_pass:
  assumes "runs (reconcile L k) tr r"
  shows "count_calls is_job_create tr \<le> 1"
  by (rule at_most_count [OF assms one_job_reconcile])

text \<open>
  C1. Single flight: while the status names a Job in flight, a pass over a live KnowledgeBase
  creates another one only after the named Job was looked up and either not found or given up (its
  deletion requested), and after a status without a Job was saved - all of it earlier in the pass.
  Under deletion the Job in flight is not waited for: there the only Job a pass creates is the
  cleanup Job, and only after it was looked up under its name and not found.
\<close>

theorem no_second_job_in_flight:
  assumes "runs (reconcile_kb L kb) tr r" "activeJob (status kb) \<noteq> ''''" "tr = pre @ EvCreate (OJob j) a # post"
  shows "if m_deletionTimestamp (kb_meta kb) = None
     then (\<exists>st rv. EvStatusUpdate (kb_namespace kb, kb_name kb) st (Inr rv) \<in> set pre \<and> activeJob st = '''') \<and>
       ((\<exists>e. EvGetJob (kb_namespace kb, activeJob (status kb)) (Inl e) \<in> set pre \<and> is_not_found e) \<or>
        (\<exists>old b. EvGetJob (kb_namespace kb, activeJob (status kb)) (Inr old) \<in> set pre \<and>
           EvDelete KindJob BackgroundPropagation (job_key old) b \<in> set pre))
     else jobType j = jobTypeCleanup \<and> job_name j = cleanupJobName L kb \<and>
       (\<exists>e. EvGetJob (kb_namespace kb, cleanupJobName L kb) (Inl e) \<in> set pre \<and> is_not_found e)"
proof (cases "m_deletionTimestamp (kb_meta kb) = None")
  case True
  have "wp (reconcile_kb L kb) (\<lambda>tr r. after_clear kb tr)"
    using reconcileLive_after_clear [OF assms(2)] True wp_after_clear_never
    by (simp add: reconcile_kb_def after_clear_none)
  then have "after_clear kb tr" using assms(1) by (rule wpD)
  then show ?thesis using assms(3) True unfolding after_clear_def cleared_def by simp
next
  case False
  have "wp (reconcileDelete L kb) (\<lambda>tr r. cleanup_launched L kb tr)" by (rule wp_reconcileDelete_create)
  moreover have "runs (reconcileDelete L kb) tr r" using assms(1) False by (simp add: reconcile_kb_def)
  ultimately have "cleanup_launched L kb tr" by (rule wpD)
  then show ?thesis using assms(3) False unfolding cleanup_launched_def by auto
qed

text \<open>
  A suspended KnowledgeBase gets no new work: the pass creates no Job and deletes nothing.
\<close>

theorem suspended_gets_no_work:
  assumes "runs (reconcile_kb L kb) tr r" "m_deletionTimestamp (kb_meta kb) = None" "ks_suspend (spec kb)"
    and "e \<in> set tr"
  shows "\<not> is_job_create e \<and> \<not> is_delete e"
proof -
  let ?P = "\<lambda>e. is_job_create e \<or> is_delete e"
  have identity: "never ?P (ensureWorkerIdentity L kb [])"
    by (rule never_ensureWorkerIdentity) (simp_all add: is_delete_def)
  have save: "never ?P (save_then kb' (\<lambda>kb. Done x))" for kb' x
    by (rule at_most_save_then) simp_all
  have quota: "never ?P (quota_exceeded L kb' msg nt)" for kb' msg nt
    by (rule never_quota_exceeded) simp_all
  have validate: "never ?P (validateCustomWorkerServiceAccount L kb)"
    by (simp add: validateCustomWorkerServiceAccount_def Let_def is_delete_def split: sum.split)
  have index: "never ?P (ensureVectorIndex L kb)"
    by (simp add: ensureVectorIndex_def is_delete_def)
  have "never ?P (reconcileLive L kb)"
    using assms(3) by (simp add: reconcileLive_def never_pbind validate save identity park_on_quota_def quota index
        reconcileSuspended_def split: option.split)
  then have "never ?P (reconcile_kb L kb)"
    using assms(2) by (simp add: reconcile_kb_def)
  from never_runs [OF assms(1) this assms(4)] show ?thesis by blast
qed

text \<open>
  C5. In a whole pass nothing is deleted without the record it needs. Every deletion comes after a
  status write the server accepted - so what a worker left (result, checkpoint, spec) goes only once
  the status says what became of it -, with three exceptions: old runs of the history are pruned once
  the next Job was created; the Job in flight itself, read in this pass, is deleted first if it is an
  ingestion for another corpus or for credentials whose fingerprint, computed in this pass, has
  changed, or if it ran past its deadline by a clock reading of this pass; and under deletion the
  cleanup Job is deleted once it was read as complete or failed.
\<close>

theorem deletions_wait_for_the_status:
  assumes "runs (reconcile_kb L kb) tr r" "tr = pre @ EvDelete kd p n a # post"
  shows "(\<exists>k st rv. EvStatusUpdate k st (Inr rv) \<in> set pre) \<or>
     kd = KindRun \<and> (\<exists>j. EvCreate (OJob j) None \<in> set pre) \<or>
     kd = KindJob \<and> m_deletionTimestamp (kb_meta kb) = None \<and>
       (\<exists>old. EvGetJob (kb_namespace kb, activeJob (status kb)) (Inr old) \<in> set pre \<and> n = job_key old \<and>
          ((\<exists>us vs ws s. pre = us @ vs @ ws \<and> runs (computeSecretsHash L kb) vs (Some s) \<and> jobType old = jobTypeIngest \<and>
              (jobSpecHash old (observedSpecHash (status kb)) \<noteq> corpusHash L kb \<or> jobSecretsHash old s \<noteq> s)) \<or>
           (\<exists>now. EvNow now \<in> set pre \<and> isActiveJobTimedOut old (activeJobStartedAt (status kb)) now))) \<or>
     kd = KindJob \<and> m_deletionTimestamp (kb_meta kb) \<noteq> None \<and>
       (\<exists>old. EvGetJob (kb_namespace kb, cleanupJobName L kb) (Inr old) \<in> set pre \<and> n = job_key old \<and> (jobComplete old \<or> jobFailed old))"
proof (cases "m_deletionTimestamp (kb_meta kb) = None")
  case True
  then have "wp (reconcile_kb L kb) (\<lambda>tr r. pass_reasoned L kb tr)"
    by (simp add: reconcile_kb_def reconcileLive_reasoned pass_reasoned_none)
  from wpD [OF this assms(1)] assms(2) obtain us vs ws s where pre: "pre = us @ vs @ ws"
    and vs: "runs (computeSecretsHash L kb) vs (Some s)"
    and g: "given_reason (upd_status (\<lambda>st. st\<lparr>observedSecretsHash := s\<rparr>) kb) (corpusHash L kb) s ws kd n"
    unfolding pass_reasoned_def pass_reason_def by blast
  have ws: "set ws \<subseteq> set pre" by (auto simp: pre)
  have saved: "\<exists>k st rv. e = EvStatusUpdate k st (Inr rv)" if "saved e" for e
    using that by (auto simp: saved_def split: event.splits sum.splits)
  from g have "(\<exists>e \<in> set ws. saved e) \<or> kd = KindRun \<and> (\<exists>j. EvCreate (OJob j) None \<in> set ws) \<or>
     kd = KindJob \<and> (\<exists>old. EvGetJob (kb_namespace kb, activeJob (status kb)) (Inr old) \<in> set ws \<and> n = job_key old \<and>
        (jobType old = jobTypeIngest \<and>
           (jobSpecHash old (observedSpecHash (status kb)) \<noteq> corpusHash L kb \<or> jobSecretsHash old s \<noteq> s) \<or>
         (\<exists>now. EvNow now \<in> set ws \<and> isActiveJobTimedOut old (activeJobStartedAt (status kb)) now)))"
    by (simp add: given_reason_def)
  then show ?thesis
  proof (elim disjE)
    assume "\<exists>e \<in> set ws. saved e"
    then obtain e where "e \<in> set ws" "saved e" by blast
    with saved ws have "\<exists>k st rv. EvStatusUpdate k st (Inr rv) \<in> set pre" by blast
    then show ?thesis by (rule disjI1)
  next
    assume "kd = KindRun \<and> (\<exists>j. EvCreate (OJob j) None \<in> set ws)"
    then have "kd = KindRun \<and> (\<exists>j. EvCreate (OJob j) None \<in> set pre)" using ws by blast
    then show ?thesis by (rule disjI2 [OF disjI1])
  next
    assume job: "kd = KindJob \<and> (\<exists>old. EvGetJob (kb_namespace kb, activeJob (status kb)) (Inr old) \<in> set ws \<and> n = job_key old \<and>
        (jobType old = jobTypeIngest \<and>
           (jobSpecHash old (observedSpecHash (status kb)) \<noteq> corpusHash L kb \<or> jobSecretsHash old s \<noteq> s) \<or>
         (\<exists>now. EvNow now \<in> set ws \<and> isActiveJobTimedOut old (activeJobStartedAt (status kb)) now)))"
    then obtain old where old: "EvGetJob (kb_namespace kb, activeJob (status kb)) (Inr old) \<in> set pre" "n = job_key old"
      and why: "jobType old = jobTypeIngest \<and>
           (jobSpecHash old (observedSpecHash (status kb)) \<noteq> corpusHash L kb \<or> jobSecretsHash old s \<noteq> s) \<or>
         (\<exists>now. EvNow now \<in> set ws \<and> isActiveJobTimedOut old (activeJobStartedAt (status kb)) now)"
      using ws by blast
    from why have "(\<exists>us vs ws s. pre = us @ vs @ ws \<and> runs (computeSecretsHash L kb) vs (Some s) \<and> jobType old = jobTypeIngest \<and>
              (jobSpecHash old (observedSpecHash (status kb)) \<noteq> corpusHash L kb \<or> jobSecretsHash old s \<noteq> s)) \<or>
           (\<exists>now. EvNow now \<in> set pre \<and> isActiveJobTimedOut old (activeJobStartedAt (status kb)) now)"
      using pre vs ws by blast
    with old job True show ?thesis by (intro disjI2 [OF disjI2 [OF disjI1]]) blast
  qed
next
  case False
  then have "wp (reconcile_kb L kb) (\<lambda>tr r. cleanup_reasoned L kb tr)"
    by (simp add: reconcile_kb_def reconcileDelete_reasoned)
  from wpD [OF this assms(1)] assms(2) False show ?thesis unfolding cleanup_reasoned_def by blast
qed

text \<open>
  The sample KnowledgeBase with a Job in flight that the empty cluster does not have: the pass clears
  it and starts a new one.
\<close>

definition flying_kb :: "string \<Rightarrow> knowledge_base" where
  "flying_kb h = upd_status (\<lambda>s. s\<lparr>activeJob := ''old'', observedSecretsHash := h\<rparr>) demo_kb"

lemma flying_kb_sels [simp]:
  "kb_meta (flying_kb h) = kb_meta demo_kb" "spec (flying_kb h) = demo_spec"
  "status (flying_kb h) = zero_status\<lparr>activeJob := ''old'', observedSecretsHash := h\<rparr>"
  by (simp_all add: flying_kb_def)

lemma demo_start:
  assumes "kb_meta kb = kb_meta demo_kb\<lparr>m_resourceVersion := v\<rparr>" "spec kb = demo_spec"
  shows "\<exists>j a. EvCreate (OJob j) a \<in> set (fst (exec (empty_cluster 0) (startIngest demo_lib kb eff c s rsn)))"
  using assms by (simp add: launch_defs)

text \<open>What the work of a pass over it does, the pass does.\<close>

lemma flying_pass:
  assumes work: "\<And>h eff c s. \<exists>e \<in> set (fst (exec E (reconcileWork demo_lib (flying_kb h) eff c s))). P e"
    and E: "at_GetServiceAccount E = nothing" "at_GetRole E = nothing" "at_GetRoleBinding E = nothing"
      "at_Create E = (\<lambda>x. None)" "at_CreateOrUpdateVI E = (\<lambda>k f. None)"
  shows "\<exists>e \<in> set (fst (exec E (reconcile_kb demo_lib (flying_kb '''')))). P e"
proof -
  obtain h where h: "snd (exec E (computeSecretsHash demo_lib (flying_kb ''''))) = Some h"
    using exec_computeSecretsHash by metis
  then obtain tr where tr: "exec E (computeSecretsHash demo_lib (flying_kb '''')) = (tr, Some h)"
    by (metis prod.collapse)
  have kb: "(if observedSecretsHash (status (flying_kb '''')) \<noteq> h
      then upd_status (\<lambda>s. s\<lparr>observedSecretsHash := h\<rparr>) (flying_kb '''') else flying_kb '''') = flying_kb h"
    by (auto simp: flying_kb_def upd_status_def)
  have drop: "exec E (dropOverride demo_lib (flying_kb h) c) = ([], Some (flying_kb h))" for c
    by (simp add: dropOverride_def userEditedSpec_def)
  have "\<exists>e \<in> set (fst (exec E (reconcileActive demo_lib (flying_kb '''')))). P e"
    unfolding reconcileActive_def exec_pbind tr exec_then_pair Let_def kb drop split_beta fst_conv set_append append_Nil
    using work by blast
  moreover have "snd (exec E (ensureWorkerIdentity demo_lib (flying_kb '''') [])) = Some None"
    by (simp add: launch_defs E)
  then obtain tr' where "exec E (ensureWorkerIdentity demo_lib (flying_kb '''') []) = (tr', Some None)"
    by (metis prod.collapse)
  ultimately show ?thesis
    by (simp add: reconcile_kb_def kb_finalizers_def kb_finalizer_def reconcileLive_def validateCustomWorkerServiceAccount_def
        ensureVectorIndex_def exec_simps split_beta E) blast
qed

lemma flying_work:
  assumes "\<And>kb eff c s rsn. kb_meta kb = kb_meta demo_kb\<lparr>m_resourceVersion := ''2''\<rparr> \<Longrightarrow> spec kb = demo_spec \<Longrightarrow>
     \<exists>e \<in> set (fst (exec (empty_cluster 0) (startIngest demo_lib kb eff c s rsn))). P e"
  shows "\<exists>e \<in> set (fst (exec (empty_cluster 0) (reconcileWork demo_lib (flying_kb h) eff c s))). P e"
  by (simp add: reconcileWork_def guardActiveJob_def reconcileActiveJob_def decideWork_def ingestFailureRetryAfter_def
      specConfigTooLargeUnchanged_def needsIngest_def exec_simps nothing_def statusUpdate_def split_beta del: ex_simps)
    (intro disjI2 assms, simp_all)

lemma flying_reconcile:
  "\<exists>j a. EvCreate (OJob j) a \<in> set (fst (exec (empty_cluster 0) (reconcile_kb demo_lib (flying_kb ''''))))"
proof -
  have "\<exists>e \<in> set (fst (exec (empty_cluster 0) (reconcile_kb demo_lib (flying_kb '''')))). \<exists>j a. e = EvCreate (OJob j) a"
  proof (rule flying_pass, rule flying_work, goal_cases)
    case (1 h eff c s kb eff' c' s' rsn)
    then show ?case using demo_start [of kb "''2''" eff' c' s' rsn] by blast
  qed simp_all
  then show ?thesis by blast
qed

theorem one_job_per_pass_witness:
  "count_calls is_job_create (fst (exec ((empty_cluster 0)\<lparr>at_GetKB := (\<lambda>k. Inr (flying_kb ''''))\<rparr>) (reconcile demo_lib (''ns'', ''kb'')))) \<le> 1"
  by (rule one_job_per_pass [OF runs_exec])

theorem no_second_job_in_flight_witness:
  "\<exists>pre j a post e. fst (exec (empty_cluster 0) (reconcile_kb demo_lib (flying_kb ''''))) = pre @ EvCreate (OJob j) a # post \<and>
     (EvGetJob (''ns'', ''old'') (Inl e) \<in> set pre \<or>
      (\<exists>old b. EvGetJob (''ns'', ''old'') (Inr old) \<in> set pre \<and> EvDelete KindJob BackgroundPropagation (job_key old) b \<in> set pre))"
proof -
  obtain pre j a post where tr: "fst (exec (empty_cluster 0) (reconcile_kb demo_lib (flying_kb ''''))) = pre @ EvCreate (OJob j) a # post"
    using flying_reconcile by (metis split_list)
  have live: "m_deletionTimestamp (kb_meta (flying_kb '''')) = None" "activeJob (status (flying_kb '''')) \<noteq> ''''"
    by simp_all
  have old: "kb_namespace (flying_kb '''') = ''ns''" "activeJob (status (flying_kb '''')) = ''old''" by simp_all
  from no_second_job_in_flight [OF runs_exec live(2) tr] tr show ?thesis unfolding old live(1) by auto
qed

theorem suspended_gets_no_work_witness:
  "list_all (\<lambda>e. \<not> is_job_create e \<and> \<not> is_delete e)
     (fst (exec (empty_cluster 0) (reconcile_kb demo_lib (demo_kb\<lparr>spec := demo_spec\<lparr>ks_suspend := True\<rparr>\<rparr>))))"
  unfolding list_all_iff by (rule ballI, rule suspended_gets_no_work [OF runs_exec]) simp_all

definition ended_ingest_job :: job where
  "ended_ingest_job = (ended_job JobComplete)\<lparr>job_meta := new_meta ''old'' ''ns'' [labelJobType \<mapsto> jobTypeIngest]\<rparr>"

lemma ended_ingest_job_simps [simp]:
  "jobComplete ended_ingest_job" "\<not> jobFailed ended_ingest_job" "jobType ended_ingest_job = jobTypeIngest"
  "job_name ended_ingest_job = ''old''" "m_namespace (job_meta ended_ingest_job) = ''ns''"
  by (simp_all add: ended_ingest_job_def ended_job_def jobComplete_def jobFailed_def JobComplete_def JobFailed_def
      jobType_def new_meta_def lookup_str_def)

text \<open>
  The Job in flight is found finished: the pass deletes it as stale, or records its result first.
\<close>

definition finished_cluster :: environment where
  "finished_cluster = result_cluster\<lparr>at_GetJob := (\<lambda>k. Inr ended_ingest_job)\<rparr>"

lemma finished_cluster_sels [simp]:
  "at_Now finished_cluster = 100" "at_GetJob finished_cluster = (\<lambda>k. Inr ended_ingest_job)"
  "at_GetConfigMap finished_cluster = at_GetConfigMap result_cluster" "at_GetRole finished_cluster = nothing"
  "at_GetRun finished_cluster = nothing" "at_StatusUpdate finished_cluster = (\<lambda>k s. Inr ''2'')"
  "at_Delete finished_cluster = (\<lambda>k p n. None)" "at_GetServiceAccount finished_cluster = nothing"
  "at_GetRoleBinding finished_cluster = nothing" "at_Create finished_cluster = (\<lambda>x. None)"
  "at_CreateOrUpdateVI finished_cluster = (\<lambda>k f. None)"
  by (simp_all add: finished_cluster_def result_cluster_def)

lemma finished_work:
  "\<exists>kd p n a. EvDelete kd p n a \<in> set (fst (exec finished_cluster (reconcileWork demo_lib (flying_kb h) eff c s)))"
proof (cases "activeIngestIsStale ended_ingest_job c s '''' h")
  case True
  then show ?thesis
    by (intro exI [of _ KindJob] exI [of _ BackgroundPropagation] exI [of _ "job_key ended_ingest_job"] exI [of _ None])
      (simp add: reconcileWork_def guardActiveJob_def cancelStaleJob_def exec_pbind split_beta)
next
  case False
  then show ?thesis
    by (intro exI [of _ KindJob] exI [of _ BackgroundPropagation] exI [of _ "(''ns'', ''old'')"] exI [of _ None])
      (simp add: reconcileWork_def guardActiveJob_def isActiveJobTimedOut_def reconcileActiveJob_def finalize_defs exec_simps
        split_beta)
qed

lemma finished_pass:
  "\<exists>kd p n a. EvDelete kd p n a \<in> set (fst (exec finished_cluster (reconcile_kb demo_lib (flying_kb ''''))))"
proof -
  have "\<exists>e \<in> set (fst (exec finished_cluster (reconcile_kb demo_lib (flying_kb '''')))). \<exists>kd p n a. e = EvDelete kd p n a"
  proof (rule flying_pass, goal_cases)
    case (1 h eff c s)
    then show ?case using finished_work [of h eff c s] by blast
  qed simp_all
  then show ?thesis by blast
qed

theorem deletions_wait_for_the_status_witness:
  "\<exists>pre kd p n a post. fst (exec finished_cluster (reconcile_kb demo_lib (flying_kb ''''))) = pre @ EvDelete kd p n a # post \<and>
     ((\<exists>k st rv. EvStatusUpdate k st (Inr rv) \<in> set pre) \<or>
      kd = KindRun \<and> (\<exists>j. EvCreate (OJob j) None \<in> set pre) \<or>
      kd = KindJob \<and> (\<exists>old. EvGetJob (''ns'', ''old'') (Inr old) \<in> set pre \<and> n = job_key old))"
proof -
  obtain pre kd p n a post where tr: "fst (exec finished_cluster (reconcile_kb demo_lib (flying_kb ''''))) = pre @ EvDelete kd p n a # post"
    using finished_pass by (metis split_list)
  have live: "m_deletionTimestamp (kb_meta (flying_kb '''')) = None" "kb_namespace (flying_kb '''') = ''ns''"
    "activeJob (status (flying_kb '''')) = ''old''" by simp_all
  have "(\<exists>k st rv. EvStatusUpdate k st (Inr rv) \<in> set pre) \<or>
      kd = KindRun \<and> (\<exists>j. EvCreate (OJob j) None \<in> set pre) \<or>
      kd = KindJob \<and> (\<exists>old. EvGetJob (''ns'', ''old'') (Inr old) \<in> set pre \<and> n = job_key old)"
    using deletions_wait_for_the_status [OF runs_exec tr] unfolding live by blast
  with tr show ?thesis by blast
qed

end
