(* ===== verification/Auto_Tune.thy ===== *)
theory Auto_Tune
  imports Evaluation Ingestion_Correct
begin

text \<open>
  The recall gate and the auto-tune loop against an abstract specification: a pure judgement on the
  number of attempts, the best configuration seen and the current one. Every status that finishing an
  evaluation writes is the one the judgement asks for, and the judgement settles on the best
  configuration after a bounded number of evaluations.
\<close>

section \<open>The specification\<close>

record tuning =
  tn_attempts :: int
  tn_best :: "(chunking_spec \<times> int) option"
  tn_current :: chunking_spec

datatype verdict = Met | Retune | Settle | GiveUp

definition best_after :: "tuning \<Rightarrow> int \<Rightarrow> chunking_spec \<times> int" where
  "best_after t recall =
     (case tn_best t of
        None \<Rightarrow> (tn_current t, recall)
      | Some (c, b) \<Rightarrow> if b < recall then (tn_current t, recall) else (c, b))"

definition judge :: "retrieval_quality_spec \<Rightarrow> tuning \<Rightarrow> int \<Rightarrow> verdict \<times> tuning" where
  "judge rq t recall =
     (if \<not> (0 < rq_minimumRecallPercent rq \<and> recall < rq_minimumRecallPercent rq)
      then (Met, t\<lparr>tn_attempts := 0, tn_best := None\<rparr>)
      else
        let best = best_after t recall;
            t = t\<lparr>tn_best := Some best\<rparr>
        in if autoTuneEnabled (Some rq) \<and> tn_attempts t < autoTuneMax (Some rq) then
             (Retune, t\<lparr>tn_attempts := wrap64 (tn_attempts t + 1), tn_current := nextChunking (tn_current t)\<rparr>)
           else if autoTuneEnabled (Some rq) \<and> fst best \<noteq> tn_current t then (Settle, t\<lparr>tn_current := fst best\<rparr>)
           else (GiveUp, t))"

text \<open>What a KnowledgeBase records of the tuning.\<close>

definition tuning_of :: "knowledge_base \<Rightarrow> tuning" where
  "tuning_of kb =
     \<lparr>tn_attempts = autoTuneAttempts (status kb),
      tn_best = map_option (\<lambda>c. (c, bestRecallPercent (status kb))) (bestChunking (status kb)),
      tn_current = effectiveChunking kb\<rparr>"

text \<open>A status carries out a judgement: phase, owed re-index and cleared evaluation follow the verdict.\<close>

definition carries_out :: "knowledge_base \<Rightarrow> verdict \<times> tuning \<Rightarrow> knowledge_base_status \<Rightarrow> bool" where
  "carries_out kb vt st \<longleftrightarrow>
     tuning_of (kb\<lparr>status := st\<rparr>) = snd vt \<and>
     phase st = (case fst vt of Met \<Rightarrow> PhaseReady | GiveUp \<Rightarrow> PhaseDegraded | _ \<Rightarrow> phase (status kb)) \<and>
     (pendingRetune st \<longleftrightarrow> pendingRetune (status kb) \<or> fst vt = Retune \<or> fst vt = Settle) \<and>
     (evaluation st = None \<longleftrightarrow> fst vt = Retune \<or> fst vt = Settle)"

section \<open>What the branches write\<close>

definition writes :: "(knowledge_base_status \<Rightarrow> bool) \<Rightarrow> event list \<Rightarrow> bool" where
  "writes S tr \<longleftrightarrow> (\<forall>e \<in> set tr. \<forall>k st. status_write e = Some (k, st) \<longrightarrow> S st)"

lemma writes_simps [simp]:
  "writes S []" "writes S (e # tr) \<longleftrightarrow> (\<forall>k st. status_write e = Some (k, st) \<longrightarrow> S st) \<and> writes S tr"
  "writes S (tr @ tr') \<longleftrightarrow> writes S tr \<and> writes S tr'"
  by (auto simp: writes_def)

lemma writesD: "writes S tr \<Longrightarrow> EvStatusUpdate k st a \<in> set tr \<Longrightarrow> S st"
  by (auto simp: writes_def dest: bspec)

lemma wp_finish_eval:
  assumes "S (status kb)"
  shows "wp (finish_eval L j kb) (\<lambda>tr r. writes S tr)"
proof -
  have "never (\<lambda>e. \<exists>k st. status_write e = Some (k, st) \<and> \<not> S st) (finish_eval L j kb)"
    unfolding finish_eval_def deleteResult_def deleteSpecConfigMap_def
    by (rule at_most_save_handled) (simp_all add: assms)
  from wp_never [OF this] show ?thesis by (rule wp_mono) (auto simp: writes_def)
qed

lemma effectiveChunking_cong:
  "spec kb = spec kb' \<Longrightarrow> status_effectiveChunking (status kb) = status_effectiveChunking (status kb') \<Longrightarrow>
   effectiveChunking kb = effectiveChunking kb'"
  by (simp add: effectiveChunking_def specChunking_def split: option.split)

lemma some_chunking:
  "status_effectiveChunking (status kb) = Some c \<Longrightarrow> effectiveChunking kb = c"
  by (simp add: effectiveChunking_def)

lemma tuning_of_cong:
  "spec kb = spec kb' \<Longrightarrow> status_effectiveChunking (status kb) = status_effectiveChunking (status kb') \<Longrightarrow>
   autoTuneAttempts (status kb) = autoTuneAttempts (status kb') \<Longrightarrow> bestChunking (status kb) = bestChunking (status kb') \<Longrightarrow>
   bestRecallPercent (status kb) = bestRecallPercent (status kb') \<Longrightarrow> tuning_of kb = tuning_of kb'"
  using effectiveChunking_cong [of kb kb'] by (simp add: tuning_of_def)

lemma wp_duration:
  "wp (recordAutoTuneDuration kb res now) (\<lambda>tr r. writes S tr \<and> (\<exists>t. r = Some (upd_status (\<lambda>s. s\<lparr>autoTuneStartedAt := t\<rparr>) kb)))"
proof -
  have same: "upd_status (\<lambda>s. s\<lparr>autoTuneStartedAt := autoTuneStartedAt (status kb)\<rparr>) kb = kb"
    by (simp add: upd_status_def)
  then have "\<exists>t. kb = upd_status (\<lambda>s. s\<lparr>autoTuneStartedAt := t\<rparr>) kb" by metis
  then show ?thesis by (auto simp: wp_recordAutoTuneDuration split: option.split)
qed

lemma tuning_of_recordBest: "tuning_of (recordBest kb recall) = (tuning_of kb)\<lparr>tn_best := Some (best_after (tuning_of kb) recall)\<rparr>"
proof -
  have "effectiveChunking (recordBest kb recall) = effectiveChunking kb"
    by (rule effectiveChunking_cong) (simp_all add: recordBest_def)
  then show ?thesis by (auto simp: tuning_of_def best_after_def recordBest_def split: option.split)
qed

lemma recordBest_simps [simp]:
  "spec (recordBest kb recall) = spec kb" "kb_meta (recordBest kb recall) = kb_meta kb"
  "phase (status (recordBest kb recall)) = phase (status kb)"
  "pendingRetune (status (recordBest kb recall)) = pendingRetune (status kb)"
  "evaluation (status (recordBest kb recall)) = evaluation (status kb)"
  "autoTuneAttempts (status (recordBest kb recall)) = autoTuneAttempts (status kb)"
  by (simp_all add: recordBest_def)


lemma writes_none: "writes (\<lambda>_. False) tr \<Longrightarrow> writes S tr"
  by (auto simp: writes_def)

lemma wp_after_duration:
  assumes "\<And>t. wp (f (upd_status (\<lambda>s. s\<lparr>autoTuneStartedAt := t\<rparr>) kb)) (\<lambda>tr r. writes S tr)"
  shows "wp (pbind (recordAutoTuneDuration kb res now) f) (\<lambda>tr r. writes S tr)"
  by (rule wp_bindI [OF wp_duration [where S = "\<lambda>_. False"]]) (auto intro: writes_none wp_mono [OF assms])

lemma wp_writes:
  "wp (Emit e p) (\<lambda>tr r. writes S tr) \<longleftrightarrow> wp p (\<lambda>tr r. writes S tr)"
  "wp (Now k) (\<lambda>tr r. writes S tr) \<longleftrightarrow> (\<forall>t. wp (k t) (\<lambda>tr r. writes S tr))"
  by simp_all

lemma wp_recall_met:
  assumes "\<And>s. autoTuneAttempts s = 0 \<Longrightarrow> bestChunking s = None \<Longrightarrow>
      status_effectiveChunking s = status_effectiveChunking (status kb) \<Longrightarrow> phase s = PhaseReady \<Longrightarrow>
      pendingRetune s = pendingRetune (status kb) \<Longrightarrow> evaluation s = evaluation (status kb) \<Longrightarrow> S s"
  shows "wp (recall_met L j kb recall target) (\<lambda>tr r. writes S tr)"
proof -
  have "wp (recall_met L j kb recall target) (\<lambda>tr r. writes S tr)"
    unfolding recall_met_def Let_def wp_writes
    by (intro allI wp_after_duration, unfold wp_writes, intro wp_finish_eval assms) simp_all
  then show ?thesis .
qed

lemma wp_tune_again:
  assumes "\<And>s. autoTuneAttempts s = wrap64 (autoTuneAttempts (status kb) + 1) \<Longrightarrow> bestChunking s = bestChunking (status kb) \<Longrightarrow>
      bestRecallPercent s = bestRecallPercent (status kb) \<Longrightarrow>
      status_effectiveChunking s = Some (nextChunking (effectiveChunking kb)) \<Longrightarrow> phase s = phase (status kb) \<Longrightarrow>
      pendingRetune s \<Longrightarrow> evaluation s = None \<Longrightarrow> S s"
  shows "wp (tune_again L j kb rq recall) (\<lambda>tr r. writes S tr)"
proof -
  have f: "S (status (setCondition L (tuned t kb) ty st rsn msg))" for t ty st rsn msg
    by (rule assms) (simp_all add: tuned_def Let_def)
  show ?thesis
    unfolding tune_again_def
    by (simp add: wp_applyAutoTune Let_def wp_finish_eval f)
qed

lemma wp_settling: "S (status (setCondition L kb ConditionEvaluated ConditionFalse ''AutoTuneSettling''
      (''auto-tune exhausted; reverting to best config (recall '' @ itoa (bestRecallPercent (status kb)) @ ''%)''))) \<Longrightarrow>
    wp (settling L j kb target) (\<lambda>tr r. writes S tr)"
  by (simp add: settling_def Let_def wp_finish_eval)

lemma wp_degraded:
  assumes "\<And>s. autoTuneAttempts s = autoTuneAttempts (status kb) \<Longrightarrow> bestChunking s = bestChunking (status kb) \<Longrightarrow>
      bestRecallPercent s = bestRecallPercent (status kb) \<Longrightarrow>
      status_effectiveChunking s = status_effectiveChunking (status kb) \<Longrightarrow> phase s = PhaseDegraded \<Longrightarrow>
      pendingRetune s = pendingRetune (status kb) \<Longrightarrow> evaluation s = evaluation (status kb) \<Longrightarrow> S s"
  shows "wp (degraded L j kb recall target) (\<lambda>tr r. writes S tr)"
  by (simp add: degraded_def Let_def wp_finish_eval assms)

section \<open>The refinement\<close>

text \<open>
  One evaluation: \<open>kb\<close> has its evaluation recorded already; \<open>kb0\<close> is the KnowledgeBase before.
\<close>

lemma wp_judged:
  assumes "evaluation (status kb) \<noteq> None" "ks_retrievalQuality (spec kb) = Some rq"
  shows "wp (if \<not> (0 < rq_minimumRecallPercent rq \<and> recall < rq_minimumRecallPercent rq)
             then recall_met L j kb recall (rq_minimumRecallPercent rq) else recall_below L j kb rq recall)
           (\<lambda>tr r. writes (carries_out kb (judge rq (tuning_of kb) recall)) tr)"
proof (cases "0 < rq_minimumRecallPercent rq \<and> recall < rq_minimumRecallPercent rq")
  case False
  then have j: "judge rq (tuning_of kb) recall = (Met, (tuning_of kb)\<lparr>tn_attempts := 0, tn_best := None\<rparr>)"
    by (simp add: judge_def)
  have "wp (recall_met L j kb recall (rq_minimumRecallPercent rq)) (\<lambda>tr r. writes (carries_out kb (judge rq (tuning_of kb) recall)) tr)"
  proof (rule wp_recall_met)
    fix s :: knowledge_base_status
    assume s: "autoTuneAttempts s = 0" "bestChunking s = None" "status_effectiveChunking s = status_effectiveChunking (status kb)"
      "phase s = PhaseReady" "pendingRetune s = pendingRetune (status kb)" "evaluation s = evaluation (status kb)"
    have "effectiveChunking (kb\<lparr>status := s\<rparr>) = effectiveChunking kb" by (rule effectiveChunking_cong) (simp_all add: s)
    with s assms(1) show "carries_out kb (judge rq (tuning_of kb) recall) s"
      unfolding j carries_out_def by (simp add: tuning_of_def)
  qed
  with False show ?thesis by simp
next
  case True
  let ?b = "recordBest kb recall"
  let ?t = "tuning_of kb"
  let ?t' = "?t\<lparr>tn_best := Some (best_after ?t recall)\<rparr>"
  note tb = tuning_of_recordBest [of kb recall]
  have keep: "tuning_of (kb\<lparr>status := s\<rparr>) = ?t'"
    if "autoTuneAttempts s = autoTuneAttempts (status ?b)" "bestChunking s = bestChunking (status ?b)"
      "bestRecallPercent s = bestRecallPercent (status ?b)" "status_effectiveChunking s = status_effectiveChunking (status ?b)" for s :: knowledge_base_status
    unfolding tb [symmetric] by (rule tuning_of_cong) (simp_all add: that)
  have deg: "wp (degraded L j (upd_status (\<lambda>s. s\<lparr>autoTuneStartedAt := x\<rparr>) ?b) recall (rq_minimumRecallPercent rq))
      (\<lambda>tr r. writes (carries_out kb (GiveUp, ?t')) tr)" for x
    by (rule wp_degraded) (use assms(1) keep in \<open>simp add: carries_out_def\<close>)
  have deg0: "wp (degraded L j ?b recall (rq_minimumRecallPercent rq)) (\<lambda>tr r. writes (carries_out kb (GiveUp, ?t')) tr)"
    by (rule wp_degraded) (use assms(1) keep in \<open>simp add: carries_out_def\<close>)
  have eff: "effectiveChunking ?b = effectiveChunking kb" by (rule effectiveChunking_cong) (simp_all add: recordBest_def)
  have best: "bestChunking (status ?b) = Some (fst (best_after ?t recall))" "bestRecallPercent (status ?b) = snd (best_after ?t recall)"
    using tb by (auto simp: tuning_of_def dest: arg_cong [of _ _ fst] arg_cong [of _ _ snd])
  consider (retune) "autoTuneEnabled (Some rq)" "autoTuneAttempts (status kb) < autoTuneMax (Some rq)"
    | (last) "autoTuneEnabled (Some rq)" "\<not> autoTuneAttempts (status kb) < autoTuneMax (Some rq)"
    | (off) "\<not> autoTuneEnabled (Some rq)" by blast
  then show ?thesis
  proof cases
    case retune
    have j: "judge rq ?t recall = (Retune, ?t'\<lparr>tn_attempts := wrap64 (autoTuneAttempts (status kb) + 1),
        tn_current := nextChunking (effectiveChunking kb)\<rparr>)"
      using True retune by (simp add: judge_def Let_def tuning_of_def)
    have "wp (tune_again L j ?b rq recall) (\<lambda>tr r. writes (carries_out kb (judge rq ?t recall)) tr)"
      unfolding j carries_out_def by (rule wp_tune_again) (simp add: tuning_of_def some_chunking best eff)
    with True retune show ?thesis by (simp add: recall_below_def Let_def)
  next
    case last
    show ?thesis
    proof (cases "fst (best_after ?t recall) = effectiveChunking kb")
      case True': True
      have j: "judge rq ?t recall = (GiveUp, ?t')"
        using True last True' by (simp add: judge_def Let_def tuning_of_def)
      have "settleOnBest (upd_status (\<lambda>s. s\<lparr>autoTuneStartedAt := x\<rparr>) ?b) = (upd_status (\<lambda>s. s\<lparr>autoTuneStartedAt := x\<rparr>) ?b, False)" for x
        using True' eff effectiveChunking_cong [of "upd_status (\<lambda>s. s\<lparr>autoTuneStartedAt := x\<rparr>) ?b" ?b]
        by (simp add: settleOnBest_def best)
      with True last deg show ?thesis
        unfolding recall_below_def Let_def j
        by (simp del: wp_pbind, intro allI wp_after_duration) simp
    next
      case False
      have j: "judge rq ?t recall = (Settle, ?t'\<lparr>tn_current := fst (best_after ?t recall)\<rparr>)"
        using True last False by (simp add: judge_def Let_def tuning_of_def)
      have "settleOnBest (upd_status (\<lambda>s. s\<lparr>autoTuneStartedAt := x\<rparr>) ?b) =
          (upd_status (\<lambda>s. s\<lparr>status_effectiveChunking := Some (fst (best_after ?t recall)), pendingRetune := True, evaluation := None\<rparr>)
             (upd_status (\<lambda>s. s\<lparr>autoTuneStartedAt := x\<rparr>) ?b), True)" for x
        using False eff effectiveChunking_cong [of "upd_status (\<lambda>s. s\<lparr>autoTuneStartedAt := x\<rparr>) ?b" ?b]
        by (simp add: settleOnBest_def best)
      then show ?thesis
        using True last unfolding recall_below_def Let_def j carries_out_def
        by (simp del: wp_pbind, intro allI wp_after_duration)
          (simp, rule wp_settling, simp add: tuning_of_def some_chunking best)
    qed
  next
    case off
    with True have "judge rq ?t recall = (GiveUp, ?t')" by (simp add: judge_def Let_def)
    with True off deg0 show ?thesis by (simp add: recall_below_def Let_def)
  qed
qed

lemma carries_out_cong:
  "spec kb = spec kb' \<Longrightarrow> phase (status kb) = phase (status kb') \<Longrightarrow> pendingRetune (status kb) = pendingRetune (status kb') \<Longrightarrow>
   carries_out kb vt st = carries_out kb' vt st"
  using tuning_of_cong [of "kb\<lparr>status := st\<rparr>" "kb'\<lparr>status := st\<rparr>"] by (simp add: carries_out_def split: verdict.split)

definition keeps_tuning :: "knowledge_base \<Rightarrow> knowledge_base_status \<Rightarrow> bool" where
  "keeps_tuning kb st \<longleftrightarrow> tuning_of (kb\<lparr>status := st\<rparr>) = tuning_of kb \<and> phase st = phase (status kb) \<and> evaluation st \<noteq> None"

text \<open>What the status may be once a result was read.\<close>

definition eval_outcome :: "knowledge_base \<Rightarrow> eval_result \<Rightarrow> knowledge_base_status \<Rightarrow> bool" where
  "eval_outcome kb result st \<longleftrightarrow>
     (if er_queries result = 0 then keeps_tuning kb st
      else case ks_retrievalQuality (spec kb) of
        None \<Rightarrow> False
      | Some rq \<Rightarrow> carries_out kb (judge rq (tuning_of kb) (er_recallPercent result)) st)"

lemma wp_eval_result_read:
  assumes "spec kb = spec kb0" "phase (status kb) = phase (status kb0)" "pendingRetune (status kb) = pendingRetune (status kb0)"
    and "tuning_of kb = tuning_of kb0"
  shows "wp (eval_result_read L j kb result now) (\<lambda>tr r. writes (eval_outcome kb0 result) tr)"
proof -
  let ?ev = "\<lparr>ev_recallPercent = er_recallPercent result, ev_p95LatencyMillis = er_p95LatencyMillis result,
              ev_queries = er_queries result, ev_time = Some now\<rparr>"
  let ?kb = "upd_status (\<lambda>s. s\<lparr>evaluation := Some ?ev\<rparr>) kb"
  have t: "tuning_of ?kb = tuning_of kb0" using tuning_of_cong [of ?kb kb] assms(4) by simp
  have c: "carries_out ?kb vt = carries_out kb0 vt" for vt
    by (rule ext, rule carries_out_cong) (simp_all add: assms)
  show ?thesis
  proof (cases "er_queries result = 0")
    case True
    have k: "keeps_tuning kb0 (status (setCondition L ?kb ty s rsn msg))" for ty s rsn msg
    proof -
      have "tuning_of (kb0\<lparr>status := status (setCondition L ?kb ty s rsn msg)\<rparr>) = tuning_of ?kb"
        by (rule tuning_of_cong) (simp_all add: assms)
      with t show ?thesis by (simp add: keeps_tuning_def assms)
    qed
    show ?thesis
      unfolding eval_result_read_def eval_outcome_def Let_def if_P [OF True] no_dataset_def wp_writes
      by (rule wp_finish_eval) (rule k)
  next
    case False
    show ?thesis
    proof (cases "ks_retrievalQuality (spec kb)")
      case None
      with False show ?thesis by (simp add: eval_result_read_def Let_def)
    next
      case (Some rq)
      have o': "eval_outcome kb0 result = carries_out ?kb (judge rq (tuning_of ?kb) (er_recallPercent result))"
        using False Some assms(1) by (simp add: eval_outcome_def fun_eq_iff c t)
      have "wp (if \<not> (0 < rq_minimumRecallPercent rq \<and> er_recallPercent result < rq_minimumRecallPercent rq)
             then recall_met L j ?kb (er_recallPercent result) (rq_minimumRecallPercent rq)
             else recall_below L j ?kb rq (er_recallPercent result)) (\<lambda>tr r. writes (eval_outcome kb0 result) tr)"
        unfolding o' by (rule wp_judged) (simp_all add: Some)
      with False Some show ?thesis
        by (simp add: eval_result_read_def Let_def)
    qed
  qed
qed

lemma wp_finalizeEval:
  assumes "\<not> jobFailed j"
  shows "wp (finalizeEval L kb j) (\<lambda>tr r. writes (\<lambda>st. \<exists>cm raw result.
      EvGetConfigMap (kb_namespace kb, resultConfigMapName L (job_name j)) (Inr cm) \<in> set tr \<and>
      cm_data cm ''result.json'' = Some raw \<and> parse_eval_result L raw = Inr result \<and> eval_outcome kb result st) tr)"
proof -
  let ?kb = "clearActiveJob kb"
  have clear: "wp (clearWorkerConfigMapAccess L kb') (\<lambda>tr r. writes (\<lambda>_. False) tr)" for kb'
  proof -
    have "never (\<lambda>e. \<exists>k st. status_write e = Some (k, st)) (clearWorkerConfigMapAccess L kb')"
      by (rule never_clearWorkerConfigMapAccess) simp_all
    from wp_never [OF this] show ?thesis by (rule wp_mono) (auto simp: writes_def)
  qed
  have t: "tuning_of ?kb = tuning_of kb" by (rule tuning_of_cong) simp_all
  have read: "wp (pbind (clearWorkerConfigMapAccess L ?kb) (\<lambda>_. Now (\<lambda>now. eval_result_read L j ?kb result now)))
      (\<lambda>tr r. writes (eval_outcome kb result) tr)" for result
    by (rule wp_bindI [OF clear])
      (use t in \<open>auto intro: writes_none wp_mono [OF wp_eval_result_read]\<close>)
  show ?thesis
    unfolding finalizeEval_def Let_def if_not_P [OF assms]
  proof (rule wp_bindI [OF wp_readResult_post], goal_cases)
    case (1 tr res)
    then show ?case
    proof (cases res)
      case (Inr result)
      from 1 Inr obtain cm raw where tr: "tr = [EvGetConfigMap (kb_namespace kb, resultConfigMapName L (job_name j)) (Inr cm)]"
        and cm: "cm_data cm ''result.json'' = Some raw" "parse_eval_result L raw = Inr result" by auto
      show ?thesis
        unfolding Inr sum.case by (rule wp_mono [OF read]) (use tr cm in \<open>fastforce simp: writes_def\<close>)
    qed auto
  qed auto
qed

section \<open>The length of a tuning run\<close>

text \<open>How many re-indexings a tuning may still ask for.\<close>

definition rank :: "retrieval_quality_spec \<Rightarrow> tuning \<Rightarrow> nat" where
  "rank rq t = nat (autoTuneMax (Some rq) - tn_attempts t) +
     (if tn_attempts t < autoTuneMax (Some rq) then 1
      else if map_option fst (tn_best t) = Some (tn_current t) then 0 else 1)"

lemma best_after_current: "map_option fst (tn_best t) = Some (tn_current t) \<Longrightarrow> fst (best_after t recall) = tn_current t"
  by (auto simp: best_after_def)

lemma best_after_max: "recall \<le> snd (best_after t recall) \<and> (\<forall>c b. tn_best t = Some (c, b) \<longrightarrow> b \<le> snd (best_after t recall))"
  by (auto simp: best_after_def split: option.split)

lemma rank_decreases:
  assumes "judge rq t recall = (v, t')" "v = Retune \<or> v = Settle" "autoTuneMax (Some rq) < 2 ^ 63" "- (2 ^ 63) \<le> tn_attempts t"
  shows "rank rq t' < rank rq t \<and> - (2 ^ 63) \<le> tn_attempts t'"
proof (cases "tn_attempts t < autoTuneMax (Some rq)")
  case True
  with assms(3,4) have "wrap64 (tn_attempts t + 1) = tn_attempts t + 1" by (simp add: wrap64_def)
  with True assms show ?thesis by (auto simp: judge_def Let_def rank_def split: if_splits)
next
  case False
  with assms(1,2) have j: "fst (best_after t recall) \<noteq> tn_current t" "t' = t\<lparr>tn_best := Some (best_after t recall), tn_current := fst (best_after t recall)\<rparr>"
    by (auto simp: judge_def Let_def split: if_splits)
  from j(1) best_after_current [of t recall] have "map_option fst (tn_best t) \<noteq> Some (tn_current t)" by blast
  with False assms(4) show ?thesis by (simp add: j(2) rank_def)
qed

text \<open>
  One round of the loop, from a finished evaluation to the next: a status written for it asks for a
  re-index, and the KnowledgeBase evaluated next has the same spec and the tuning of that status.
\<close>

inductive retuned :: "lib \<Rightarrow> knowledge_base \<Rightarrow> knowledge_base \<Rightarrow> bool" for L where
  "runs (finalizeEval L kb j) tr r \<Longrightarrow> \<not> jobFailed j \<Longrightarrow> EvStatusUpdate k st a \<in> set tr \<Longrightarrow> evaluation st = None \<Longrightarrow>
   spec kb' = spec kb \<Longrightarrow> tuning_of kb' = tuning_of (kb\<lparr>status := st\<rparr>) \<Longrightarrow> retuned L kb kb'"

lemma retuned_outcome:
  assumes "retuned L kb kb'" "ks_retrievalQuality (spec kb) = Some rq"
  shows "spec kb' = spec kb \<and> (\<exists>recall v. judge rq (tuning_of kb) recall = (v, tuning_of kb') \<and> (v = Retune \<or> v = Settle))"
  using assms(1)
proof cases
  case (1 j tr r k st a)
  from writesD [OF wpD [OF wp_finalizeEval [OF 1(2)] 1(1)] 1(3)] obtain result where "eval_outcome kb result st"
    by blast
  with 1 assms(2) have "carries_out kb (judge rq (tuning_of kb) (er_recallPercent result)) st"
    by (auto simp: eval_outcome_def keeps_tuning_def split: if_splits)
  with 1 show ?thesis by (metis carries_out_def prod.collapse)
qed

lemma retuned_rank:
  assumes "(retuned L ^^ n) kb kb'" "ks_retrievalQuality (spec kb) = Some rq"
    and "autoTuneMax (Some rq) < 2 ^ 63" "- (2 ^ 63) \<le> autoTuneAttempts (status kb)"
  shows "n + rank rq (tuning_of kb') \<le> rank rq (tuning_of kb) \<and> spec kb' = spec kb \<and> - (2 ^ 63) \<le> tn_attempts (tuning_of kb')"
  using assms(1)
proof (induction n arbitrary: kb')
  case 0
  with assms(4) show ?case by (simp add: tuning_of_def)
next
  case (Suc n)
  from Suc.prems obtain kb1 where "(retuned L ^^ n) kb kb1" and step: "retuned L kb1 kb'" by auto
  with Suc.IH have kb1: "n + rank rq (tuning_of kb1) \<le> rank rq (tuning_of kb)" "spec kb1 = spec kb" "- (2 ^ 63) \<le> tn_attempts (tuning_of kb1)"
    by blast+
  with retuned_outcome [OF step, of rq] assms(2) obtain recall v where
    j: "judge rq (tuning_of kb1) recall = (v, tuning_of kb')" "v = Retune \<or> v = Settle" and s: "spec kb' = spec kb" by auto
  from rank_decreases [OF j assms(3) kb1(3)] kb1(1) s show ?case by linarith
qed

section \<open>Properties\<close>

text \<open>
  C8. The recall gate refines the judgement: a status written by \<open>finalizeEval\<close> for a Job that did
  not fail comes from a result that was read and parsed. Without evaluated queries it leaves the
  tuning and the phase alone; otherwise it carries out what \<open>judge\<close> says of the recorded tuning and
  the measured recall - Ready, a re-index with the next configuration, a re-index with the best one
  seen, or Degraded.
\<close>

theorem evaluation_refines_judge:
  assumes "runs (finalizeEval L kb j) tr r" "\<not> jobFailed j" "EvStatusUpdate k st a \<in> set tr"
  shows "\<exists>cm raw result.
     EvGetConfigMap (kb_namespace kb, resultConfigMapName L (job_name j)) (Inr cm) \<in> set tr \<and>
     cm_data cm ''result.json'' = Some raw \<and> parse_eval_result L raw = Inr result \<and>
     (if er_queries result = 0
      then tuning_of (kb\<lparr>status := st\<rparr>) = tuning_of kb \<and> phase st = phase (status kb) \<and> evaluation st \<noteq> None
      else \<exists>rq. ks_retrievalQuality (spec kb) = Some rq \<and>
             carries_out kb (judge rq (tuning_of kb) (er_recallPercent result)) st)"
proof -
  from writesD [OF wpD [OF wp_finalizeEval [OF assms(2)] assms(1)] assms(3)] obtain cm raw result where
    "EvGetConfigMap (kb_namespace kb, resultConfigMapName L (job_name j)) (Inr cm) \<in> set tr"
    "cm_data cm ''result.json'' = Some raw" "parse_eval_result L raw = Inr result" and e: "eval_outcome kb result st"
    by blast
  moreover from e have "if er_queries result = 0
      then tuning_of (kb\<lparr>status := st\<rparr>) = tuning_of kb \<and> phase st = phase (status kb) \<and> evaluation st \<noteq> None
      else \<exists>rq. ks_retrievalQuality (spec kb) = Some rq \<and>
             carries_out kb (judge rq (tuning_of kb) (er_recallPercent result)) st"
    by (auto simp: eval_outcome_def keeps_tuning_def split: option.splits if_splits)
  ultimately show ?thesis by blast
qed

text \<open>
  C9. Auto-tuning ends: while the spec stays the same, the evaluations of one tuning ask for a
  re-index at most as many times as attempts are left, and once more to settle on the best
  configuration. (The maximum is an \<open>int\<close> of the API, hence below 2 ^ 63, and so is the counter.)
\<close>

theorem retuning_is_bounded:
  assumes "(retuned L ^^ n) kb kb'" "ks_retrievalQuality (spec kb) = Some rq"
    and "autoTuneMax (Some rq) < 2 ^ 63" "- (2 ^ 63) \<le> autoTuneAttempts (status kb)"
  shows "n \<le> nat (autoTuneMax (Some rq) - autoTuneAttempts (status kb)) + 1"
proof -
  have "rank rq (tuning_of kb) \<le> nat (autoTuneMax (Some rq) - autoTuneAttempts (status kb)) + 1"
    by (simp add: rank_def tuning_of_def)
  with retuned_rank [OF assms] show ?thesis by linarith
qed

text \<open>The sample KnowledgeBase wants 80 percent; its evaluation measures three.\<close>

lemmas eval_defs =
  finalizeEval_def eval_result_read_def recall_below_def tune_again_def applyAutoTune_def finish_eval_def

lemma demo_evaluation:
  "\<exists>st. EvStatusUpdate (''ns'', ''kb'') st (Inr ''2'')
          \<in> set (fst (exec result_cluster (finalizeEval demo_lib demo_kb (ended_job ''Complete'')))) \<and>
        evaluation st = None \<and> autoTuneAttempts st = 1"
  by (simp add: eval_defs finalize_defs exec_simps Let_def recordBest_def autoTuneEnabled_def autoTuneMax_def wrap64_def)

theorem evaluation_refines_judge_witness:
  "\<exists>st rq recall. EvStatusUpdate (''ns'', ''kb'') st (Inr ''2'')
          \<in> set (fst (exec result_cluster (finalizeEval demo_lib demo_kb (ended_job ''Complete'')))) \<and>
        ks_retrievalQuality (spec demo_kb) = Some rq \<and> carries_out demo_kb (judge rq (tuning_of demo_kb) recall) st"
proof -
  let ?p = "finalizeEval demo_lib demo_kb (ended_job ''Complete'')"
  from demo_evaluation obtain st where e: "EvStatusUpdate (''ns'', ''kb'') st (Inr ''2'') \<in> set (fst (exec result_cluster ?p))"
    by blast
  have "\<not> jobFailed (ended_job ''Complete'')" by simp
  from evaluation_refines_judge [OF runs_exec this e] obtain raw result where
    result: "parse_eval_result demo_lib raw = Inr result"
    and c: "if er_queries result = 0
      then tuning_of (demo_kb\<lparr>status := st\<rparr>) = tuning_of demo_kb \<and> phase st = phase (status demo_kb) \<and> evaluation st \<noteq> None
      else \<exists>rq. ks_retrievalQuality (spec demo_kb) = Some rq \<and>
             carries_out demo_kb (judge rq (tuning_of demo_kb) (er_recallPercent result)) st"
    by blast
  from result have "er_queries result \<noteq> 0" by auto
  with c e show ?thesis by auto
qed

theorem retuning_is_bounded_witness:
  "\<exists>kb. (retuned demo_lib ^^ 1) demo_kb kb \<and>
     1 \<le> nat (autoTuneMax (ks_retrievalQuality (spec demo_kb)) - autoTuneAttempts (status demo_kb)) + 1"
proof -
  let ?p = "finalizeEval demo_lib demo_kb (ended_job ''Complete'')"
  from demo_evaluation obtain st where e: "EvStatusUpdate (''ns'', ''kb'') st (Inr ''2'') \<in> set (fst (exec result_cluster ?p))"
    and ev: "evaluation st = None" by blast
  have "retuned demo_lib demo_kb (demo_kb\<lparr>status := st\<rparr>)"
    by (rule retuned.intros [OF runs_exec _ e ev]) simp_all
  then have one: "(retuned demo_lib ^^ 1) demo_kb (demo_kb\<lparr>status := st\<rparr>)" by (simp add: eq_OO)
  obtain rq where rq: "ks_retrievalQuality (spec demo_kb) = Some rq" "autoTuneMax (Some rq) < 2 ^ 63" by (simp add: autoTuneMax_def)
  have "- (2 ^ 63) \<le> autoTuneAttempts (status demo_kb)" by simp
  from retuning_is_bounded [OF one rq this] one rq(1) show ?thesis by auto
qed

section \<open>Admissible configurations\<close>

text \<open>
  What the schema of the CRD asks of a chunking configuration: one of the three strategies, at least
  one token, no negative overlap, and the rule \<open>self.overlap < self.maxTokens\<close>; here also a size
  below two to the thirty-first.
\<close>

definition admissible_chunking :: "chunking_spec \<Rightarrow> bool" where
  "admissible_chunking c \<longleftrightarrow>
     ch_strategy c \<in> {ChunkSemantic, ChunkRecursive, ChunkFixed} \<and>
     1 \<le> ch_maxTokens c \<and> ch_maxTokens c < 2 ^ 31 \<and> 0 \<le> ch_overlap c \<and> ch_overlap c < ch_maxTokens c"

lemma admissible_next:
  assumes "admissible_chunking c"
  shows "admissible_chunking (nextChunking c)"
proof -
  from assms have u: "usual_chunking c" by (simp add: admissible_chunking_def usual_chunking_def)
  from assms show ?thesis
    unfolding nextChunking_next_rung [OF u]
    by (auto simp: admissible_chunking_def next_rung_def rotateStrategy_def Let_def max_def)
qed

lemma admissible_judge:
  assumes "admissible_chunking (tn_current t)" "pred_option (\<lambda>(c, b). admissible_chunking c) (tn_best t)"
  shows "admissible_chunking (tn_current (snd (judge rq t recall))) \<and>
     pred_option (\<lambda>(c, b). admissible_chunking c) (tn_best (snd (judge rq t recall)))"
proof -
  have "admissible_chunking (fst (best_after t recall))"
    using assms by (auto simp: best_after_def split: option.split)
  with assms admissible_next show ?thesis by (auto simp: judge_def Let_def case_prod_unfold)
qed

text \<open>
  C27. The tuning keeps to the schema of the API: if the chunking in force and the best one are
  admissible, so are those of every status that \<open>finalizeEval\<close> writes for a Job that did not fail -
  the API server never refuses a status for a chunking the ladder made up.
\<close>

theorem tuning_keeps_chunking_admissible:
  assumes "runs (finalizeEval L kb j) tr r" "\<not> jobFailed j" "EvStatusUpdate k st a \<in> set tr"
    and "admissible_chunking (effectiveChunking kb)" "pred_option admissible_chunking (bestChunking (status kb))"
  shows "admissible_chunking (effectiveChunking (kb\<lparr>status := st\<rparr>)) \<and> pred_option admissible_chunking (bestChunking st)"
proof -
  let ?t = "tuning_of kb"
  let ?t' = "tuning_of (kb\<lparr>status := st\<rparr>)"
  have adm: "admissible_chunking (tn_current ?t)" "pred_option (\<lambda>(c, b). admissible_chunking c) (tn_best ?t)"
    using assms(4,5) by (simp_all add: tuning_of_def option.pred_map comp_def)
  from writesD [OF wpD [OF wp_finalizeEval [OF assms(2)] assms(1)] assms(3)] obtain result where
    "eval_outcome kb result st" by blast
  then have "?t' = ?t \<or> (\<exists>rq recall. ?t' = snd (judge rq ?t recall))"
    by (auto simp: eval_outcome_def keeps_tuning_def carries_out_def split: option.splits if_splits)
  with adm admissible_judge [OF adm] have "admissible_chunking (tn_current ?t')" "pred_option (\<lambda>(c, b). admissible_chunking c) (tn_best ?t')"
    by auto
  then show ?thesis by (simp add: tuning_of_def option.pred_map comp_def)
qed

theorem tuning_keeps_chunking_admissible_witness:
  "\<exists>st. EvStatusUpdate (''ns'', ''kb'') st (Inr ''2'')
          \<in> set (fst (exec result_cluster (finalizeEval demo_lib demo_kb (ended_job ''Complete'')))) \<and>
        evaluation st = None \<and> admissible_chunking (effectiveChunking (demo_kb\<lparr>status := st\<rparr>))"
proof -
  let ?p = "finalizeEval demo_lib demo_kb (ended_job ''Complete'')"
  from demo_evaluation obtain st where e: "EvStatusUpdate (''ns'', ''kb'') st (Inr ''2'') \<in> set (fst (exec result_cluster ?p))"
    and ev: "evaluation st = None" by blast
  have "\<not> jobFailed (ended_job ''Complete'')" by simp
  moreover have "admissible_chunking (effectiveChunking demo_kb)" "pred_option admissible_chunking (bestChunking (status demo_kb))"
    by (simp_all add: admissible_chunking_def effectiveChunking_def specChunking_def)
  ultimately show ?thesis using tuning_keeps_chunking_admissible [OF runs_exec _ e] e ev by blast
qed

text \<open>
  An overlap of zero is not kept: it is read as the default of 80, so a configuration the API
  admitted - fifty tokens without overlap, say - is indexed and recorded as one that its own rule
  refuses. Every other admissible configuration stays admissible.
\<close>

theorem zero_overlap_breaks_schema:
  assumes "admissible_chunking (ks_chunking (spec kb))"
  shows "admissible_chunking (specChunking kb) \<longleftrightarrow>
     ch_overlap (ks_chunking (spec kb)) \<noteq> 0 \<or> 80 < ch_maxTokens (ks_chunking (spec kb))"
  using assms by (auto simp: admissible_chunking_def specChunking_def Let_def)

theorem zero_overlap_breaks_schema_witness:
  "\<exists>kb. admissible_chunking (ks_chunking (spec kb)) \<and> \<not> admissible_chunking (specChunking kb)"
proof -
  let ?kb = "demo_kb\<lparr>spec := demo_spec\<lparr>ks_chunking := \<lparr>ch_strategy = ChunkFixed, ch_maxTokens = 50, ch_overlap = 0\<rparr>\<rparr>\<rparr>"
  have "admissible_chunking (ks_chunking (spec ?kb))" by (simp add: admissible_chunking_def)
  with zero_overlap_breaks_schema [OF this] show ?thesis by (intro exI [of _ ?kb]) simp
qed

section \<open>A failed evaluation\<close>

lemma wp_finish_eval_outcome:
  "wp (finish_eval L j kb) (\<lambda>tr r. writes (\<lambda>st. st = status kb) tr \<and>
     (\<forall>kb' res handled. r = Some (kb', res, handled, None) \<longrightarrow> res = requeue_now \<and> handled))"
  by (auto simp: finish_eval_def save_handled_def statusUpdate_def deleteResult_def deleteSpecConfigMap_def split: sum.split)

lemma evalDue_same:
  assumes "spec kb' = spec kb" "phase (status kb') = phase (status kb)" "indexedChunks (status kb') = indexedChunks (status kb)"
    and "evaluation (status kb') = evaluation (status kb)"
  shows "evalDue L kb' = evalDue L kb"
  using assms by (simp add: evalDue_def split: option.split)

text \<open>
  C40. An evaluation Job that fails is tried again at once and without end: the failure leaves nothing
  behind that delays the next.  Whatever status is written, the evaluation is as due as before and no
  Job is in flight, and the pass asks to be repeated immediately.  (The comment on the empty data set
  in the same function says that a record is kept so that this does not busy-loop.)
\<close>

theorem failed_evaluation_is_retried_at_once:
  assumes "runs (finalizeEval L kb j) tr (Some (kb', res, handled, None))" "jobFailed j"
    and "EvStatusUpdate k st a \<in> set tr"
  shows "evalDue L (kb\<lparr>status := st\<rparr>) = evalDue L kb \<and> evalRound st = evalRound (status kb) \<and> activeJob st = '''' \<and>
    res = requeue_now \<and> handled"
proof -
  let ?kb = "setCondition L (clearActiveJob kb) ConditionEvaluated ConditionFalse ''EvalFailed'' ''evaluation job failed''"
  have "wp (finalizeEval L kb j) (\<lambda>tr r. writes (\<lambda>st. st = status ?kb) tr \<and>
     (\<forall>kb' res handled. r = Some (kb', res, handled, None) \<longrightarrow> res = requeue_now \<and> handled))"
    unfolding finalizeEval_def Let_def
    by (simp add: assms(2) del: wp_pbind, rule wp_bindI [OF wp_never [where P = "\<lambda>e. status_write e \<noteq> None"]])
      (auto intro!: never_clearWorkerConfigMapAccess intro: wp_mono [OF wp_finish_eval_outcome] simp: writes_def)
  from wpD [OF this assms(1)] have w: "writes (\<lambda>st. st = status ?kb) tr" and r: "res = requeue_now" "handled" by auto
  from writesD [OF w assms(3)] have st: "st = status ?kb" .
  have "evalDue L (kb\<lparr>status := st\<rparr>) = evalDue L kb"
    by (rule evalDue_same) (simp_all add: st)
  with r show ?thesis by (simp add: st)
qed

theorem failed_evaluation_is_retried_at_once_witness:
  "\<exists>st. EvStatusUpdate (''ns'', ''kb'') st (Inr ''2'')
       \<in> set (fst (exec result_cluster (finalizeEval demo_lib demo_kb (ended_job ''Failed'')))) \<and>
     evalDue demo_lib (demo_kb\<lparr>status := st\<rparr>) = evalDue demo_lib demo_kb"
proof -
  let ?p = "finalizeEval demo_lib demo_kb (ended_job ''Failed'')"
  have j: "jobFailed (ended_job ''Failed'')" by simp
  have "\<exists>st. EvStatusUpdate (''ns'', ''kb'') st (Inr ''2'') \<in> set (fst (exec result_cluster ?p)) \<and>
      (\<exists>kb' res handled. snd (exec result_cluster ?p) = Some (kb', res, handled, None))"
    by (simp add: eval_defs finalize_defs exec_simps Let_def) blast
  then obtain st kb' res handled where e: "EvStatusUpdate (''ns'', ''kb'') st (Inr ''2'') \<in> set (fst (exec result_cluster ?p))"
    and r: "snd (exec result_cluster ?p) = Some (kb', res, handled, None)" by blast
  from failed_evaluation_is_retried_at_once [OF runs_exec [of ?p result_cluster, unfolded r] j e] e show ?thesis by blast
qed

end
