(* ===== verification/Status_Laws.thy ===== *)
theory Status_Laws
  imports Single_Flight Auto_Tune
begin

text \<open>
  What it takes for a property of the status to hold of everything a pass of the KnowledgeBase
  reconciler writes: the property survives the few ways in which the controller changes a status. The
  locale \<open>status_law\<close> lists those of a pass up to the decision on new work, \<open>status_law_launch\<close> adds
  the launch of a Job. Its lemmas follow the structure of the reconciler.
\<close>

section \<open>Programs that keep a property\<close>

text \<open>Every status a run writes satisfies \<open>S\<close> and its value, if it has one, satisfies \<open>R\<close>.\<close>

definition good :: "(knowledge_base_status \<Rightarrow> bool) \<Rightarrow> ('a \<Rightarrow> bool) \<Rightarrow> event list \<Rightarrow> 'a option \<Rightarrow> bool" where
  "good S R tr r \<longleftrightarrow> writes S tr \<and> (\<forall>a. r = Some a \<longrightarrow> R a)"

abbreviation keeps :: "(knowledge_base_status \<Rightarrow> bool) \<Rightarrow> ('a \<Rightarrow> bool) \<Rightarrow> 'a prog \<Rightarrow> bool" where
  "keeps S R p \<equiv> wp p (good S R)"

lemma good_simps [simp]:
  "good S R (e # tr) = (\<lambda>r. (\<forall>k st. status_write e = Some (k, st) \<longrightarrow> S st) \<and> good S R tr r)"
  "good S R (tr @ tr') = (\<lambda>r. writes S tr \<and> good S R tr' r)"
  "good S R [] (Some a) \<longleftrightarrow> R a" "good S R [] None"
  by (auto simp: good_def fun_eq_iff)

lemma goodD: "good S R tr (Some a) \<Longrightarrow> writes S tr \<and> R a" "good S R tr None \<Longrightarrow> writes S tr"
  by (simp_all add: good_def)

lemma quiet_helpers:
  "never (\<lambda>e. status_write e \<noteq> None) (readResult L parse ns jn)"
  "never (\<lambda>e. status_write e \<noteq> None) (readCheckpointResult L ns jn)"
  "never (\<lambda>e. status_write e \<noteq> None) (finalizeIngestionRun ns n ph c ss msg)"
  "never (\<lambda>e. status_write e \<noteq> None) (pruneIngestionRuns L ns n)"
  "never (\<lambda>e. status_write e \<noteq> None) (cleanup_ingest L kb j)"
  "never (\<lambda>e. status_write e \<noteq> None) (clearWorkerConfigMapAccess L kb)"
  "never (\<lambda>e. status_write e \<noteq> None) (prepareWorkerJob L kb jn ex)"
  "never (\<lambda>e. status_write e \<noteq> None) (ensureWorkerIdentity L kb ex)"
  by (intro never_helpers; simp)+

lemma quiet_deletes:
  "never (\<lambda>e. status_write e \<noteq> None) (deleteResult L ns jn)"
  "never (\<lambda>e. status_write e \<noteq> None) (deleteSpecConfigMap L ns jn)"
  by (simp_all add: deleteResult_def deleteSpecConfigMap_def)

lemma quiet_secrets: "never (\<lambda>e. status_write e \<noteq> None) (computeSecretsHash L kb)"
  by (rule never_computeSecretsHash) (simp add: status_write_def)

lemma quiet_delete: "never (\<lambda>e. status_write e \<noteq> None) (reconcileDelete L kb)"
  unfolding reconcileDelete_def start_cleanup_def
  by (auto intro!: never_pbind quiet_secrets [simplified] never_buildCleanupJob split: sum.split option.split)

abbreviation active_ok :: "(knowledge_base_status \<Rightarrow> bool) \<Rightarrow> knowledge_base \<times> active_result \<Rightarrow> bool" where
  "active_ok S \<equiv> (\<lambda>(kb, res). S (status kb))"

section \<open>The changes of a status\<close>

locale status_law =
  fixes S :: "knowledge_base_status \<Rightarrow> bool"
  assumes condition [simp]: "S (status (setCondition L kb t st rsn m)) = S (status kb)"
    and other [simp]: "S (s\<lparr>phase := p\<rparr>) = S s" "S (s\<lparr>observedSecretsHash := h\<rparr>) = S s"
      "S (s\<lparr>autoTuneAttempts := n\<rparr>) = S s" "S (s\<lparr>autoTuneStartedAt := at\<rparr>) = S s"
      "S (s\<lparr>evaluation := ev\<rparr>) = S s" "S (s\<lparr>deferCronIngest := d\<rparr>) = S s"
    and cleared: "S s \<Longrightarrow> S (s\<lparr>activeJob := '''', activeJobStartedAt := None\<rparr>)"
    and unbested: "S s \<Longrightarrow> S (s\<lparr>bestChunking := None, bestRecallPercent := 0\<rparr>)"
    and stuck: "S s \<Longrightarrow> S (s\<lparr>lastFailureTime := Some ft, lastFailedSpecHash := h, lastCheckpoint := cp\<rparr>)"
    and dropped: "S s \<Longrightarrow> S (s\<lparr>status_effectiveChunking := None, autoTuneAttempts := 0, bestChunking := None,
      bestRecallPercent := 0, pendingRetune := False\<rparr>)"
    and failed: "S (status kb) \<Longrightarrow> S (status (ingest_failed_status L kb cp hash now))"
    and succeeded: "S (status kb) \<Longrightarrow> S (status (ingest_succeeded_status L kb result eff hash secretsHash now))"
    and tuned: "S (status kb) \<Longrightarrow> S (status (tuned tt kb))"
    and best_recorded: "S (status kb) \<Longrightarrow> S (status (recordBest kb recall))"
    and settled: "S (status kb) \<Longrightarrow> S (status (fst (settleOnBest kb)))"
begin

lemma keeps_bind:
  assumes "keeps S G p" "\<And>a. G a \<Longrightarrow> keeps S R (f a)"
  shows "keeps S R (pbind p f)"
proof (rule wp_bindI [OF assms(1)])
  fix tr a
  assume "good S G tr (Some a)"
  with assms(2) show "wp (f a) (\<lambda>tr'. good S R (tr @ tr'))"
    by (auto dest: goodD)
qed (simp add: good_def)

lemma keeps_quiet:
  assumes "never (\<lambda>e. status_write e \<noteq> None) p"
  shows "keeps S (\<lambda>a. True) p"
  by (rule wp_mono [OF wp_never [OF assms]]) (auto simp: good_def writes_def)

lemma keeps_quiet_then: "never (\<lambda>e. status_write e \<noteq> None) p \<Longrightarrow> (\<And>a. keeps S R (f a)) \<Longrightarrow> keeps S R (pbind p f)"
  by (rule keeps_bind [OF keeps_quiet]) auto

lemma keeps_statusUpdate: "S (status kb) \<Longrightarrow> keeps S (\<lambda>(kb', e). S (status kb')) (statusUpdate kb)"
  by (auto simp: statusUpdate_def split: sum.split)

lemma keeps_save_then:
  "S (status kb) \<Longrightarrow> (\<And>kb'. S (status kb') \<Longrightarrow> keeps S (\<lambda>_. True) (k kb')) \<Longrightarrow> keeps S (\<lambda>_. True) (save_then kb k)"
  unfolding save_then_def by (rule keeps_bind [OF keeps_statusUpdate]) (auto split: option.split)

lemma keeps_save_return: "S (status kb) \<Longrightarrow> keeps S (\<lambda>_. True) (save_return kb)"
  unfolding save_return_def by (rule keeps_bind [OF keeps_statusUpdate]) auto

lemma keeps_save_handled:
  "S (status kb) \<Longrightarrow> (\<And>kb'. S (status kb') \<Longrightarrow> keeps S (active_ok S) (k kb')) \<Longrightarrow> keeps S (active_ok S) (save_handled kb k)"
  unfolding save_handled_def by (rule keeps_bind [OF keeps_statusUpdate]) (auto split: option.split)

lemma keeps_quota: "S (status kb) \<Longrightarrow> keeps S (\<lambda>_. True) (quota_exceeded L kb msg nt)"
  unfolding quota_exceeded_def by (rule keeps_save_then) simp_all

lemma keeps_too_large: "S (status kb) \<Longrightarrow> keeps S (\<lambda>_. True) (spec_too_large L kb)"
  unfolding spec_too_large_def by (rule keeps_save_return) simp

section \<open>Finishing work\<close>

lemma keeps_recordIngestFailure:
  "S (status kb) \<Longrightarrow> keeps S (active_ok S) (recordIngestFailure L kb j checkpoint hash)"
  unfolding recordIngestFailure_def
  by (rule keeps_quiet_then, rule quiet_helpers)
    (auto simp: failed simp del: wp_pbind
      intro!: keeps_save_handled keeps_quiet_then quiet_helpers)

lemma keeps_recordIngestSuccess:
  "S (status kb) \<Longrightarrow> keeps S (active_ok S) (recordIngestSuccess L kb j result eff hash secretsHash)"
  unfolding recordIngestSuccess_def
  by (rule keeps_quiet_then, rule quiet_helpers)
    (auto simp: succeeded simp del: wp_pbind
      intro!: keeps_save_handled keeps_quiet_then quiet_helpers)

lemma keeps_finalizeIngest:
  "S (status kb) \<Longrightarrow> keeps S (active_ok S) (finalizeIngest L kb j eff hash secretsHash)"
  unfolding finalizeIngest_def
  by (auto simp: keeps_recordIngestFailure keeps_recordIngestSuccess simp del: wp_pbind
      intro!: keeps_quiet_then quiet_helpers split: sum.split)

lemma keeps_finish_eval: "S (status kb) \<Longrightarrow> keeps S (active_ok S) (finish_eval L j kb)"
  unfolding finish_eval_def
  by (auto simp del: wp_pbind intro!: keeps_save_handled keeps_quiet_then quiet_deletes)

lemma keeps_duration:
  "S (status kb) \<Longrightarrow> keeps S (\<lambda>kb'. S (status kb')) (recordAutoTuneDuration kb res now)"
  by (rule wp_mono [OF wp_duration [where S = S]]) (auto simp: good_def)

lemma keeps_recall_met: "S (status kb) \<Longrightarrow> keeps S (active_ok S) (recall_met L j kb recall target)"
  unfolding recall_met_def Let_def
  by (auto simp: unbested simp del: wp_pbind intro!: keeps_bind [OF keeps_duration] keeps_finish_eval)

lemma keeps_tune_again: "S (status kb) \<Longrightarrow> keeps S (active_ok S) (tune_again L j kb rq recall)"
  unfolding tune_again_def
  by (auto simp: wp_applyAutoTune Let_def tuned intro!: keeps_finish_eval)

lemma keeps_settling: "S (status kb) \<Longrightarrow> keeps S (active_ok S) (settling L j kb target)"
  unfolding settling_def Let_def by (simp add: keeps_finish_eval)

lemma keeps_degraded: "S (status kb) \<Longrightarrow> keeps S (active_ok S) (degraded L j kb recall target)"
  unfolding degraded_def Let_def by (simp add: keeps_finish_eval)

lemma keeps_recall_below:
  assumes "S (status kb)"
  shows "keeps S (active_ok S) (recall_below L j kb rq recall)"
proof -
  have settle: "keeps S (active_ok S) (case settleOnBest k of (k, settled) \<Rightarrow> if settled then settling L j k t else degraded L j k recall t)"
    if "S (status k)" for k t
    using settled [OF that]
    by (cases "settleOnBest k") (simp add: keeps_settling keeps_degraded)
  have "S (status (recordBest kb recall))"
    by (rule best_recorded [OF assms])
  then show ?thesis
    unfolding recall_below_def Let_def
    by (auto simp: keeps_tune_again keeps_degraded settle simp del: wp_pbind intro!: keeps_bind [OF keeps_duration] settle)
qed

lemma keeps_finalizeEval: "S (status kb) \<Longrightarrow> keeps S (active_ok S) (finalizeEval L kb j)"
proof -
  assume "S (status kb)"
  then have c: "S (status kb\<lparr>activeJob := '''', activeJobStartedAt := None\<rparr>)" by (rule cleared)
  have read: "keeps S (active_ok S) (eval_result_read L j k result now)" if "S (status k)" for k result now
    using that unfolding eval_result_read_def no_dataset_def Let_def
    by (simp add: keeps_finish_eval keeps_recall_met keeps_recall_below split: option.split)
  show ?thesis
    unfolding finalizeEval_def Let_def
    by (auto simp: c simp del: wp_pbind intro!: keeps_quiet_then quiet_helpers keeps_finish_eval read split: sum.split)
qed

section \<open>One pass\<close>

lemma keeps_guardActiveJob:
  "S (status kb) \<Longrightarrow> keeps S (\<lambda>(kb', e). S (status kb')) (guardActiveJob L kb chash secretsHash)"
proof -
  assume c: "S (status kb)"
  have gone_job: "S (status kb\<lparr>activeJob := '''', activeJobStartedAt := None\<rparr>)"
    using c by (rule cleared)
  have stuck_job: "S (status kb\<lparr>activeJob := '''', activeJobStartedAt := None, phase := PhaseFailed,
      lastFailureTime := Some now, lastFailedSpecHash := chash, lastCheckpoint := cp\<rparr>)" for now cp
    using stuck [where s = "status kb\<lparr>activeJob := '''', activeJobStartedAt := None, phase := PhaseFailed\<rparr>" and ft = now and h = chash and cp = cp]
    by (simp add: gone_job)
  have gone: "keeps S (\<lambda>(kb', e). S (status kb')) (cancelStaleJob L kb j)" for j
    unfolding cancelStaleJob_def
    by (auto simp: gone_job simp del: wp_pbind intro!: keeps_quiet_then quiet_helpers keeps_statusUpdate)
  have "keeps S (\<lambda>(kb', e). S (status kb')) (clearStuckJob L kb j chash)" for j
    unfolding clearStuckJob_def
    by (auto simp: stuck_job simp del: wp_pbind intro!: keeps_quiet_then quiet_helpers keeps_statusUpdate)
  with gone c show ?thesis
    unfolding guardActiveJob_def by (auto split: sum.split)
qed

lemma keeps_reconcileActiveJob:
  "S (status kb) \<Longrightarrow> keeps S (active_ok S) (reconcileActiveJob L kb eff hash secretsHash)"
  unfolding reconcileActiveJob_def
  by (auto simp: cleared keeps_finalizeIngest keeps_finalizeEval simp del: wp_pbind
      intro!: keeps_bind [OF keeps_statusUpdate] split: sum.split)

lemma keeps_dropOverride: "S (status kb) \<Longrightarrow> keeps S (\<lambda>kb. S (status kb)) (dropOverride L kb chash)"
  unfolding dropOverride_def by (auto simp: dropped simp del: wp_pbind intro!: keeps_bind [OF keeps_duration])

end

section \<open>With the launch of new work\<close>

locale status_law_launch = status_law +
  assumes rounds [simp]: "S (s\<lparr>evalRound := n\<rparr>) = S s" "S (s\<lparr>ingestRound := n\<rparr>) = S s"
    and launched: "S s \<Longrightarrow> S (s\<lparr>activeJob := j, activeJobStartedAt := Some st\<rparr>)"
begin

section \<open>Starting work\<close>

lemma keeps_launch_job:
  assumes "S (status kb)" "\<And>j. keeps S (\<lambda>_. True) (k j)"
  shows "keeps S (\<lambda>_. True) (launch_job L kb j specJSON extra k)"
  unfolding launch_job_def
  by (auto simp: keeps_quota keeps_too_large assms Let_def simp del: wp_pbind intro!: keeps_quiet_then quiet_helpers
      split: option.split sum.split)

lemma keeps_ingest_started:
  "S (status kb) \<Longrightarrow> keeps S (\<lambda>_. True) (ingest_started L kb j mode rsn)"
  unfolding ingest_started_def Let_def
  by (rule keeps_quiet_then, rule quiet_helpers) (simp add: launched keeps_save_then)

lemma keeps_eval_started: "S (status kb) \<Longrightarrow> keeps S (\<lambda>_. True) (eval_started L kb j)"
  unfolding eval_started_def Let_def by (simp add: launched keeps_save_then)

lemma keeps_record_run:
  "S (status kb) \<Longrightarrow> keeps S (\<lambda>_. True) k \<Longrightarrow> keeps S (\<lambda>_. True) (record_run L kb ir k)"
  unfolding record_run_def Let_def by (auto simp: keeps_quota split: option.split sum.split)

lemma keeps_startIngest: "S (status kb) \<Longrightarrow> keeps S (\<lambda>_. True) (startIngest L kb eff hash secretsHash rsn)"
  unfolding startIngest_def Let_def
  by (rule keeps_quiet_then, rule never_buildIngestJob)
    (auto intro!: keeps_launch_job keeps_record_run keeps_ingest_started split: sum.split)

lemma keeps_startEval: "S (status kb) \<Longrightarrow> keeps S (\<lambda>_. True) (startEval L kb eff hash secretsHash)"
  unfolding startEval_def Let_def
  by (rule keeps_quiet_then, rule never_buildEvalJob)
    (auto intro!: keeps_launch_job keeps_eval_started split: sum.split option.split)

lemma keeps_decideWork: "S (status kb) \<Longrightarrow> keeps S (\<lambda>_. True) (decideWork L kb eff chash secretsHash)"
proof -
  have quiet: "never (\<lambda>e. status_write e \<noteq> None) (needsIngest L kb chash)" "never (\<lambda>e. status_write e \<noteq> None) (evalDue L kb)"
    "never (\<lambda>e. status_write e \<noteq> None) (requeueFor ts)" for ts
    by (simp_all add: never_needsIngest evalDue_def requeueFor_def split: option.split)
  assume "S (status kb)"
  then show ?thesis
    unfolding decideWork_def
    by (auto simp: keeps_startIngest keeps_startEval simp del: wp_pbind intro!: keeps_quiet_then quiet)
qed

lemma keeps_reconcileWork: "S (status kb) \<Longrightarrow> keeps S (\<lambda>_. True) (reconcileWork L kb eff chash secretsHash)"
proof -
  assume c: "S (status kb)"
  have work: "keeps S (\<lambda>_. True) (pbind (reconcileActiveJob L k eff chash secretsHash)
      (\<lambda>(kb, res, handled, e). if e \<noteq> None \<or> handled then Done (res, e) else decideWork L kb eff chash secretsHash))"
    if "S (status k)" for k
    by (rule keeps_bind [OF keeps_reconcileActiveJob [OF that]]) (auto simp: keeps_decideWork)
  show ?thesis
    unfolding reconcileWork_def
  proof (rule keeps_bind [OF keeps_guardActiveJob [OF c]], goal_cases)
    case (1 a)
    obtain kb' e where a: "a = (kb', e)" by (cases a)
    from 1 work [of kb'] show ?case
      by (cases e) (simp_all add: a keeps_decideWork del: wp_pbind)
  qed
qed

lemma keeps_reconcileActive: "S (status kb) \<Longrightarrow> keeps S (\<lambda>_. True) (reconcileActive L kb)"
proof -
  assume c: "S (status kb)"
  have "keeps S (\<lambda>_. True) (pbind (dropOverride L k chash) (\<lambda>kb. reconcileWork L kb (effectiveChunking kb) chash h))"
    if "S (status k)" for k chash h
    by (rule keeps_bind [OF keeps_dropOverride [OF that]]) (rule keeps_reconcileWork)
  with c show ?thesis
    unfolding reconcileActive_def Let_def
    by (intro keeps_quiet_then [OF quiet_secrets]) simp
qed

lemma keeps_reconcileLive: "S (status kb) \<Longrightarrow> keeps S (\<lambda>_. True) (reconcileLive L kb)"
proof -
  assume c: "S (status kb)"
  have quiet: "never (\<lambda>e. status_write e \<noteq> None) (validateCustomWorkerServiceAccount L kb)"
    "never (\<lambda>e. status_write e \<noteq> None) (ensureVectorIndex L kb)"
    by (rule never_validate, simp) (simp add: ensureVectorIndex_def)
  have park: "keeps S (\<lambda>_. True) (park_on_quota L kb msg nt e)" for msg nt e
    using c by (simp add: park_on_quota_def keeps_quota)
  have "keeps S (\<lambda>_. True) (reconcileSuspended L kb)"
    using c by (simp add: reconcileSuspended_def keeps_save_then)
  with c park show ?thesis
    unfolding reconcileLive_def
    by (auto simp: keeps_save_then keeps_reconcileActive simp del: wp_pbind intro!: keeps_quiet_then quiet quiet_helpers
        split: option.split)
qed

lemma keeps_reconcile_kb: "S (status kb) \<Longrightarrow> keeps S (\<lambda>_. True) (reconcile_kb L kb)"
proof -
  assume "S (status kb)"
  then show ?thesis
    using keeps_quiet [OF quiet_delete] by (simp add: reconcile_kb_def keeps_reconcileLive)
qed

end

end
