(* ===== verification/Status_Invariant.thy ===== *)
theory Status_Invariant
  imports Status_Laws
begin

text \<open>
  What the fields of a KnowledgeBase's status promise each other, as an invariant of everything the
  controller and the users of the API can do in any order and on any cached copy of the object; and
  the Job in flight, which a status names only once the Job exists.
\<close>

section \<open>The invariant\<close>

definition consistent :: "knowledge_base_status \<Rightarrow> bool" where
  "consistent s \<longleftrightarrow>
     (activeJob s \<noteq> '''' \<longrightarrow> activeJobStartedAt s \<noteq> None) \<and>
     (pendingRetune s \<longrightarrow> status_effectiveChunking s \<noteq> None) \<and>
     (bestRecallPercent s \<noteq> 0 \<longrightarrow> bestChunking s \<noteq> None) \<and>
     (lastFailedSpecHash s \<noteq> '''' \<longrightarrow> lastFailureTime s \<noteq> None) \<and>
     (lastCheckpoint s \<noteq> [] \<longrightarrow> lastFailureTime s \<noteq> None) \<and>
     (indexedChunks s \<noteq> 0 \<longrightarrow> lastIndexedTime s \<noteq> None) \<and>
     (observedSpecHash s \<noteq> '''' \<longrightarrow> lastIndexedTime s \<noteq> None) \<and>
     (lastIndexedTime s \<noteq> None \<longrightarrow> observedEmbedding s \<noteq> None)"

lemma consistent_setCondition [simp]: "consistent (status (setCondition L kb t s rsn m)) \<longleftrightarrow> consistent (status kb)"
  by (simp add: consistent_def)

text \<open>The fields the invariant does not mention, and the groups of fields that are written together.\<close>

lemma consistent_other [simp]:
  "consistent (s\<lparr>phase := p\<rparr>) = consistent s" "consistent (s\<lparr>observedSecretsHash := h\<rparr>) = consistent s"
  "consistent (s\<lparr>autoTuneAttempts := n\<rparr>) = consistent s" "consistent (s\<lparr>autoTuneStartedAt := t\<rparr>) = consistent s"
  "consistent (s\<lparr>evalRound := n\<rparr>) = consistent s" "consistent (s\<lparr>evaluation := ev\<rparr>) = consistent s"
  "consistent (s\<lparr>ingestRound := n\<rparr>) = consistent s" "consistent (s\<lparr>deferCronIngest := d\<rparr>) = consistent s"
  by (simp_all add: consistent_def)

lemma consistent_groups:
  "consistent s \<Longrightarrow> consistent (s\<lparr>activeJob := '''', activeJobStartedAt := None\<rparr>)"
  "consistent s \<Longrightarrow> consistent (s\<lparr>activeJob := j, activeJobStartedAt := Some t\<rparr>)"
  "consistent s \<Longrightarrow> consistent (s\<lparr>status_effectiveChunking := Some c, pendingRetune := True\<rparr>)"
  "consistent s \<Longrightarrow> consistent (s\<lparr>status_effectiveChunking := Some c, autoTuneAttempts := n, pendingRetune := True, evaluation := None\<rparr>)"
  "consistent s \<Longrightarrow> consistent (s\<lparr>bestChunking := Some c, bestRecallPercent := r\<rparr>)"
  "consistent s \<Longrightarrow> consistent (s\<lparr>bestChunking := None, bestRecallPercent := 0\<rparr>)"
  "consistent s \<Longrightarrow> consistent (s\<lparr>lastFailureTime := Some t, lastFailedSpecHash := h, lastCheckpoint := cp\<rparr>)"
  "consistent s \<Longrightarrow> consistent (s\<lparr>status_effectiveChunking := None, autoTuneAttempts := 0, bestChunking := None,
     bestRecallPercent := 0, pendingRetune := False\<rparr>)"
  by (simp_all add: consistent_def)

lemma consistent_ended:
  "consistent (status kb) \<Longrightarrow> consistent (status (ingest_failed_status L kb checkpoint hash now))"
  "consistent (status (ingest_succeeded_status L kb result eff hash secretsHash now)) \<longleftrightarrow>
     (bestRecallPercent (status kb) \<noteq> 0 \<longrightarrow> bestChunking (status kb) \<noteq> None)"
  by (simp_all add: consistent_def ingest_failed_status_def ingest_succeeded_status_def Let_def)

lemma consistent_best: "consistent s \<Longrightarrow> bestRecallPercent s \<noteq> 0 \<longrightarrow> bestChunking s \<noteq> None"
  by (simp add: consistent_def)

lemma consistent_tuned: "consistent (status kb) \<Longrightarrow> consistent (status (tuned t kb))"
  by (simp add: tuned_def Let_def consistent_def)

lemma consistent_recordBest: "consistent (status kb) \<Longrightarrow> consistent (status (recordBest kb recall))"
  by (simp add: recordBest_def consistent_groups)

lemma consistent_settleOnBest: "consistent (status kb) \<Longrightarrow> consistent (status (fst (settleOnBest kb)))"
  by (simp add: settleOnBest_def consistent_groups split: option.split)


interpretation consistent: status_law_launch consistent
  by unfold_locales
    (simp_all add: consistent_groups consistent_ended consistent_best consistent_tuned consistent_recordBest consistent_settleOnBest)

section \<open>Every reachable object\<close>

text \<open>
  The objects a pass may be handed: fresh ones, ones whose spec and metadata a user or another
  controller changed, and ones that carry a status which a pass - over any object reached so far,
  the current one or a stale copy from the cache - tried to write.
\<close>

inductive reached :: "lib \<Rightarrow> knowledge_base \<Rightarrow> bool" for L :: lib where
  created: "reached L \<lparr>kb_meta = m, spec = sp, status = zero_status\<rparr>"
| edited: "reached L kb \<Longrightarrow> reached L (kb\<lparr>kb_meta := m, spec := sp\<rparr>)"
| written: "reached L kb \<Longrightarrow> reached L seen \<Longrightarrow> runs (reconcile_kb L seen) tr r \<Longrightarrow>
    EvStatusUpdate k st a \<in> set tr \<Longrightarrow> reached L (kb\<lparr>status := st\<rparr>)"

text \<open>
  C4. In every KnowledgeBase reached by passes, edits and stale reads in any order, the status is
  consistent: a Job in flight has a start time (so its deadline applies), an owed re-index has a
  chunking to use, a best recall its configuration, a failed fingerprint or checkpoint the time of
  the failure (so the delay applies), and whatever is recorded of an index its time and the
  embedding it was built with.
\<close>

theorem reached_status_consistent:
  assumes "reached L kb"
  shows "consistent (status kb)"
  using assms
proof induction
  case (created m sp)
  then show ?case by (simp add: consistent_def)
next
  case (edited kb m sp)
  then show ?case by simp
next
  case (written kb seen tr r k st a)
  from wpD [OF consistent.keeps_reconcile_kb [OF written.IH(2)] written.hyps(3)] have "writes consistent tr"
    by (simp add: good_def)
  from writesD [OF this written.hyps(4)] show ?case by simp
qed

text \<open>A KnowledgeBase whose worker account is missing is parked; the status the pass writes is reached.\<close>

definition accountless_kb :: knowledge_base where
  "accountless_kb = demo_kb\<lparr>spec := demo_spec\<lparr>ks_ingestion := (ks_ingestion demo_spec)\<lparr>in_serviceAccountName := ''sa''\<rparr>\<rparr>\<rparr>"

theorem reached_status_consistent_witness:
  "\<exists>st. reached demo_lib (accountless_kb\<lparr>status := st\<rparr>) \<and> phase st = PhasePending \<and> consistent st"
proof -
  have start: "reached demo_lib accountless_kb"
    using reached.created [of demo_lib "kb_meta demo_kb" "spec accountless_kb"]
    by (simp add: accountless_kb_def demo_kb_def)
  let ?tr = "fst (exec (empty_cluster 0) (reconcile_kb demo_lib accountless_kb))"
  have "\<exists>k st a. EvStatusUpdate k st a \<in> set ?tr \<and> phase st = PhasePending"
    by (simp add: reconcile_kb_def reconcileLive_def validateCustomWorkerServiceAccount_def save_then_def statusUpdate_def
        accountless_kb_def demo_kb_defs kb_finalizers_def kb_finalizer_def demo_lib_def nothing_def exec_simps)
  then obtain k st a where st: "EvStatusUpdate k st a \<in> set ?tr" "phase st = PhasePending" by blast
  from reached.written [OF start start runs_exec st(1)] have "reached demo_lib (accountless_kb\<lparr>status := st\<rparr>)" .
  with reached_status_consistent [OF this] st(2) show ?thesis by auto
qed

section \<open>The Job in flight is one that exists\<close>

text \<open>
  Up to the decision on new work a pass changes the Job in flight only to none, and leaves the rounds
  alone.
\<close>

definition job_kept :: "knowledge_base_status \<Rightarrow> knowledge_base_status \<Rightarrow> bool" where
  "job_kept s0 s \<longleftrightarrow> (activeJob s = '''' \<or> activeJob s = activeJob s0) \<and>
     ingestRound s = ingestRound s0 \<and> evalRound s = evalRound s0"

lemma job_kept_started:
  "job_kept s0 (status (ingest_failed_status L kb cp hash now)) \<longleftrightarrow>
     ingestRound (status kb) = ingestRound s0 \<and> evalRound (status kb) = evalRound s0"
  "job_kept s0 (status (ingest_succeeded_status L kb result eff hash secretsHash now)) \<longleftrightarrow>
     ingestRound (status kb) = ingestRound s0 \<and> evalRound (status kb) = evalRound s0"
  by (simp_all add: job_kept_def ingest_failed_status_def ingest_succeeded_status_def Let_def)

interpretation kept: status_law "job_kept s0" for s0
  by unfold_locales
    (simp_all add: job_kept_started, simp_all add: job_kept_def tuned_def recordBest_def settleOnBest_def Let_def split: option.split)

text \<open>What a pass promises of a status that names another Job.\<close>

definition new_round :: "knowledge_base_status \<Rightarrow> job \<Rightarrow> knowledge_base_status \<Rightarrow> bool" where
  "new_round s0 j st \<longleftrightarrow> activeJobStartedAt st \<noteq> None \<and>
     (jobType j = jobTypeIngest \<and> phase st = PhaseIngesting \<and> ingestRound st = wrap64 (ingestRound s0 + 1) \<and> \<not> deferCronIngest st \<or>
      jobType j = jobTypeEval \<and> evalRound st = wrap64 (evalRound s0 + 1))"

definition new_job_exists :: "knowledge_base_status \<Rightarrow> event list \<Rightarrow> bool" where
  "new_job_exists s0 tr \<longleftrightarrow>
     (\<forall>pre k st a post. tr = pre @ EvStatusUpdate k st a # post \<longrightarrow> activeJob st \<noteq> '''' \<longrightarrow> activeJob st \<noteq> activeJob s0 \<longrightarrow>
        (\<exists>j. EvCreate (OJob j) None \<in> set pre \<and> activeJob st = job_name j \<and> new_round s0 j st))"

lemma new_job_exists_kept: "writes (job_kept s0) tr \<Longrightarrow> new_job_exists s0 tr"
  unfolding new_job_exists_def job_kept_def by (fastforce dest: writesD)

lemma new_job_exists_append:
  assumes "writes (job_kept s0) tr" "new_job_exists s0 tr'"
  shows "new_job_exists s0 (tr @ tr')"
  unfolding new_job_exists_def
proof (intro allI impI)
  fix pre k st a post
  assume tr: "tr @ tr' = pre @ EvStatusUpdate k st a # post" and st: "activeJob st \<noteq> ''''" "activeJob st \<noteq> activeJob s0"
  have "EvStatusUpdate k st a \<notin> set tr"
  proof
    assume "EvStatusUpdate k st a \<in> set tr"
    from writesD [OF assms(1) this] st show False by (simp add: job_kept_def)
  qed
  then obtain pre' where "pre = tr @ pre'" "tr' = pre' @ EvStatusUpdate k st a # post"
    using tr by (rule absent_split)
  with assms(2) st show "\<exists>j. EvCreate (OJob j) None \<in> set pre \<and> activeJob st = job_name j \<and> new_round s0 j st"
    unfolding new_job_exists_def by (metis Un_iff set_append)
qed

lemma wp_new_job_bind:
  assumes "keeps (job_kept s0) R p" "\<And>a. R a \<Longrightarrow> wp (f a) (\<lambda>tr r. new_job_exists s0 tr)"
  shows "wp (pbind p f) (\<lambda>tr r. new_job_exists s0 tr)"
proof (rule wp_bindI [OF assms(1)], goal_cases)
  case (1 tr a)
  then show ?case
    by (intro wp_mono [OF assms(2)] new_job_exists_append) (auto dest: goodD)
qed (auto intro: new_job_exists_kept dest: goodD)

lemma wp_new_job_kept: "keeps (job_kept s0) R p \<Longrightarrow> wp p (\<lambda>tr r. new_job_exists s0 tr)"
  by (erule wp_mono) (simp add: good_def new_job_exists_kept)

lemma new_job_exists_launch:
  assumes "names_new made kb tr" "job_kept s0 (status kb)" "\<And>j st. made j st \<Longrightarrow> new_round s0 j st"
  shows "new_job_exists s0 tr"
  unfolding new_job_exists_def
proof (intro allI impI)
  fix pre k st a post
  assume tr: "tr = pre @ EvStatusUpdate k st a # post" and st: "activeJob st \<noteq> ''''" "activeJob st \<noteq> activeJob s0"
  then have "activeJob st \<noteq> activeJob (status kb)" using assms(2) by (auto simp: job_kept_def)
  with tr assms(1) obtain j where "EvCreate (OJob j) None \<in> set pre" "activeJob st = job_name j" "made j st"
    unfolding names_new_def by blast
  then show "\<exists>j. EvCreate (OJob j) None \<in> set pre \<and> activeJob st = job_name j \<and> new_round s0 j st"
    using assms(3) by blast
qed

lemma decideWork_new_job:
  assumes "owner_refs_documented L" "job_kept s0 (status kb)"
  shows "wp (decideWork L kb eff chash secretsHash) (\<lambda>tr r. new_job_exists s0 tr)"
proof -
  from assms(2) have s0: "activeJob (status kb) = '''' \<or> activeJob (status kb) = activeJob s0"
    "ingestRound (status kb) = ingestRound s0" "evalRound (status kb) = evalRound s0" by (simp_all add: job_kept_def)
  have ingest: "wp (startIngest L kb eff chash secretsHash rsn) (\<lambda>tr r. new_job_exists s0 tr)" for rsn
    by (rule wp_mono [OF startIngest_names_new [OF assms(1)]], erule new_job_exists_launch, rule assms(2))
      (simp add: new_round_def s0)
  have eval: "wp (startEval L kb eff chash secretsHash) (\<lambda>tr r. new_job_exists s0 tr)"
    by (rule wp_mono [OF startEval_names_new [OF assms(1)]], erule new_job_exists_launch, rule assms(2))
      (simp add: new_round_def s0)
  have quiet: "keeps (job_kept s0) (\<lambda>a. True) (needsIngest L kb chash)" "keeps (job_kept s0) (\<lambda>a. True) (evalDue L kb)"
    "keeps (job_kept s0) (\<lambda>a. True) (Now Done)"
    by (rule kept.keeps_quiet; simp add: never_needsIngest evalDue_def split: option.split)+
  have idle: "wp (Now (\<lambda>now. pbind (requeueFor (f now)) (\<lambda>next. Done (x next)))) (\<lambda>tr r. new_job_exists s0 tr)" for f x
    by (rule wp_new_job_kept [OF kept.keeps_quiet]) (simp add: requeueFor_def Let_def)
  have evals: "wp (pbind (evalDue L kb) (\<lambda>due. if due then startEval L kb eff chash secretsHash else Now (\<lambda>now.
        pbind (requeueFor (f now)) (\<lambda>next. Done (x next))))) (\<lambda>tr r. new_job_exists s0 tr)" for f x
    by (rule wp_new_job_bind [OF quiet(2)]) (simp add: idle eval del: wp.simps)
  have done_: "wp (Done x) (\<lambda>tr r. new_job_exists s0 tr)" for x :: reconcile_result
    by (simp add: new_job_exists_kept)
  have work: "wp (pbind (needsIngest L kb chash) (\<lambda>(rsn, need). if need then startIngest L kb eff chash secretsHash rsn
      else pbind (evalDue L kb) (\<lambda>due. if due then startEval L kb eff chash secretsHash else Now (\<lambda>now.
        pbind (requeueFor (f now)) (\<lambda>next. Done (x next)))))) (\<lambda>tr r. new_job_exists s0 tr)" for f x
    by (rule wp_new_job_bind [OF quiet(1)]) (simp add: ingest evals split: prod.split del: wp.simps wp_pbind)
  have "wp (pbind (Now Done) k) (\<lambda>tr r. new_job_exists s0 tr)" if "\<And>t. wp (k t) (\<lambda>tr r. new_job_exists s0 tr)" for k
    using that by (rule wp_new_job_bind [OF quiet(3)])
  note clock = this [unfolded pbind.simps]
  show ?thesis
    unfolding decideWork_def
    by (rule clock) (simp add: done_ work del: wp.simps wp_pbind)
qed

lemma reconcileWork_new_job:
  assumes "owner_refs_documented L" "job_kept s0 (status kb)"
  shows "wp (reconcileWork L kb eff chash secretsHash) (\<lambda>tr r. new_job_exists s0 tr)"
proof -
  have done_: "wp (Done x) (\<lambda>tr r. new_job_exists s0 tr)" for x :: reconcile_result
    by (simp add: new_job_exists_kept)
  have active: "wp (pbind (reconcileActiveJob L kb' eff chash secretsHash) (\<lambda>(kb, res, handled, e).
      if e \<noteq> None \<or> handled then Done (res, e) else decideWork L kb eff chash secretsHash)) (\<lambda>tr r. new_job_exists s0 tr)"
    if "job_kept s0 (status kb')" for kb'
    by (rule wp_new_job_bind [OF kept.keeps_reconcileActiveJob [OF that]])
      (auto simp: done_ decideWork_new_job [OF assms(1)] simp del: wp.simps)
  show ?thesis
    unfolding reconcileWork_def
  proof (rule wp_new_job_bind [OF kept.keeps_guardActiveJob [OF assms(2)]], goal_cases)
    case (1 a)
    obtain kb' e where a: "a = (kb', e)" by (cases a)
    with 1 have "job_kept s0 (status kb')" by simp
    then show ?case
      unfolding a prod.case
      by (cases e) (simp_all only: option.case done_ active decideWork_new_job [OF assms(1)] split: if_split, simp)
  qed
qed

text \<open>Before the decision on new work the pass keeps the Job in flight.\<close>

lemma reconcileLive_new_job:
  assumes "owner_refs_documented L"
  shows "wp (reconcileLive L kb) (\<lambda>tr r. new_job_exists (status kb) tr)"
proof -
  let ?s = "status kb"
  have start: "job_kept ?s ?s" by (simp add: job_kept_def)
  note save = wp_new_job_kept [OF kept.keeps_save_then]
  have work: "wp (pbind (dropOverride L k chash) (\<lambda>kb. reconcileWork L kb (effectiveChunking kb) chash h))
      (\<lambda>tr r. new_job_exists ?s tr)" if "job_kept ?s (status k)" for k chash h
    by (rule wp_new_job_bind [OF kept.keeps_dropOverride [OF that]]) (rule reconcileWork_new_job [OF assms])
  have active: "wp (reconcileActive L kb) (\<lambda>tr r. new_job_exists ?s tr)"
    unfolding reconcileActive_def Let_def
    by (rule wp_new_job_bind [OF kept.keeps_quiet [OF quiet_secrets]]) (simp add: work start del: wp_pbind)
  have quiet: "keeps (job_kept ?s) (\<lambda>a. True) (validateCustomWorkerServiceAccount L kb)"
    "keeps (job_kept ?s) (\<lambda>a. True) (ensureVectorIndex L kb)" "keeps (job_kept ?s) (\<lambda>a. True) (ensureWorkerIdentity L kb [])"
    by (rule kept.keeps_quiet, rule never_validate, simp, rule kept.keeps_quiet, simp add: ensureVectorIndex_def,
      rule kept.keeps_quiet [OF quiet_helpers(8)])
  have park: "wp (park_on_quota L kb msg nt e) (\<lambda>tr r. new_job_exists ?s tr)" for msg nt e
    by (rule wp_new_job_kept [where R = "\<lambda>_. True"]) (simp add: park_on_quota_def kept.keeps_quota start)
  have suspended: "wp (reconcileSuspended L kb) (\<lambda>tr r. new_job_exists ?s tr)"
    by (rule wp_new_job_kept [where R = "\<lambda>_. True"]) (simp add: reconcileSuspended_def kept.keeps_save_then start)
  have parked: "wp (save_then (setCondition L (upd_status (\<lambda>s. s\<lparr>phase := PhasePending\<rparr>) kb) ct cs rsn m) (\<lambda>kb. Done x))
      (\<lambda>tr r. new_job_exists ?s tr)" for ct cs rsn m x
    by (rule wp_new_job_kept [where R = "\<lambda>_. True"]) (simp add: kept.keeps_save_then start)
  show ?thesis
    unfolding reconcileLive_def
    by (auto simp: park suspended parked active simp del: wp_pbind intro!: wp_new_job_bind [OF quiet(1)]
        wp_new_job_bind [OF quiet(2)] wp_new_job_bind [OF quiet(3)] split: option.split)
qed

text \<open>
  C7. A Job is named only once it exists: whenever a pass of the reconciler - on any path, with any
  answers - writes a status that names another Job in flight than the status it was given, the
  creation of that Job was accepted earlier in the same pass, and the status has its start time. It is
  the ingestion Job of the next round, the phase is Ingesting and the deferral is consumed, or it is
  the evaluation Job of the next evaluation round.
\<close>

theorem job_exists_before_status_names_it:
  assumes "owner_refs_documented L" "runs (reconcile_kb L kb) tr r" "tr = pre @ EvStatusUpdate k st a # post"
    and "activeJob st \<noteq> ''''" "activeJob st \<noteq> activeJob (status kb)"
  shows "\<exists>j. EvCreate (OJob j) None \<in> set pre \<and> activeJob st = job_name j \<and> activeJobStartedAt st \<noteq> None \<and>
     (jobType j = jobTypeIngest \<and> phase st = PhaseIngesting \<and>
        ingestRound st = wrap64 (ingestRound (status kb) + 1) \<and> \<not> deferCronIngest st \<or>
      jobType j = jobTypeEval \<and> evalRound st = wrap64 (evalRound (status kb) + 1))"
proof -
  have delete: "wp (reconcileDelete L kb) (\<lambda>tr r. new_job_exists (status kb) tr)"
    by (rule wp_new_job_kept [OF kept.keeps_quiet [OF quiet_delete]])
  have "wp (reconcile_kb L kb) (\<lambda>tr r. new_job_exists (status kb) tr)"
    using reconcileLive_new_job [OF assms(1), of kb] delete by (simp add: reconcile_kb_def new_job_exists_kept)
  then have "new_job_exists (status kb) tr" using assms(2) by (rule wpD)
  then show ?thesis using assms(3-5) unfolding new_job_exists_def new_round_def by blast
qed

definition names_other :: "event \<Rightarrow> bool" where
  "names_other e \<longleftrightarrow> (\<exists>k st a. e = EvStatusUpdate k st a \<and> activeJob st \<noteq> '''' \<and> activeJob st \<noteq> ''old'')"

lemma demo_job_names: "ingestJobName demo_lib kb eff h \<noteq> ''old''"
proof -
  have "CHR ''-'' \<in> set (ingestJobName demo_lib kb eff h)"
    by (simp add: ingestJobName_def trunc_name_def Let_def)
  then show ?thesis by auto
qed

lemma flying_names: "\<exists>e \<in> set (fst (exec (empty_cluster 0) (reconcile_kb demo_lib (flying_kb '''')))). names_other e"
  by (rule flying_pass, rule flying_work)
    (simp_all add: launch_defs names_other_def new_meta_def ingestJobName_nonempty demo_job_names)

theorem job_exists_before_status_names_it_witness:
  "\<exists>pre k st a post j. fst (exec (empty_cluster 0) (reconcile_kb demo_lib (flying_kb ''''))) = pre @ EvStatusUpdate k st a # post \<and>
     EvCreate (OJob j) None \<in> set pre \<and> activeJob st = job_name j"
proof -
  have "\<exists>k st a. EvStatusUpdate k st a \<in> set (fst (exec (empty_cluster 0) (reconcile_kb demo_lib (flying_kb '''')))) \<and>
      activeJob st \<noteq> '''' \<and> activeJob st \<noteq> activeJob (status (flying_kb ''''))"
    using flying_names by (auto simp: names_other_def)
  then obtain pre k st a post where tr: "fst (exec (empty_cluster 0) (reconcile_kb demo_lib (flying_kb ''''))) = pre @ EvStatusUpdate k st a # post"
    and st: "activeJob st \<noteq> ''''" "activeJob st \<noteq> activeJob (status (flying_kb ''''))"
    by (metis split_list)
  from job_exists_before_status_names_it [OF demo_lib_owner_refs runs_exec tr st] tr show ?thesis by blast
qed

end
