(* ===== verification/Credentials.thy ===== *)
theory Credentials
  imports KB_Reconcile
begin

text \<open>
  The three places that list the Secrets of a KnowledgeBase - the environment of the worker Pods
  (\<open>jobs.go\<close>), the fingerprint (\<open>decision_helpers.go\<close>) and the watch on Secrets
  (\<open>knowledgebase_controller.go\<close>) - agree.
\<close>

section \<open>The watch and the fingerprint\<close>

lemma set_opt_ref: "lr \<in> set (opt_ref label ref) \<longleftrightarrow> (\<exists>r. ref = Some r \<and> lr = (label, r))"
  by (auto simp: opt_ref_def split: option.split)

lemma referencesSecret_iff: "referencesSecret kb name \<longleftrightarrow> (\<exists>lr \<in> set (secret_refs kb). skr_name (snd lr) = name)"
proof -
  have src: "((case src_github s of None \<Rightarrow> False | Some g \<Rightarrow> (case gh_tokenSecretRef g of None \<Rightarrow> False | Some r \<Rightarrow> skr_name r = name)) \<or>
      (case src_s3 s of None \<Rightarrow> False | Some b \<Rightarrow>
        (case s3_accessKeySecretRef b of None \<Rightarrow> False | Some r \<Rightarrow> skr_name r = name) \<or>
        (case s3_secretKeySecretRef b of None \<Rightarrow> False | Some r \<Rightarrow> skr_name r = name)))
      \<longleftrightarrow> (\<exists>lr \<in> set (source_refs s). skr_name (snd lr) = name)" for s
    by (cases "src_github s"; cases "src_s3 s") (auto simp: source_refs_def opt_ref_def split: option.split)
  show ?thesis
    unfolding referencesSecret_def Let_def src secret_refs_def list_ex_iff
    by (auto simp: opt_ref_def split: option.splits)
qed

section \<open>The Pods\<close>

lemma source_credentials: "e \<in> set (sourceEnv s) \<Longrightarrow> env_secret e = Some r \<Longrightarrow> r \<in> snd ` set (source_refs s)"
  by (fastforce simp: sourceEnv_def source_refs_def opt_ref_def secretEnv_def image_iff split: option.splits)

lemma credentials_hashed: "e \<in> set (credentialEnv kb) \<Longrightarrow> env_secret e = Some r \<Longrightarrow> r \<in> snd ` set (secret_refs kb)"
  using source_credentials
  by (fastforce simp: credentialEnv_def secret_refs_def opt_ref_def secretEnv_def image_iff split: option.splits)

definition only_hashed :: "knowledge_base \<Rightarrow> job \<Rightarrow> bool" where
  "only_hashed kb j \<longleftrightarrow> set (pod_secret_refs (job_pod j)) \<subseteq> snd ` set (secret_refs kb)"

lemma only_hashed_updates [simp]:
  "only_hashed kb (set_job_label k v j) = only_hashed kb j" "only_hashed kb (j\<lparr>job_backoffLimit := n\<rparr>) = only_hashed kb j"
  by (simp_all add: only_hashed_def set_job_label_def)

lemma wp_baseJob_hashed:
  assumes "\<forall>e \<in> set extraEnv. env_secret e = None"
  shows "wp (baseJob L kb name ty hash secretsHash cmName args extraEnv) (\<lambda>tr r. \<forall>j. r = Some (Inr j) \<longrightarrow> only_hashed kb j)"
proof -
  let ?env = "baseEnv L kb name @ traceEnv L @ scratchEnv @ extraEnv @ credentialEnv kb"
  have "r \<in> snd ` set (secret_refs kb)" if "e \<in> set ?env" "env_secret e = Some r" for e r
    using that assms credentials_hashed [of e kb r]
    by (auto simp: baseEnv_def traceEnv_def scratchEnv_def plainEnv_def)
  then have "set (List.map_filter env_secret ?env) \<subseteq> snd ` set (secret_refs kb)"
    unfolding List.map_filter_def by fastforce
  then show ?thesis
    unfolding baseJob_def Let_def
    by (simp add: wp_scratchVolume only_hashed_def pod_secret_refs_def del: set_append image_subset_iff split: sum.split)
qed

lemma builders_hashed:
  "wp (buildIngestJob L kb hash secretsHash mode eff) (\<lambda>tr r. \<forall>j s. r = Some (Inr (j, s)) \<longrightarrow> only_hashed kb j)"
  "wp (buildEvalJob L kb hash secretsHash round eff) (\<lambda>tr r. \<forall>j s. r = Some (Inr (j, s)) \<longrightarrow> only_hashed kb j)"
  "wp (buildCleanupJob L kb secretsHash) (\<lambda>tr r. \<forall>j s. r = Some (Inr (j, s)) \<longrightarrow> only_hashed kb j)"
  unfolding buildIngestJob_def buildEvalJob_def buildCleanupJob_def Let_def
  by (auto simp: plainEnv_def split: sum.split option.split simp del: wp_pbind intro!: wp_bindI [OF wp_baseJob_hashed])

text \<open>
  C19. Every credential a worker Pod gets is tracked: it is one of the references the fingerprint
  reads, and a change of its Secret requests a pass for the KnowledgeBase, so that a rotation is
  noticed and leads to a new Job.
\<close>

theorem worker_credentials_are_tracked:
  assumes "runs (buildIngestJob L kb hash secretsHash mode eff) tr (Some (Inr (j, s))) \<or>
           runs (buildEvalJob L kb hash secretsHash round eff) tr (Some (Inr (j, s))) \<or>
           runs (buildCleanupJob L kb secretsHash) tr (Some (Inr (j, s)))"
    and "ref \<in> set (pod_secret_refs (job_pod j))" "kb \<in> set listed"
  shows "(\<exists>label. (label, ref) \<in> set (secret_refs kb)) \<and> kb_request kb \<in> set (secretRequests (Inr listed) (skr_name ref))"
proof -
  have "only_hashed kb j"
    using assms(1)
  proof (elim disjE)
    assume "runs (buildIngestJob L kb hash secretsHash mode eff) tr (Some (Inr (j, s)))"
    from wpD [OF builders_hashed(1) this] show ?thesis by blast
  next
    assume "runs (buildEvalJob L kb hash secretsHash round eff) tr (Some (Inr (j, s)))"
    from wpD [OF builders_hashed(2) this] show ?thesis by blast
  next
    assume "runs (buildCleanupJob L kb secretsHash) tr (Some (Inr (j, s)))"
    from wpD [OF builders_hashed(3) this] show ?thesis by blast
  qed
  with assms(2) obtain label where "(label, ref) \<in> set (secret_refs kb)"
    by (force simp: only_hashed_def)
  moreover from this have "referencesSecret kb (skr_name ref)"
    unfolding referencesSecret_iff by force
  ultimately show ?thesis
    using assms(3) by (auto simp: secretRequests_def)
qed

text \<open>A KnowledgeBase with a key for its embedding.\<close>

definition keyed_kb :: knowledge_base where
  "keyed_kb = demo_kb\<lparr>spec := demo_spec\<lparr>ks_embedding := (ks_embedding demo_spec)
     \<lparr>emb_apiKeySecretRef := Some \<lparr>skr_name = ''creds'', skr_key = ''key''\<rparr>\<rparr>\<rparr>\<rparr>"

theorem worker_credentials_are_tracked_witness:
  "\<exists>j ref. ref \<in> set (pod_secret_refs (job_pod j)) \<and> skr_name ref = ''creds'' \<and>
     runs (buildIngestJob demo_lib keyed_kb ''h'' ''s'' IngestFull (reset_chunking ChunkFixed)) [] (Some (Inr (j, ''spec''))) \<and>
     kb_request keyed_kb \<in> set (secretRequests (Inr [keyed_kb]) ''creds'')"
proof -
  have "\<exists>j. runs (buildIngestJob demo_lib keyed_kb ''h'' ''s'' IngestFull (reset_chunking ChunkFixed)) [] (Some (Inr (j, ''spec''))) \<and>
      \<lparr>skr_name = ''creds'', skr_key = ''key''\<rparr> \<in> set (pod_secret_refs (job_pod j))"
    by (simp add: buildIngestJob_def marshalEffectiveSpec_def demo_lib_def baseJob_def resourceRequirements_def
        scratchVolume_def keyed_kb_def demo_kb_defs Let_def pod_secret_refs_def set_job_label_def credentialEnv_def
        secretEnv_def List.map_filter_def)
      (rule rev_image_eqI [of "secretEnv ''EMBEDDING_API_KEY'' \<lparr>skr_name = ''creds'', skr_key = ''key''\<rparr>"];
        simp add: secretEnv_def)
  then obtain j where j: "runs (buildIngestJob demo_lib keyed_kb ''h'' ''s'' IngestFull (reset_chunking ChunkFixed)) [] (Some (Inr (j, ''spec'')))"
    "\<lparr>skr_name = ''creds'', skr_key = ''key''\<rparr> \<in> set (pod_secret_refs (job_pod j))" by blast
  from worker_credentials_are_tracked [OF disjI1 [OF j(1)] j(2), of "[keyed_kb]"]
  have "kb_request keyed_kb \<in> set (secretRequests (Inr [keyed_kb]) ''creds'')" by simp
  with j show ?thesis
    by (intro exI [of _ j] exI [of _ "\<lparr>skr_name = ''creds'', skr_key = ''key''\<rparr>"]) simp
qed

end
