(* ===== verification/Go_Heap.thy ===== *)
theory Go_Heap
  imports Main
begin

text \<open>
  Values with sharing, for the generated copies of \<open>api/v1alpha1/zz_generated.deepcopy.go\<close>: a heap of
  cells, the tree a value stands for, the cells it can reach, and the statements the generator
  emits.  The rest of the model passes trees; here it is shown when it may.
\<close>

section \<open>Values and the heap\<close>

datatype scalar = SBool bool | SInt int | SStr string

text \<open>
  A pointer, a slice and a map are each an address or nil.  The cell of a slice is its array, the
  cell of a map its entries by key.
\<close>

datatype val = Atom scalar | Nil | Ref nat | Obj "(string \<times> val) list" | Arr "val list"

record heap =
  cells :: "nat \<Rightarrow> val"
  lim :: nat

definition alloc :: "val \<Rightarrow> heap \<Rightarrow> nat \<times> heap" where
  "alloc v h = (lim h, h\<lparr>cells := (cells h)(lim h := v), lim := Suc (lim h)\<rparr>)"

definition put :: "nat \<Rightarrow> val \<Rightarrow> heap \<Rightarrow> heap" where
  "put a v h = h\<lparr>cells := (cells h)(a := v)\<rparr>"

text \<open>What a value stands for, and the addresses it reaches.\<close>

datatype tree = TAtom scalar | TNil | TRef tree | TObj "(string \<times> tree) list" | TArr "tree list"

inductive denotes :: "heap \<Rightarrow> val \<Rightarrow> tree \<Rightarrow> bool" for h :: heap where
  atom: "denotes h (Atom s) (TAtom s)"
| nil: "denotes h Nil TNil"
| ref: "a < lim h \<Longrightarrow> denotes h (cells h a) t \<Longrightarrow> denotes h (Ref a) (TRef t)"
| obj: "list_all2 (\<lambda>x y. fst x = fst y \<and> denotes h (snd x) (snd y)) fs ts \<Longrightarrow> denotes h (Obj fs) (TObj ts)"
| arr: "list_all2 (denotes h) vs ts \<Longrightarrow> denotes h (Arr vs) (TArr ts)"

inductive reaches :: "heap \<Rightarrow> val \<Rightarrow> nat \<Rightarrow> bool" for h :: heap where
  here: "reaches h (Ref a) a"
| deref: "reaches h (cells h a) b \<Longrightarrow> reaches h (Ref a) b"
| field: "(n, v) \<in> set fs \<Longrightarrow> reaches h v b \<Longrightarrow> reaches h (Obj fs) b"
| element: "v \<in> set vs \<Longrightarrow> reaches h v b \<Longrightarrow> reaches h (Arr vs) b"

inductive_simps denotes_simps [simp]:
  "denotes h (Atom s) t" "denotes h Nil t" "denotes h (Ref a) t" "denotes h (Obj fs) t" "denotes h (Arr vs) t"
  "denotes h v (TAtom s)" "denotes h v TNil" "denotes h v (TRef t)" "denotes h v (TObj ts)" "denotes h v (TArr us)"

inductive_simps reaches_simps [simp]:
  "reaches h (Atom s) b" "reaches h Nil b" "reaches h (Obj fs) b" "reaches h (Arr vs) b"

inductive_simps reaches_Ref: "reaches h (Ref a) b"

text \<open>A value stands for the same tree in every heap that agrees on the cells it reaches.\<close>

lemma denotes_frame:
  assumes "denotes h v t" "\<And>a. reaches h v a \<Longrightarrow> cells h' a = cells h a \<and> a < lim h'"
  shows "denotes h' v t"
  using assms
proof induction
  case (ref a t)
  have "cells h' a = cells h a" "a < lim h'" using ref.prems [of a] by (auto intro: reaches.here)
  moreover have "denotes h' (cells h a) t" by (rule ref.IH) (rule ref.prems, rule reaches.deref)
  ultimately show ?case by simp
next
  case (obj fs ts)
  have "list_all2 (\<lambda>x y. fst x = fst y \<and> denotes h' (snd x) (snd y)) fs ts"
  proof (rule list.rel_mono_strong [OF obj.IH])
    fix x y
    assume m: "x \<in> set fs" and d: "fst x = fst y \<and> denotes h (snd x) (snd y) \<and>
      ((\<forall>a. reaches h (snd x) a \<longrightarrow> cells h' a = cells h a \<and> a < lim h') \<longrightarrow> denotes h' (snd x) (snd y))"
    have "cells h' a = cells h a \<and> a < lim h'" if "reaches h (snd x) a" for a
      by (rule obj.prems, rule reaches.field [of "fst x" "snd x"]) (simp_all add: m that)
    with d show "fst x = fst y \<and> denotes h' (snd x) (snd y)" by blast
  qed
  then show ?case by simp
next
  case (arr vs ts)
  have "list_all2 (denotes h') vs ts"
  proof (rule list.rel_mono_strong [OF arr.IH])
    fix v t
    assume m: "v \<in> set vs" and d: "denotes h v t \<and>
      ((\<forall>a. reaches h v a \<longrightarrow> cells h' a = cells h a \<and> a < lim h') \<longrightarrow> denotes h' v t)"
    have "cells h' a = cells h a \<and> a < lim h'" if "reaches h v a" for a
      by (rule arr.prems, rule reaches.element [OF m that])
    with d show "denotes h' v t" by blast
  qed
  then show ?case by simp
qed simp_all

lemma list_all2_pick: "list_all2 P xs ys \<Longrightarrow> x \<in> set xs \<Longrightarrow> \<exists>y \<in> set ys. P x y"
  by (induction rule: list_all2_induct) auto

lemma denotes_reaches: "reaches h v a \<Longrightarrow> denotes h v t \<Longrightarrow> a < lim h"
proof (induction arbitrary: t rule: reaches.induct)
  case (deref a b)
  then show ?case by (auto elim: denotes.cases)
next
  case (field n v fs b)
  from field.prems obtain ts where "list_all2 (\<lambda>x y. fst x = fst y \<and> denotes h (snd x) (snd y)) fs ts" by auto
  from list_all2_pick [OF this field.hyps(1)] field.IH show ?case by auto
next
  case (element v vs b)
  from element.prems obtain ts where "list_all2 (denotes h) vs ts" by auto
  from list_all2_pick [OF this element.hyps(1)] element.IH show ?case by auto
qed auto

section \<open>Copying\<close>

text \<open>A copier takes what \<open>*in\<close> holds and yields what \<open>*out\<close> holds in the end.\<close>

type_synonym copier = "val \<Rightarrow> heap \<Rightarrow> val \<times> heap"

text \<open>\<open>*out = *in\<close>.\<close>

definition assign :: copier where
  "assign v h = (v, h)"

text \<open>
  \<open>if in.F != nil { *out = new(T); (*in).DeepCopyInto(*out) }\<close>; with \<open>assign\<close> the last statement is
  \<open>**out = **in\<close>.
\<close>

definition new_copy :: "copier \<Rightarrow> copier" where
  "new_copy c v h =
     (case v of
        Ref a \<Rightarrow>
          let (b, h) = alloc Nil h;
              (v', h) = c (cells h a) h
          in (Ref b, put b v' h)
      | _ \<Rightarrow> (v, h))"

text \<open>\<open>for i := range *in { (*in)[i].DeepCopyInto(&(*out)[i]) }\<close>; with \<open>assign\<close> it is \<open>copy(*out, *in)\<close>.\<close>

fun copy_elements :: "copier \<Rightarrow> val list \<Rightarrow> heap \<Rightarrow> val list \<times> heap" where
  "copy_elements c [] h = ([], h)"
| "copy_elements c (v # vs) h =
     (let (v', h) = c v h; (vs', h) = copy_elements c vs h in (v' # vs', h))"

definition copy_array :: "copier \<Rightarrow> copier" where
  "copy_array c v h = (case v of Arr vs \<Rightarrow> (let (vs', h) = copy_elements c vs h in (Arr vs', h)) | _ \<Rightarrow> (v, h))"

text \<open>\<open>if in.F != nil { *out = make([]T, len(*in)); ... }\<close>.\<close>

definition make_slice :: "copier \<Rightarrow> copier" where
  "make_slice c = new_copy (copy_array c)"

text \<open>\<open>*out = make(map[string]string, len(*in)); for key, val := range *in { (*out)[key] = val }\<close>.\<close>

definition make_map :: copier where
  "make_map = new_copy assign"

text \<open>
  A struct: \<open>*out = *in\<close>, then the statements for the fields named, which the generator emits in the
  order of their declaration.
\<close>

fun copy_fields :: "(string \<times> copier) list \<Rightarrow> (string \<times> val) list \<Rightarrow> heap \<Rightarrow> (string \<times> val) list \<times> heap" where
  "copy_fields cs [] h = ([], h)"
| "copy_fields cs ((n, v) # fs) h =
     (let (v', h) = (case map_of cs n of None \<Rightarrow> assign v h | Some c \<Rightarrow> c v h);
          (fs', h) = copy_fields cs fs h
      in ((n, v') # fs', h))"

definition copy_struct :: "(string \<times> copier) list \<Rightarrow> copier" where
  "copy_struct cs v h = (case v of Obj fs \<Rightarrow> (let (fs', h) = copy_fields cs fs h in (Obj fs', h)) | _ \<Rightarrow> (v, h))"

text \<open>
  \<open>DeepCopy\<close> of a pointer: \<open>if in == nil { return nil }; out := new(T); in.DeepCopyInto(out); return out\<close>,
  and \<open>DeepCopyObject\<close>, which returns that pointer as an interface, or nil.
\<close>

definition deep_copy :: "copier \<Rightarrow> copier" where
  "deep_copy into v h = (if v = Nil then (Nil, h) else new_copy into v h)"

definition deep_copy_object :: "copier \<Rightarrow> copier" where
  "deep_copy_object dc v h = (let (c, h) = dc v h in if c \<noteq> Nil then (c, h) else (Nil, h))"

text \<open>\<open>if in.F != nil { *out = (*in).DeepCopy() }\<close>.\<close>

definition call_copy :: "copier \<Rightarrow> copier" where
  "call_copy dc v h = (if v = Nil then (Nil, h) else dc v h)"

section \<open>Good copies\<close>

definition extends :: "heap \<Rightarrow> heap \<Rightarrow> bool" where
  "extends h h' \<longleftrightarrow> lim h \<le> lim h' \<and> (\<forall>a < lim h. cells h' a = cells h a)"

lemma extends_refl [simp]: "extends h h"
  by (simp add: extends_def)

lemma extends_trans: "extends h h' \<Longrightarrow> extends h' h'' \<Longrightarrow> extends h h''"
  by (auto simp: extends_def)

lemma denotes_extends: "denotes h v t \<Longrightarrow> extends h h' \<Longrightarrow> denotes h' v t"
  by (rule denotes_frame) (auto simp: extends_def dest: denotes_reaches)

text \<open>The same tree, the old cells untouched, and only new cells reached.\<close>

definition fresh_copy :: "heap \<Rightarrow> heap \<Rightarrow> val \<Rightarrow> tree \<Rightarrow> bool" where
  "fresh_copy h h' v t \<longleftrightarrow> extends h h' \<and> denotes h' v t \<and> (\<forall>a. reaches h' v a \<longrightarrow> lim h \<le> a)"

definition copies :: "(tree \<Rightarrow> bool) \<Rightarrow> copier \<Rightarrow> bool" where
  "copies S c \<longleftrightarrow> (\<forall>h v t. denotes h v t \<and> S t \<longrightarrow> fresh_copy h (snd (c v h)) (fst (c v h)) t)"

lemma copiesD: "copies S c \<Longrightarrow> denotes h v t \<Longrightarrow> S t \<Longrightarrow> c v h = (v', h') \<Longrightarrow> fresh_copy h h' v' t"
  unfolding copies_def by (metis fst_conv snd_conv)

lemma reaches_frame:
  assumes "reaches h' v a" "\<And>b. reaches h v b \<Longrightarrow> cells h' b = cells h b"
  shows "reaches h v a"
  using assms
proof induction
  case (deref a b)
  have same: "cells h' a = cells h a" by (rule deref.prems, rule reaches.here)
  have "reaches h (cells h' a) b"
    by (rule deref.IH) (rule deref.prems, rule reaches.deref, simp add: same)
  then show ?case by (auto simp: same intro: reaches.deref)
next
  case (field n v fs b)
  then show ?case by (meson reaches.field)
next
  case (element v vs b)
  then show ?case by (meson reaches.element)
qed (rule reaches.here)

text \<open>A copy stays one when cells it does not reach change.\<close>

lemma fresh_copy_frame:
  assumes "fresh_copy h h1 v t" "lim h1 \<le> lim h2" "\<And>a. a < lim h1 \<Longrightarrow> (a < lim h \<or> reaches h1 v a) \<Longrightarrow> cells h2 a = cells h1 a"
  shows "fresh_copy h h2 v t"
proof -
  have d: "denotes h1 v t" and e: "extends h h1" and f: "\<And>a. reaches h1 v a \<Longrightarrow> lim h \<le> a"
    using assms(1) by (auto simp: fresh_copy_def)
  have same: "cells h2 a = cells h1 a \<and> a < lim h2" if "reaches h1 v a" for a
    using assms(2) assms(3) [of a] denotes_reaches [OF that d] that by auto
  have "denotes h2 v t" by (rule denotes_frame [OF d same])
  moreover have "lim h \<le> a" if "reaches h2 v a" for a
    using reaches_frame [OF that] same f by blast
  moreover have "extends h h2" using e assms(2,3) by (auto simp: extends_def)
  ultimately show ?thesis by (simp add: fresh_copy_def)
qed

lemma fresh_copy_extends: "fresh_copy h h1 v t \<Longrightarrow> extends h1 h2 \<Longrightarrow> fresh_copy h h2 v t"
  by (erule fresh_copy_frame) (auto simp: extends_def)

lemma fresh_copy_weaken: "fresh_copy h1 h2 v t \<Longrightarrow> extends h h1 \<Longrightarrow> fresh_copy h h2 v t"
  using extends_trans by (fastforce simp: fresh_copy_def extends_def)

text \<open>Trees without references.\<close>

fun flat :: "tree \<Rightarrow> bool" where
  "flat (TRef t) \<longleftrightarrow> False"
| "flat (TObj ts) \<longleftrightarrow> list_all (\<lambda>x. flat (snd x)) ts"
| "flat (TArr ts) \<longleftrightarrow> list_all flat ts"
| "flat t \<longleftrightarrow> True"

lemma flat_reaches: "reaches h v a \<Longrightarrow> denotes h v t \<Longrightarrow> \<not> flat t"
proof (induction arbitrary: t rule: reaches.induct)
  case (field n v fs b)
  from field.prems obtain ts where t: "t = TObj ts" "list_all2 (\<lambda>x y. fst x = fst y \<and> denotes h (snd x) (snd y)) fs ts" by auto
  from list_all2_pick [OF t(2) field.hyps(1)] obtain y where "y \<in> set ts" "denotes h v (snd y)" by auto
  with field.IH t(1) show ?case by (auto simp: list_all_iff)
next
  case (element v vs b)
  from element.prems obtain ts where t: "t = TArr ts" "list_all2 (denotes h) vs ts" by auto
  from list_all2_pick [OF t(2) element.hyps(1)] obtain y where "y \<in> set ts" "denotes h v y" by auto
  with element.IH t(1) show ?case by (auto simp: list_all_iff)
qed auto

lemma copies_assign: "(\<And>t. S t \<Longrightarrow> flat t) \<Longrightarrow> copies S assign"
  by (auto simp: copies_def assign_def fresh_copy_def dest: flat_reaches)

lemma copies_new:
  assumes "copies S c"
  shows "copies (\<lambda>t. t = TNil \<or> (\<exists>u. t = TRef u \<and> S u)) (new_copy c)"
  unfolding copies_def
proof (intro allI impI, elim conjE disjE exE)
  fix h v t u
  assume d: "denotes h v t" and t: "t = TRef u" "S u"
  then obtain a where v: "v = Ref a" "a < lim h" "denotes h (cells h a) u" by auto
  define h1 where "h1 = snd (alloc Nil h)"
  then have new: "alloc Nil h = (lim h, h1)" by (simp add: alloc_def)
  have h1: "lim h1 = Suc (lim h)" "extends h h1" "cells h1 a = cells h a"
    using v(2) by (auto simp: h1_def alloc_def extends_def)
  obtain v' h2 where c: "c (cells h1 a) h1 = (v', h2)" by fastforce
  have "denotes h1 (cells h1 a) u"
    using denotes_extends [OF v(3) h1(2)] h1(3) by simp
  with c assms t(2) have copy: "fresh_copy h1 h2 v' u" by (blast intro: copiesD)
  let ?h3 = "put (lim h) v' h2"
  have up: "lim h1 \<le> lim h2" and above: "\<And>a. reaches h2 v' a \<Longrightarrow> lim h1 \<le> a"
    using copy by (auto simp: fresh_copy_def extends_def)
  have "fresh_copy h h2 v' u" by (rule fresh_copy_weaken [OF copy h1(2)])
  then have inner: "fresh_copy h ?h3 v' u"
    by (rule fresh_copy_frame) (use h1(1) above in \<open>force simp: put_def\<close>)+
  have out: "new_copy c v h = (Ref (lim h), ?h3)"
    by (simp add: new_copy_def v(1) new c)
  have "reaches ?h3 (Ref (lim h)) a \<Longrightarrow> lim h \<le> a" for a
    using inner by (auto simp: reaches_Ref fresh_copy_def put_def)
  with inner h1(1) up show "fresh_copy h (snd (new_copy c v h)) (fst (new_copy c v h)) t"
    unfolding out by (simp add: fresh_copy_def t(1)) (simp add: put_def)
qed (simp add: new_copy_def fresh_copy_def)

lemma copies_elements:
  assumes "copies S c"
  shows "list_all2 (denotes h) vs ts \<Longrightarrow> list_all S ts \<Longrightarrow> copy_elements c vs h = (vs', h') \<Longrightarrow>
    extends h h' \<and> list_all2 (fresh_copy h h') vs' ts"
proof (induction vs arbitrary: h ts vs')
  case (Cons v vs)
  from Cons.prems(1) obtain t us where ts: "ts = t # us" and d: "denotes h v t" "list_all2 (denotes h) vs us"
    by (auto simp: list_all2_Cons1)
  obtain w h1 where c: "c v h = (w, h1)" by fastforce
  obtain ws where cs: "copy_elements c vs h1 = (ws, h')" "vs' = w # ws"
    using Cons.prems(3) c by (auto split: prod.splits)
  have one: "fresh_copy h h1 w t" using copiesD [OF assms d(1) _ c] Cons.prems(2) ts by simp
  then have e: "extends h h1" by (simp add: fresh_copy_def)
  have "list_all2 (denotes h1) vs us" using d(2) by (rule list.rel_mono_strong) (rule denotes_extends [OF _ e])
  with Cons.IH [OF _ _ cs(1)] Cons.prems(2) ts have rest: "extends h1 h'" "list_all2 (fresh_copy h1 h') ws us" by auto
  have "list_all2 (fresh_copy h h') ws us"
    using rest(2) by (rule list.rel_mono_strong) (rule fresh_copy_weaken [OF _ e])
  with extends_trans [OF e rest(1)] fresh_copy_extends [OF one rest(1)] show ?case by (simp add: ts cs)
qed simp

lemma fresh_copy_Arr: "extends h h' \<Longrightarrow> list_all2 (fresh_copy h h') vs ts \<Longrightarrow> fresh_copy h h' (Arr vs) (TArr ts)"
  by (auto simp: fresh_copy_def dest: list_all2_pick elim!: list.rel_mono_strong)

lemma copies_array:
  assumes "copies S c"
  shows "copies (\<lambda>t. \<exists>ts. t = TArr ts \<and> list_all S ts) (copy_array c)"
  unfolding copies_def
proof (intro allI impI, elim conjE exE)
  fix h v t ts
  assume d: "denotes h v t" and t: "t = TArr ts" "list_all S ts"
  then obtain vs where v: "v = Arr vs" "list_all2 (denotes h) vs ts" by auto
  obtain vs' h' where c: "copy_elements c vs h = (vs', h')" by fastforce
  from copies_elements [OF assms v(2) t(2) c] show "fresh_copy h (snd (copy_array c v h)) (fst (copy_array c v h)) t"
    by (simp add: copy_array_def v(1) c t(1) fresh_copy_Arr)
qed

section \<open>Types\<close>

text \<open>
  The shape of a declared type.  \<open>TFlat\<close> is a basic type, \<open>TLib\<close> one of another package, of which the
  trees are a parameter \<open>F\<close> by name.
\<close>

datatype ty = TFlat | TPtr ty | TSlice ty | TMap | TLib string | TStruct "(string \<times> ty) list"

fun has_type :: "(string \<Rightarrow> tree \<Rightarrow> bool) \<Rightarrow> ty \<Rightarrow> tree \<Rightarrow> bool"
  and has_fields :: "(string \<Rightarrow> tree \<Rightarrow> bool) \<Rightarrow> (string \<times> ty) list \<Rightarrow> (string \<times> tree) list \<Rightarrow> bool" where
  "has_type F TFlat t \<longleftrightarrow> (\<exists>s. t = TAtom s)"
| "has_type F (TPtr T) t \<longleftrightarrow> t = TNil \<or> (\<exists>u. t = TRef u \<and> has_type F T u)"
| "has_type F (TSlice T) t \<longleftrightarrow> t = TNil \<or> (\<exists>ts. t = TRef (TArr ts) \<and> list_all (has_type F T) ts)"
| "has_type F TMap t \<longleftrightarrow> t = TNil \<or> (\<exists>ts. t = TRef (TObj ts) \<and> list_all (\<lambda>x. \<exists>s. snd x = TAtom s) ts)"
| "has_type F (TLib n) t \<longleftrightarrow> F n t"
| "has_type F (TStruct fs) t \<longleftrightarrow> (\<exists>ts. t = TObj ts \<and> has_fields F fs ts)"
| "has_fields F [] ts \<longleftrightarrow> ts = []"
| "has_fields F ((n, T) # fs) ts \<longleftrightarrow>
     (\<exists>t us. ts = (n, t) # us \<and> has_type F T t \<and> has_fields F fs us)"

text \<open>Types whose values hold no reference.\<close>

fun flat_type :: "ty \<Rightarrow> bool" where
  "flat_type TFlat \<longleftrightarrow> True"
| "flat_type (TStruct fs) \<longleftrightarrow> list_all (\<lambda>x. flat_type (snd x)) fs"
| "flat_type T \<longleftrightarrow> False"

lemma flat_type: "flat_type T \<Longrightarrow> has_type F T t \<Longrightarrow> flat t"
  and flat_fields: "list_all (\<lambda>x. flat_type (snd x)) fs \<Longrightarrow> has_fields F fs ts \<Longrightarrow> list_all (\<lambda>x. flat (snd x)) ts"
  by (induction F T t and F fs ts rule: has_type_has_fields.induct) auto

lemma copies_flat: "flat_type T \<Longrightarrow> copies (has_type F T) assign"
  by (rule copies_assign) (rule flat_type)

lemma copies_pointer: "copies (has_type F T) c \<Longrightarrow> copies (has_type F (TPtr T)) (new_copy c)"
  using copies_new [of "has_type F T" c] by (simp add: copies_def)

lemma copies_make_slice: "copies (has_type F T) c \<Longrightarrow> copies (has_type F (TSlice T)) (make_slice c)"
  using copies_new [OF copies_array [of "has_type F T" c]] by (simp add: make_slice_def copies_def) blast

lemma copies_make_map: "copies (has_type F TMap) make_map"
proof -
  have "copies (\<lambda>t. \<exists>ts. t = TObj ts \<and> list_all (\<lambda>x. \<exists>s. snd x = TAtom s) ts) assign"
    by (rule copies_assign) (fastforce simp: list_all_iff)
  from copies_new [OF this] show ?thesis by (simp add: make_map_def copies_def) blast
qed

text \<open>A struct is copied well when every field is: by its statement, or by the assignment if it is flat.\<close>

definition copies_field :: "(string \<Rightarrow> tree \<Rightarrow> bool) \<Rightarrow> (string \<times> copier) list \<Rightarrow> string \<times> ty \<Rightarrow> bool" where
  "copies_field F cs x \<longleftrightarrow>
     copies (has_type F (snd x)) (case map_of cs (fst x) of None \<Rightarrow> assign | Some c \<Rightarrow> c)"

lemma copies_fields:
  "list_all (copies_field F cs) fs \<Longrightarrow> has_fields F fs ts \<Longrightarrow>
   list_all2 (\<lambda>x y. fst x = fst y \<and> denotes h (snd x) (snd y)) vs ts \<Longrightarrow> copy_fields cs vs h = (vs', h') \<Longrightarrow>
   extends h h' \<and> list_all2 (\<lambda>x y. fst x = fst y \<and> fresh_copy h h' (snd x) (snd y)) vs' ts"
proof (induction fs arbitrary: ts vs vs' h)
  case (Cons x fs)
  obtain n T where x: "x = (n, T)" by (cases x)
  from Cons.prems(2) obtain t us where ts: "ts = (n, t) # us" "has_type F T t" "has_fields F fs us" by (auto simp: x)
  from Cons.prems(3) obtain v ws where vs: "vs = (n, v) # ws" and d: "denotes h v t"
    and ds: "list_all2 (\<lambda>x y. fst x = fst y \<and> denotes h (snd x) (snd y)) ws us"
    by (auto simp: ts list_all2_Cons2)
  let ?c = "case map_of cs n of None \<Rightarrow> assign | Some c \<Rightarrow> c"
  have c: "copies (has_type F T) ?c" using Cons.prems(1) by (simp add: x copies_field_def)
  obtain w h1 where w: "?c v h = (w, h1)" by fastforce
  then have w': "(case map_of cs n of None \<Rightarrow> assign v h | Some c \<Rightarrow> c v h) = (w, h1)" by (auto split: option.splits)
  obtain ys where ys: "copy_fields cs ws h1 = (ys, h')" "vs' = (n, w) # ys"
    using Cons.prems(4) w' by (auto simp: vs split: prod.splits)
  have one: "fresh_copy h h1 w t" by (rule copiesD [OF c d ts(2) w])
  then have e: "extends h h1" by (simp add: fresh_copy_def)
  have "list_all2 (\<lambda>x y. fst x = fst y \<and> denotes h1 (snd x) (snd y)) ws us"
    using ds by (rule list.rel_mono_strong) (auto intro: denotes_extends [OF _ e])
  with Cons.IH [OF _ ts(3) _ ys(1)] Cons.prems(1) have rest: "extends h1 h'"
    "list_all2 (\<lambda>x y. fst x = fst y \<and> fresh_copy h1 h' (snd x) (snd y)) ys us" by auto
  have "list_all2 (\<lambda>x y. fst x = fst y \<and> fresh_copy h h' (snd x) (snd y)) ys us"
    using rest(2) by (rule list.rel_mono_strong) (auto intro: fresh_copy_weaken [OF _ e])
  with extends_trans [OF e rest(1)] fresh_copy_extends [OF one rest(1)] show ?case by (simp add: ts ys)
qed simp

lemma fresh_copy_Obj:
  "extends h h' \<Longrightarrow> list_all2 (\<lambda>x y. fst x = fst y \<and> fresh_copy h h' (snd x) (snd y)) vs ts \<Longrightarrow> fresh_copy h h' (Obj vs) (TObj ts)"
  by (auto simp: fresh_copy_def dest: list_all2_pick elim!: list.rel_mono_strong)

lemma copies_struct:
  assumes "list_all (copies_field F cs) fs"
  shows "copies (has_type F (TStruct fs)) (copy_struct cs)"
  unfolding copies_def
proof (intro allI impI, elim conjE)
  fix h v t
  assume d: "denotes h v t" and "has_type F (TStruct fs) t"
  then obtain ts where t: "t = TObj ts" "has_fields F fs ts" by auto
  with d obtain vs where v: "v = Obj vs" "list_all2 (\<lambda>x y. fst x = fst y \<and> denotes h (snd x) (snd y)) vs ts" by auto
  obtain vs' h' where c: "copy_fields cs vs h = (vs', h')" by fastforce
  from copies_fields [OF assms t(2) v(2) c] show "fresh_copy h (snd (copy_struct cs v h)) (fst (copy_struct cs v h)) t"
    by (simp add: copy_struct_def v(1) c t(1) fresh_copy_Obj)
qed

lemma copies_deep_copy: "copies (has_type F T) c \<Longrightarrow> copies (has_type F (TPtr T)) (deep_copy c)"
  using copies_pointer [of F T c] by (auto simp: copies_def deep_copy_def fresh_copy_def)

lemma deep_copy_object_eq [simp]: "deep_copy_object c = c"
  by (rule ext)+ (auto simp: deep_copy_object_def split: prod.split)

lemma copies_call:
  "copies (\<lambda>t. \<exists>u. t = TRef u \<and> has_type F T u) c \<Longrightarrow> copies (has_type F (TPtr T)) (call_copy c)"
  by (auto simp: copies_def call_copy_def fresh_copy_def)

end
