(* ===== verification/Deep_Copy.thy ===== *)
theory Deep_Copy
  imports Go_Heap
begin

text \<open>
  The copies of \<open>api/v1alpha1/zz_generated.deepcopy.go\<close>, function by function, beside the types they
  copy (\<open>*_types.go\<close>).  The argument \<open>C\<close> gives the copies of types of other packages, by name.
\<close>

section \<open>The declared types\<close>

definition T_SecretKeyRef :: ty where
  "T_SecretKeyRef = TStruct
     [(''Name'', TFlat), (''Key'', TFlat)]"

definition T_S3BackupTarget :: ty where
  "T_S3BackupTarget = TStruct
     [(''Endpoint'', TFlat), (''Region'', TFlat), (''Bucket'', TFlat), (''Prefix'', TFlat),
      (''AccessKeySecretRef'', T_SecretKeyRef), (''SecretKeySecretRef'', T_SecretKeyRef)]"

definition T_BackupDestination :: ty where
  "T_BackupDestination = TStruct
     [(''S3'', TPtr T_S3BackupTarget)]"

definition T_LocalObjectRef :: ty where
  "T_LocalObjectRef = TStruct
     [(''Name'', TFlat)]"

definition T_BackupSpec :: ty where
  "T_BackupSpec = TStruct
     [(''KnowledgeBaseRef'', T_LocalObjectRef), (''Destination'', T_BackupDestination), (''Suspend'', TFlat)]"

definition T_BackupStatus :: ty where
  "T_BackupStatus = TStruct
     [(''Phase'', TFlat), (''ActiveJob'', TFlat), (''CompletionTime'', TPtr (TLib ''metav1.Time'')),
      (''BackupID'', TFlat), (''Location'', TFlat), (''TotalPoints'', TFlat), (''SizeBytes'', TFlat),
      (''Conditions'', TSlice (TLib ''metav1.Condition''))]"

definition T_Backup :: ty where
  "T_Backup = TStruct
     [(''TypeMeta'', TLib ''metav1.TypeMeta''), (''ObjectMeta'', TLib ''metav1.ObjectMeta''),
      (''Spec'', T_BackupSpec), (''Status'', T_BackupStatus)]"

definition T_BackupList :: ty where
  "T_BackupList = TStruct
     [(''TypeMeta'', TLib ''metav1.TypeMeta''), (''ListMeta'', TLib ''metav1.ListMeta''),
      (''Items'', TSlice T_Backup)]"

definition T_ChunkingSpec :: ty where
  "T_ChunkingSpec = TStruct
     [(''Strategy'', TFlat), (''MaxTokens'', TFlat), (''Overlap'', TFlat)]"

definition T_IngestionRunSpec :: ty where
  "T_IngestionRunSpec = TStruct
     [(''KnowledgeBaseRef'', T_LocalObjectRef), (''Mode'', TFlat), (''SpecHash'', TFlat),
      (''EffectiveChunking'', T_ChunkingSpec)]"

definition T_SourceStatus :: ty where
  "T_SourceStatus = TStruct
     [(''Name'', TFlat), (''Revision'', TFlat), (''Chunks'', TFlat)]"

definition T_IngestionRunStatus :: ty where
  "T_IngestionRunStatus = TStruct
     [(''Phase'', TFlat), (''StartTime'', TPtr (TLib ''metav1.Time'')),
      (''CompletionTime'', TPtr (TLib ''metav1.Time'')), (''TotalChunks'', TFlat),
      (''Sources'', TSlice T_SourceStatus), (''Error'', TFlat)]"

definition T_IngestionRun :: ty where
  "T_IngestionRun = TStruct
     [(''TypeMeta'', TLib ''metav1.TypeMeta''), (''ObjectMeta'', TLib ''metav1.ObjectMeta''),
      (''Spec'', T_IngestionRunSpec), (''Status'', T_IngestionRunStatus)]"

definition T_IngestionRunList :: ty where
  "T_IngestionRunList = TStruct
     [(''TypeMeta'', TLib ''metav1.TypeMeta''), (''ListMeta'', TLib ''metav1.ListMeta''),
      (''Items'', TSlice T_IngestionRun)]"

definition T_GitHubSource :: ty where
  "T_GitHubSource = TStruct
     [(''Repo'', TFlat), (''Ref'', TFlat), (''IncludeGlobs'', TSlice TFlat),
      (''TokenSecretRef'', TPtr T_SecretKeyRef)]"

definition T_S3Source :: ty where
  "T_S3Source = TStruct
     [(''Bucket'', TFlat), (''Prefix'', TFlat), (''Region'', TFlat), (''Endpoint'', TFlat),
      (''IncludeGlobs'', TSlice TFlat), (''AccessKeySecretRef'', TPtr T_SecretKeyRef),
      (''SecretKeySecretRef'', TPtr T_SecretKeyRef)]"

definition T_WebSource :: ty where
  "T_WebSource = TStruct
     [(''URLs'', TSlice TFlat), (''MaxDepth'', TFlat), (''SameDomainOnly'', TPtr TFlat), (''MaxPages'', TFlat),
      (''AllowPrivateNetworks'', TFlat)]"

definition T_Source :: ty where
  "T_Source = TStruct
     [(''Name'', TFlat), (''Type'', TFlat), (''GitHub'', TPtr T_GitHubSource), (''S3'', TPtr T_S3Source),
      (''Web'', TPtr T_WebSource)]"

definition T_EmbeddingSpec :: ty where
  "T_EmbeddingSpec = TStruct
     [(''Model'', TFlat), (''Provider'', TFlat), (''BaseURL'', TFlat), (''Dimension'', TFlat),
      (''QueryPrefix'', TFlat), (''DocumentPrefix'', TFlat), (''APIKeySecretRef'', TPtr T_SecretKeyRef)]"

definition T_VectorStoreSpec :: ty where
  "T_VectorStoreSpec = TStruct
     [(''Type'', TFlat), (''Endpoint'', TFlat), (''Collection'', TFlat), (''Distance'', TFlat),
      (''CredentialsSecretRef'', TPtr T_SecretKeyRef)]"

definition T_FreshnessSpec :: ty where
  "T_FreshnessSpec = TStruct
     [(''Schedule'', TFlat)]"

definition T_ResourceRequirements :: ty where
  "T_ResourceRequirements = TStruct
     [(''CPU'', TFlat), (''Memory'', TFlat)]"

definition T_IngestionSpec :: ty where
  "T_IngestionSpec = TStruct
     [(''Mode'', TFlat), (''BatchSize'', TFlat), (''Resources'', TPtr T_ResourceRequirements),
      (''ServiceAccountName'', TFlat), (''NodeSelector'', TMap),
      (''Tolerations'', TSlice (TLib ''corev1.Toleration'')), (''Affinity'', TPtr (TLib ''corev1.Affinity'')),
      (''TTLSecondsAfterFinished'', TPtr TFlat), (''ActiveDeadlineSeconds'', TPtr TFlat),
      (''ModelCacheSizeLimit'', TFlat)]"

definition T_AutoTuneSpec :: ty where
  "T_AutoTuneSpec = TStruct
     [(''Enabled'', TPtr TFlat), (''MaxAttempts'', TFlat)]"

definition T_RetrievalQualitySpec :: ty where
  "T_RetrievalQualitySpec = TStruct
     [(''Enabled'', TPtr TFlat), (''EvalSchedule'', TFlat), (''DatasetRef'', T_LocalObjectRef), (''TopK'', TFlat),
      (''MinimumRecallPercent'', TFlat), (''AutoTune'', TPtr T_AutoTuneSpec)]"

definition T_KnowledgeBaseSpec :: ty where
  "T_KnowledgeBaseSpec = TStruct
     [(''Sources'', TSlice T_Source), (''Chunking'', T_ChunkingSpec), (''Embedding'', T_EmbeddingSpec),
      (''VectorStore'', T_VectorStoreSpec), (''Freshness'', T_FreshnessSpec), (''Ingestion'', T_IngestionSpec),
      (''RetrievalQuality'', TPtr T_RetrievalQualitySpec), (''WorkerImage'', TFlat), (''Suspend'', TFlat)]"

definition T_IngestSourceResult :: ty where
  "T_IngestSourceResult = TStruct
     [(''Name'', TFlat), (''Revision'', TFlat), (''Chunks'', TFlat)]"

definition T_EvaluationStatus :: ty where
  "T_EvaluationStatus = TStruct
     [(''RecallPercent'', TFlat), (''P95LatencyMillis'', TFlat), (''Queries'', TFlat),
      (''Time'', TPtr (TLib ''metav1.Time''))]"

definition T_KnowledgeBaseStatus :: ty where
  "T_KnowledgeBaseStatus = TStruct
     [(''Phase'', TFlat), (''ObservedGeneration'', TFlat), (''ObservedSpecHash'', TFlat),
      (''ObservedSecretsHash'', TFlat), (''LastFailedSpecHash'', TFlat),
      (''LastFailureTime'', TPtr (TLib ''metav1.Time'')), (''ObservedEmbeddingModel'', TFlat),
      (''ObservedEmbedding'', TPtr T_EmbeddingSpec), (''EffectiveChunking'', TPtr T_ChunkingSpec),
      (''AutoTuneAttempts'', TFlat), (''AutoTuneStartedAt'', TPtr (TLib ''metav1.Time'')),
      (''PendingRetune'', TFlat), (''BestRecallPercent'', TFlat), (''BestChunking'', TPtr T_ChunkingSpec),
      (''EvalRound'', TFlat), (''LastIndexedTime'', TPtr (TLib ''metav1.Time'')), (''IndexedChunks'', TFlat),
      (''LastCheckpoint'', TSlice T_IngestSourceResult), (''Sources'', TSlice T_SourceStatus),
      (''Evaluation'', TPtr T_EvaluationStatus), (''ActiveJob'', TFlat),
      (''ActiveJobStartedAt'', TPtr (TLib ''metav1.Time'')), (''IngestRound'', TFlat), (''DeferCronIngest'', TFlat),
      (''Conditions'', TSlice (TLib ''metav1.Condition''))]"

definition T_KnowledgeBase :: ty where
  "T_KnowledgeBase = TStruct
     [(''TypeMeta'', TLib ''metav1.TypeMeta''), (''ObjectMeta'', TLib ''metav1.ObjectMeta''),
      (''Spec'', T_KnowledgeBaseSpec), (''Status'', T_KnowledgeBaseStatus)]"

definition T_KnowledgeBaseList :: ty where
  "T_KnowledgeBaseList = TStruct
     [(''TypeMeta'', TLib ''metav1.TypeMeta''), (''ListMeta'', TLib ''metav1.ListMeta''),
      (''Items'', TSlice T_KnowledgeBase)]"

definition T_RestoreSpec :: ty where
  "T_RestoreSpec = TStruct
     [(''BackupRef'', T_LocalObjectRef), (''KnowledgeBaseRef'', T_LocalObjectRef), (''Suspend'', TFlat)]"

definition T_RestoreStatus :: ty where
  "T_RestoreStatus = TStruct
     [(''Phase'', TFlat), (''ActiveJob'', TFlat), (''CompletionTime'', TPtr (TLib ''metav1.Time'')),
      (''RestoredPoints'', TFlat), (''Conditions'', TSlice (TLib ''metav1.Condition''))]"

definition T_Restore :: ty where
  "T_Restore = TStruct
     [(''TypeMeta'', TLib ''metav1.TypeMeta''), (''ObjectMeta'', TLib ''metav1.ObjectMeta''),
      (''Spec'', T_RestoreSpec), (''Status'', T_RestoreStatus)]"

definition T_RestoreList :: ty where
  "T_RestoreList = TStruct
     [(''TypeMeta'', TLib ''metav1.TypeMeta''), (''ListMeta'', TLib ''metav1.ListMeta''),
      (''Items'', TSlice T_Restore)]"

definition T_RerankSpec :: ty where
  "T_RerankSpec = TStruct
     [(''Enabled'', TPtr TFlat), (''Model'', TFlat), (''CandidatePoolSize'', TFlat)]"

definition T_RateLimitSpec :: ty where
  "T_RateLimitSpec = TStruct
     [(''Enabled'', TPtr TFlat), (''RequestsPerMinute'', TFlat), (''Burst'', TFlat), (''Backend'', TFlat),
      (''RedisURLSecretRef'', TPtr T_SecretKeyRef), (''RedisKeyPrefix'', TFlat), (''ClientIdentityHeader'', TFlat)]"

definition T_AutoscalingSpec :: ty where
  "T_AutoscalingSpec = TStruct
     [(''Enabled'', TPtr TFlat), (''MinReplicas'', TFlat), (''MaxReplicas'', TFlat),
      (''TargetCPUUtilizationPercentage'', TFlat)]"

definition T_RetrieverIngressSpec :: ty where
  "T_RetrieverIngressSpec = TStruct
     [(''Host'', TFlat), (''ClassName'', TFlat), (''Path'', TFlat), (''Annotations'', TMap),
      (''TLSSecretName'', TFlat), (''ClusterIssuer'', TFlat)]"

definition T_OIDCSpec :: ty where
  "T_OIDCSpec = TStruct
     [(''IssuerURL'', TFlat), (''ClientIDSecretRef'', T_SecretKeyRef), (''ClientSecretSecretRef'', T_SecretKeyRef),
      (''CookieSecretRef'', T_SecretKeyRef), (''EmailDomains'', TSlice TFlat), (''Groups'', TSlice TFlat),
      (''Image'', TFlat)]"

definition T_GenerationSpec :: ty where
  "T_GenerationSpec = TStruct
     [(''Enabled'', TPtr TFlat), (''Provider'', TFlat), (''Model'', TFlat), (''BaseURL'', TFlat),
      (''APIKeySecretRef'', TPtr T_SecretKeyRef), (''MaxTokens'', TFlat), (''SystemPrompt'', TFlat)]"

definition T_RetrieverSpec :: ty where
  "T_RetrieverSpec = TStruct
     [(''KnowledgeBaseRef'', T_LocalObjectRef), (''APIKeySecretRef'', TPtr T_SecretKeyRef),
      (''RateLimit'', TPtr T_RateLimitSpec), (''MaxConcurrentRequests'', TFlat), (''MaxRequestBodyBytes'', TFlat),
      (''PodDisruptionBudget'', TPtr TFlat), (''Autoscaling'', TPtr T_AutoscalingSpec),
      (''Ingress'', TPtr T_RetrieverIngressSpec), (''OIDC'', TPtr T_OIDCSpec),
      (''Generation'', TPtr T_GenerationSpec), (''TopK'', TFlat), (''Hybrid'', TFlat),
      (''HybridDensePercent'', TPtr TFlat), (''ScoreThresholdPercent'', TFlat), (''Rerank'', TPtr T_RerankSpec),
      (''Replicas'', TFlat), (''Image'', TFlat), (''Resources'', TPtr (TLib ''corev1.ResourceRequirements'')),
      (''NodeSelector'', TMap), (''Tolerations'', TSlice (TLib ''corev1.Toleration'')),
      (''Affinity'', TPtr (TLib ''corev1.Affinity''))]"

definition T_RetrieverStatus :: ty where
  "T_RetrieverStatus = TStruct
     [(''Phase'', TFlat), (''ObservedGeneration'', TFlat), (''ServiceEndpoint'', TFlat), (''PublicEndpoint'', TFlat),
      (''ReadyReplicas'', TFlat), (''Conditions'', TSlice (TLib ''metav1.Condition''))]"

definition T_Retriever :: ty where
  "T_Retriever = TStruct
     [(''TypeMeta'', TLib ''metav1.TypeMeta''), (''ObjectMeta'', TLib ''metav1.ObjectMeta''),
      (''Spec'', T_RetrieverSpec), (''Status'', T_RetrieverStatus)]"

definition T_RetrieverList :: ty where
  "T_RetrieverList = TStruct
     [(''TypeMeta'', TLib ''metav1.TypeMeta''), (''ListMeta'', TLib ''metav1.ListMeta''),
      (''Items'', TSlice T_Retriever)]"

definition T_VectorIndexSpec :: ty where
  "T_VectorIndexSpec = TStruct
     [(''KnowledgeBaseRef'', T_LocalObjectRef), (''Store'', T_VectorStoreSpec), (''Dimension'', TFlat),
      (''ProbeIntervalSeconds'', TFlat), (''ProbeTimeoutSeconds'', TFlat)]"

definition T_VectorIndexStatus :: ty where
  "T_VectorIndexStatus = TStruct
     [(''ObservedGeneration'', TFlat), (''Health'', TFlat), (''PointCount'', TFlat), (''Dimension'', TFlat),
      (''Message'', TFlat), (''LastProbeTime'', TPtr (TLib ''metav1.Time'')),
      (''Conditions'', TSlice (TLib ''metav1.Condition''))]"

definition T_VectorIndex :: ty where
  "T_VectorIndex = TStruct
     [(''TypeMeta'', TLib ''metav1.TypeMeta''), (''ObjectMeta'', TLib ''metav1.ObjectMeta''),
      (''Spec'', T_VectorIndexSpec), (''Status'', T_VectorIndexStatus)]"

definition T_VectorIndexList :: ty where
  "T_VectorIndexList = TStruct
     [(''TypeMeta'', TLib ''metav1.TypeMeta''), (''ListMeta'', TLib ''metav1.ListMeta''),
      (''Items'', TSlice T_VectorIndex)]"

lemmas type_defs =
  T_SecretKeyRef_def T_S3BackupTarget_def T_BackupDestination_def T_LocalObjectRef_def T_BackupSpec_def
  T_BackupStatus_def T_Backup_def T_BackupList_def T_ChunkingSpec_def T_IngestionRunSpec_def T_SourceStatus_def
  T_IngestionRunStatus_def T_IngestionRun_def T_IngestionRunList_def T_GitHubSource_def T_S3Source_def
  T_WebSource_def T_Source_def T_EmbeddingSpec_def T_VectorStoreSpec_def T_FreshnessSpec_def
  T_ResourceRequirements_def T_IngestionSpec_def T_AutoTuneSpec_def T_RetrievalQualitySpec_def
  T_KnowledgeBaseSpec_def T_IngestSourceResult_def T_EvaluationStatus_def T_KnowledgeBaseStatus_def
  T_KnowledgeBase_def T_KnowledgeBaseList_def T_RestoreSpec_def T_RestoreStatus_def T_Restore_def
  T_RestoreList_def T_RerankSpec_def T_RateLimitSpec_def T_AutoscalingSpec_def T_RetrieverIngressSpec_def
  T_OIDCSpec_def T_GenerationSpec_def T_RetrieverSpec_def T_RetrieverStatus_def T_Retriever_def
  T_RetrieverList_def T_VectorIndexSpec_def T_VectorIndexStatus_def T_VectorIndex_def T_VectorIndexList_def

section \<open>Copying into a struct\<close>

text \<open>The functions \<open>DeepCopyInto\<close>.\<close>

type_synonym library = "string \<Rightarrow> copier"

definition SecretKeyRef_DeepCopyInto :: "library \<Rightarrow> copier" where
  "SecretKeyRef_DeepCopyInto C = copy_struct
     []"

definition S3BackupTarget_DeepCopyInto :: "library \<Rightarrow> copier" where
  "S3BackupTarget_DeepCopyInto C = copy_struct
     [(''AccessKeySecretRef'', assign), (''SecretKeySecretRef'', assign)]"

definition BackupDestination_DeepCopyInto :: "library \<Rightarrow> copier" where
  "BackupDestination_DeepCopyInto C = copy_struct
     [(''S3'', new_copy assign)]"

definition LocalObjectRef_DeepCopyInto :: "library \<Rightarrow> copier" where
  "LocalObjectRef_DeepCopyInto C = copy_struct
     []"

definition BackupSpec_DeepCopyInto :: "library \<Rightarrow> copier" where
  "BackupSpec_DeepCopyInto C = copy_struct
     [(''KnowledgeBaseRef'', assign), (''Destination'', BackupDestination_DeepCopyInto C)]"

definition BackupStatus_DeepCopyInto :: "library \<Rightarrow> copier" where
  "BackupStatus_DeepCopyInto C = copy_struct
     [(''CompletionTime'', call_copy (C ''metav1.Time.DeepCopy'')),
      (''Conditions'', make_slice (C ''metav1.Condition''))]"

definition Backup_DeepCopyInto :: "library \<Rightarrow> copier" where
  "Backup_DeepCopyInto C = copy_struct
     [(''TypeMeta'', assign), (''ObjectMeta'', C ''metav1.ObjectMeta''), (''Spec'', BackupSpec_DeepCopyInto C),
      (''Status'', BackupStatus_DeepCopyInto C)]"

definition BackupList_DeepCopyInto :: "library \<Rightarrow> copier" where
  "BackupList_DeepCopyInto C = copy_struct
     [(''TypeMeta'', assign), (''ListMeta'', C ''metav1.ListMeta''), (''Items'', make_slice (Backup_DeepCopyInto C))]"

definition ChunkingSpec_DeepCopyInto :: "library \<Rightarrow> copier" where
  "ChunkingSpec_DeepCopyInto C = copy_struct
     []"

definition IngestionRunSpec_DeepCopyInto :: "library \<Rightarrow> copier" where
  "IngestionRunSpec_DeepCopyInto C = copy_struct
     [(''KnowledgeBaseRef'', assign), (''EffectiveChunking'', assign)]"

definition SourceStatus_DeepCopyInto :: "library \<Rightarrow> copier" where
  "SourceStatus_DeepCopyInto C = copy_struct
     []"

definition IngestionRunStatus_DeepCopyInto :: "library \<Rightarrow> copier" where
  "IngestionRunStatus_DeepCopyInto C = copy_struct
     [(''StartTime'', call_copy (C ''metav1.Time.DeepCopy'')),
      (''CompletionTime'', call_copy (C ''metav1.Time.DeepCopy'')), (''Sources'', make_slice assign)]"

definition IngestionRun_DeepCopyInto :: "library \<Rightarrow> copier" where
  "IngestionRun_DeepCopyInto C = copy_struct
     [(''TypeMeta'', assign), (''ObjectMeta'', C ''metav1.ObjectMeta''), (''Spec'', assign),
      (''Status'', IngestionRunStatus_DeepCopyInto C)]"

definition IngestionRunList_DeepCopyInto :: "library \<Rightarrow> copier" where
  "IngestionRunList_DeepCopyInto C = copy_struct
     [(''TypeMeta'', assign), (''ListMeta'', C ''metav1.ListMeta''),
      (''Items'', make_slice (IngestionRun_DeepCopyInto C))]"

definition GitHubSource_DeepCopyInto :: "library \<Rightarrow> copier" where
  "GitHubSource_DeepCopyInto C = copy_struct
     [(''IncludeGlobs'', make_slice assign), (''TokenSecretRef'', new_copy assign)]"

definition S3Source_DeepCopyInto :: "library \<Rightarrow> copier" where
  "S3Source_DeepCopyInto C = copy_struct
     [(''IncludeGlobs'', make_slice assign), (''AccessKeySecretRef'', new_copy assign),
      (''SecretKeySecretRef'', new_copy assign)]"

definition WebSource_DeepCopyInto :: "library \<Rightarrow> copier" where
  "WebSource_DeepCopyInto C = copy_struct
     [(''URLs'', make_slice assign), (''SameDomainOnly'', new_copy assign)]"

definition Source_DeepCopyInto :: "library \<Rightarrow> copier" where
  "Source_DeepCopyInto C = copy_struct
     [(''GitHub'', new_copy (GitHubSource_DeepCopyInto C)), (''S3'', new_copy (S3Source_DeepCopyInto C)),
      (''Web'', new_copy (WebSource_DeepCopyInto C))]"

definition EmbeddingSpec_DeepCopyInto :: "library \<Rightarrow> copier" where
  "EmbeddingSpec_DeepCopyInto C = copy_struct
     [(''APIKeySecretRef'', new_copy assign)]"

definition VectorStoreSpec_DeepCopyInto :: "library \<Rightarrow> copier" where
  "VectorStoreSpec_DeepCopyInto C = copy_struct
     [(''CredentialsSecretRef'', new_copy assign)]"

definition FreshnessSpec_DeepCopyInto :: "library \<Rightarrow> copier" where
  "FreshnessSpec_DeepCopyInto C = copy_struct
     []"

definition ResourceRequirements_DeepCopyInto :: "library \<Rightarrow> copier" where
  "ResourceRequirements_DeepCopyInto C = copy_struct
     []"

definition IngestionSpec_DeepCopyInto :: "library \<Rightarrow> copier" where
  "IngestionSpec_DeepCopyInto C = copy_struct
     [(''Resources'', new_copy assign), (''NodeSelector'', make_map),
      (''Tolerations'', make_slice (C ''corev1.Toleration'')), (''Affinity'', new_copy (C ''corev1.Affinity'')),
      (''TTLSecondsAfterFinished'', new_copy assign), (''ActiveDeadlineSeconds'', new_copy assign)]"

definition AutoTuneSpec_DeepCopyInto :: "library \<Rightarrow> copier" where
  "AutoTuneSpec_DeepCopyInto C = copy_struct
     [(''Enabled'', new_copy assign)]"

definition RetrievalQualitySpec_DeepCopyInto :: "library \<Rightarrow> copier" where
  "RetrievalQualitySpec_DeepCopyInto C = copy_struct
     [(''Enabled'', new_copy assign), (''DatasetRef'', assign),
      (''AutoTune'', new_copy (AutoTuneSpec_DeepCopyInto C))]"

definition KnowledgeBaseSpec_DeepCopyInto :: "library \<Rightarrow> copier" where
  "KnowledgeBaseSpec_DeepCopyInto C = copy_struct
     [(''Sources'', make_slice (Source_DeepCopyInto C)), (''Chunking'', assign),
      (''Embedding'', EmbeddingSpec_DeepCopyInto C), (''VectorStore'', VectorStoreSpec_DeepCopyInto C),
      (''Freshness'', assign), (''Ingestion'', IngestionSpec_DeepCopyInto C),
      (''RetrievalQuality'', new_copy (RetrievalQualitySpec_DeepCopyInto C))]"

definition IngestSourceResult_DeepCopyInto :: "library \<Rightarrow> copier" where
  "IngestSourceResult_DeepCopyInto C = copy_struct
     []"

definition EvaluationStatus_DeepCopyInto :: "library \<Rightarrow> copier" where
  "EvaluationStatus_DeepCopyInto C = copy_struct
     [(''Time'', call_copy (C ''metav1.Time.DeepCopy''))]"

definition KnowledgeBaseStatus_DeepCopyInto :: "library \<Rightarrow> copier" where
  "KnowledgeBaseStatus_DeepCopyInto C = copy_struct
     [(''LastFailureTime'', call_copy (C ''metav1.Time.DeepCopy'')),
      (''ObservedEmbedding'', new_copy (EmbeddingSpec_DeepCopyInto C)), (''EffectiveChunking'', new_copy assign),
      (''AutoTuneStartedAt'', call_copy (C ''metav1.Time.DeepCopy'')), (''BestChunking'', new_copy assign),
      (''LastIndexedTime'', call_copy (C ''metav1.Time.DeepCopy'')), (''LastCheckpoint'', make_slice assign),
      (''Sources'', make_slice assign), (''Evaluation'', new_copy (EvaluationStatus_DeepCopyInto C)),
      (''ActiveJobStartedAt'', call_copy (C ''metav1.Time.DeepCopy'')),
      (''Conditions'', make_slice (C ''metav1.Condition''))]"

definition KnowledgeBase_DeepCopyInto :: "library \<Rightarrow> copier" where
  "KnowledgeBase_DeepCopyInto C = copy_struct
     [(''TypeMeta'', assign), (''ObjectMeta'', C ''metav1.ObjectMeta''),
      (''Spec'', KnowledgeBaseSpec_DeepCopyInto C), (''Status'', KnowledgeBaseStatus_DeepCopyInto C)]"

definition KnowledgeBaseList_DeepCopyInto :: "library \<Rightarrow> copier" where
  "KnowledgeBaseList_DeepCopyInto C = copy_struct
     [(''TypeMeta'', assign), (''ListMeta'', C ''metav1.ListMeta''),
      (''Items'', make_slice (KnowledgeBase_DeepCopyInto C))]"

definition RestoreSpec_DeepCopyInto :: "library \<Rightarrow> copier" where
  "RestoreSpec_DeepCopyInto C = copy_struct
     [(''BackupRef'', assign), (''KnowledgeBaseRef'', assign)]"

definition RestoreStatus_DeepCopyInto :: "library \<Rightarrow> copier" where
  "RestoreStatus_DeepCopyInto C = copy_struct
     [(''CompletionTime'', call_copy (C ''metav1.Time.DeepCopy'')),
      (''Conditions'', make_slice (C ''metav1.Condition''))]"

definition Restore_DeepCopyInto :: "library \<Rightarrow> copier" where
  "Restore_DeepCopyInto C = copy_struct
     [(''TypeMeta'', assign), (''ObjectMeta'', C ''metav1.ObjectMeta''), (''Spec'', assign),
      (''Status'', RestoreStatus_DeepCopyInto C)]"

definition RestoreList_DeepCopyInto :: "library \<Rightarrow> copier" where
  "RestoreList_DeepCopyInto C = copy_struct
     [(''TypeMeta'', assign), (''ListMeta'', C ''metav1.ListMeta''),
      (''Items'', make_slice (Restore_DeepCopyInto C))]"

definition RerankSpec_DeepCopyInto :: "library \<Rightarrow> copier" where
  "RerankSpec_DeepCopyInto C = copy_struct
     [(''Enabled'', new_copy assign)]"

definition RateLimitSpec_DeepCopyInto :: "library \<Rightarrow> copier" where
  "RateLimitSpec_DeepCopyInto C = copy_struct
     [(''Enabled'', new_copy assign), (''RedisURLSecretRef'', new_copy assign)]"

definition AutoscalingSpec_DeepCopyInto :: "library \<Rightarrow> copier" where
  "AutoscalingSpec_DeepCopyInto C = copy_struct
     [(''Enabled'', new_copy assign)]"

definition RetrieverIngressSpec_DeepCopyInto :: "library \<Rightarrow> copier" where
  "RetrieverIngressSpec_DeepCopyInto C = copy_struct
     [(''Annotations'', make_map)]"

definition OIDCSpec_DeepCopyInto :: "library \<Rightarrow> copier" where
  "OIDCSpec_DeepCopyInto C = copy_struct
     [(''ClientIDSecretRef'', assign), (''ClientSecretSecretRef'', assign), (''CookieSecretRef'', assign),
      (''EmailDomains'', make_slice assign), (''Groups'', make_slice assign)]"

definition GenerationSpec_DeepCopyInto :: "library \<Rightarrow> copier" where
  "GenerationSpec_DeepCopyInto C = copy_struct
     [(''Enabled'', new_copy assign), (''APIKeySecretRef'', new_copy assign)]"

definition RetrieverSpec_DeepCopyInto :: "library \<Rightarrow> copier" where
  "RetrieverSpec_DeepCopyInto C = copy_struct
     [(''KnowledgeBaseRef'', assign), (''APIKeySecretRef'', new_copy assign),
      (''RateLimit'', new_copy (RateLimitSpec_DeepCopyInto C)), (''PodDisruptionBudget'', new_copy assign),
      (''Autoscaling'', new_copy (AutoscalingSpec_DeepCopyInto C)),
      (''Ingress'', new_copy (RetrieverIngressSpec_DeepCopyInto C)), (''OIDC'', new_copy (OIDCSpec_DeepCopyInto C)),
      (''Generation'', new_copy (GenerationSpec_DeepCopyInto C)), (''HybridDensePercent'', new_copy assign),
      (''Rerank'', new_copy (RerankSpec_DeepCopyInto C)),
      (''Resources'', new_copy (C ''corev1.ResourceRequirements'')), (''NodeSelector'', make_map),
      (''Tolerations'', make_slice (C ''corev1.Toleration'')), (''Affinity'', new_copy (C ''corev1.Affinity''))]"

definition RetrieverStatus_DeepCopyInto :: "library \<Rightarrow> copier" where
  "RetrieverStatus_DeepCopyInto C = copy_struct
     [(''Conditions'', make_slice (C ''metav1.Condition''))]"

definition Retriever_DeepCopyInto :: "library \<Rightarrow> copier" where
  "Retriever_DeepCopyInto C = copy_struct
     [(''TypeMeta'', assign), (''ObjectMeta'', C ''metav1.ObjectMeta''), (''Spec'', RetrieverSpec_DeepCopyInto C),
      (''Status'', RetrieverStatus_DeepCopyInto C)]"

definition RetrieverList_DeepCopyInto :: "library \<Rightarrow> copier" where
  "RetrieverList_DeepCopyInto C = copy_struct
     [(''TypeMeta'', assign), (''ListMeta'', C ''metav1.ListMeta''),
      (''Items'', make_slice (Retriever_DeepCopyInto C))]"

definition VectorIndexSpec_DeepCopyInto :: "library \<Rightarrow> copier" where
  "VectorIndexSpec_DeepCopyInto C = copy_struct
     [(''KnowledgeBaseRef'', assign), (''Store'', VectorStoreSpec_DeepCopyInto C)]"

definition VectorIndexStatus_DeepCopyInto :: "library \<Rightarrow> copier" where
  "VectorIndexStatus_DeepCopyInto C = copy_struct
     [(''LastProbeTime'', call_copy (C ''metav1.Time.DeepCopy'')),
      (''Conditions'', make_slice (C ''metav1.Condition''))]"

definition VectorIndex_DeepCopyInto :: "library \<Rightarrow> copier" where
  "VectorIndex_DeepCopyInto C = copy_struct
     [(''TypeMeta'', assign), (''ObjectMeta'', C ''metav1.ObjectMeta''), (''Spec'', VectorIndexSpec_DeepCopyInto C),
      (''Status'', VectorIndexStatus_DeepCopyInto C)]"

definition VectorIndexList_DeepCopyInto :: "library \<Rightarrow> copier" where
  "VectorIndexList_DeepCopyInto C = copy_struct
     [(''TypeMeta'', assign), (''ListMeta'', C ''metav1.ListMeta''),
      (''Items'', make_slice (VectorIndex_DeepCopyInto C))]"

section \<open>Copying a pointer\<close>

text \<open>The functions \<open>DeepCopy\<close>.\<close>

definition SecretKeyRef_DeepCopy :: "library \<Rightarrow> copier" where
  "SecretKeyRef_DeepCopy C = deep_copy (SecretKeyRef_DeepCopyInto C)"

definition S3BackupTarget_DeepCopy :: "library \<Rightarrow> copier" where
  "S3BackupTarget_DeepCopy C = deep_copy (S3BackupTarget_DeepCopyInto C)"

definition BackupDestination_DeepCopy :: "library \<Rightarrow> copier" where
  "BackupDestination_DeepCopy C = deep_copy (BackupDestination_DeepCopyInto C)"

definition LocalObjectRef_DeepCopy :: "library \<Rightarrow> copier" where
  "LocalObjectRef_DeepCopy C = deep_copy (LocalObjectRef_DeepCopyInto C)"

definition BackupSpec_DeepCopy :: "library \<Rightarrow> copier" where
  "BackupSpec_DeepCopy C = deep_copy (BackupSpec_DeepCopyInto C)"

definition BackupStatus_DeepCopy :: "library \<Rightarrow> copier" where
  "BackupStatus_DeepCopy C = deep_copy (BackupStatus_DeepCopyInto C)"

definition Backup_DeepCopy :: "library \<Rightarrow> copier" where
  "Backup_DeepCopy C = deep_copy (Backup_DeepCopyInto C)"

definition BackupList_DeepCopy :: "library \<Rightarrow> copier" where
  "BackupList_DeepCopy C = deep_copy (BackupList_DeepCopyInto C)"

definition ChunkingSpec_DeepCopy :: "library \<Rightarrow> copier" where
  "ChunkingSpec_DeepCopy C = deep_copy (ChunkingSpec_DeepCopyInto C)"

definition IngestionRunSpec_DeepCopy :: "library \<Rightarrow> copier" where
  "IngestionRunSpec_DeepCopy C = deep_copy (IngestionRunSpec_DeepCopyInto C)"

definition SourceStatus_DeepCopy :: "library \<Rightarrow> copier" where
  "SourceStatus_DeepCopy C = deep_copy (SourceStatus_DeepCopyInto C)"

definition IngestionRunStatus_DeepCopy :: "library \<Rightarrow> copier" where
  "IngestionRunStatus_DeepCopy C = deep_copy (IngestionRunStatus_DeepCopyInto C)"

definition IngestionRun_DeepCopy :: "library \<Rightarrow> copier" where
  "IngestionRun_DeepCopy C = deep_copy (IngestionRun_DeepCopyInto C)"

definition IngestionRunList_DeepCopy :: "library \<Rightarrow> copier" where
  "IngestionRunList_DeepCopy C = deep_copy (IngestionRunList_DeepCopyInto C)"

definition GitHubSource_DeepCopy :: "library \<Rightarrow> copier" where
  "GitHubSource_DeepCopy C = deep_copy (GitHubSource_DeepCopyInto C)"

definition S3Source_DeepCopy :: "library \<Rightarrow> copier" where
  "S3Source_DeepCopy C = deep_copy (S3Source_DeepCopyInto C)"

definition WebSource_DeepCopy :: "library \<Rightarrow> copier" where
  "WebSource_DeepCopy C = deep_copy (WebSource_DeepCopyInto C)"

definition Source_DeepCopy :: "library \<Rightarrow> copier" where
  "Source_DeepCopy C = deep_copy (Source_DeepCopyInto C)"

definition EmbeddingSpec_DeepCopy :: "library \<Rightarrow> copier" where
  "EmbeddingSpec_DeepCopy C = deep_copy (EmbeddingSpec_DeepCopyInto C)"

definition VectorStoreSpec_DeepCopy :: "library \<Rightarrow> copier" where
  "VectorStoreSpec_DeepCopy C = deep_copy (VectorStoreSpec_DeepCopyInto C)"

definition FreshnessSpec_DeepCopy :: "library \<Rightarrow> copier" where
  "FreshnessSpec_DeepCopy C = deep_copy (FreshnessSpec_DeepCopyInto C)"

definition ResourceRequirements_DeepCopy :: "library \<Rightarrow> copier" where
  "ResourceRequirements_DeepCopy C = deep_copy (ResourceRequirements_DeepCopyInto C)"

definition IngestionSpec_DeepCopy :: "library \<Rightarrow> copier" where
  "IngestionSpec_DeepCopy C = deep_copy (IngestionSpec_DeepCopyInto C)"

definition AutoTuneSpec_DeepCopy :: "library \<Rightarrow> copier" where
  "AutoTuneSpec_DeepCopy C = deep_copy (AutoTuneSpec_DeepCopyInto C)"

definition RetrievalQualitySpec_DeepCopy :: "library \<Rightarrow> copier" where
  "RetrievalQualitySpec_DeepCopy C = deep_copy (RetrievalQualitySpec_DeepCopyInto C)"

definition KnowledgeBaseSpec_DeepCopy :: "library \<Rightarrow> copier" where
  "KnowledgeBaseSpec_DeepCopy C = deep_copy (KnowledgeBaseSpec_DeepCopyInto C)"

definition IngestSourceResult_DeepCopy :: "library \<Rightarrow> copier" where
  "IngestSourceResult_DeepCopy C = deep_copy (IngestSourceResult_DeepCopyInto C)"

definition EvaluationStatus_DeepCopy :: "library \<Rightarrow> copier" where
  "EvaluationStatus_DeepCopy C = deep_copy (EvaluationStatus_DeepCopyInto C)"

definition KnowledgeBaseStatus_DeepCopy :: "library \<Rightarrow> copier" where
  "KnowledgeBaseStatus_DeepCopy C = deep_copy (KnowledgeBaseStatus_DeepCopyInto C)"

definition KnowledgeBase_DeepCopy :: "library \<Rightarrow> copier" where
  "KnowledgeBase_DeepCopy C = deep_copy (KnowledgeBase_DeepCopyInto C)"

definition KnowledgeBaseList_DeepCopy :: "library \<Rightarrow> copier" where
  "KnowledgeBaseList_DeepCopy C = deep_copy (KnowledgeBaseList_DeepCopyInto C)"

definition RestoreSpec_DeepCopy :: "library \<Rightarrow> copier" where
  "RestoreSpec_DeepCopy C = deep_copy (RestoreSpec_DeepCopyInto C)"

definition RestoreStatus_DeepCopy :: "library \<Rightarrow> copier" where
  "RestoreStatus_DeepCopy C = deep_copy (RestoreStatus_DeepCopyInto C)"

definition Restore_DeepCopy :: "library \<Rightarrow> copier" where
  "Restore_DeepCopy C = deep_copy (Restore_DeepCopyInto C)"

definition RestoreList_DeepCopy :: "library \<Rightarrow> copier" where
  "RestoreList_DeepCopy C = deep_copy (RestoreList_DeepCopyInto C)"

definition RerankSpec_DeepCopy :: "library \<Rightarrow> copier" where
  "RerankSpec_DeepCopy C = deep_copy (RerankSpec_DeepCopyInto C)"

definition RateLimitSpec_DeepCopy :: "library \<Rightarrow> copier" where
  "RateLimitSpec_DeepCopy C = deep_copy (RateLimitSpec_DeepCopyInto C)"

definition AutoscalingSpec_DeepCopy :: "library \<Rightarrow> copier" where
  "AutoscalingSpec_DeepCopy C = deep_copy (AutoscalingSpec_DeepCopyInto C)"

definition RetrieverIngressSpec_DeepCopy :: "library \<Rightarrow> copier" where
  "RetrieverIngressSpec_DeepCopy C = deep_copy (RetrieverIngressSpec_DeepCopyInto C)"

definition OIDCSpec_DeepCopy :: "library \<Rightarrow> copier" where
  "OIDCSpec_DeepCopy C = deep_copy (OIDCSpec_DeepCopyInto C)"

definition GenerationSpec_DeepCopy :: "library \<Rightarrow> copier" where
  "GenerationSpec_DeepCopy C = deep_copy (GenerationSpec_DeepCopyInto C)"

definition RetrieverSpec_DeepCopy :: "library \<Rightarrow> copier" where
  "RetrieverSpec_DeepCopy C = deep_copy (RetrieverSpec_DeepCopyInto C)"

definition RetrieverStatus_DeepCopy :: "library \<Rightarrow> copier" where
  "RetrieverStatus_DeepCopy C = deep_copy (RetrieverStatus_DeepCopyInto C)"

definition Retriever_DeepCopy :: "library \<Rightarrow> copier" where
  "Retriever_DeepCopy C = deep_copy (Retriever_DeepCopyInto C)"

definition RetrieverList_DeepCopy :: "library \<Rightarrow> copier" where
  "RetrieverList_DeepCopy C = deep_copy (RetrieverList_DeepCopyInto C)"

definition VectorIndexSpec_DeepCopy :: "library \<Rightarrow> copier" where
  "VectorIndexSpec_DeepCopy C = deep_copy (VectorIndexSpec_DeepCopyInto C)"

definition VectorIndexStatus_DeepCopy :: "library \<Rightarrow> copier" where
  "VectorIndexStatus_DeepCopy C = deep_copy (VectorIndexStatus_DeepCopyInto C)"

definition VectorIndex_DeepCopy :: "library \<Rightarrow> copier" where
  "VectorIndex_DeepCopy C = deep_copy (VectorIndex_DeepCopyInto C)"

definition VectorIndexList_DeepCopy :: "library \<Rightarrow> copier" where
  "VectorIndexList_DeepCopy C = deep_copy (VectorIndexList_DeepCopyInto C)"

text \<open>The functions \<open>DeepCopyObject\<close> of the resources and their lists.\<close>

definition Backup_DeepCopyObject :: "library \<Rightarrow> copier" where
  "Backup_DeepCopyObject C = deep_copy_object (Backup_DeepCopy C)"

definition BackupList_DeepCopyObject :: "library \<Rightarrow> copier" where
  "BackupList_DeepCopyObject C = deep_copy_object (BackupList_DeepCopy C)"

definition IngestionRun_DeepCopyObject :: "library \<Rightarrow> copier" where
  "IngestionRun_DeepCopyObject C = deep_copy_object (IngestionRun_DeepCopy C)"

definition IngestionRunList_DeepCopyObject :: "library \<Rightarrow> copier" where
  "IngestionRunList_DeepCopyObject C = deep_copy_object (IngestionRunList_DeepCopy C)"

definition KnowledgeBase_DeepCopyObject :: "library \<Rightarrow> copier" where
  "KnowledgeBase_DeepCopyObject C = deep_copy_object (KnowledgeBase_DeepCopy C)"

definition KnowledgeBaseList_DeepCopyObject :: "library \<Rightarrow> copier" where
  "KnowledgeBaseList_DeepCopyObject C = deep_copy_object (KnowledgeBaseList_DeepCopy C)"

definition Restore_DeepCopyObject :: "library \<Rightarrow> copier" where
  "Restore_DeepCopyObject C = deep_copy_object (Restore_DeepCopy C)"

definition RestoreList_DeepCopyObject :: "library \<Rightarrow> copier" where
  "RestoreList_DeepCopyObject C = deep_copy_object (RestoreList_DeepCopy C)"

definition Retriever_DeepCopyObject :: "library \<Rightarrow> copier" where
  "Retriever_DeepCopyObject C = deep_copy_object (Retriever_DeepCopy C)"

definition RetrieverList_DeepCopyObject :: "library \<Rightarrow> copier" where
  "RetrieverList_DeepCopyObject C = deep_copy_object (RetrieverList_DeepCopy C)"

definition VectorIndex_DeepCopyObject :: "library \<Rightarrow> copier" where
  "VectorIndex_DeepCopyObject C = deep_copy_object (VectorIndex_DeepCopy C)"

definition VectorIndexList_DeepCopyObject :: "library \<Rightarrow> copier" where
  "VectorIndexList_DeepCopyObject C = deep_copy_object (VectorIndexList_DeepCopy C)"

text \<open>All of them, each with its type.\<close>

definition generated_into :: "library \<Rightarrow> (ty \<times> copier) list" where
  "generated_into C =
     [(T_SecretKeyRef, SecretKeyRef_DeepCopyInto C), (T_S3BackupTarget, S3BackupTarget_DeepCopyInto C),
      (T_BackupDestination, BackupDestination_DeepCopyInto C), (T_LocalObjectRef, LocalObjectRef_DeepCopyInto C),
      (T_BackupSpec, BackupSpec_DeepCopyInto C), (T_BackupStatus, BackupStatus_DeepCopyInto C),
      (T_Backup, Backup_DeepCopyInto C), (T_BackupList, BackupList_DeepCopyInto C),
      (T_ChunkingSpec, ChunkingSpec_DeepCopyInto C), (T_IngestionRunSpec, IngestionRunSpec_DeepCopyInto C),
      (T_SourceStatus, SourceStatus_DeepCopyInto C), (T_IngestionRunStatus, IngestionRunStatus_DeepCopyInto C),
      (T_IngestionRun, IngestionRun_DeepCopyInto C), (T_IngestionRunList, IngestionRunList_DeepCopyInto C),
      (T_GitHubSource, GitHubSource_DeepCopyInto C), (T_S3Source, S3Source_DeepCopyInto C),
      (T_WebSource, WebSource_DeepCopyInto C), (T_Source, Source_DeepCopyInto C),
      (T_EmbeddingSpec, EmbeddingSpec_DeepCopyInto C), (T_VectorStoreSpec, VectorStoreSpec_DeepCopyInto C),
      (T_FreshnessSpec, FreshnessSpec_DeepCopyInto C), (T_ResourceRequirements, ResourceRequirements_DeepCopyInto C),
      (T_IngestionSpec, IngestionSpec_DeepCopyInto C), (T_AutoTuneSpec, AutoTuneSpec_DeepCopyInto C),
      (T_RetrievalQualitySpec, RetrievalQualitySpec_DeepCopyInto C),
      (T_KnowledgeBaseSpec, KnowledgeBaseSpec_DeepCopyInto C),
      (T_IngestSourceResult, IngestSourceResult_DeepCopyInto C),
      (T_EvaluationStatus, EvaluationStatus_DeepCopyInto C),
      (T_KnowledgeBaseStatus, KnowledgeBaseStatus_DeepCopyInto C), (T_KnowledgeBase, KnowledgeBase_DeepCopyInto C),
      (T_KnowledgeBaseList, KnowledgeBaseList_DeepCopyInto C), (T_RestoreSpec, RestoreSpec_DeepCopyInto C),
      (T_RestoreStatus, RestoreStatus_DeepCopyInto C), (T_Restore, Restore_DeepCopyInto C),
      (T_RestoreList, RestoreList_DeepCopyInto C), (T_RerankSpec, RerankSpec_DeepCopyInto C),
      (T_RateLimitSpec, RateLimitSpec_DeepCopyInto C), (T_AutoscalingSpec, AutoscalingSpec_DeepCopyInto C),
      (T_RetrieverIngressSpec, RetrieverIngressSpec_DeepCopyInto C), (T_OIDCSpec, OIDCSpec_DeepCopyInto C),
      (T_GenerationSpec, GenerationSpec_DeepCopyInto C), (T_RetrieverSpec, RetrieverSpec_DeepCopyInto C),
      (T_RetrieverStatus, RetrieverStatus_DeepCopyInto C), (T_Retriever, Retriever_DeepCopyInto C),
      (T_RetrieverList, RetrieverList_DeepCopyInto C), (T_VectorIndexSpec, VectorIndexSpec_DeepCopyInto C),
      (T_VectorIndexStatus, VectorIndexStatus_DeepCopyInto C), (T_VectorIndex, VectorIndex_DeepCopyInto C),
      (T_VectorIndexList, VectorIndexList_DeepCopyInto C)]"

definition generated_copies :: "library \<Rightarrow> (ty \<times> copier) list" where
  "generated_copies C =
     [(T_SecretKeyRef, SecretKeyRef_DeepCopy C), (T_S3BackupTarget, S3BackupTarget_DeepCopy C),
      (T_BackupDestination, BackupDestination_DeepCopy C), (T_LocalObjectRef, LocalObjectRef_DeepCopy C),
      (T_BackupSpec, BackupSpec_DeepCopy C), (T_BackupStatus, BackupStatus_DeepCopy C),
      (T_Backup, Backup_DeepCopy C), (T_BackupList, BackupList_DeepCopy C),
      (T_ChunkingSpec, ChunkingSpec_DeepCopy C), (T_IngestionRunSpec, IngestionRunSpec_DeepCopy C),
      (T_SourceStatus, SourceStatus_DeepCopy C), (T_IngestionRunStatus, IngestionRunStatus_DeepCopy C),
      (T_IngestionRun, IngestionRun_DeepCopy C), (T_IngestionRunList, IngestionRunList_DeepCopy C),
      (T_GitHubSource, GitHubSource_DeepCopy C), (T_S3Source, S3Source_DeepCopy C),
      (T_WebSource, WebSource_DeepCopy C), (T_Source, Source_DeepCopy C),
      (T_EmbeddingSpec, EmbeddingSpec_DeepCopy C), (T_VectorStoreSpec, VectorStoreSpec_DeepCopy C),
      (T_FreshnessSpec, FreshnessSpec_DeepCopy C), (T_ResourceRequirements, ResourceRequirements_DeepCopy C),
      (T_IngestionSpec, IngestionSpec_DeepCopy C), (T_AutoTuneSpec, AutoTuneSpec_DeepCopy C),
      (T_RetrievalQualitySpec, RetrievalQualitySpec_DeepCopy C), (T_KnowledgeBaseSpec, KnowledgeBaseSpec_DeepCopy C),
      (T_IngestSourceResult, IngestSourceResult_DeepCopy C), (T_EvaluationStatus, EvaluationStatus_DeepCopy C),
      (T_KnowledgeBaseStatus, KnowledgeBaseStatus_DeepCopy C), (T_KnowledgeBase, KnowledgeBase_DeepCopy C),
      (T_KnowledgeBaseList, KnowledgeBaseList_DeepCopy C), (T_RestoreSpec, RestoreSpec_DeepCopy C),
      (T_RestoreStatus, RestoreStatus_DeepCopy C), (T_Restore, Restore_DeepCopy C),
      (T_RestoreList, RestoreList_DeepCopy C), (T_RerankSpec, RerankSpec_DeepCopy C),
      (T_RateLimitSpec, RateLimitSpec_DeepCopy C), (T_AutoscalingSpec, AutoscalingSpec_DeepCopy C),
      (T_RetrieverIngressSpec, RetrieverIngressSpec_DeepCopy C), (T_OIDCSpec, OIDCSpec_DeepCopy C),
      (T_GenerationSpec, GenerationSpec_DeepCopy C), (T_RetrieverSpec, RetrieverSpec_DeepCopy C),
      (T_RetrieverStatus, RetrieverStatus_DeepCopy C), (T_Retriever, Retriever_DeepCopy C),
      (T_RetrieverList, RetrieverList_DeepCopy C), (T_VectorIndexSpec, VectorIndexSpec_DeepCopy C),
      (T_VectorIndexStatus, VectorIndexStatus_DeepCopy C), (T_VectorIndex, VectorIndex_DeepCopy C),
      (T_VectorIndexList, VectorIndexList_DeepCopy C)]"

definition generated_objects :: "library \<Rightarrow> (ty \<times> copier) list" where
  "generated_objects C =
     [(T_Backup, Backup_DeepCopyObject C), (T_BackupList, BackupList_DeepCopyObject C),
      (T_IngestionRun, IngestionRun_DeepCopyObject C), (T_IngestionRunList, IngestionRunList_DeepCopyObject C),
      (T_KnowledgeBase, KnowledgeBase_DeepCopyObject C), (T_KnowledgeBaseList, KnowledgeBaseList_DeepCopyObject C),
      (T_Restore, Restore_DeepCopyObject C), (T_RestoreList, RestoreList_DeepCopyObject C),
      (T_Retriever, Retriever_DeepCopyObject C), (T_RetrieverList, RetrieverList_DeepCopyObject C),
      (T_VectorIndex, VectorIndex_DeepCopyObject C), (T_VectorIndexList, VectorIndexList_DeepCopyObject C)]"

section \<open>The registered types\<close>

text \<open>
  The types \<open>addKnownTypes\<close> of \<open>groupversion_info.go\<close> adds to the scheme: the resources and their lists.
\<close>

definition addKnownTypes :: "ty list" where
  "addKnownTypes =
     [T_KnowledgeBase, T_KnowledgeBaseList,
      T_Retriever, T_RetrieverList,
      T_VectorIndex, T_VectorIndexList,
      T_IngestionRun, T_IngestionRunList,
      T_Backup, T_BackupList,
      T_Restore, T_RestoreList]"

text \<open>Only what has \<open>DeepCopyObject\<close> can be added, and everything that has it is.\<close>

lemma known_types_are_objects: "set addKnownTypes = fst ` set (generated_objects C)"
  by (simp add: addKnownTypes_def generated_objects_def) blast

end
