(* ===== verification/Deep_Copy_Correct.thy ===== *)
theory Deep_Copy_Correct
  imports Deep_Copy
begin

text \<open>
  Every generated copy is a copy: it stands for the same tree, leaves the heap it found as it was and
  shares nothing with the original.  So the rest of the model may pass trees where the code passes
  \<open>DeepCopy()\<close> of an object (\<open>statusUpdate\<close>, \<open>marshalSpec\<close>, \<open>observedEmbedding\<close>).
\<close>

section \<open>The library\<close>

text \<open>
  What is assumed of the copies of other packages: they copy the trees \<open>F\<close> of their type; a
  \<open>TypeMeta\<close>, which is assigned, holds no reference.
\<close>

definition library_copies :: "(string \<Rightarrow> tree \<Rightarrow> bool) \<Rightarrow> library \<Rightarrow> bool" where
  "library_copies F C \<longleftrightarrow>
     (\<forall>n \<in> {''metav1.ObjectMeta'', ''metav1.ListMeta'', ''metav1.Condition'', ''corev1.Toleration'',
             ''corev1.Affinity'', ''corev1.ResourceRequirements''}. copies (has_type F (TLib n)) (C n)) \<and>
     copies (\<lambda>t. \<exists>u. t = TRef u \<and> has_type F (TLib ''metav1.Time'') u) (C ''metav1.Time.DeepCopy'') \<and>
     copies (has_type F (TLib ''metav1.TypeMeta'')) assign"

lemma library_copiesD:
  assumes "library_copies F C"
  shows "copies (has_type F (TLib ''metav1.ObjectMeta'')) (C ''metav1.ObjectMeta'')"
    "copies (has_type F (TLib ''metav1.ListMeta'')) (C ''metav1.ListMeta'')"
    "copies (has_type F (TLib ''metav1.Condition'')) (C ''metav1.Condition'')"
    "copies (has_type F (TLib ''corev1.Toleration'')) (C ''corev1.Toleration'')"
    "copies (has_type F (TLib ''corev1.Affinity'')) (C ''corev1.Affinity'')"
    "copies (has_type F (TLib ''corev1.ResourceRequirements'')) (C ''corev1.ResourceRequirements'')"
    "copies (has_type F (TPtr (TLib ''metav1.Time''))) (call_copy (C ''metav1.Time.DeepCopy''))"
    "copies (has_type F (TLib ''metav1.TypeMeta'')) assign"
  using assms by (simp_all add: library_copies_def copies_call)

section \<open>The structs\<close>

lemma flat_structs [simp]:
  "flat_type T_SecretKeyRef" "flat_type T_LocalObjectRef" "flat_type T_ChunkingSpec"
  "flat_type T_SourceStatus" "flat_type T_FreshnessSpec" "flat_type T_ResourceRequirements"
  "flat_type T_IngestSourceResult" "flat_type T_S3BackupTarget" "flat_type T_IngestionRunSpec"
  "flat_type T_RestoreSpec"
  by (simp_all add: T_SecretKeyRef_def T_LocalObjectRef_def T_ChunkingSpec_def T_SourceStatus_def T_FreshnessSpec_def
      T_ResourceRequirements_def T_IngestSourceResult_def T_S3BackupTarget_def T_IngestionRunSpec_def
      T_RestoreSpec_def)

lemmas copy_rules = copies_field_def copies_pointer copies_flat copies_make_slice copies_make_map

text \<open>In the order of nesting; each level uses the ones before.\<close>

lemma copies_level0:
  assumes "library_copies F C"
  shows "copies (has_type F T_SecretKeyRef) (SecretKeyRef_DeepCopyInto C)"
    "copies (has_type F T_S3BackupTarget) (S3BackupTarget_DeepCopyInto C)"
    "copies (has_type F T_BackupDestination) (BackupDestination_DeepCopyInto C)"
    "copies (has_type F T_LocalObjectRef) (LocalObjectRef_DeepCopyInto C)"
    "copies (has_type F T_BackupStatus) (BackupStatus_DeepCopyInto C)"
    "copies (has_type F T_ChunkingSpec) (ChunkingSpec_DeepCopyInto C)"
    "copies (has_type F T_IngestionRunSpec) (IngestionRunSpec_DeepCopyInto C)"
    "copies (has_type F T_SourceStatus) (SourceStatus_DeepCopyInto C)"
    "copies (has_type F T_IngestionRunStatus) (IngestionRunStatus_DeepCopyInto C)"
    "copies (has_type F T_GitHubSource) (GitHubSource_DeepCopyInto C)"
    "copies (has_type F T_S3Source) (S3Source_DeepCopyInto C)"
    "copies (has_type F T_WebSource) (WebSource_DeepCopyInto C)"
    "copies (has_type F T_EmbeddingSpec) (EmbeddingSpec_DeepCopyInto C)"
    "copies (has_type F T_VectorStoreSpec) (VectorStoreSpec_DeepCopyInto C)"
    "copies (has_type F T_FreshnessSpec) (FreshnessSpec_DeepCopyInto C)"
    "copies (has_type F T_ResourceRequirements) (ResourceRequirements_DeepCopyInto C)"
    "copies (has_type F T_IngestionSpec) (IngestionSpec_DeepCopyInto C)"
    "copies (has_type F T_AutoTuneSpec) (AutoTuneSpec_DeepCopyInto C)"
    "copies (has_type F T_IngestSourceResult) (IngestSourceResult_DeepCopyInto C)"
    "copies (has_type F T_EvaluationStatus) (EvaluationStatus_DeepCopyInto C)"
    "copies (has_type F T_RestoreSpec) (RestoreSpec_DeepCopyInto C)"
    "copies (has_type F T_RestoreStatus) (RestoreStatus_DeepCopyInto C)"
    "copies (has_type F T_RerankSpec) (RerankSpec_DeepCopyInto C)"
    "copies (has_type F T_RateLimitSpec) (RateLimitSpec_DeepCopyInto C)"
    "copies (has_type F T_AutoscalingSpec) (AutoscalingSpec_DeepCopyInto C)"
    "copies (has_type F T_RetrieverIngressSpec) (RetrieverIngressSpec_DeepCopyInto C)"
    "copies (has_type F T_OIDCSpec) (OIDCSpec_DeepCopyInto C)"
    "copies (has_type F T_GenerationSpec) (GenerationSpec_DeepCopyInto C)"
    "copies (has_type F T_RetrieverStatus) (RetrieverStatus_DeepCopyInto C)"
    "copies (has_type F T_VectorIndexStatus) (VectorIndexStatus_DeepCopyInto C)"
  unfolding T_SecretKeyRef_def SecretKeyRef_DeepCopyInto_def T_S3BackupTarget_def S3BackupTarget_DeepCopyInto_def
    T_BackupDestination_def BackupDestination_DeepCopyInto_def
    T_LocalObjectRef_def LocalObjectRef_DeepCopyInto_def T_BackupStatus_def BackupStatus_DeepCopyInto_def
    T_ChunkingSpec_def ChunkingSpec_DeepCopyInto_def T_IngestionRunSpec_def IngestionRunSpec_DeepCopyInto_def
    T_SourceStatus_def SourceStatus_DeepCopyInto_def
    T_IngestionRunStatus_def IngestionRunStatus_DeepCopyInto_def
    T_GitHubSource_def GitHubSource_DeepCopyInto_def T_S3Source_def S3Source_DeepCopyInto_def
    T_WebSource_def WebSource_DeepCopyInto_def T_EmbeddingSpec_def EmbeddingSpec_DeepCopyInto_def
    T_VectorStoreSpec_def VectorStoreSpec_DeepCopyInto_def T_FreshnessSpec_def FreshnessSpec_DeepCopyInto_def
    T_ResourceRequirements_def ResourceRequirements_DeepCopyInto_def
    T_IngestionSpec_def IngestionSpec_DeepCopyInto_def T_AutoTuneSpec_def AutoTuneSpec_DeepCopyInto_def
    T_IngestSourceResult_def IngestSourceResult_DeepCopyInto_def
    T_EvaluationStatus_def EvaluationStatus_DeepCopyInto_def T_RestoreSpec_def RestoreSpec_DeepCopyInto_def
    T_RestoreStatus_def RestoreStatus_DeepCopyInto_def T_RerankSpec_def RerankSpec_DeepCopyInto_def
    T_RateLimitSpec_def RateLimitSpec_DeepCopyInto_def T_AutoscalingSpec_def AutoscalingSpec_DeepCopyInto_def
    T_RetrieverIngressSpec_def RetrieverIngressSpec_DeepCopyInto_def T_OIDCSpec_def OIDCSpec_DeepCopyInto_def
    T_GenerationSpec_def GenerationSpec_DeepCopyInto_def T_RetrieverStatus_def RetrieverStatus_DeepCopyInto_def
    T_VectorIndexStatus_def VectorIndexStatus_DeepCopyInto_def
  by (rule copies_struct, simp add: copy_rules library_copiesD [OF assms])+

lemma copies_level1:
  assumes "library_copies F C"
  shows "copies (has_type F T_BackupSpec) (BackupSpec_DeepCopyInto C)"
    "copies (has_type F T_IngestionRun) (IngestionRun_DeepCopyInto C)"
    "copies (has_type F T_Source) (Source_DeepCopyInto C)"
    "copies (has_type F T_RetrievalQualitySpec) (RetrievalQualitySpec_DeepCopyInto C)"
    "copies (has_type F T_KnowledgeBaseStatus) (KnowledgeBaseStatus_DeepCopyInto C)"
    "copies (has_type F T_Restore) (Restore_DeepCopyInto C)"
    "copies (has_type F T_RetrieverSpec) (RetrieverSpec_DeepCopyInto C)"
    "copies (has_type F T_VectorIndexSpec) (VectorIndexSpec_DeepCopyInto C)"
  unfolding T_BackupSpec_def BackupSpec_DeepCopyInto_def T_IngestionRun_def IngestionRun_DeepCopyInto_def
    T_Source_def Source_DeepCopyInto_def T_RetrievalQualitySpec_def RetrievalQualitySpec_DeepCopyInto_def
    T_KnowledgeBaseStatus_def KnowledgeBaseStatus_DeepCopyInto_def T_Restore_def Restore_DeepCopyInto_def
    T_RetrieverSpec_def RetrieverSpec_DeepCopyInto_def T_VectorIndexSpec_def VectorIndexSpec_DeepCopyInto_def
  by (rule copies_struct, simp add: copy_rules library_copiesD [OF assms] copies_level0 [OF assms])+

lemma copies_level2:
  assumes "library_copies F C"
  shows "copies (has_type F T_Backup) (Backup_DeepCopyInto C)"
    "copies (has_type F T_IngestionRunList) (IngestionRunList_DeepCopyInto C)"
    "copies (has_type F T_KnowledgeBaseSpec) (KnowledgeBaseSpec_DeepCopyInto C)"
    "copies (has_type F T_RestoreList) (RestoreList_DeepCopyInto C)"
    "copies (has_type F T_Retriever) (Retriever_DeepCopyInto C)"
    "copies (has_type F T_VectorIndex) (VectorIndex_DeepCopyInto C)"
  unfolding T_Backup_def Backup_DeepCopyInto_def T_IngestionRunList_def IngestionRunList_DeepCopyInto_def
    T_KnowledgeBaseSpec_def KnowledgeBaseSpec_DeepCopyInto_def T_RestoreList_def RestoreList_DeepCopyInto_def
    T_Retriever_def Retriever_DeepCopyInto_def T_VectorIndex_def VectorIndex_DeepCopyInto_def
  by (rule copies_struct, simp add: copy_rules library_copiesD [OF assms] copies_level0 [OF assms] copies_level1 [OF assms])+

lemma copies_level3:
  assumes "library_copies F C"
  shows "copies (has_type F T_BackupList) (BackupList_DeepCopyInto C)"
    "copies (has_type F T_KnowledgeBase) (KnowledgeBase_DeepCopyInto C)"
    "copies (has_type F T_RetrieverList) (RetrieverList_DeepCopyInto C)"
    "copies (has_type F T_VectorIndexList) (VectorIndexList_DeepCopyInto C)"
  unfolding T_BackupList_def BackupList_DeepCopyInto_def T_KnowledgeBase_def KnowledgeBase_DeepCopyInto_def
    T_RetrieverList_def RetrieverList_DeepCopyInto_def T_VectorIndexList_def VectorIndexList_DeepCopyInto_def
  by (rule copies_struct, simp add: copy_rules library_copiesD [OF assms] copies_level0 [OF assms] copies_level1 [OF assms] copies_level2 [OF assms])+

lemma copies_level4:
  assumes "library_copies F C"
  shows "copies (has_type F T_KnowledgeBaseList) (KnowledgeBaseList_DeepCopyInto C)"
  unfolding T_KnowledgeBaseList_def KnowledgeBaseList_DeepCopyInto_def
  by (rule copies_struct, simp add: copy_rules library_copiesD [OF assms] copies_level0 [OF assms] copies_level1 [OF assms] copies_level2 [OF assms] copies_level3 [OF assms])+

section \<open>All of them\<close>

lemmas copies_levels = copies_level0 copies_level1 copies_level2 copies_level3 copies_level4

lemma generated_into_copies:
  "library_copies F C \<Longrightarrow> (T, c) \<in> set (generated_into C) \<Longrightarrow> copies (has_type F T) c"
  unfolding generated_into_def by (auto intro: copies_levels)

text \<open>\<open>DeepCopy\<close> and \<open>DeepCopyObject\<close> copy what the pointer points to.\<close>

lemmas pointer_copy_defs =
  SecretKeyRef_DeepCopy_def S3BackupTarget_DeepCopy_def BackupDestination_DeepCopy_def
  LocalObjectRef_DeepCopy_def BackupSpec_DeepCopy_def BackupStatus_DeepCopy_def Backup_DeepCopy_def
  BackupList_DeepCopy_def ChunkingSpec_DeepCopy_def IngestionRunSpec_DeepCopy_def SourceStatus_DeepCopy_def
  IngestionRunStatus_DeepCopy_def IngestionRun_DeepCopy_def IngestionRunList_DeepCopy_def
  GitHubSource_DeepCopy_def S3Source_DeepCopy_def WebSource_DeepCopy_def Source_DeepCopy_def
  EmbeddingSpec_DeepCopy_def VectorStoreSpec_DeepCopy_def FreshnessSpec_DeepCopy_def
  ResourceRequirements_DeepCopy_def IngestionSpec_DeepCopy_def AutoTuneSpec_DeepCopy_def
  RetrievalQualitySpec_DeepCopy_def KnowledgeBaseSpec_DeepCopy_def IngestSourceResult_DeepCopy_def
  EvaluationStatus_DeepCopy_def KnowledgeBaseStatus_DeepCopy_def KnowledgeBase_DeepCopy_def
  KnowledgeBaseList_DeepCopy_def RestoreSpec_DeepCopy_def RestoreStatus_DeepCopy_def Restore_DeepCopy_def
  RestoreList_DeepCopy_def RerankSpec_DeepCopy_def RateLimitSpec_DeepCopy_def AutoscalingSpec_DeepCopy_def
  RetrieverIngressSpec_DeepCopy_def OIDCSpec_DeepCopy_def GenerationSpec_DeepCopy_def
  RetrieverSpec_DeepCopy_def RetrieverStatus_DeepCopy_def Retriever_DeepCopy_def RetrieverList_DeepCopy_def
  VectorIndexSpec_DeepCopy_def VectorIndexStatus_DeepCopy_def VectorIndex_DeepCopy_def
  VectorIndexList_DeepCopy_def

lemmas object_copy_defs =
  deep_copy_object_eq Backup_DeepCopyObject_def BackupList_DeepCopyObject_def IngestionRun_DeepCopyObject_def
  IngestionRunList_DeepCopyObject_def KnowledgeBase_DeepCopyObject_def KnowledgeBaseList_DeepCopyObject_def
  Restore_DeepCopyObject_def RestoreList_DeepCopyObject_def Retriever_DeepCopyObject_def
  RetrieverList_DeepCopyObject_def VectorIndex_DeepCopyObject_def VectorIndexList_DeepCopyObject_def

lemma generated_copies_eq: "generated_copies C = map (\<lambda>(T, into). (T, deep_copy into)) (generated_into C)"
  by (simp add: generated_copies_def generated_into_def pointer_copy_defs)

lemma generated_objects_eq: "set (generated_objects C) \<subseteq> set (generated_copies C)"
  by (simp add: generated_objects_def generated_copies_def object_copy_defs)

lemma generated_copies_deep:
  assumes "(T, c) \<in> set (generated_copies C) \<union> set (generated_objects C)"
  shows "\<exists>into. (T, into) \<in> set (generated_into C) \<and> c = deep_copy into"
proof -
  from assms generated_objects_eq have "(T, c) \<in> set (generated_copies C)" by blast
  then show ?thesis unfolding generated_copies_eq by auto
qed

text \<open>
  C12. The generated functions make deep copies.  For every type of the API, \<open>DeepCopyInto\<close> on a value
  of the type, and \<open>DeepCopy\<close> and \<open>DeepCopyObject\<close> on a pointer to one or nil, yield a value that
  stands for the same tree and reaches no cell the original reaches.  The heap found stays as it was;
  whatever is written later through the original leaves the copy as it is, and the other way round.
\<close>

theorem generated_copies_are_separate:
  assumes "library_copies F C"
    and "(T, c) \<in> set (generated_into C) \<or> (\<exists>U. T = TPtr U \<and> (U, c) \<in> set (generated_copies C) \<union> set (generated_objects C))"
    and "denotes h v t" "has_type F T t" "c v h = (v', h')"
  shows "denotes h' v' t \<and> extends h h' \<and> (\<forall>a. reaches h' v' a \<longrightarrow> \<not> reaches h v a) \<and>
    (\<forall>g. lim h' \<le> lim g \<and> (\<forall>a. lim h \<le> a \<longrightarrow> cells g a = cells h' a) \<longrightarrow> denotes g v' t) \<and>
    (\<forall>g. lim h' \<le> lim g \<and> (\<forall>a. a < lim h \<longrightarrow> cells g a = cells h' a) \<longrightarrow> denotes g v t)"
proof -
  have "copies (has_type F T) c"
    using assms(2) generated_copies_deep generated_into_copies [OF assms(1)] copies_deep_copy by blast
  then have copy: "fresh_copy h h' v' t" using assms(3-5) by (rule copiesD)
  then have d: "denotes h' v' t" and e: "extends h h'" and new: "\<And>a. reaches h' v' a \<Longrightarrow> lim h \<le> a"
    by (auto simp: fresh_copy_def)
  have old: "\<And>a. reaches h v a \<Longrightarrow> a < lim h" using denotes_reaches assms(3) by blast
  have "denotes g v' t" if "lim h' \<le> lim g" "\<forall>a. lim h \<le> a \<longrightarrow> cells g a = cells h' a" for g
    by (rule denotes_frame [OF d]) (use that new denotes_reaches [OF _ d] in fastforce)
  moreover have "denotes g v t" if "lim h' \<le> lim g" "\<forall>a. a < lim h \<longrightarrow> cells g a = cells h' a" for g
    by (rule denotes_frame [OF assms(3)]) (use that old e in \<open>auto simp: extends_def intro: less_le_trans [OF less_le_trans [OF old]]\<close>)
  ultimately show ?thesis using d e new old by (auto simp: not_less [symmetric])
qed

text \<open>A library whose types are basic, and a spec of which two pointers share a cell.\<close>

definition demo_trees :: "string \<Rightarrow> tree \<Rightarrow> bool" where
  "demo_trees n t \<longleftrightarrow> (\<exists>s. t = TAtom s)"

definition demo_library :: library where
  "demo_library n = (if n = ''metav1.Time.DeepCopy'' then new_copy assign else assign)"

definition demo_heap :: heap where
  "demo_heap = \<lparr>cells = (\<lambda>a. if a = 0 then Atom (SBool True) else Obj [(''Enabled'', Ref 0), (''MaxAttempts'', Atom (SInt 3))]),
     lim = 2\<rparr>"

definition demo_quality :: val where
  "demo_quality = Obj [(''Enabled'', Ref 0), (''EvalSchedule'', Atom (SStr '''')),
     (''DatasetRef'', Obj [(''Name'', Atom (SStr ''d''))]), (''TopK'', Atom (SInt 5)),
     (''MinimumRecallPercent'', Atom (SInt 80)), (''AutoTune'', Ref 1)]"

definition demo_quality_tree :: tree where
  "demo_quality_tree = TObj [(''Enabled'', TRef (TAtom (SBool True))), (''EvalSchedule'', TAtom (SStr '''')),
     (''DatasetRef'', TObj [(''Name'', TAtom (SStr ''d''))]), (''TopK'', TAtom (SInt 5)),
     (''MinimumRecallPercent'', TAtom (SInt 80)),
     (''AutoTune'', TRef (TObj [(''Enabled'', TRef (TAtom (SBool True))), (''MaxAttempts'', TAtom (SInt 3))]))]"

lemma demo_library_copies: "library_copies demo_trees demo_library"
proof -
  have a: "copies (has_type demo_trees (TLib n)) assign" for n
    by (rule copies_assign) (auto simp: demo_trees_def)
  from copies_new [OF this] have "copies (\<lambda>t. \<exists>u. t = TRef u \<and> has_type demo_trees (TLib ''metav1.Time'') u) (new_copy assign)"
    unfolding copies_def by blast
  with a show ?thesis by (simp add: library_copies_def demo_library_def)
qed

theorem generated_copies_are_separate_witness:
  "denotes (snd (RetrievalQualitySpec_DeepCopyInto demo_library demo_quality demo_heap))
     (fst (RetrievalQualitySpec_DeepCopyInto demo_library demo_quality demo_heap)) demo_quality_tree"
proof -
  have m: "(T_RetrievalQualitySpec, RetrievalQualitySpec_DeepCopyInto demo_library) \<in> set (generated_into demo_library)"
    by (simp add: generated_into_def)
  have d: "denotes demo_heap demo_quality demo_quality_tree"
    by (simp add: demo_quality_def demo_quality_tree_def demo_heap_def)
  have t: "has_type demo_trees T_RetrievalQualitySpec demo_quality_tree"
    by (simp add: demo_quality_tree_def T_RetrievalQualitySpec_def T_AutoTuneSpec_def T_LocalObjectRef_def)
  show ?thesis
    by (rule conjunct1 [OF generated_copies_are_separate [OF demo_library_copies disjI1 [OF m] d t surjective_pairing]])
qed

end
