(* ===== verification/Deletion_Correct.thy ===== *)
theory Deletion_Correct
  imports KB_Reconcile Ingestion_Correct
begin

text \<open>
  The finalizer of a KnowledgeBase stands for the remote collection: it is released exactly when a
  cleanup Job was seen to have finished, and the object is not changed otherwise.
\<close>

definition own_update :: "event \<Rightarrow> knowledge_base option" where
  "own_update e = (case e of EvUpdate (OKB kb) a \<Rightarrow> Some kb | _ \<Rightarrow> None)"

definition job_seen :: "event \<Rightarrow> bool" where
  "job_seen e \<longleftrightarrow> (case e of EvGetJob k a \<Rightarrow> True | _ \<Rightarrow> False)"

definition touches :: "event \<Rightarrow> bool" where
  "touches e \<longleftrightarrow> job_seen e \<or> own_update e \<noteq> None"

lemma touches_simps [simp]:
  "\<not> touches (EvGetSecret k r1)" "\<not> touches (EvEmit x)" "\<not> touches (EvCreate ob r2)"
  by (simp_all add: touches_def job_seen_def own_update_def)

abbreviation quiet :: "'a prog \<Rightarrow> bool" where
  "quiet \<equiv> never touches"

lemma quiet_computeSecretsHash: "quiet (computeSecretsHash L kb)"
proof -
  have no: "\<not> touches e" if "secret_reads (kb_namespace kb) (secret_refs kb) tr" "e \<in> set tr" for e tr
    using that by (auto simp: secret_reads_def list_all2_conv_all_nth in_set_conv_nth)
  have "wp (computeSecretsHash L kb) (\<lambda>tr r. count_calls touches tr \<le> 0)"
    by (rule wp_mono [OF wp_computeSecretsHash]) (use no in \<open>auto simp: count_calls_0\<close>)
  then show ?thesis by (simp add: at_most_iff)
qed

lemma quiet_start_cleanup: "quiet (start_cleanup L kb)"
  by (auto simp: start_cleanup_def never_iff
      intro!: never_pbind quiet_computeSecretsHash never_buildCleanupJob split: sum.split option.split)

text \<open>The Job of the cleanup was read, and it had finished.\<close>

definition cleaned_up :: "lib \<Rightarrow> knowledge_base \<Rightarrow> event list \<Rightarrow> bool" where
  "cleaned_up L kb tr \<longleftrightarrow>
     (\<exists>j. EvGetJob (kb_namespace kb, cleanupJobName L kb) (Inr j) \<in> set tr \<and> jobComplete j \<and> \<not> jobFailed j)"

lemma wp_reconcileDelete:
  assumes "contains_finalizer L (kb_finalizers kb) kb_finalizer"
  shows "wp (reconcileDelete L kb) (\<lambda>tr r.
     ((\<exists>e \<in> set tr. own_update e \<noteq> None) \<longleftrightarrow> cleaned_up L kb tr) \<and>
     (\<forall>e \<in> set tr. \<forall>kb'. own_update e = Some kb' \<longrightarrow>
        kb' = set_kb_finalizers (remove_finalizer L (kb_finalizers kb) kb_finalizer) kb))"
proof -
  have start: "wp (start_cleanup L kb) (\<lambda>tr r. \<forall>e \<in> set tr. own_update e = None \<and> \<not> job_seen e)"
    by (rule wp_mono [OF wp_never [OF quiet_start_cleanup]]) (simp add: touches_def)
  have cleanup: "wp (start_cleanup L kb) (\<lambda>tr r.
      ((\<exists>e \<in> set (EvGetJob k (Inl x) # tr). own_update e \<noteq> None) \<longleftrightarrow> cleaned_up L kb (EvGetJob k (Inl x) # tr)) \<and>
      (\<forall>e \<in> set (EvGetJob k (Inl x) # tr). \<forall>kb'. own_update e = Some kb' \<longrightarrow>
        kb' = set_kb_finalizers (remove_finalizer L (kb_finalizers kb) kb_finalizer) kb))" for k x
    by (rule wp_mono [OF start]) (auto simp: cleaned_up_def job_seen_def own_update_def)
  show ?thesis
    unfolding reconcileDelete_def using assms cleanup
    by (auto simp: cleaned_up_def own_update_def job_seen_def split: sum.split)
qed

section \<open>Properties\<close>

text \<open>
  C13. The finalizer of a KnowledgeBase under deletion is released exactly when the pass saw its
  cleanup Job complete and not failed: only then the object is updated, the update differs from the
  object read in the finalizers only, and it no longer has the finalizer. A missing, running or
  failed cleanup Job keeps the object.
\<close>

theorem finalizer_released_iff_cleaned_up:
  assumes "finalizers_documented L" "runs (reconcile_kb L kb) tr r" "m_deletionTimestamp (kb_meta kb) \<noteq> None"
    and "contains_finalizer L (kb_finalizers kb) kb_finalizer"
  shows "((\<exists>kb' a. EvUpdate (OKB kb') a \<in> set tr) \<longleftrightarrow>
       (\<exists>j. EvGetJob (kb_namespace kb, cleanupJobName L kb) (Inr j) \<in> set tr \<and> jobComplete j \<and> \<not> jobFailed j)) \<and>
     (\<forall>kb' a. EvUpdate (OKB kb') a \<in> set tr \<longrightarrow>
        kb' = set_kb_finalizers (remove_finalizer L (kb_finalizers kb) kb_finalizer) kb \<and>
        \<not> contains_finalizer L (kb_finalizers kb') kb_finalizer)"
proof -
  from assms(2,3) have run: "runs (reconcileDelete L kb) tr r" by (simp add: reconcile_kb_def)
  from wpD [OF wp_reconcileDelete [OF assms(4)] run]
  have iff: "(\<exists>e \<in> set tr. own_update e \<noteq> None) \<longleftrightarrow> cleaned_up L kb tr"
    and upd: "\<And>e kb'. e \<in> set tr \<Longrightarrow> own_update e = Some kb' \<Longrightarrow>
        kb' = set_kb_finalizers (remove_finalizer L (kb_finalizers kb) kb_finalizer) kb" by auto
  have own: "own_update e = Some kb' \<longleftrightarrow> (\<exists>a. e = EvUpdate (OKB kb') a)" for e kb'
    by (auto simp: own_update_def split: event.split obj.split)
  have "(\<exists>e \<in> set tr. own_update e \<noteq> None) \<longleftrightarrow> (\<exists>kb' a. EvUpdate (OKB kb') a \<in> set tr)"
    using own by auto
  moreover have "kb' = set_kb_finalizers (remove_finalizer L (kb_finalizers kb) kb_finalizer) kb \<and>
      \<not> contains_finalizer L (kb_finalizers kb') kb_finalizer" if "EvUpdate (OKB kb') a \<in> set tr" for kb' a
  proof -
    from upd [OF that] own have "kb' = set_kb_finalizers (remove_finalizer L (kb_finalizers kb) kb_finalizer) kb" by blast
    moreover from this have "\<not> contains_finalizer L (kb_finalizers kb') kb_finalizer"
      using assms(1) by (simp add: finalizers_documented_def kb_finalizers_def set_kb_finalizers_def)
    ultimately show ?thesis ..
  qed
  ultimately show ?thesis using iff by (simp add: cleaned_up_def)
qed

text \<open>A sample KnowledgeBase under deletion whose cleanup Job finished.\<close>

theorem finalizer_released_iff_cleaned_up_witness:
  "\<exists>kb' a. EvUpdate (OKB kb') a
     \<in> set (fst (exec ((empty_cluster 0)\<lparr>at_GetJob := (\<lambda>k. Inr (ended_job JobComplete))\<rparr>)
         (reconcile_kb demo_lib (demo_kb\<lparr>kb_meta := (kb_meta demo_kb)\<lparr>m_deletionTimestamp := Some 5\<rparr>\<rparr>))))"
proof -
  let ?kb = "demo_kb\<lparr>kb_meta := (kb_meta demo_kb)\<lparr>m_deletionTimestamp := Some 5\<rparr>\<rparr>"
  let ?j = "ended_job JobComplete"
  let ?p = "reconcile_kb demo_lib ?kb"
  let ?env = "(empty_cluster 0)\<lparr>at_GetJob := (\<lambda>k. Inr ?j)\<rparr>"
  have c: "contains_finalizer demo_lib (kb_finalizers ?kb) kb_finalizer" "m_deletionTimestamp (kb_meta ?kb) \<noteq> None"
    by (simp_all add: kb_finalizers_def kb_finalizer_def)
  have j: "jobComplete ?j" "\<not> jobFailed ?j"
    by (simp_all add: ended_job_def jobComplete_def jobFailed_def JobComplete_def JobFailed_def)
  have "EvGetJob (kb_namespace ?kb, cleanupJobName demo_lib ?kb) (Inr ?j) \<in> set (fst (exec ?env ?p))"
    using c by (simp add: reconcile_kb_def reconcileDelete_def exec_simps)
  with finalizer_released_iff_cleaned_up [OF demo_lib_finalizers runs_exec c(2,1)] j show ?thesis by blast
qed

section \<open>A finished Job past its deadline\<close>

text \<open>
  The check for a Job past its deadline comes before the look at its end: whether the Job completed
  or not, and whether it ingests or evaluates, it is deleted and recorded as a failed ingestion of
  the corpus.
\<close>

theorem finished_job_counts_as_stuck:
  assumes "activeJob (status kb) \<noteq> ''''" "activeJob (status kb) \<noteq> kb_name kb @ ''-cleanup''"
    and "\<not> activeIngestIsStale j chash secretsHash (observedSpecHash (status kb)) (observedSecretsHash (status kb))"
    and "isActiveJobTimedOut j (activeJobStartedAt (status kb)) now"
    and "runs (guardActiveJob L kb chash secretsHash) (EvGetJob k (Inr j) # EvNow now # tr) r"
  shows "\<exists>a. EvDelete KindJob BackgroundPropagation (job_key j) a \<in> set tr \<and>
     (\<forall>k st b. EvStatusUpdate k st b \<in> set tr \<longrightarrow> phase st = PhaseFailed \<and> lastFailedSpecHash st = chash)"
proof -
  let ?bad = "\<lambda>e. \<exists>k st. status_write e = Some (k, st) \<and> \<not> (phase st = PhaseFailed \<and> lastFailedSpecHash st = chash)"
  have "never ?bad (clearStuckJob L kb j chash)"
    unfolding clearStuckJob_def
    by (auto simp: never_iff intro!: never_pbind never_readCheckpointResult never_clearWorkerConfigMapAccess never_statusUpdate)
  then have status: "wp (clearStuckJob L kb j chash) (\<lambda>tr r. \<forall>k st b. EvStatusUpdate k st b \<in> set tr \<longrightarrow>
      phase st = PhaseFailed \<and> lastFailedSpecHash st = chash)"
    by (intro wp_mono [OF wp_never]) (auto dest!: bspec)
  have delete: "wp (clearStuckJob L kb j chash) (\<lambda>tr r. \<exists>a. EvDelete KindJob BackgroundPropagation (job_key j) a \<in> set tr)"
    unfolding clearStuckJob_def by (simp del: wp_pbind) (intro allI wpI, auto)
  have "wp (guardActiveJob L kb chash secretsHash) (\<lambda>tr r. \<forall>k tr'. tr = EvGetJob k (Inr j) # EvNow now # tr' \<longrightarrow>
     (\<exists>a. EvDelete KindJob BackgroundPropagation (job_key j) a \<in> set tr') \<and>
     (\<forall>k st b. EvStatusUpdate k st b \<in> set tr' \<longrightarrow> phase st = PhaseFailed \<and> lastFailedSpecHash st = chash))"
  proof (rule wpI, intro allI impI)
    fix tr r k tr'
    assume "runs (guardActiveJob L kb chash secretsHash) tr r" "tr = EvGetJob k (Inr j) # EvNow now # tr'"
    then have "runs (if activeIngestIsStale j chash secretsHash (observedSpecHash (status kb)) (observedSecretsHash (status kb))
        then cancelStaleJob L kb j
        else Now (\<lambda>now. if isActiveJobTimedOut j (activeJobStartedAt (status kb)) now then clearStuckJob L kb j chash
          else Done (kb, None))) (EvNow now # tr') r"
      unfolding guardActiveJob_def if_P [OF conjI [OF assms(1,2)]] runs_GetJob_iff
      by (elim exE conjE) (simp only: list.inject event.inject sum.inject sum.case)
    then have "runs (clearStuckJob L kb j chash) tr' r"
      unfolding if_not_P [OF assms(3)] runs_Now_iff
      using assms(4) by (elim exE conjE) (simp only: list.inject event.inject if_True)
    from conjI [OF wpD [OF delete this] wpD [OF status this]]
    show "(\<exists>a. EvDelete KindJob BackgroundPropagation (job_key j) a \<in> set tr') \<and>
     (\<forall>k st b. EvStatusUpdate k st b \<in> set tr' \<longrightarrow> phase st = PhaseFailed \<and> lastFailedSpecHash st = chash)" .
  qed
  from wpD [OF this assms(5), rule_format, OF refl] show ?thesis by blast
qed

end
