(* ===== verification/Backup.thy ===== *)
theory Backup
  imports Jobs
begin

text \<open>
  Backups (\<open>internal/controller/backup_controller.go\<close> and the backup half of \<open>backup_jobs.go\<close>): one
  Job exports the collection to S3, and its result is copied to the status. The time stamps that
  \<open>setBackupCond\<close> puts on a condition are left out with the conditions' transition times.
\<close>

section \<open>The Job\<close>

definition jobTypeBackup :: string where "jobTypeBackup = ''backup''"

abbreviation bk_name :: "backup \<Rightarrow> string" where "bk_name b \<equiv> m_name (bk_meta b)"
abbreviation bk_namespace :: "backup \<Rightarrow> string" where "bk_namespace b \<equiv> m_namespace (bk_meta b)"

text \<open>A reference with an empty name is not passed on.\<close>

definition named_secret_env :: "string \<Rightarrow> secret_key_ref \<Rightarrow> env_var list" where
  "named_secret_env n ref = (if skr_name ref \<noteq> '''' then [secretEnv n ref] else [])"

definition backupEnv :: "s3_backup_target \<Rightarrow> string \<Rightarrow> env_var list" where
  "backupEnv s3 backupID =
     [plainEnv ''BACKUP_ID'' backupID,
      plainEnv ''BACKUP_S3_ENDPOINT'' (s3b_endpoint s3),
      plainEnv ''BACKUP_S3_REGION'' (s3b_region s3),
      plainEnv ''BACKUP_S3_BUCKET'' (s3b_bucket s3),
      plainEnv ''BACKUP_S3_PREFIX'' (s3b_prefix s3)] @
     named_secret_env ''BACKUP_S3_ACCESS_KEY'' (s3b_accessKeySecretRef s3) @
     named_secret_env ''BACKUP_S3_SECRET_KEY'' (s3b_secretKeySecretRef s3)"

text \<open>The Job skeleton of a backup and of a restore: they differ in name, type, arguments and environment.\<close>

definition transferJob ::
  "lib \<Rightarrow> knowledge_base \<Rightarrow> string \<Rightarrow> string \<Rightarrow> string \<Rightarrow> env_var list \<Rightarrow> (err + job) prog" where
  "transferJob L kb ns name ty env =
     (let labels = [labelManagedBy \<mapsto> ''kuberag'', labelKB \<mapsto> kb_name kb, labelJobType \<mapsto> ty]
      in case resourceRequirements L (in_resources (ks_ingestion (spec kb))) of
           Inl e \<Rightarrow> Done (Inl e)
         | Inr resources \<Rightarrow>
             pbind (scratchVolume L (in_modelCacheSizeLimit (ks_ingestion (spec kb)))) (\<lambda>scratch.
             Done (Inr \<lparr>job_meta = new_meta name ns labels,
               job_backoffLimit = 1, job_ttlSecondsAfterFinished = 600,
               job_activeDeadlineSeconds = Some 3600, job_templateLabels = labels,
               job_pod = workerPod L kb [scratch, specVolume (specConfigMapName L name)]
                 (workerContainer kb [ty] (baseEnv L kb name @ scratchEnv @ env @ traceEnv L @ credentialEnv kb) resources),
               job_conditions = []\<rparr>)))"

text \<open>A backup without an S3 destination is a nil dereference.\<close>

definition buildBackupJob ::
  "lib \<Rightarrow> knowledge_base \<Rightarrow> backup \<Rightarrow> string \<Rightarrow> (err + job \<times> string) prog" where
  "buildBackupJob L kb bkp backupID =
     (case marshalStoreSpec L kb of
        Inl e \<Rightarrow> Done (Inl e)
      | Inr specJSON \<Rightarrow>
          (case bs_s3 (bk_spec bkp) of
             None \<Rightarrow> Panic
           | Some s3 \<Rightarrow>
               pbind (transferJob L kb (bk_namespace bkp)
                        (trunc_name L (bk_name bkp @ ''-backup-'' @ backupID)) jobTypeBackup (backupEnv s3 backupID)) (\<lambda>r.
               case r of Inl e \<Rightarrow> Done (Inl e) | Inr j \<Rightarrow> Done (Inr (j, specJSON)))))"

text \<open>
  The copies of the result reader and of the two deletions that take the client as an argument do
  what the methods of the KnowledgeBase reconciler do.
\<close>

definition readJobResult :: "lib \<Rightarrow> (string \<Rightarrow> err + 'a) \<Rightarrow> string \<Rightarrow> string \<Rightarrow> (err + 'a) prog" where
  "readJobResult L parse ns jobName =
     (let name = resultConfigMapName L jobName
      in GetConfigMap (ns, name) (\<lambda>res.
           case res of
             Inl e \<Rightarrow> Done (Inl e)
           | Inr cm \<Rightarrow>
               (case cm_data cm ''result.json'' of
                  None \<Rightarrow> Done (Inl (Err OtherReason (''result configmap '' @ name @ '' missing result.json'')))
                | Some raw \<Rightarrow> Done (parse raw))))"

definition deleteResultCM :: "lib \<Rightarrow> string \<Rightarrow> string \<Rightarrow> unit prog" where
  "deleteResultCM L ns jobName =
     Delete KindConfigMap DefaultPropagation (ns, resultConfigMapName L jobName) (\<lambda>_. Done ())"

definition deleteSpecCM :: "lib \<Rightarrow> string \<Rightarrow> string \<Rightarrow> unit prog" where
  "deleteSpecCM L ns jobName =
     Delete KindConfigMap DefaultPropagation (ns, specConfigMapName L jobName) (\<lambda>_. Done ())"

lemma client_copies [simp]:
  "readJobResult = readResult" "deleteResultCM = deleteResult" "deleteSpecCM = deleteSpecConfigMap"
  by (intro ext, simp add: readJobResult_def readResult_def deleteResultCM_def deleteResult_def deleteSpecCM_def
      deleteSpecConfigMap_def)+

section \<open>The reconciler\<close>

definition backupFinalizer :: string where "backupFinalizer = ''rag.furkan.dev/backup''"

definition set_bk_finalizers :: "string list \<Rightarrow> backup \<Rightarrow> backup" where
  "set_bk_finalizers fs b = b\<lparr>bk_meta := (bk_meta b)\<lparr>m_finalizers := fs\<rparr>\<rparr>"

definition upd_bk_status :: "(backup_status \<Rightarrow> backup_status) \<Rightarrow> backup \<Rightarrow> backup" where
  "upd_bk_status f b = b\<lparr>bk_status := f (bk_status b)\<rparr>"

lemma upd_bk_status_simps [simp]:
  "bk_meta (upd_bk_status f b) = bk_meta b"
  "bk_spec (upd_bk_status f b) = bk_spec b"
  "bk_status (upd_bk_status f b) = f (bk_status b)"
  by (simp_all add: upd_bk_status_def)

definition setBackupCond :: "lib \<Rightarrow> backup \<Rightarrow> condition_status \<Rightarrow> string \<Rightarrow> string \<Rightarrow> backup" where
  "setBackupCond L b st rsn msg =
     upd_bk_status (\<lambda>s. s\<lparr>bst_conditions := set_status_condition L (bst_conditions s)
       \<lparr>c_type = ConditionReady, c_status = st, c_reason = rsn, c_message = msg, c_observedGeneration = 0\<rparr>\<rparr>) b"

definition save_backup :: "ctrl_result \<Rightarrow> backup \<Rightarrow> reconcile_result prog" where
  "save_backup res b = UpdateStatus (OBackup b) (\<lambda>r. Done (res, case r of Inl e \<Rightarrow> Some e | Inr _ \<Rightarrow> None))"

definition fail_backup :: "lib \<Rightarrow> backup \<Rightarrow> string \<Rightarrow> string \<Rightarrow> reconcile_result prog" where
  "fail_backup L b rsn msg =
     save_backup no_requeue
       (setBackupCond L (upd_bk_status (\<lambda>s. s\<lparr>bst_phase := BackupPhaseFailed\<rparr>) b) ConditionFalse rsn msg)"

definition startBackup :: "lib \<Rightarrow> knowledge_base \<Rightarrow> backup \<Rightarrow> reconcile_result prog" where
  "startBackup L kb bkp =
     Now (\<lambda>now.
     let backupID = itoa (wrap64 now);
         bkp = upd_bk_status (\<lambda>s. s\<lparr>bst_backupID := backupID\<rparr>) bkp
     in pbind (buildBackupJob L kb bkp backupID) (\<lambda>built.
        case built of
          Inl e \<Rightarrow> Done (no_requeue, Some e)
        | Inr (j, specJSON) \<Rightarrow>
            Create (OConfigMap (specConfigMap (bk_namespace bkp) (specConfigMapName L (job_name j)) specJSON)) (\<lambda>r.
            case ignoreAlreadyExists r of
              Some e \<Rightarrow>
                if isQuotaExceeded e
                then fail_backup L bkp ''ResourceQuotaExceeded'' ''cannot create ConfigMap: resource quota exceeded''
                else Done (no_requeue, Some e)
            | None \<Rightarrow>
                Create (OJob j) (\<lambda>r.
                case ignoreAlreadyExists r of
                  Some e \<Rightarrow>
                    if isQuotaExceeded e
                    then fail_backup L bkp ''ResourceQuotaExceeded'' ''cannot create Job: resource quota exceeded''
                    else Done (no_requeue, Some e)
                | None \<Rightarrow>
                    save_backup no_requeue (setBackupCond L
                      (upd_bk_status (\<lambda>s. s\<lparr>bst_phase := BackupPhaseRunning, bst_activeJob := job_name j\<rparr>) bkp)
                      ConditionFalse ''BackupJobCreated'' ''backup job started'')))))"

definition watchBackup :: "lib \<Rightarrow> backup \<Rightarrow> reconcile_result prog" where
  "watchBackup L bkp =
     GetJob (bk_namespace bkp, bst_activeJob (bk_status bkp)) (\<lambda>res.
     case res of
       Inl e \<Rightarrow>
         if is_not_found e
         then save_backup requeue_now (upd_bk_status (\<lambda>s. s\<lparr>bst_activeJob := ''''\<rparr>) bkp)
         else Done (no_requeue, Some e)
     | Inr j \<Rightarrow>
         if \<not> jobComplete j \<and> \<not> jobFailed j then Done (requeue_after (5 * second), None)
         else if jobFailed j then fail_backup L bkp ''BackupFailed'' ''backup job failed''
         else
           pbind (readJobResult L (parse_backup_result L) (bk_namespace bkp) (job_name j)) (\<lambda>r.
           case r of
             Inl e \<Rightarrow> fail_backup L bkp ''ResultReadFailed'' (message e)
           | Inr result \<Rightarrow>
               Now (\<lambda>now.
               let bkp = setBackupCond L
                     (upd_bk_status (\<lambda>s. s\<lparr>bst_phase := BackupPhaseCompleted, bst_completionTime := Some now,
                        bst_totalPoints := br_totalPoints result, bst_sizeBytes := br_sizeBytes result,
                        bst_location := br_location result\<rparr>) bkp)
                     ConditionTrue ''BackupComplete'' ''backup completed successfully''
               in pbind (deleteResultCM L (bk_namespace bkp) (job_name j)) (\<lambda>_.
                  pbind (deleteSpecCM L (bk_namespace bkp) (job_name j)) (\<lambda>_.
                  save_backup no_requeue bkp)))))"

definition reconcileBackup :: "lib \<Rightarrow> backup \<Rightarrow> reconcile_result prog" where
  "reconcileBackup L bkp =
     (if bs_suspend (bk_spec bkp) then Done (no_requeue, None)
      else if \<not> contains_finalizer L (m_finalizers (bk_meta bkp)) backupFinalizer then
        Update (OBackup (set_bk_finalizers (add_finalizer L (m_finalizers (bk_meta bkp)) backupFinalizer) bkp)) (\<lambda>r.
        Done (no_requeue, r))
      else if m_deletionTimestamp (bk_meta bkp) \<noteq> None then
        Update (OBackup (set_bk_finalizers (remove_finalizer L (m_finalizers (bk_meta bkp)) backupFinalizer) bkp)) (\<lambda>r.
        Done (no_requeue, r))
      else if bst_phase (bk_status bkp) = BackupPhaseCompleted \<or> bst_phase (bk_status bkp) = BackupPhaseFailed then
        Done (no_requeue, None)
      else
        GetKB (bk_namespace bkp, bs_knowledgeBaseRef (bk_spec bkp)) (\<lambda>res.
        case res of
          Inl e \<Rightarrow>
            if is_not_found e then fail_backup L bkp ''KnowledgeBaseNotFound'' ''referenced KnowledgeBase not found''
            else Done (no_requeue, Some e)
        | Inr kb \<Rightarrow>
            if bst_activeJob (bk_status bkp) = '''' then startBackup L kb bkp else watchBackup L bkp))"

definition reconcile_backup :: "lib \<Rightarrow> key \<Rightarrow> reconcile_result prog" where
  "reconcile_backup L k =
     GetBackup k (\<lambda>res.
     case res of
       Inl e \<Rightarrow> Done (no_requeue, if is_not_found e then None else Some e)
     | Inr bkp \<Rightarrow> reconcileBackup L bkp)"

end
