(* ===== verification/Restore.thy ===== *)
theory Restore
  imports Backup
begin

text \<open>
  Restores (\<open>internal/controller/restore_controller.go\<close> and the restore half of
  \<open>backup_jobs.go\<close>): a Job imports a completed backup into the collection of a KnowledgeBase.
\<close>

section \<open>The Job\<close>

definition jobTypeRestore :: string where "jobTypeRestore = ''restore''"

abbreviation rt_name :: "restore \<Rightarrow> string" where "rt_name b \<equiv> m_name (rt_meta b)"
abbreviation rt_namespace :: "restore \<Rightarrow> string" where "rt_namespace b \<equiv> m_namespace (rt_meta b)"

definition restoreEnv :: "s3_backup_target \<Rightarrow> string \<Rightarrow> time \<Rightarrow> env_var list" where
  "restoreEnv dst location now =
     [plainEnv ''RESTORE_ROUND'' (itoa (wrap64 now)),
      plainEnv ''RESTORE_LOCATION'' location,
      plainEnv ''RESTORE_S3_ENDPOINT'' (s3b_endpoint dst),
      plainEnv ''RESTORE_S3_REGION'' (s3b_region dst),
      plainEnv ''RESTORE_S3_BUCKET'' (s3b_bucket dst)] @
     named_secret_env ''RESTORE_S3_ACCESS_KEY'' (s3b_accessKeySecretRef dst) @
     named_secret_env ''RESTORE_S3_SECRET_KEY'' (s3b_secretKeySecretRef dst)"

definition buildRestoreJob ::
  "lib \<Rightarrow> knowledge_base \<Rightarrow> restore \<Rightarrow> backup \<Rightarrow> (err + job \<times> string) prog" where
  "buildRestoreJob L kb rest bkp =
     (case marshalQuerySpec L kb of
        Inl e \<Rightarrow> Done (Inl e)
      | Inr specJSON \<Rightarrow>
          Now (\<lambda>now.
          case bs_s3 (bk_spec bkp) of
            None \<Rightarrow> Panic
          | Some dst \<Rightarrow>
              pbind (transferJob L kb (rt_namespace rest)
                       (trunc_name L (rt_name rest @ ''-restore-'' @ itoa (now div second))) jobTypeRestore
                       (restoreEnv dst (bst_location (bk_status bkp)) now)) (\<lambda>r.
              case r of Inl e \<Rightarrow> Done (Inl e) | Inr j \<Rightarrow> Done (Inr (j, specJSON)))))"

section \<open>The reconciler\<close>

definition restoreFinalizer :: string where "restoreFinalizer = ''rag.furkan.dev/restore''"

definition set_rt_finalizers :: "string list \<Rightarrow> restore \<Rightarrow> restore" where
  "set_rt_finalizers fs b = b\<lparr>rt_meta := (rt_meta b)\<lparr>m_finalizers := fs\<rparr>\<rparr>"

definition upd_rt_status :: "(restore_status \<Rightarrow> restore_status) \<Rightarrow> restore \<Rightarrow> restore" where
  "upd_rt_status f b = b\<lparr>rt_status := f (rt_status b)\<rparr>"

lemma upd_rt_status_simps [simp]:
  "rt_meta (upd_rt_status f b) = rt_meta b"
  "rt_spec (upd_rt_status f b) = rt_spec b"
  "rt_status (upd_rt_status f b) = f (rt_status b)"
  by (simp_all add: upd_rt_status_def)

definition setRestoreCond :: "lib \<Rightarrow> restore \<Rightarrow> condition_status \<Rightarrow> string \<Rightarrow> string \<Rightarrow> restore" where
  "setRestoreCond L b st rsn msg =
     upd_rt_status (\<lambda>s. s\<lparr>rst_conditions := set_status_condition L (rst_conditions s)
       \<lparr>c_type = ConditionReady, c_status = st, c_reason = rsn, c_message = msg, c_observedGeneration = 0\<rparr>\<rparr>) b"

definition save_restore :: "ctrl_result \<Rightarrow> restore \<Rightarrow> reconcile_result prog" where
  "save_restore res b = UpdateStatus (ORestore b) (\<lambda>r. Done (res, case r of Inl e \<Rightarrow> Some e | Inr _ \<Rightarrow> None))"

definition fail_restore :: "lib \<Rightarrow> restore \<Rightarrow> string \<Rightarrow> string \<Rightarrow> reconcile_result prog" where
  "fail_restore L b rsn msg =
     save_restore no_requeue
       (setRestoreCond L (upd_rt_status (\<lambda>s. s\<lparr>rst_phase := RestorePhaseFailed\<rparr>) b) ConditionFalse rsn msg)"

definition startRestore :: "lib \<Rightarrow> knowledge_base \<Rightarrow> restore \<Rightarrow> backup \<Rightarrow> reconcile_result prog" where
  "startRestore L kb rest bkp =
     pbind (buildRestoreJob L kb rest bkp) (\<lambda>built.
     case built of
       Inl e \<Rightarrow> Done (no_requeue, Some e)
     | Inr (j, specJSON) \<Rightarrow>
         Create (OConfigMap (specConfigMap (rt_namespace rest) (specConfigMapName L (job_name j)) specJSON)) (\<lambda>r.
         case ignoreAlreadyExists r of
           Some e \<Rightarrow>
             if isQuotaExceeded e
             then fail_restore L rest ''ResourceQuotaExceeded'' ''cannot create ConfigMap: resource quota exceeded''
             else Done (no_requeue, Some e)
         | None \<Rightarrow>
             Create (OJob j) (\<lambda>r.
             case ignoreAlreadyExists r of
               Some e \<Rightarrow>
                 if isQuotaExceeded e
                 then fail_restore L rest ''ResourceQuotaExceeded'' ''cannot create Job: resource quota exceeded''
                 else Done (no_requeue, Some e)
             | None \<Rightarrow>
                 save_restore no_requeue (setRestoreCond L
                   (upd_rt_status (\<lambda>s. s\<lparr>rst_phase := RestorePhaseRunning, rst_activeJob := job_name j\<rparr>) rest)
                   ConditionFalse ''RestoreJobCreated'' ''restore job started''))))"

definition watchRestore :: "lib \<Rightarrow> restore \<Rightarrow> reconcile_result prog" where
  "watchRestore L rest =
     GetJob (rt_namespace rest, rst_activeJob (rt_status rest)) (\<lambda>res.
     case res of
       Inl e \<Rightarrow>
         if is_not_found e
         then save_restore requeue_now (upd_rt_status (\<lambda>s. s\<lparr>rst_activeJob := ''''\<rparr>) rest)
         else Done (no_requeue, Some e)
     | Inr j \<Rightarrow>
         if \<not> jobComplete j \<and> \<not> jobFailed j then Done (requeue_after (5 * second), None)
         else if jobFailed j then fail_restore L rest ''RestoreFailed'' ''restore job failed''
         else
           pbind (readJobResult L (parse_restore_result L) (rt_namespace rest) (job_name j)) (\<lambda>r.
           case r of
             Inl e \<Rightarrow> fail_restore L rest ''ResultReadFailed'' (message e)
           | Inr result \<Rightarrow>
               Now (\<lambda>now.
               let rest = setRestoreCond L
                     (upd_rt_status (\<lambda>s. s\<lparr>rst_phase := RestorePhaseCompleted, rst_completionTime := Some now,
                        rst_restoredPoints := rr_restoredPoints result\<rparr>) rest)
                     ConditionTrue ''RestoreComplete'' ''restore completed successfully''
               in pbind (deleteResultCM L (rt_namespace rest) (job_name j)) (\<lambda>_.
                  pbind (deleteSpecCM L (rt_namespace rest) (job_name j)) (\<lambda>_.
                  save_restore no_requeue rest)))))"

definition reconcileRestore :: "lib \<Rightarrow> restore \<Rightarrow> reconcile_result prog" where
  "reconcileRestore L rest =
     (if rs_suspend (rt_spec rest) then Done (no_requeue, None)
      else if \<not> contains_finalizer L (m_finalizers (rt_meta rest)) restoreFinalizer then
        Update (ORestore (set_rt_finalizers (add_finalizer L (m_finalizers (rt_meta rest)) restoreFinalizer) rest)) (\<lambda>r.
        Done (no_requeue, r))
      else if m_deletionTimestamp (rt_meta rest) \<noteq> None then
        Update (ORestore (set_rt_finalizers (remove_finalizer L (m_finalizers (rt_meta rest)) restoreFinalizer) rest)) (\<lambda>r.
        Done (no_requeue, r))
      else if rst_phase (rt_status rest) = RestorePhaseCompleted \<or> rst_phase (rt_status rest) = RestorePhaseFailed then
        Done (no_requeue, None)
      else
        GetBackup (rt_namespace rest, rs_backupRef (rt_spec rest)) (\<lambda>res.
        case res of
          Inl e \<Rightarrow>
            if is_not_found e then fail_restore L rest ''BackupNotFound'' ''referenced Backup not found''
            else Done (no_requeue, Some e)
        | Inr bkp \<Rightarrow>
            if bst_phase (bk_status bkp) \<noteq> BackupPhaseCompleted \<or> bst_location (bk_status bkp) = '''' then
              fail_restore L rest ''BackupNotReady'' ''referenced Backup is not in Completed phase''
            else
              GetKB (rt_namespace rest, rs_knowledgeBaseRef (rt_spec rest)) (\<lambda>res.
              case res of
                Inl e \<Rightarrow>
                  if is_not_found e
                  then fail_restore L rest ''KnowledgeBaseNotFound'' ''referenced KnowledgeBase not found''
                  else Done (no_requeue, Some e)
              | Inr kb \<Rightarrow>
                  if rst_activeJob (rt_status rest) = '''' then startRestore L kb rest bkp
                  else watchRestore L rest)))"

definition reconcile_restore :: "lib \<Rightarrow> key \<Rightarrow> reconcile_result prog" where
  "reconcile_restore L k =
     GetRestore k (\<lambda>res.
     case res of
       Inl e \<Rightarrow> Done (no_requeue, if is_not_found e then None else Some e)
     | Inr rest \<Rightarrow> reconcileRestore L rest)"

end
