(* ===== verification/Transfers.thy ===== *)
theory Transfers
  imports Restore Ingestion_Correct
begin

text \<open>
  Backups and restores are the same machine: an object starts one Job, watches it, and ends Completed
  or Failed. The locale \<open>one_shot\<close> states what a pass over such an object promises; its history -
  passes, edits by others, in any order - never leaves an end, and reaches Completed only by a pass
  that read the result of a finished Job. Both reconcilers are instances.
\<close>

section \<open>The contract\<close>

text \<open>
  One change of an object: a status that a pass wrote and the server accepted (it accepts only a write
  of the version it has, so the pass read the current object), or anything that keeps the status.
\<close>

inductive change :: "('o \<Rightarrow> reconcile_result prog) \<Rightarrow> ('o \<Rightarrow> obj) \<Rightarrow> ('o \<Rightarrow> 's) \<Rightarrow> 'o \<Rightarrow> 'o \<Rightarrow> bool"
  for pass object observed where
  by_pass: "runs (pass x) tr r \<Longrightarrow> EvUpdateStatus (object y) (Inr v) \<in> set tr \<Longrightarrow> observed z = observed y \<Longrightarrow>
    change pass object observed x z"
| by_others: "observed z = observed x \<Longrightarrow> change pass object observed x z"

locale one_shot =
  fixes pass :: "'o \<Rightarrow> reconcile_result prog"
    and object :: "'o \<Rightarrow> obj"
    and observed :: "'o \<Rightarrow> 's"
    and ended :: "'s \<Rightarrow> bool"
    and completed :: "'s \<Rightarrow> bool"
    and evidence :: "'o \<Rightarrow> 's \<Rightarrow> event list \<Rightarrow> bool"
  assumes ended_rests: "ended (observed x) \<Longrightarrow> never (\<lambda>e. \<exists>y a. e = EvUpdateStatus (object y) a) (pass x)"
    and completes: "wp (pass x) (\<lambda>tr r. \<forall>y. (\<exists>a. EvUpdateStatus (object y) a \<in> set tr) \<longrightarrow> completed (observed y) \<longrightarrow>
        evidence x (observed y) tr)"
    and completed_ended: "completed s \<Longrightarrow> ended s"
begin

abbreviation changes :: "'o \<Rightarrow> 'o \<Rightarrow> bool" where
  "changes \<equiv> (change pass object observed)\<^sup>*\<^sup>*"

lemma ended_change: "change pass object observed x y \<Longrightarrow> ended (observed x) \<Longrightarrow> observed y = observed x"
proof (induction rule: change.induct)
  case (by_pass x tr r y v z)
  from never_runs [OF by_pass(1) ended_rests [OF by_pass(4)] by_pass(2)] show ?case by blast
qed simp

lemma ended_forever: "changes x y \<Longrightarrow> ended (observed x) \<Longrightarrow> observed y = observed x"
  by (induction rule: rtranclp_induct) (auto dest: ended_change)

lemma completion_change:
  assumes "change pass object observed x z" "completed (observed z)" "\<not> completed (observed x)"
  shows "\<exists>tr r. runs (pass x) tr r \<and> evidence x (observed z) tr"
  using assms(1)
proof cases
  case (by_pass tr r y v)
  from wpD [OF completes by_pass(1)] by_pass(2,3) assms(2) have "evidence x (observed z) tr" by auto
  with by_pass(1) show ?thesis by blast
next
  case by_others
  with assms show ?thesis by simp
qed

lemma completion_has_evidence:
  "changes x y \<Longrightarrow> completed (observed y) \<Longrightarrow> \<not> completed (observed x) \<Longrightarrow>
   \<exists>w tr r. changes x w \<and> runs (pass w) tr r \<and> evidence w (observed y) tr"
proof (induction rule: rtranclp_induct)
  case base
  then show ?case by simp
next
  case (step y z)
  show ?case
  proof (cases "completed (observed y)")
    case True
    with ended_change [OF step(2) completed_ended] have "observed z = observed y" by blast
    with step True show ?thesis by simp
  next
    case False
    from completion_change [OF step(2,4) False] step(1) show ?thesis by blast
  qed
qed

end

section \<open>Backups\<close>

definition backup_ended :: "backup_status \<Rightarrow> bool" where
  "backup_ended s \<longleftrightarrow> bst_phase s = BackupPhaseCompleted \<or> bst_phase s = BackupPhaseFailed"

definition backup_completed :: "backup_status \<Rightarrow> bool" where
  "backup_completed s \<longleftrightarrow> bst_phase s = BackupPhaseCompleted"

text \<open>The active Job was seen complete, and the status carries the result it left.\<close>

definition backup_evidence :: "lib \<Rightarrow> backup \<Rightarrow> backup_status \<Rightarrow> event list \<Rightarrow> bool" where
  "backup_evidence L b s tr \<longleftrightarrow>
     (\<exists>j cm raw result.
        EvGetJob (bk_namespace b, bst_activeJob (bk_status b)) (Inr j) \<in> set tr \<and> jobComplete j \<and> \<not> jobFailed j \<and>
        EvGetConfigMap (bk_namespace b, resultConfigMapName L (job_name j)) (Inr cm) \<in> set tr \<and>
        cm_data cm ''result.json'' = Some raw \<and> parse_backup_result L raw = Inr result \<and>
        bst_totalPoints s = br_totalPoints result \<and> bst_sizeBytes s = br_sizeBytes result \<and>
        bst_location s = br_location result)"

abbreviation backup_change :: "lib \<Rightarrow> backup \<Rightarrow> backup \<Rightarrow> bool" where
  "backup_change L \<equiv> change (reconcileBackup L) OBackup bk_status"

text \<open>Building a Job makes no call.\<close>

lemma never_transferJob: "never P (transferJob L kb ns name ty env)"
  by (auto simp: transferJob_def Let_def intro!: never_pbind never_scratchVolume split: sum.split)

lemma never_buildBackupJob: "never P (buildBackupJob L kb b i)"
  by (auto simp: buildBackupJob_def intro!: never_pbind never_transferJob split: sum.split option.split)

lemma bk_cond_simps [simp]:
  "bk_meta (setBackupCond L b st rsn msg) = bk_meta b"
  "bst_phase (bk_status (setBackupCond L b st rsn msg)) = bst_phase (bk_status b)"
  "bst_totalPoints (bk_status (setBackupCond L b st rsn msg)) = bst_totalPoints (bk_status b)"
  "bst_sizeBytes (bk_status (setBackupCond L b st rsn msg)) = bst_sizeBytes (bk_status b)"
  "bst_location (bk_status (setBackupCond L b st rsn msg)) = bst_location (bk_status b)"
  by (simp_all add: setBackupCond_def)

definition bk_completion :: "event \<Rightarrow> bool" where
  "bk_completion e \<longleftrightarrow> (\<exists>b a. e = EvUpdateStatus (OBackup b) a \<and> backup_completed (bk_status b))"

lemma bk_completion_simps [simp]:
  "bk_completion (EvUpdateStatus (OBackup b) r1) \<longleftrightarrow> bst_phase (bk_status b) = BackupPhaseCompleted"
  "\<not> bk_completion (EvNow t)" "\<not> bk_completion (EvCreate ob r2)" "\<not> bk_completion (EvUpdate ob r3)"
  by (auto simp: bk_completion_def backup_completed_def)

lemma no_completion_start: "never bk_completion (startBackup L kb b)"
  by (auto simp: startBackup_def fail_backup_def save_backup_def Let_def never_iff
      intro!: never_pbind never_buildBackupJob split: sum.split option.split)

lemma wp_watchBackup:
  assumes "\<not> backup_completed (bk_status b)"
  shows "wp (watchBackup L b) (\<lambda>tr r. \<forall>y. (\<exists>a. EvUpdateStatus (OBackup y) a \<in> set tr) \<longrightarrow> backup_completed (bk_status y) \<longrightarrow>
      backup_evidence L b (bk_status y) tr)"
  using assms
  by (auto simp: watchBackup_def readResult_def fail_backup_def save_backup_def deleteResult_def deleteSpecConfigMap_def
      backup_evidence_def backup_completed_def Let_def split: sum.split option.split)

interpretation bk: one_shot "reconcileBackup L" OBackup bk_status backup_ended backup_completed "backup_evidence L" for L
proof
  fix x :: backup
  assume "backup_ended (bk_status x)"
  then show "never (\<lambda>e. \<exists>y a. e = EvUpdateStatus (OBackup y) a) (reconcileBackup L x)"
    by (auto simp: reconcileBackup_def backup_ended_def)
next
  fix x :: backup
  have start: "wp (startBackup L kb x) (\<lambda>tr r. \<forall>y. (\<exists>a. EvUpdateStatus (OBackup y) a \<in> set tr) \<longrightarrow> \<not> backup_completed (bk_status y))" for kb
    by (rule wp_mono [OF wp_never [OF no_completion_start]]) (auto simp: bk_completion_def)
  have watch: "bst_phase (bk_status x) \<noteq> BackupPhaseCompleted \<Longrightarrow> wp (watchBackup L x) (\<lambda>tr r. \<forall>y. (\<exists>a. EvUpdateStatus (OBackup y) a \<in> set tr) \<longrightarrow> backup_completed (bk_status y) \<longrightarrow>
      backup_evidence L x (bk_status y) (EvGetKB k (Inr kb) # tr))" for k kb
    by (rule wp_mono [OF wp_watchBackup]) (fastforce simp: backup_completed_def backup_evidence_def)+
  show "wp (reconcileBackup L x) (\<lambda>tr r. \<forall>y. (\<exists>a. EvUpdateStatus (OBackup y) a \<in> set tr) \<longrightarrow> backup_completed (bk_status y) \<longrightarrow>
        backup_evidence L x (bk_status y) tr)"
    unfolding reconcileBackup_def
    by (auto simp: fail_backup_def save_backup_def backup_completed_def split: sum.split
        intro!: watch [unfolded backup_completed_def] wp_mono [OF start [unfolded backup_completed_def]])
qed (simp add: backup_ended_def backup_completed_def)

section \<open>Restores\<close>

definition restore_ended :: "restore_status \<Rightarrow> bool" where
  "restore_ended s \<longleftrightarrow> rst_phase s = RestorePhaseCompleted \<or> rst_phase s = RestorePhaseFailed"

definition restore_completed :: "restore_status \<Rightarrow> bool" where
  "restore_completed s \<longleftrightarrow> rst_phase s = RestorePhaseCompleted"

definition restore_evidence :: "lib \<Rightarrow> restore \<Rightarrow> restore_status \<Rightarrow> event list \<Rightarrow> bool" where
  "restore_evidence L b s tr \<longleftrightarrow>
     (\<exists>j cm raw result.
        EvGetJob (rt_namespace b, rst_activeJob (rt_status b)) (Inr j) \<in> set tr \<and> jobComplete j \<and> \<not> jobFailed j \<and>
        EvGetConfigMap (rt_namespace b, resultConfigMapName L (job_name j)) (Inr cm) \<in> set tr \<and>
        cm_data cm ''result.json'' = Some raw \<and> parse_restore_result L raw = Inr result \<and>
        rst_restoredPoints s = rr_restoredPoints result)"

abbreviation restore_change :: "lib \<Rightarrow> restore \<Rightarrow> restore \<Rightarrow> bool" where
  "restore_change L \<equiv> change (reconcileRestore L) ORestore rt_status"

lemma never_buildRestoreJob: "(\<And>t. \<not> P (EvNow t)) \<Longrightarrow> never P (buildRestoreJob L kb rest b)"
  by (auto simp: buildRestoreJob_def intro!: never_pbind never_transferJob split: sum.split option.split)

lemma rt_cond_simps [simp]:
  "rt_meta (setRestoreCond L b st rsn msg) = rt_meta b"
  "rst_phase (rt_status (setRestoreCond L b st rsn msg)) = rst_phase (rt_status b)"
  "rst_restoredPoints (rt_status (setRestoreCond L b st rsn msg)) = rst_restoredPoints (rt_status b)"
  by (simp_all add: setRestoreCond_def)

definition rt_completion :: "event \<Rightarrow> bool" where
  "rt_completion e \<longleftrightarrow> (\<exists>b a. e = EvUpdateStatus (ORestore b) a \<and> restore_completed (rt_status b))"

lemma rt_completion_simps [simp]:
  "rt_completion (EvUpdateStatus (ORestore b) r1) \<longleftrightarrow> rst_phase (rt_status b) = RestorePhaseCompleted"
  "\<not> rt_completion (EvNow t)" "\<not> rt_completion (EvCreate ob r2)" "\<not> rt_completion (EvUpdate ob r3)"
  by (auto simp: rt_completion_def restore_completed_def)

lemma no_completion_start_restore: "never rt_completion (startRestore L kb rest b)"
  by (auto simp: startRestore_def fail_restore_def save_restore_def Let_def never_iff
      intro!: never_pbind never_buildRestoreJob split: sum.split option.split)

lemma wp_watchRestore:
  assumes "\<not> restore_completed (rt_status b)"
  shows "wp (watchRestore L b) (\<lambda>tr r. \<forall>y. (\<exists>a. EvUpdateStatus (ORestore y) a \<in> set tr) \<longrightarrow> restore_completed (rt_status y) \<longrightarrow>
      restore_evidence L b (rt_status y) tr)"
  using assms
  by (auto simp: watchRestore_def readResult_def fail_restore_def save_restore_def deleteResult_def deleteSpecConfigMap_def
      restore_evidence_def restore_completed_def Let_def split: sum.split option.split)

interpretation rt: one_shot "reconcileRestore L" ORestore rt_status restore_ended restore_completed "restore_evidence L" for L
proof
  fix x :: restore
  assume "restore_ended (rt_status x)"
  then show "never (\<lambda>e. \<exists>y a. e = EvUpdateStatus (ORestore y) a) (reconcileRestore L x)"
    by (auto simp: reconcileRestore_def restore_ended_def)
next
  fix x :: restore
  have start: "wp (startRestore L kb x b) (\<lambda>tr r. \<forall>y. (\<exists>a. EvUpdateStatus (ORestore y) a \<in> set tr) \<longrightarrow> \<not> restore_completed (rt_status y))" for kb b
    by (rule wp_mono [OF wp_never [OF no_completion_start_restore]]) (auto simp: rt_completion_def)
  have watch: "rst_phase (rt_status x) \<noteq> RestorePhaseCompleted \<Longrightarrow> wp (watchRestore L x) (\<lambda>tr r. \<forall>y. (\<exists>a. EvUpdateStatus (ORestore y) a \<in> set tr) \<longrightarrow> restore_completed (rt_status y) \<longrightarrow>
      restore_evidence L x (rt_status y) (e1 # e2 # tr))" for e1 e2
    by (rule wp_mono [OF wp_watchRestore]) (fastforce simp: restore_completed_def restore_evidence_def)+
  show "wp (reconcileRestore L x) (\<lambda>tr r. \<forall>y. (\<exists>a. EvUpdateStatus (ORestore y) a \<in> set tr) \<longrightarrow> restore_completed (rt_status y) \<longrightarrow>
        restore_evidence L x (rt_status y) tr)"
    unfolding reconcileRestore_def
    by (auto simp: fail_restore_def save_restore_def restore_completed_def split: sum.split
        intro!: watch [unfolded restore_completed_def] wp_mono [OF start [unfolded restore_completed_def]])
qed (simp add: restore_ended_def restore_completed_def)

section \<open>What a restore reads\<close>

text \<open>The Job of a restore: hardened, and told the location and the bucket of the backup.\<close>

definition restores_from :: "backup \<Rightarrow> job \<Rightarrow> bool" where
  "restores_from b j \<longleftrightarrow> hardened_pod (job_pod j) \<and>
     (\<exists>s3. bs_s3 (bk_spec b) = Some s3 \<and>
        list_all (\<lambda>c. plainEnv ''RESTORE_LOCATION'' (bst_location (bk_status b)) \<in> set (con_env c) \<and>
            plainEnv ''RESTORE_S3_BUCKET'' (s3b_bucket s3) \<in> set (con_env c)) (pod_containers (job_pod j)))"

lemma wp_transferJob:
  "wp (transferJob L kb ns name ty env) (\<lambda>tr r. tr = [] \<and> (\<forall>j. r = Some (Inr j) \<longrightarrow> hardened_pod (job_pod j) \<and>
     list_all (\<lambda>c. set env \<subseteq> set (con_env c)) (pod_containers (job_pod j))))"
  by (auto simp: transferJob_def Let_def workerContainer_def workerPod_def wp_scratchVolume hardened_workerPod [unfolded workerPod_def workerContainer_def]
      split: sum.split if_splits)

lemma wp_buildRestoreJob:
  "wp (buildRestoreJob L kb rest b) (\<lambda>tr r. (\<forall>e \<in> set tr. \<forall>ob a. e \<noteq> EvCreate ob a) \<and>
     (\<forall>j s. r = Some (Inr (j, s)) \<longrightarrow> restores_from b j))"
proof -
  have job: "wp (transferJob L kb ns name ty (restoreEnv s3 (bst_location (bk_status b)) now))
      (\<lambda>tr r. tr = [] \<and> (\<forall>j. r = Some (Inr j) \<longrightarrow> restores_from b j))"
    if "bs_s3 (bk_spec b) = Some s3" for ns name ty s3 now
    by (rule wp_mono [OF wp_transferJob]) (use that in \<open>auto simp: restores_from_def restoreEnv_def list_all_iff\<close>)
  show ?thesis
    unfolding buildRestoreJob_def
    by (auto split: sum.split option.split intro!: wp_mono [OF job])
qed

lemma wp_startRestore:
  "wp (startRestore L kb rest b) (\<lambda>tr r. \<forall>j a. EvCreate (OJob j) a \<in> set tr \<longrightarrow> restores_from b j)"
  unfolding startRestore_def
proof (rule wp_bindI [OF wp_buildRestoreJob], goal_cases)
  case (1 tr built)
  then show ?case
    by (auto simp: fail_restore_def save_restore_def split: sum.split option.split)
qed auto

section \<open>Properties\<close>

text \<open>
  C21. A backup ends once: whatever passes and edits by others follow, a status that says Completed or
  Failed never changes again, and a backup that became Completed did so by a pass that saw its Job
  complete and not failed, read and parsed the result the Job left, and recorded its counts and
  location.
\<close>

theorem backup_ends_once:
  assumes "(backup_change L)\<^sup>*\<^sup>* b b'"
  shows "(bst_phase (bk_status b) = BackupPhaseCompleted \<or> bst_phase (bk_status b) = BackupPhaseFailed \<longrightarrow>
       bk_status b' = bk_status b) \<and>
     (bst_phase (bk_status b') = BackupPhaseCompleted \<and> bst_phase (bk_status b) \<noteq> BackupPhaseCompleted \<longrightarrow>
       (\<exists>w tr r. (backup_change L)\<^sup>*\<^sup>* b w \<and> runs (reconcileBackup L w) tr r \<and> backup_evidence L w (bk_status b') tr))"
  using bk.ended_forever [OF assms] bk.completion_has_evidence [OF assms]
  by (auto simp: backup_ended_def backup_completed_def)

text \<open>
  A restore ends once, in the same way, and only a finished Job with a readable result completes
  it.
\<close>

theorem restore_ends_once:
  assumes "(restore_change L)\<^sup>*\<^sup>* b b'"
  shows "(rst_phase (rt_status b) = RestorePhaseCompleted \<or> rst_phase (rt_status b) = RestorePhaseFailed \<longrightarrow>
       rt_status b' = rt_status b) \<and>
     (rst_phase (rt_status b') = RestorePhaseCompleted \<and> rst_phase (rt_status b) \<noteq> RestorePhaseCompleted \<longrightarrow>
       (\<exists>w tr r. (restore_change L)\<^sup>*\<^sup>* b w \<and> runs (reconcileRestore L w) tr r \<and> restore_evidence L w (rt_status b') tr))"
  using rt.ended_forever [OF assms] rt.completion_has_evidence [OF assms]
  by (auto simp: restore_ended_def restore_completed_def)

text \<open>
  C22. A restore reads a finished backup: a pass creates a Job only after it read the referenced
  Backup in its own namespace, Completed and with a location; the Job is hardened and is told that
  location and the bucket of that backup.
\<close>

theorem restore_reads_completed_backup:
  assumes "runs (reconcileRestore L rest) tr r" "EvCreate (OJob j) a \<in> set tr"
  shows "\<exists>b. EvGetBackup (rt_namespace rest, rs_backupRef (rt_spec rest)) (Inr b) \<in> set tr \<and>
     bst_phase (bk_status b) = BackupPhaseCompleted \<and> bst_location (bk_status b) \<noteq> '''' \<and> restores_from b j"
proof -
  have watch: "wp (watchRestore L rest) (\<lambda>tr r. \<forall>j a. EvCreate (OJob j) a \<notin> set tr)"
    by (auto simp: watchRestore_def readResult_def fail_restore_def save_restore_def deleteResult_def
        deleteSpecConfigMap_def Let_def split: sum.split option.split)
  have "wp (reconcileRestore L rest) (\<lambda>tr r. \<forall>j. (\<exists>a. EvCreate (OJob j) a \<in> set tr) \<longrightarrow>
     (\<exists>b. EvGetBackup (rt_namespace rest, rs_backupRef (rt_spec rest)) (Inr b) \<in> set tr \<and>
        bst_phase (bk_status b) = BackupPhaseCompleted \<and> bst_location (bk_status b) \<noteq> '''' \<and> restores_from b j))"
    unfolding reconcileRestore_def
    by (auto simp: fail_restore_def save_restore_def split: sum.split
        intro!: wp_mono [OF watch] wp_mono [OF wp_startRestore])
  from wpD [OF this assms(1)] assms(2) show ?thesis by blast
qed

text \<open>A sample backup and restore, with a cluster in which everything is there.\<close>

definition demo_backup :: "backup_phase \<Rightarrow> string \<Rightarrow> backup" where
  "demo_backup ph active =
     \<lparr>bk_meta = (kb_meta demo_kb)\<lparr>m_name := ''bk'', m_finalizers := [backupFinalizer]\<rparr>,
      bk_spec = \<lparr>bs_knowledgeBaseRef = ''kb'', bs_s3 = Some \<lparr>s3b_endpoint = ''e'', s3b_region = '''', s3b_bucket = ''b'',
        s3b_prefix = '''', s3b_accessKeySecretRef = \<lparr>skr_name = ''s'', skr_key = ''k''\<rparr>,
        s3b_secretKeySecretRef = \<lparr>skr_name = ''s'', skr_key = ''k''\<rparr>\<rparr>, bs_suspend = False\<rparr>,
      bk_status = \<lparr>bst_phase = ph, bst_activeJob = active, bst_completionTime = None, bst_backupID = ''1'',
        bst_location = ''loc'', bst_totalPoints = 0, bst_sizeBytes = 0, bst_conditions = []\<rparr>\<rparr>"

definition demo_restore :: "restore_phase \<Rightarrow> string \<Rightarrow> restore" where
  "demo_restore ph active =
     \<lparr>rt_meta = (kb_meta demo_kb)\<lparr>m_name := ''rt'', m_finalizers := [restoreFinalizer]\<rparr>,
      rt_spec = \<lparr>rs_backupRef = ''bk'', rs_knowledgeBaseRef = ''kb'', rs_suspend = False\<rparr>,
      rt_status = \<lparr>rst_phase = ph, rst_activeJob = active, rst_completionTime = None, rst_restoredPoints = 0,
        rst_conditions = []\<rparr>\<rparr>"

definition full_cluster :: environment where
  "full_cluster = (empty_cluster 100)\<lparr>at_GetKB := (\<lambda>k. Inr demo_kb), at_GetJob := (\<lambda>k. Inr (ended_job ''Complete'')),
     at_GetBackup := (\<lambda>k. Inr (demo_backup BackupPhaseCompleted ''j'')),
     at_GetConfigMap := (\<lambda>k. Inr \<lparr>cm_meta = kb_meta demo_kb, cm_data = [''result.json'' \<mapsto> ''abc'']\<rparr>)\<rparr>"

lemma full_cluster_sels [simp]:
  "at_GetKB full_cluster = (\<lambda>k. Inr demo_kb)" "at_GetJob full_cluster = (\<lambda>k. Inr (ended_job ''Complete''))"
  "at_GetBackup full_cluster = (\<lambda>k. Inr (demo_backup BackupPhaseCompleted ''j''))"
  "at_GetConfigMap full_cluster = (\<lambda>k. Inr \<lparr>cm_meta = kb_meta demo_kb, cm_data = [''result.json'' \<mapsto> ''abc'']\<rparr>)"
  "at_Now full_cluster = 100" "at_UpdateStatus full_cluster = (\<lambda>x. Inr ''2'')" "at_Delete full_cluster = (\<lambda>k p n. None)"
  "at_Create full_cluster = (\<lambda>x. None)"
  by (simp_all add: full_cluster_def)

lemma complete_job [simp]: "jobComplete (ended_job ''Complete'')" "\<not> jobFailed (ended_job ''Complete'')"
  by (simp_all add: ended_job_def jobComplete_def jobFailed_def JobComplete_def JobFailed_def)

lemmas transfer_defs =
  reconcileBackup_def watchBackup_def save_backup_def reconcileRestore_def watchRestore_def startRestore_def save_restore_def
  readResult_def deleteResult_def deleteSpecConfigMap_def demo_backup_def demo_restore_def

lemma backup_written:
  "runs (reconcileBackup L x) tr r \<Longrightarrow> EvUpdateStatus (OBackup y) (Inr v) \<in> set tr \<Longrightarrow> backup_change L x y"
  by (rule change.by_pass [where pass = "reconcileBackup L" and observed = bk_status]) simp_all

lemma restore_written:
  "runs (reconcileRestore L x) tr r \<Longrightarrow> EvUpdateStatus (ORestore y) (Inr v) \<in> set tr \<Longrightarrow> restore_change L x y"
  by (rule change.by_pass [where pass = "reconcileRestore L" and observed = rt_status]) simp_all

theorem backup_ends_once_witness:
  "\<exists>b'. (backup_change demo_lib)\<^sup>*\<^sup>* (demo_backup BackupPhaseRunning ''j'') b' \<and>
     bst_phase (bk_status b') = BackupPhaseCompleted \<and>
     (\<exists>w tr r. runs (reconcileBackup demo_lib w) tr r \<and> backup_evidence demo_lib w (bk_status b') tr)"
proof -
  let ?b = "demo_backup BackupPhaseRunning ''j''"
  have "\<exists>b'. EvUpdateStatus (OBackup b') (Inr ''2'') \<in> set (fst (exec full_cluster (reconcileBackup demo_lib ?b))) \<and>
      bst_phase (bk_status b') = BackupPhaseCompleted"
    by (simp add: transfer_defs exec_simps)
  then obtain b' where e: "EvUpdateStatus (OBackup b') (Inr ''2'') \<in> set (fst (exec full_cluster (reconcileBackup demo_lib ?b)))"
    and c: "bst_phase (bk_status b') = BackupPhaseCompleted" by blast
  have steps: "(backup_change demo_lib)\<^sup>*\<^sup>* ?b b'"
    by (rule r_into_rtranclp, rule backup_written [OF runs_exec e])
  have "bst_phase (bk_status ?b) \<noteq> BackupPhaseCompleted" by (simp add: demo_backup_def)
  with backup_ends_once [OF steps] steps c show ?thesis by blast
qed

theorem restore_ends_once_witness:
  "\<exists>b'. (restore_change demo_lib)\<^sup>*\<^sup>* (demo_restore RestorePhaseRunning ''j'') b' \<and>
     rst_phase (rt_status b') = RestorePhaseCompleted \<and>
     (\<exists>w tr r. runs (reconcileRestore demo_lib w) tr r \<and> restore_evidence demo_lib w (rt_status b') tr)"
proof -
  let ?b = "demo_restore RestorePhaseRunning ''j''"
  have "\<exists>b'. EvUpdateStatus (ORestore b') (Inr ''2'') \<in> set (fst (exec full_cluster (reconcileRestore demo_lib ?b))) \<and>
      rst_phase (rt_status b') = RestorePhaseCompleted"
    by (simp add: transfer_defs exec_simps)
  then obtain b' where e: "EvUpdateStatus (ORestore b') (Inr ''2'') \<in> set (fst (exec full_cluster (reconcileRestore demo_lib ?b)))"
    and c: "rst_phase (rt_status b') = RestorePhaseCompleted" by blast
  have steps: "(restore_change demo_lib)\<^sup>*\<^sup>* ?b b'"
    by (rule r_into_rtranclp, rule restore_written [OF runs_exec e])
  have "rst_phase (rt_status ?b) \<noteq> RestorePhaseCompleted" by (simp add: demo_restore_def)
  with restore_ends_once [OF steps] steps c show ?thesis by blast
qed

theorem restore_reads_completed_backup_witness:
  "\<exists>j a b. EvCreate (OJob j) a \<in> set (fst (exec full_cluster (reconcileRestore demo_lib (demo_restore RestorePhaseUnset '''')))) \<and>
     bst_phase (bk_status b) = BackupPhaseCompleted \<and> restores_from b j"
proof -
  let ?p = "reconcileRestore demo_lib (demo_restore RestorePhaseUnset '''')"
  have "\<exists>j a. EvCreate (OJob j) a \<in> set (fst (exec full_cluster ?p))"
    by (simp add: transfer_defs exec_simps buildRestoreJob_def transferJob_def marshalQuerySpec_def
        resourceRequirements_def scratchVolume_def ignoreAlreadyExists_def)
  then obtain j a where e: "EvCreate (OJob j) a \<in> set (fst (exec full_cluster ?p))" by blast
  from restore_reads_completed_backup [OF runs_exec e] e show ?thesis by blast
qed

end
