(* ===== verification/Retriever_Objects.thy ===== *)
theory Retriever_Objects
  imports Jobs Secrets
begin

text \<open>
  The objects the Retriever controller renders (\<open>internal/controller/retriever_controller.go\<close>): the
  Deployment of the query server with its optional OIDC proxy, the two Services, the Ingress, the
  NetworkPolicy, the PodDisruptionBudget and the autoscaler. Rendering is pure but for one nil
  dereference: an OIDC proxy without an Ingress.
\<close>

abbreviation rtr_name :: "retriever \<Rightarrow> string" where "rtr_name rt \<equiv> m_name (rtr_meta rt)"
abbreviation rtr_namespace :: "retriever \<Rightarrow> string" where "rtr_namespace rt \<equiv> m_namespace (rtr_meta rt)"

section \<open>Defaults\<close>

definition defaultRetrieverImage :: string where
  "defaultRetrieverImage = ''ghcr.io/furkandogmus/kuberag-retriever:latest''"

definition retrieverImage :: "retriever \<Rightarrow> string" where
  "retrieverImage rt = (if rts_image (rtr_spec rt) \<noteq> '''' then rts_image (rtr_spec rt) else defaultRetrieverImage)"

definition boolPtrVal :: "bool option \<Rightarrow> bool \<Rightarrow> bool" where
  "boolPtrVal b def = (case b of None \<Rightarrow> def | Some x \<Rightarrow> x)"

definition intPtrVal :: "int option \<Rightarrow> int \<Rightarrow> int" where
  "intPtrVal i def = (case i of None \<Rightarrow> def | Some x \<Rightarrow> x)"

definition defaultInt32 :: "int \<Rightarrow> int \<Rightarrow> int" where
  "defaultInt32 v def = (if v = 0 then def else v)"

definition defaultInt64 :: "int \<Rightarrow> int \<Rightarrow> int" where
  "defaultInt64 v def = (if v = 0 then def else v)"

definition autoscalingEnabled :: "retriever \<Rightarrow> bool" where
  "autoscalingEnabled rt =
     (case rts_autoscaling (rtr_spec rt) of None \<Rightarrow> False | Some a \<Rightarrow> boolPtrVal (as_enabled a) False)"

definition oidcEnabled :: "retriever \<Rightarrow> bool" where
  "oidcEnabled rt \<longleftrightarrow> rts_oidc (rtr_spec rt) \<noteq> None"

definition desiredMinimumReplicas :: "retriever \<Rightarrow> int" where
  "desiredMinimumReplicas rt =
     (if autoscalingEnabled rt then
        (case rts_autoscaling (rtr_spec rt) of None \<Rightarrow> 0 | Some a \<Rightarrow> defaultInt32 (as_minReplicas a) 2)
      else rts_replicas (rtr_spec rt))"

text \<open>The selector of the query Pods; it labels every object of the Retriever.\<close>

definition retriever_labels :: "retriever \<Rightarrow> (string \<rightharpoonup> string)" where
  "retriever_labels rt = [labelManagedBy \<mapsto> ''kuberag'', ''rag.furkan.dev/retriever'' \<mapsto> rtr_name rt]"

definition retrieverObjectName :: "retriever \<Rightarrow> string" where
  "retrieverObjectName rt = rtr_name rt @ ''-retriever''"

definition oidcPolicyName :: "retriever \<Rightarrow> string" where
  "oidcPolicyName rt = rtr_name rt @ ''-retriever-oidc''"

section \<open>The environment of the query server\<close>

definition bool_string :: "bool \<Rightarrow> string" where
  "bool_string b = (if b then ''true'' else ''false'')"

text \<open>The embedding the index was built with, not the one the spec asks for now.\<close>

definition servingEmbedding :: "knowledge_base \<Rightarrow> embedding_spec" where
  "servingEmbedding kb =
     (case observedEmbedding (status kb) of
        Some e \<Rightarrow> e
      | None \<Rightarrow>
          if observedEmbeddingModel (status kb) \<noteq> ''''
          then (ks_embedding (spec kb))\<lparr>emb_model := observedEmbeddingModel (status kb)\<rparr>
          else ks_embedding (spec kb))"

definition queryEnv :: "retriever \<Rightarrow> knowledge_base \<Rightarrow> env_var list" where
  "queryEnv rt kb =
     (let s = rtr_spec rt;
          store = ks_vectorStore (spec kb);
          collection = (if vs_collection store = '''' then kb_name kb else vs_collection store);
          emb = servingEmbedding kb;
          rerankEnabled = (case rts_rerank s of None \<Rightarrow> False | Some r \<Rightarrow> boolPtrVal (rr_enabled r) False);
          rerankModel = (case rts_rerank s of None \<Rightarrow> '''' | Some r \<Rightarrow> rr_model r);
          rerankCandidates = (case rts_rerank s of None \<Rightarrow> 0 | Some r \<Rightarrow> rr_candidatePoolSize r)
      in [plainEnv ''VECTORSTORE_TYPE'' (vs_type store),
          plainEnv ''VECTORSTORE_ENDPOINT'' (vs_endpoint store),
          plainEnv ''VECTORSTORE_COLLECTION'' collection,
          plainEnv ''DISTANCE'' (vs_distance store),
          plainEnv ''EMBEDDING_MODEL'' (emb_model emb),
          plainEnv ''EMBEDDING_PROVIDER'' (emb_provider emb),
          plainEnv ''EMBEDDING_BASE_URL'' (emb_baseURL emb),
          plainEnv ''EMBEDDING_DIMENSION'' (itoa (emb_dimension emb)),
          plainEnv ''EMBEDDING_QUERY_PREFIX'' (emb_queryPrefix emb),
          plainEnv ''EMBEDDING_DOC_PREFIX'' (emb_documentPrefix emb),
          plainEnv ''TOPK'' (itoa (defaultInt (rts_topK s) 8)),
          plainEnv ''SCORE_THRESHOLD'' (itoa (rts_scoreThresholdPercent s)),
          plainEnv ''RERANK_ENABLED'' (bool_string rerankEnabled),
          plainEnv ''RERANK_MODEL'' rerankModel,
          plainEnv ''RERANK_CANDIDATES'' (itoa rerankCandidates),
          plainEnv ''HYBRID_DEFAULT'' (bool_string (rts_hybrid s)),
          plainEnv ''HYBRID_DENSE_PERCENT'' (itoa (intPtrVal (rts_hybridDensePercent s) 50)),
          plainEnv ''MAX_CONCURRENT_REQUESTS'' (itoa (defaultInt (rts_maxConcurrentRequests s) 32)),
          plainEnv ''MAX_REQUEST_BODY_BYTES'' (itoa (defaultInt64 (rts_maxRequestBodyBytes s) 1048576))])"

definition rateLimitEnv :: "retriever \<Rightarrow> env_var list" where
  "rateLimitEnv rt =
     (case rts_rateLimit (rtr_spec rt) of
        None \<Rightarrow> []
      | Some rate \<Rightarrow>
          if boolPtrVal (rl_enabled rate) True then
            let backend = (if rl_backend rate = '''' then ''local'' else rl_backend rate);
                keyPrefix = (if rl_redisKeyPrefix rate = '''' then ''kuberag:ratelimit'' else rl_redisKeyPrefix rate)
            in [plainEnv ''RATE_LIMIT_ENABLED'' ''true'',
                plainEnv ''RATE_LIMIT_REQUESTS_PER_MINUTE'' (itoa (defaultInt (rl_requestsPerMinute rate) 60)),
                plainEnv ''RATE_LIMIT_BURST'' (itoa (defaultInt (rl_burst rate) 20)),
                plainEnv ''RATE_LIMIT_BACKEND'' backend,
                plainEnv ''RATE_LIMIT_REDIS_KEY_PREFIX'' keyPrefix,
                plainEnv ''RATE_LIMIT_CLIENT_ID_HEADER'' (rl_clientIdentityHeader rate)] @
               (if backend = ''redis''
                then (case rl_redisURLSecretRef rate of None \<Rightarrow> [] | Some ref \<Rightarrow> [secretEnv ''RATE_LIMIT_REDIS_URL'' ref])
                else [])
          else [])"

definition generationEnv :: "retriever \<Rightarrow> env_var list" where
  "generationEnv rt =
     (case rts_generation (rtr_spec rt) of
        None \<Rightarrow> []
      | Some g \<Rightarrow>
          if boolPtrVal (gn_enabled g) True then
            [plainEnv ''GEN_ENABLED'' ''true'',
             plainEnv ''GEN_PROVIDER'' (gn_provider g),
             plainEnv ''GEN_MODEL'' (gn_model g),
             plainEnv ''GEN_BASE_URL'' (gn_baseURL g),
             plainEnv ''GEN_MAX_TOKENS'' (itoa (defaultInt (gn_maxTokens g) 512)),
             plainEnv ''GEN_SYSTEM_PROMPT'' (gn_systemPrompt g)] @
            (case gn_apiKeySecretRef g of None \<Rightarrow> [] | Some ref \<Rightarrow> [secretEnv ''GEN_API_KEY'' ref])
          else [])"

definition opt_secret_env :: "string \<Rightarrow> secret_key_ref option \<Rightarrow> env_var list" where
  "opt_secret_env n ref = (case ref of None \<Rightarrow> [] | Some r \<Rightarrow> [secretEnv n r])"

definition retrieverEnv :: "retriever \<Rightarrow> knowledge_base \<Rightarrow> env_var list" where
  "retrieverEnv rt kb =
     queryEnv rt kb @ rateLimitEnv rt @
     opt_secret_env ''VECTORSTORE_CREDENTIAL'' (vs_credentialsSecretRef (ks_vectorStore (spec kb))) @
     opt_secret_env ''EMBEDDING_API_KEY'' (emb_apiKeySecretRef (servingEmbedding kb)) @
     (case rts_apiKeySecretRef (rtr_spec rt) of
        None \<Rightarrow> []
      | Some ref \<Rightarrow> [plainEnv ''RETRIEVER_AUTH_ENABLED'' ''true'', secretEnv ''RETRIEVER_API_KEY'' ref]) @
     generationEnv rt @ scratchEnv @
     [plainEnv ''DISABLE_PLAYGROUND_INGEST'' ''true'',
      plainEnv ''METRICS_ENABLED'' ''true'',
      plainEnv ''METRICS_PORT'' ''9090'']"

section \<open>The containers\<close>

definition http_get :: "string \<Rightarrow> int \<Rightarrow> int \<Rightarrow> int \<Rightarrow> int \<Rightarrow> http_probe" where
  "http_get path port delay period failures =
     \<lparr>hp_path = path, hp_port = port, hp_initialDelaySeconds = delay, hp_periodSeconds = period,
      hp_failureThreshold = failures\<rparr>"

definition retrieverResources :: "retriever \<Rightarrow> resource_lists" where
  "retrieverResources rt =
     (case rts_resources (rtr_spec rt) of
        Some r \<Rightarrow> r
      | None \<Rightarrow> \<lparr>rl_requests = [''cpu'' \<mapsto> ''250m'', ''memory'' \<mapsto> ''512Mi''], rl_limits = [''memory'' \<mapsto> ''2Gi'']\<rparr>)"

definition retrieverContainer :: "retriever \<Rightarrow> knowledge_base \<Rightarrow> server_container" where
  "retrieverContainer rt kb =
     \<lparr>sc_name = ''retriever'', sc_image = retrieverImage rt, sc_imagePullPolicy = ''IfNotPresent'', sc_args = [],
      sc_ports = [(8000, ''http''), (9090, ''metrics'')],
      sc_env = retrieverEnv rt kb, sc_resources = retrieverResources rt,
      sc_security = hardenedContainerSecurityContext, sc_mounts = [scratchMount],
      sc_readiness = Some (http_get ''/readyz'' 8000 10 10 0),
      sc_liveness = Some (http_get ''/healthz'' 8000 60 30 0),
      sc_startup = Some (http_get ''/healthz'' 8000 0 10 18)\<rparr>"

definition proxyArgs :: "oidc_spec \<Rightarrow> string \<Rightarrow> string \<Rightarrow> string list" where
  "proxyArgs oidc scheme host =
     (let emailDomains = (if oi_emailDomains oidc = [] then [''*''] else oi_emailDomains oidc)
      in [''--provider=oidc'',
          ''--oidc-issuer-url='' @ oi_issuerURL oidc,
          ''--http-address=0.0.0.0:4180'',
          ''--upstream=http://127.0.0.1:8000'',
          ''--redirect-url='' @ scheme @ ''://'' @ host @ ''/oauth2/callback'',
          ''--reverse-proxy=true'',
          ''--skip-provider-button=true'',
          ''--code-challenge-method=S256'',
          ''--cookie-name=_kuberag_oauth2_proxy'',
          ''--cookie-samesite=lax'',
          ''--cookie-secure='' @ bool_string (scheme = ''https'')] @
         map (\<lambda>domain. ''--email-domain='' @ domain) emailDomains @
         map (\<lambda>group. ''--allowed-group='' @ group) (oi_groups oidc))"

definition proxyContainer :: "retriever \<Rightarrow> oidc_spec \<Rightarrow> server_container prog" where
  "proxyContainer rt oidc =
     (let scheme = (case rts_ingress (rtr_spec rt) of
                      None \<Rightarrow> ''http'' | Some i \<Rightarrow> if ri_tlsSecretName i \<noteq> '''' then ''https'' else ''http'')
      in case rts_ingress (rtr_spec rt) of
           None \<Rightarrow> Panic
         | Some i \<Rightarrow>
             Done \<lparr>sc_name = ''oauth2-proxy'',
               sc_image = (if oi_image oidc = '''' then ''quay.io/oauth2-proxy/oauth2-proxy:v7.15.3'' else oi_image oidc),
               sc_imagePullPolicy = ''IfNotPresent'', sc_args = proxyArgs oidc scheme (ri_host i),
               sc_ports = [(4180, ''proxy'')],
               sc_env = [secretEnv ''OAUTH2_PROXY_CLIENT_ID'' (oi_clientIDSecretRef oidc),
                         secretEnv ''OAUTH2_PROXY_CLIENT_SECRET'' (oi_clientSecretSecretRef oidc),
                         secretEnv ''OAUTH2_PROXY_COOKIE_SECRET'' (oi_cookieSecretRef oidc)],
               sc_resources = \<lparr>rl_requests = [''cpu'' \<mapsto> ''25m'', ''memory'' \<mapsto> ''32Mi''],
                               rl_limits = [''cpu'' \<mapsto> ''250m'', ''memory'' \<mapsto> ''128Mi'']\<rparr>,
               sc_security = hardenedContainerSecurityContext, sc_mounts = [],
               sc_readiness = Some (http_get ''/ping'' 4180 5 10 0),
               sc_liveness = Some (http_get ''/ping'' 4180 15 20 0),
               sc_startup = None\<rparr>)"

section \<open>The objects\<close>

definition desiredDeployment :: "lib \<Rightarrow> retriever \<Rightarrow> knowledge_base \<Rightarrow> string \<Rightarrow> deployment prog" where
  "desiredDeployment L rt kb secretHash =
     (let labels = retriever_labels rt
      in pbind (case rts_oidc (rtr_spec rt) of
                  None \<Rightarrow> Done [retrieverContainer rt kb]
                | Some oidc \<Rightarrow>
                    pbind (proxyContainer rt oidc) (\<lambda>c. Done [retrieverContainer rt kb, c])) (\<lambda>containers.
         pbind (scratchVolume L '''') (\<lambda>scratch.
         Done \<lparr>dep_meta = new_meta (retrieverObjectName rt) (rtr_namespace rt) labels,
           dep_spec = \<lparr>ds_replicas = Some (desiredMinimumReplicas rt), ds_matchLabels = labels,
             ds_templateLabels = labels, ds_templateAnnotations = [''checksum/secrets'' \<mapsto> secretHash],
             ds_pod = \<lparr>sp_automountToken = Some False, sp_priorityClassName = ''kuberag-system'',
               sp_terminationGracePeriodSeconds = 60, sp_security = hardenedPodSecurityContext,
               sp_volumes = [scratch], sp_nodeSelector = rts_nodeSelector (rtr_spec rt),
               sp_tolerations = rts_tolerations (rtr_spec rt), sp_affinity = rts_affinity (rtr_spec rt),
               sp_topologySpread = [\<lparr>ts_maxSkew = 1, ts_topologyKey = ''topology.kubernetes.io/zone'',
                 ts_whenUnsatisfiable = ''ScheduleAnyway'', ts_matchLabels = labels\<rparr>],
               sp_containers = containers\<rparr>\<rparr>,
           dep_readyReplicas = 0\<rparr>)))"

definition desiredService :: "retriever \<Rightarrow> service" where
  "desiredService rt =
     (let targetPort = (if oidcEnabled rt then 4180 else 8000)
      in \<lparr>svc_meta = new_meta (retrieverObjectName rt) (rtr_namespace rt) (retriever_labels rt),
          svc_annotations = (\<lambda>_. None), svc_selector = retriever_labels rt,
          svc_ports = [\<lparr>svp_name = ''http'', svp_port = 8000, svp_targetPort = targetPort\<rparr>]\<rparr>)"

definition desiredMetricsService :: "retriever \<Rightarrow> service" where
  "desiredMetricsService rt =
     \<lparr>svc_meta = new_meta (rtr_name rt @ ''-retriever-metrics'') (rtr_namespace rt)
        ((retriever_labels rt)(''app.kubernetes.io/component'' \<mapsto> ''retriever-metrics'')),
      svc_annotations = [''prometheus.io/scrape'' \<mapsto> ''true'', ''prometheus.io/port'' \<mapsto> ''9090'',
                         ''prometheus.io/path'' \<mapsto> ''/metrics''],
      svc_selector = retriever_labels rt,
      svc_ports = [\<lparr>svp_name = ''metrics'', svp_port = 9090, svp_targetPort = 9090\<rparr>]\<rparr>"

definition ingressPath :: "retriever_ingress_spec \<Rightarrow> string" where
  "ingressPath i = (if ri_path i = '''' then ''/'' else ri_path i)"

definition desiredIngress :: "retriever \<Rightarrow> retriever_ingress_spec \<Rightarrow> ingress" where
  "desiredIngress rt i =
     \<lparr>ing_meta = new_meta (retrieverObjectName rt) (rtr_namespace rt) (retriever_labels rt),
      ing_annotations =
        (if ri_clusterIssuer i \<noteq> ''''
         then (ri_annotations i)(''cert-manager.io/cluster-issuer'' \<mapsto> ri_clusterIssuer i) else ri_annotations i),
      ing_spec =
        \<lparr>is_className = (if ri_className i \<noteq> '''' then Some (ri_className i) else None),
         is_tls = (if ri_tlsSecretName i \<noteq> '''' then [([ri_host i], ri_tlsSecretName i)] else []),
         is_paths = [\<lparr>ip_host = ri_host i, ip_path = ingressPath i, ip_pathType = ''Prefix'',
           ip_serviceName = retrieverObjectName rt, ip_servicePort = 8000\<rparr>]\<rparr>\<rparr>"

definition desiredNetworkPolicy :: "retriever \<Rightarrow> network_policy" where
  "desiredNetworkPolicy rt =
     \<lparr>np_meta = new_meta (oidcPolicyName rt) (rtr_namespace rt) (retriever_labels rt),
      np_spec = \<lparr>nps_podSelector = retriever_labels rt, nps_policyTypes = [''Ingress''],
                 nps_ingressPorts = [[(''TCP'', 4180), (''TCP'', 9090)]]\<rparr>\<rparr>"

definition desiredDisruptionBudget :: "retriever \<Rightarrow> disruption_budget" where
  "desiredDisruptionBudget rt =
     \<lparr>pdb_meta = new_meta (retrieverObjectName rt) (rtr_namespace rt) (retriever_labels rt),
      pdb_spec = \<lparr>pds_minAvailable = 1, pds_selector = retriever_labels rt\<rparr>\<rparr>"

definition desiredAutoscaler :: "retriever \<Rightarrow> autoscaling_spec \<Rightarrow> autoscaler" where
  "desiredAutoscaler rt a =
     \<lparr>hpa_meta = new_meta (retrieverObjectName rt) (rtr_namespace rt) (retriever_labels rt),
      hpa_spec = \<lparr>hps_targetKind = ''Deployment'', hps_targetName = retrieverObjectName rt,
        hps_minReplicas = defaultInt32 (as_minReplicas a) 2,
        hps_maxReplicas = defaultInt32 (as_maxReplicas a) 10,
        hps_cpuUtilization = defaultInt32 (as_targetCPU a) 70\<rparr>\<rparr>"

end
