(* ===== verification/Retriever.thy ===== *)
theory Retriever
  imports Retriever_Objects Worker_Identity
begin

text \<open>
  The Retriever reconciler (\<open>internal/controller/retriever_controller.go\<close>): it resolves the
  KnowledgeBase and the Secrets, applies the rendered objects in a fixed order, and reports what the
  Deployment and the VectorIndex look like. Each object is read, and created or updated; that
  pattern is one definition with a contract, of which every kind of object is an instance.
\<close>

section \<open>Applying an object\<close>

definition apply_object ::
  "(key \<Rightarrow> (err + 'a \<Rightarrow> err option prog) \<Rightarrow> err option prog) \<Rightarrow> ('a \<Rightarrow> obj) \<Rightarrow> key \<Rightarrow> 'a \<Rightarrow> ('a \<Rightarrow> 'a)
   \<Rightarrow> err option prog" where
  "apply_object get wrap k desired merge =
     get k (\<lambda>res.
     case res of
       Inl e \<Rightarrow> if is_not_found e then Create (wrap desired) Done else Done (Some e)
     | Inr existing \<Rightarrow> Update (wrap (merge existing)) Done)"

text \<open>\<open>client.IgnoreNotFound(r.Delete(...))\<close>.\<close>

definition delete_if_present :: "kind \<Rightarrow> key \<Rightarrow> err option prog" where
  "delete_if_present kd k =
     Delete kd DefaultPropagation k (\<lambda>r. Done (case r of None \<Rightarrow> None | Some e \<Rightarrow> ignoreNotFound e))"

definition retriever_owner :: "retriever \<Rightarrow> owner_ref" where
  "retriever_owner rt = \<lparr>or_kind = ''Retriever'', or_name = rtr_name rt\<rparr>"

text \<open>\<open>SetControllerReference\<close>, whose error ends the step.\<close>

definition owned :: "lib \<Rightarrow> retriever \<Rightarrow> object_meta \<Rightarrow> (object_meta \<Rightarrow> err option prog) \<Rightarrow> err option prog" where
  "owned L rt m k =
     (case set_controller_reference L (retriever_owner rt) m of Inl e \<Rightarrow> Done (Some e) | Inr m' \<Rightarrow> k m')"

definition retriever_key :: "retriever \<Rightarrow> key" where
  "retriever_key rt = (rtr_namespace rt, retrieverObjectName rt)"

definition relabel :: "object_meta \<Rightarrow> object_meta \<Rightarrow> object_meta" where
  "relabel desired existing = existing\<lparr>m_labels := m_labels desired\<rparr>"

text \<open>With an autoscaler the replica count belongs to it, and the live one is kept.\<close>

definition applyDeployment :: "deployment \<Rightarrow> bool \<Rightarrow> err option prog" where
  "applyDeployment dep preserveReplicas =
     apply_object GetDeployment ODeployment (m_namespace (dep_meta dep), m_name (dep_meta dep)) dep (\<lambda>existing.
       existing\<lparr>dep_spec := (if preserveReplicas then (dep_spec dep)\<lparr>ds_replicas := ds_replicas (dep_spec existing)\<rparr>
                            else dep_spec dep),
                dep_meta := relabel (dep_meta dep) (dep_meta existing)\<rparr>)"

definition applyService :: "service \<Rightarrow> err option prog" where
  "applyService svc =
     apply_object GetService OService (m_namespace (svc_meta svc), m_name (svc_meta svc)) svc (\<lambda>existing.
       existing\<lparr>svc_meta := relabel (svc_meta svc) (svc_meta existing), svc_annotations := svc_annotations svc,
                svc_selector := svc_selector svc, svc_ports := svc_ports svc\<rparr>)"

definition reconcileIngress :: "lib \<Rightarrow> retriever \<Rightarrow> err option prog" where
  "reconcileIngress L rt =
     (case rts_ingress (rtr_spec rt) of
        None \<Rightarrow> delete_if_present KindIngress (retriever_key rt)
      | Some i \<Rightarrow>
          let desired = desiredIngress rt i
          in owned L rt (ing_meta desired) (\<lambda>m.
             apply_object GetIngress OIngress (retriever_key rt) (desired\<lparr>ing_meta := m\<rparr>) (\<lambda>existing.
               existing\<lparr>ing_meta := relabel m (ing_meta existing), ing_annotations := ing_annotations desired,
                        ing_spec := ing_spec desired\<rparr>)))"

definition reconcileOIDCNetworkPolicy :: "lib \<Rightarrow> retriever \<Rightarrow> err option prog" where
  "reconcileOIDCNetworkPolicy L rt =
     (if \<not> oidcEnabled rt then delete_if_present KindNetworkPolicy (rtr_namespace rt, oidcPolicyName rt)
      else
        let desired = desiredNetworkPolicy rt
        in owned L rt (np_meta desired) (\<lambda>m.
           apply_object GetNetworkPolicy ONetworkPolicy (rtr_namespace rt, oidcPolicyName rt)
             (desired\<lparr>np_meta := m\<rparr>) (\<lambda>existing.
               existing\<lparr>np_meta := relabel m (np_meta existing), np_spec := np_spec desired\<rparr>)))"

definition disruptionBudgetEnabled :: "retriever \<Rightarrow> bool" where
  "disruptionBudgetEnabled rt =
     (case rts_podDisruptionBudget (rtr_spec rt) of
        None \<Rightarrow> 1 < desiredMinimumReplicas rt | Some b \<Rightarrow> b)"

definition reconcilePodDisruptionBudget :: "lib \<Rightarrow> retriever \<Rightarrow> err option prog" where
  "reconcilePodDisruptionBudget L rt =
     (if \<not> disruptionBudgetEnabled rt then delete_if_present KindDisruptionBudget (retriever_key rt)
      else
        let desired = desiredDisruptionBudget rt
        in owned L rt (pdb_meta desired) (\<lambda>m.
           apply_object GetDisruptionBudget ODisruptionBudget (retriever_key rt) (desired\<lparr>pdb_meta := m\<rparr>) (\<lambda>existing.
             existing\<lparr>pdb_meta := relabel m (pdb_meta existing), pdb_spec := pdb_spec desired\<rparr>)))"

definition reconcileHorizontalPodAutoscaler :: "lib \<Rightarrow> retriever \<Rightarrow> err option prog" where
  "reconcileHorizontalPodAutoscaler L rt =
     (case (if autoscalingEnabled rt then rts_autoscaling (rtr_spec rt) else None) of
        None \<Rightarrow> delete_if_present KindAutoscaler (retriever_key rt)
      | Some a \<Rightarrow>
          let desired = desiredAutoscaler rt a
          in owned L rt (hpa_meta desired) (\<lambda>m.
             apply_object GetAutoscaler OAutoscaler (retriever_key rt) (desired\<lparr>hpa_meta := m\<rparr>) (\<lambda>existing.
               existing\<lparr>hpa_meta := relabel m (hpa_meta existing), hpa_spec := hpa_spec desired\<rparr>)))"

section \<open>Secrets\<close>

text \<open>The references checked before anything is deployed, with the names the messages use.\<close>

definition retriever_refs :: "retriever \<Rightarrow> knowledge_base \<Rightarrow> (string \<times> secret_key_ref option) list" where
  "retriever_refs rt kb =
     [(''vector store credentials'', vs_credentialsSecretRef (ks_vectorStore (spec kb))),
      (''embedding API key'', emb_apiKeySecretRef (ks_embedding (spec kb))),
      (''retriever API key'', rts_apiKeySecretRef (rtr_spec rt))] @
     (case rts_rateLimit (rtr_spec rt) of
        None \<Rightarrow> []
      | Some r \<Rightarrow> if rl_backend r = ''redis'' then [(''rate-limit Redis URL'', rl_redisURLSecretRef r)] else []) @
     (case rts_generation (rtr_spec rt) of
        None \<Rightarrow> [] | Some g \<Rightarrow> [(''generation API key'', gn_apiKeySecretRef g)]) @
     (case rts_oidc (rtr_spec rt) of
        None \<Rightarrow> []
      | Some i \<Rightarrow> [(''OIDC client ID'', Some (oi_clientIDSecretRef i)),
                  (''OIDC client secret'', Some (oi_clientSecretSecretRef i)),
                  (''OIDC cookie secret'', Some (oi_cookieSecretRef i))])"

fun validate_refs :: "lib \<Rightarrow> string \<Rightarrow> (string \<times> secret_key_ref option) list \<Rightarrow> (string \<times> string) prog" where
  "validate_refs L ns [] = Done ('''', '''')"
| "validate_refs L ns ((label, None) # refs) = validate_refs L ns refs"
| "validate_refs L ns ((label, Some ref) # refs) =
     GetSecret (ns, skr_name ref) (\<lambda>res.
     case res of
       Inl e \<Rightarrow>
         if is_not_found e then Done (''SecretNotFound'', label @ '' Secret '' @ quote L (skr_name ref) @ '' not found'')
         else Done (''SecretReadFailed'',
                ''cannot read '' @ label @ '' Secret '' @ quote L (skr_name ref) @ '': '' @ message e)
     | Inr secret \<Rightarrow>
         (case sec_data secret (skr_key ref) of
            None \<Rightarrow> Done (''SecretKeyNotFound'',
                label @ '' Secret '' @ quote L (skr_name ref) @ '' does not contain key '' @ quote L (skr_key ref))
          | Some value \<Rightarrow>
              if value = '''' then Done (''SecretKeyEmpty'',
                label @ '' Secret '' @ quote L (skr_name ref) @ '' key '' @ quote L (skr_key ref) @ '' is empty'')
              else validate_refs L ns refs))"

definition validateRetrieverSecrets :: "lib \<Rightarrow> retriever \<Rightarrow> knowledge_base \<Rightarrow> (string \<times> string) prog" where
  "validateRetrieverSecrets L rt kb = validate_refs L (rtr_namespace rt) (retriever_refs rt kb)"

definition computeRetrieverSecretsHash :: "lib \<Rightarrow> retriever \<Rightarrow> knowledge_base \<Rightarrow> string prog" where
  "computeRetrieverSecretsHash L rt kb =
     (let s = rtr_spec rt; ns = rtr_namespace rt
      in pbind (appendSecretHash (kb_namespace kb) ''vectorStore.credentials''
                 (vs_credentialsSecretRef (ks_vectorStore (spec kb))) '''') (\<lambda>h.
         pbind (appendSecretHash (kb_namespace kb) ''embedding.apiKey'' (emb_apiKeySecretRef (ks_embedding (spec kb))) h) (\<lambda>h.
         pbind (if rts_apiKeySecretRef s \<noteq> None then appendSecretHash ns ''retriever.apiKey'' (rts_apiKeySecretRef s) h
                else Done h) (\<lambda>h.
         pbind (case rts_rateLimit s of
                  None \<Rightarrow> Done h
                | Some r \<Rightarrow>
                    if rl_backend r = ''redis'' \<and> rl_redisURLSecretRef r \<noteq> None
                    then appendSecretHash ns ''rateLimit.redisURL'' (rl_redisURLSecretRef r) h else Done h) (\<lambda>h.
         pbind (case rts_oidc s of
                  None \<Rightarrow> Done h
                | Some i \<Rightarrow>
                    pbind (appendSecretHash ns ''oidc.clientID'' (Some (oi_clientIDSecretRef i)) h) (\<lambda>h.
                    pbind (appendSecretHash ns ''oidc.clientSecret'' (Some (oi_clientSecretSecretRef i)) h)
                      (appendSecretHash ns ''oidc.cookieSecret'' (Some (oi_cookieSecretRef i))))) (\<lambda>h.
         pbind (case rts_generation s of
                  None \<Rightarrow> Done h
                | Some g \<Rightarrow>
                    if gn_apiKeySecretRef g \<noteq> None
                    then appendSecretHash ns ''generation.apiKey'' (gn_apiKeySecretRef g) h else Done h) (\<lambda>h.
         Done (hex (take 4 (sha256 L h))))))))))"

section \<open>The reconciler\<close>

text \<open>The objects are deleted in this order; the first error other than not found ends the step.\<close>

definition removeRetrieverWorkload :: "retriever \<Rightarrow> err option prog" where
  "removeRetrieverWorkload rt =
     and_then (delete_if_present KindDeployment (retriever_key rt))
     (and_then (delete_if_present KindAutoscaler (retriever_key rt))
     (and_then (delete_if_present KindDisruptionBudget (retriever_key rt))
     (and_then (delete_if_present KindIngress (retriever_key rt))
     (delete_if_present KindNetworkPolicy (rtr_namespace rt, oidcPolicyName rt)))))"

definition upd_rtr_status :: "(retriever_status \<Rightarrow> retriever_status) \<Rightarrow> retriever \<Rightarrow> retriever" where
  "upd_rtr_status f rt = rt\<lparr>rtr_status := f (rtr_status rt)\<rparr>"

definition setRetrieverCond :: "lib \<Rightarrow> retriever \<Rightarrow> condition_status \<Rightarrow> string \<Rightarrow> string \<Rightarrow> retriever" where
  "setRetrieverCond L rt st rsn msg =
     upd_rtr_status (\<lambda>s. s\<lparr>rtst_conditions := set_status_condition L (rtst_conditions s)
       \<lparr>c_type = ConditionAvailable, c_status = st, c_reason = rsn, c_message = msg,
        c_observedGeneration = m_generation (rtr_meta rt)\<rparr>\<rparr>) rt"

definition save_retriever :: "retriever \<Rightarrow> reconcile_result prog" where
  "save_retriever rt = UpdateStatus (ORetriever rt) (\<lambda>r. Done (no_requeue, case r of Inl e \<Rightarrow> Some e | Inr _ \<Rightarrow> None))"

text \<open>Without its KnowledgeBase or a Secret the Retriever has no workload.\<close>

definition pending_status :: "lib \<Rightarrow> retriever \<Rightarrow> string \<Rightarrow> string \<Rightarrow> retriever" where
  "pending_status L rt rsn msg =
     setRetrieverCond L
       (upd_rtr_status (\<lambda>s. s\<lparr>rtst_phase := ''Pending'', rtst_readyReplicas := 0, rtst_serviceEndpoint := '''',
          rtst_publicEndpoint := '''', rtst_observedGeneration := m_generation (rtr_meta rt)\<rparr>) rt)
       ConditionFalse rsn msg"

definition withdraw :: "lib \<Rightarrow> retriever \<Rightarrow> string \<Rightarrow> string \<Rightarrow> reconcile_result prog" where
  "withdraw L rt rsn msg =
     pbind (removeRetrieverWorkload rt) (\<lambda>r.
     case r of Some e \<Rightarrow> Done (no_requeue, Some e) | None \<Rightarrow> save_retriever (pending_status L rt rsn msg))"

definition applyWorkload :: "lib \<Rightarrow> retriever \<Rightarrow> knowledge_base \<Rightarrow> err option prog" where
  "applyWorkload L rt kb =
     pbind (computeRetrieverSecretsHash L rt kb) (\<lambda>secretHash.
     pbind (desiredDeployment L rt kb secretHash) (\<lambda>dep.
     and_then (owned L rt (dep_meta dep) (\<lambda>m. applyDeployment (dep\<lparr>dep_meta := m\<rparr>) (autoscalingEnabled rt)))
     (and_then (owned L rt (svc_meta (desiredService rt)) (\<lambda>m. applyService ((desiredService rt)\<lparr>svc_meta := m\<rparr>)))
     (and_then (owned L rt (svc_meta (desiredMetricsService rt)) (\<lambda>m. applyService ((desiredMetricsService rt)\<lparr>svc_meta := m\<rparr>)))
     (and_then (reconcileIngress L rt)
     (and_then (reconcileOIDCNetworkPolicy L rt)
     (and_then (reconcilePodDisruptionBudget L rt)
     (reconcileHorizontalPodAutoscaler L rt))))))))"

definition index_unhealthy :: "err + vector_index \<Rightarrow> bool" where
  "index_unhealthy res =
     (case res of
        Inl e \<Rightarrow> False
      | Inr vi \<Rightarrow> vst_health (vi_status vi) = IndexMissing \<or> vst_health (vi_status vi) = IndexDegraded)"

definition publicEndpoint :: "retriever \<Rightarrow> string" where
  "publicEndpoint rt =
     (case rts_ingress (rtr_spec rt) of
        None \<Rightarrow> ''''
      | Some i \<Rightarrow> (if ri_tlsSecretName i \<noteq> '''' then ''https'' else ''http'') @ ''://'' @ ri_host i @ ingressPath i)"

text \<open>The status for what was read: the live Deployment and the answer about the VectorIndex.\<close>

definition observed_status :: "lib \<Rightarrow> retriever \<Rightarrow> deployment \<Rightarrow> err + vector_index \<Rightarrow> retriever" where
  "observed_status L rt live vi =
     (let rt = upd_rtr_status (\<lambda>s. s\<lparr>rtst_readyReplicas := dep_readyReplicas live,
                 rtst_observedGeneration := m_generation (rtr_meta rt),
                 rtst_serviceEndpoint := ''http://'' @ retrieverObjectName rt @ ''.'' @ rtr_namespace rt @ ''.svc:8000'',
                 rtst_publicEndpoint := publicEndpoint rt\<rparr>) rt;
          minReady = desiredMinimumReplicas rt;
          counts = itoa (dep_readyReplicas live) @ ''/'' @ itoa minReady @ '' replicas ready''
      in if minReady \<le> dep_readyReplicas live \<and> 0 < minReady then
           if \<not> index_unhealthy vi then
             setRetrieverCond L (upd_rtr_status (\<lambda>s. s\<lparr>rtst_phase := ''Available''\<rparr>) rt) ConditionTrue
               ''MinimumReplicasAvailable'' counts
           else
             setRetrieverCond L (upd_rtr_status (\<lambda>s. s\<lparr>rtst_phase := ''Progressing''\<rparr>) rt) ConditionFalse
               ''VectorIndexUnhealthy''
               (case vi of Inl e \<Rightarrow> '''' | Inr v \<Rightarrow>
                  ''vectorindex '' @ m_name (vi_meta v) @ '' has health '' @ health_string (vst_health (vi_status v)))
         else
           setRetrieverCond L (upd_rtr_status (\<lambda>s. s\<lparr>rtst_phase := ''Progressing''\<rparr>) rt) ConditionFalse
             ''Progressing'' counts)"

definition reportRetriever :: "lib \<Rightarrow> retriever \<Rightarrow> knowledge_base \<Rightarrow> reconcile_result prog" where
  "reportRetriever L rt kb =
     GetDeployment (retriever_key rt) (\<lambda>res.
     case res of
       Inl e \<Rightarrow> Done (no_requeue, Some e)
     | Inr live \<Rightarrow>
         GetVectorIndex (kb_namespace kb, trunc_name L (kb_name kb @ ''-index'')) (\<lambda>vi.
         save_retriever (observed_status L rt live vi)))"

definition reconcileRetriever :: "lib \<Rightarrow> retriever \<Rightarrow> reconcile_result prog" where
  "reconcileRetriever L rt =
     GetKB (rtr_namespace rt, rts_knowledgeBaseRef (rtr_spec rt)) (\<lambda>res.
     case res of
       Inl e \<Rightarrow>
         if is_not_found e then withdraw L rt ''KnowledgeBaseNotFound'' ''referenced KnowledgeBase not found''
         else Done (no_requeue, Some e)
     | Inr kb \<Rightarrow>
         pbind (validateRetrieverSecrets L rt kb) (\<lambda>(rsn, msg).
         if rsn \<noteq> '''' then withdraw L rt rsn msg
         else
           pbind (applyWorkload L rt kb) (\<lambda>r.
           case r of Some e \<Rightarrow> Done (no_requeue, Some e) | None \<Rightarrow> reportRetriever L rt kb)))"

definition reconcile_retriever :: "lib \<Rightarrow> key \<Rightarrow> reconcile_result prog" where
  "reconcile_retriever L k =
     GetRetriever k (\<lambda>res.
     case res of Inl e \<Rightarrow> Done (no_requeue, ignoreNotFound e) | Inr rt \<Rightarrow> reconcileRetriever L rt)"

section \<open>Watches\<close>

definition retriever_request :: "retriever \<Rightarrow> key" where
  "retriever_request rt = (rtr_namespace rt, rtr_name rt)"

text \<open>The answer of the list call is the first argument.\<close>

definition kbRetrieverRequests :: "err + retriever list \<Rightarrow> knowledge_base \<Rightarrow> key list" where
  "kbRetrieverRequests listed kb =
     (case listed of
        Inl e \<Rightarrow> []
      | Inr items \<Rightarrow> map retriever_request (filter (\<lambda>rt. rts_knowledgeBaseRef (rtr_spec rt) = kb_name kb) items))"

definition retrieverNamesSecret :: "retriever \<Rightarrow> string \<Rightarrow> bool" where
  "retrieverNamesSecret rt name =
     (let s = rtr_spec rt; is = (\<lambda>ref. case ref of None \<Rightarrow> False | Some r \<Rightarrow> skr_name r = name)
      in is (rts_apiKeySecretRef s) \<or>
         (case rts_rateLimit s of None \<Rightarrow> False | Some r \<Rightarrow> rl_backend r = ''redis'' \<and> is (rl_redisURLSecretRef r)) \<or>
         (case rts_generation s of None \<Rightarrow> False | Some g \<Rightarrow> is (gn_apiKeySecretRef g)) \<or>
         (case rts_oidc s of
            None \<Rightarrow> False
          | Some i \<Rightarrow> skr_name (oi_clientIDSecretRef i) = name \<or> skr_name (oi_clientSecretSecretRef i) = name \<or>
                      skr_name (oi_cookieSecretRef i) = name))"

definition kbNamesSecret :: "knowledge_base \<Rightarrow> string \<Rightarrow> bool" where
  "kbNamesSecret kb name =
     (let is = (\<lambda>ref. case ref of None \<Rightarrow> False | Some r \<Rightarrow> skr_name r = name)
      in is (vs_credentialsSecretRef (ks_vectorStore (spec kb))) \<or> is (emb_apiKeySecretRef (ks_embedding (spec kb))))"

fun secret_requests :: "retriever list \<Rightarrow> string \<Rightarrow> key list prog" where
  "secret_requests [] name = Done []"
| "secret_requests (rt # rts) name =
     GetKB (rtr_namespace rt, rts_knowledgeBaseRef (rtr_spec rt)) (\<lambda>res.
     pbind (secret_requests rts name) (\<lambda>reqs.
     Done (if retrieverNamesSecret rt name \<or> (case res of Inl e \<Rightarrow> False | Inr kb \<Rightarrow> kbNamesSecret kb name)
           then retriever_request rt # reqs else reqs)))"

definition secretRetrieverRequests :: "err + retriever list \<Rightarrow> string \<Rightarrow> key list prog" where
  "secretRetrieverRequests listed name =
     (case listed of Inl e \<Rightarrow> Done [] | Inr items \<Rightarrow> secret_requests items name)"

end
