(* ===== verification/Retriever_Correct.thy ===== *)
theory Retriever_Correct
  imports Retriever
begin

text \<open>
  What the Retriever controller guarantees: the contract of applying an object, instantiated for each
  kind of object; the rendered Pods; which Secrets a workload needs; and when it is reported
  available.
\<close>

section \<open>Applying an object, as a contract\<close>

text \<open>
  A kind of object is a read with its event and an injection into the objects. Applying one is one
  read and at most one write, a creation only when the read found nothing.
\<close>

locale kept_object =
  fixes get :: "key \<Rightarrow> (err + 'a \<Rightarrow> err option prog) \<Rightarrow> err option prog"
    and ev :: "key \<Rightarrow> err + 'a \<Rightarrow> event"
    and wrap :: "'a \<Rightarrow> obj"
  assumes wp_get: "wp (get k f) Q \<longleftrightarrow> (\<forall>r. wp (f r) (\<lambda>tr. Q (ev k r # tr)))"
begin

lemma wp_apply:
  "wp (apply_object get wrap k d m)
     (\<lambda>tr r. (\<exists>e. tr = [ev k (Inl e)] \<and> \<not> is_not_found e \<and> r = Some (Some e)) \<or>
             (\<exists>e a. is_not_found e \<and> tr = [ev k (Inl e), EvCreate (wrap d) a] \<and> r = Some a) \<or>
             (\<exists>x a. tr = [ev k (Inr x), EvUpdate (wrap (m x)) a] \<and> r = Some a))"
  by (auto simp: apply_object_def wp_get split: sum.split)

lemma never_apply:
  assumes "\<And>r. \<not> P (ev k r)" "\<And>a. \<not> P (EvCreate (wrap d) a)" "\<And>x a. \<not> P (EvUpdate (wrap (m x)) a)"
  shows "never P (apply_object get wrap k d m)"
  unfolding at_most_iff using assms
  by (intro wp_mono [OF wp_apply]) auto

lemma wp_apply_total: "wp (apply_object get wrap k d m) (\<lambda>tr r. r \<noteq> None)"
  by (rule wp_mono [OF wp_apply]) auto

text \<open>A successful application ends with an accepted write of the desired object or its merge.\<close>

lemma wp_apply_accepted:
  "wp (apply_object get wrap k d m)
     (\<lambda>tr r. r = Some None \<longrightarrow> EvCreate (wrap d) None \<in> set tr \<or> (\<exists>x. ev k (Inr x) \<in> set tr \<and> EvUpdate (wrap (m x)) None \<in> set tr))"
  by (rule wp_mono [OF wp_apply]) auto

end

interpretation deployments: kept_object GetDeployment EvGetDeployment ODeployment
  by unfold_locales simp

interpretation services: kept_object GetService EvGetService OService
  by unfold_locales simp

interpretation ingresses: kept_object GetIngress EvGetIngress OIngress
  by unfold_locales simp

interpretation policies: kept_object GetNetworkPolicy EvGetNetworkPolicy ONetworkPolicy
  by unfold_locales simp

interpretation budgets: kept_object GetDisruptionBudget EvGetDisruptionBudget ODisruptionBudget
  by unfold_locales simp

interpretation autoscalers: kept_object GetAutoscaler EvGetAutoscaler OAutoscaler
  by unfold_locales simp

section \<open>Helpers of the steps\<close>

lemma wp_delete_if_present [wp_simps]:
  "wp (delete_if_present kd k) Q \<longleftrightarrow>
     (\<forall>r. Q [EvDelete kd DefaultPropagation k r] (Some (case r of None \<Rightarrow> None | Some e \<Rightarrow> ignoreNotFound e)))"
  by (simp add: delete_if_present_def)

lemma never_delete_if_present: "(\<And>r. \<not> P (EvDelete kd DefaultPropagation k r)) \<Longrightarrow> never P (delete_if_present kd k)"
  by (simp add: delete_if_present_def)

lemma never_owned: "(\<And>m'. never P (k m')) \<Longrightarrow> never P (owned L rt m k)"
  by (simp add: owned_def split: sum.split)

lemma wp_owned:
  assumes "\<And>m'. set_controller_reference L (retriever_owner rt) m = Inr m' \<Longrightarrow> wp (k m') Q"
    and "\<And>e. set_controller_reference L (retriever_owner rt) m = Inl e \<Longrightarrow> Q [] (Some (Some e))"
  shows "wp (owned L rt m k) Q"
  using assms by (simp add: owned_def split: sum.split)

lemma never_save_retriever: "(\<And>a. \<not> P (EvUpdateStatus (ORetriever rt) a)) \<Longrightarrow> never P (save_retriever rt)"
  by (simp add: save_retriever_def)

lemma upd_rtr_status_simps [simp]:
  "rtr_meta (upd_rtr_status f rt) = rtr_meta rt"
  "rtr_spec (upd_rtr_status f rt) = rtr_spec rt"
  "rtr_status (upd_rtr_status f rt) = f (rtr_status rt)"
  by (simp_all add: upd_rtr_status_def)

lemma setRetrieverCond_simps [simp]:
  "rtr_meta (setRetrieverCond L rt st rsn msg) = rtr_meta rt"
  "rtr_spec (setRetrieverCond L rt st rsn msg) = rtr_spec rt"
  "rtst_phase (rtr_status (setRetrieverCond L rt st rsn msg)) = rtst_phase (rtr_status rt)"
  "rtst_readyReplicas (rtr_status (setRetrieverCond L rt st rsn msg)) = rtst_readyReplicas (rtr_status rt)"
  "rtst_serviceEndpoint (rtr_status (setRetrieverCond L rt st rsn msg)) = rtst_serviceEndpoint (rtr_status rt)"
  "rtst_publicEndpoint (rtr_status (setRetrieverCond L rt st rsn msg)) = rtst_publicEndpoint (rtr_status rt)"
  by (simp_all add: setRetrieverCond_def)

lemma never_validate_refs: "(\<And>k r. \<not> P (EvGetSecret k r)) \<Longrightarrow> never P (validate_refs L ns refs)"
  by (induction L ns refs rule: validate_refs.induct) (simp_all split: sum.split option.split)

lemma never_appendSecretHash: "(\<And>k r. \<not> P (EvGetSecret k r)) \<Longrightarrow> never P (appendSecretHash ns label ref h)"
  by (simp add: appendSecretHash_def Let_def split: option.split sum.split)

lemma never_computeRetrieverSecretsHash:
  "(\<And>k r. \<not> P (EvGetSecret k r)) \<Longrightarrow> never P (computeRetrieverSecretsHash L rt kb)"
  by (simp add: computeRetrieverSecretsHash_def Let_def never_pbind never_appendSecretHash split: option.split)

lemma never_proxyContainer: "never P (proxyContainer rt oidc)"
  by (simp add: proxyContainer_def split: option.split)

lemma never_desiredDeployment: "never P (desiredDeployment L rt kb h)"
  by (simp add: desiredDeployment_def Let_def never_pbind never_proxyContainer scratchVolume_def split: option.split)

lemma never_removeRetrieverWorkload:
  "(\<And>kd k r. \<not> P (EvDelete kd DefaultPropagation k r)) \<Longrightarrow> never P (removeRetrieverWorkload rt)"
  by (simp add: removeRetrieverWorkload_def never_and_then never_delete_if_present)


lemma wp_and_thenI:
  assumes "wp p P" "\<And>tr. P tr (Some None) \<Longrightarrow> wp q (\<lambda>tr'. Q (tr @ tr'))"
    and "\<And>tr e. P tr (Some (Some e)) \<Longrightarrow> Q tr (Some (Some e))" "\<And>tr. P tr None \<Longrightarrow> Q tr None"
  shows "wp (and_then p q) Q"
  unfolding wp_and_then
  by (rule wp_mono [OF assms(1)]) (use assms(2-4) in \<open>auto split: option.split\<close>)

section \<open>The query Pods\<close>

definition hardened_context :: "container_security_context \<Rightarrow> bool" where
  "hardened_context c \<longleftrightarrow>
     csc_runAsNonRoot c \<and> \<not> csc_allowPrivilegeEscalation c \<and> csc_readOnlyRootFilesystem c \<and>
     csc_dropCapabilities c = [''ALL''] \<and> csc_seccompProfile c = ''RuntimeDefault''"

definition hardened_server :: "server_pod \<Rightarrow> bool" where
  "hardened_server p \<longleftrightarrow>
     psc_runAsNonRoot (sp_security p) \<and> psc_runAsUser (sp_security p) \<noteq> 0 \<and> psc_runAsGroup (sp_security p) \<noteq> 0 \<and>
     psc_seccompProfile (sp_security p) = ''RuntimeDefault'' \<and> sp_automountToken p = Some False \<and>
     list_all (\<lambda>c. hardened_context (sc_security c)) (sp_containers p) \<and>
     list_all (\<lambda>v. case vol_source v of EmptyDir _ \<Rightarrow> True | ConfigMapVolume _ \<Rightarrow> False) (sp_volumes p)"

lemma hardenedContainerSecurityContext_hardened [simp]: "hardened_context hardenedContainerSecurityContext"
  by (simp add: hardened_context_def hardenedContainerSecurityContext_def)

text \<open>
  The variables of a query Pod that have a value of their own, and the credentials: the field of the
  Retriever or the KnowledgeBase whose Secret each of the others names.
\<close>

definition query_plain_names :: "string list" where
  "query_plain_names =
     [''VECTORSTORE_TYPE'', ''VECTORSTORE_ENDPOINT'', ''VECTORSTORE_COLLECTION'', ''DISTANCE'', ''EMBEDDING_MODEL'',
      ''EMBEDDING_PROVIDER'', ''EMBEDDING_BASE_URL'', ''EMBEDDING_DIMENSION'', ''EMBEDDING_QUERY_PREFIX'',
      ''EMBEDDING_DOC_PREFIX'', ''TOPK'', ''SCORE_THRESHOLD'', ''RERANK_ENABLED'', ''RERANK_MODEL'', ''RERANK_CANDIDATES'',
      ''HYBRID_DEFAULT'', ''HYBRID_DENSE_PERCENT'', ''MAX_CONCURRENT_REQUESTS'', ''MAX_REQUEST_BODY_BYTES'',
      ''RATE_LIMIT_ENABLED'', ''RATE_LIMIT_REQUESTS_PER_MINUTE'', ''RATE_LIMIT_BURST'', ''RATE_LIMIT_BACKEND'',
      ''RATE_LIMIT_REDIS_KEY_PREFIX'', ''RATE_LIMIT_CLIENT_ID_HEADER'', ''RETRIEVER_AUTH_ENABLED'', ''GEN_ENABLED'',
      ''GEN_PROVIDER'', ''GEN_MODEL'', ''GEN_BASE_URL'', ''GEN_MAX_TOKENS'', ''GEN_SYSTEM_PROMPT'', ''HOME'', ''TMPDIR'',
      ''XDG_CACHE_HOME'', ''HF_HOME'', ''FASTEMBED_CACHE_PATH'', ''PYTHONDONTWRITEBYTECODE'',
      ''DISABLE_PLAYGROUND_INGEST'', ''METRICS_ENABLED'', ''METRICS_PORT'']"

definition query_credential :: "retriever \<Rightarrow> knowledge_base \<Rightarrow> string \<Rightarrow> secret_key_ref \<Rightarrow> bool" where
  "query_credential rt kb n r \<longleftrightarrow>
     n = ''VECTORSTORE_CREDENTIAL'' \<and> vs_credentialsSecretRef (ks_vectorStore (spec kb)) = Some r \<or>
     n = ''EMBEDDING_API_KEY'' \<and> emb_apiKeySecretRef (servingEmbedding kb) = Some r \<or>
     n = ''RETRIEVER_API_KEY'' \<and> rts_apiKeySecretRef (rtr_spec rt) = Some r \<or>
     (\<exists>l. rts_rateLimit (rtr_spec rt) = Some l \<and> n = ''RATE_LIMIT_REDIS_URL'' \<and> rl_redisURLSecretRef l = Some r) \<or>
     (\<exists>g. rts_generation (rtr_spec rt) = Some g \<and> n = ''GEN_API_KEY'' \<and> gn_apiKeySecretRef g = Some r) \<or>
     (\<exists>i. rts_oidc (rtr_spec rt) = Some i \<and>
        (n = ''OAUTH2_PROXY_CLIENT_ID'' \<and> oi_clientIDSecretRef i = r \<or>
         n = ''OAUTH2_PROXY_CLIENT_SECRET'' \<and> oi_clientSecretSecretRef i = r \<or>
         n = ''OAUTH2_PROXY_COOKIE_SECRET'' \<and> oi_cookieSecretRef i = r))"

abbreviation query_by_reference :: "retriever \<Rightarrow> knowledge_base \<Rightarrow> env_var \<Rightarrow> bool" where
  "query_by_reference rt kb \<equiv> by_reference (\<lambda>n v. n \<in> set query_plain_names) (query_credential rt kb)"

definition env_refs :: "env_var list \<Rightarrow> secret_key_ref list" where
  "env_refs env = List.map_filter env_secret env"

definition server_secret_refs :: "server_pod \<Rightarrow> secret_key_ref list" where
  "server_secret_refs p = concat (map (\<lambda>c. env_refs (sc_env c)) (sp_containers p))"

definition checked_refs :: "retriever \<Rightarrow> knowledge_base \<Rightarrow> secret_key_ref list" where
  "checked_refs rt kb = List.map_filter snd (retriever_refs rt kb)"

lemma env_refs_simps [simp]:
  "env_refs [] = []"
  "env_refs (plainEnv n v # env) = env_refs env"
  "env_refs (secretEnv n r # env) = r # env_refs env"
  "env_refs (env @ env') = env_refs env @ env_refs env'"
  by (simp_all add: env_refs_def map_filter_def plainEnv_def secretEnv_def)

lemma env_refs_scratchEnv [simp]: "env_refs scratchEnv = []"
  by (simp add: scratchEnv_def)

lemma env_refs_queryEnv [simp]: "env_refs (queryEnv rt kb) = []"
  by (simp add: queryEnv_def Let_def)

lemma set_env_refs_opt [simp]: "env_refs (opt_secret_env n ref) = (case ref of None \<Rightarrow> [] | Some r \<Rightarrow> [r])"
  by (simp add: opt_secret_env_def split: option.split)

lemma set_checked_refs:
  "set (checked_refs rt kb) =
     set_option (vs_credentialsSecretRef (ks_vectorStore (spec kb))) \<union>
     set_option (emb_apiKeySecretRef (ks_embedding (spec kb))) \<union>
     set_option (rts_apiKeySecretRef (rtr_spec rt)) \<union>
     (case rts_rateLimit (rtr_spec rt) of None \<Rightarrow> {}
      | Some r \<Rightarrow> if rl_backend r = ''redis'' then set_option (rl_redisURLSecretRef r) else {}) \<union>
     (case rts_generation (rtr_spec rt) of None \<Rightarrow> {} | Some g \<Rightarrow> set_option (gn_apiKeySecretRef g)) \<union>
     (case rts_oidc (rtr_spec rt) of None \<Rightarrow> {}
      | Some i \<Rightarrow> {oi_clientIDSecretRef i, oi_clientSecretSecretRef i, oi_cookieSecretRef i})"
proof -
  have cons: "set (List.map_filter snd ((l, r) # xs)) = set_option r \<union> set (List.map_filter snd xs)"
    for l :: string and r :: "secret_key_ref option" and xs
    by (cases r) (simp_all add: map_filter_def)
  have app: "set (List.map_filter snd (xs @ ys)) = set (List.map_filter snd xs) \<union> set (List.map_filter snd ys)"
    for xs ys :: "(string \<times> secret_key_ref option) list"
    by (simp add: map_filter_def)
  have nil: "set (List.map_filter snd ([] :: (string \<times> secret_key_ref option) list)) = {}"
    by (simp add: map_filter_def)
  have rate: "set (List.map_filter snd (case x of None \<Rightarrow> []
        | Some r \<Rightarrow> if rl_backend r = ''redis'' then [(''rate-limit Redis URL'', rl_redisURLSecretRef r)] else [])) =
      (case x of None \<Rightarrow> {} | Some r \<Rightarrow> if rl_backend r = ''redis'' then set_option (rl_redisURLSecretRef r) else {})" for x
    by (cases x) (simp_all add: nil split: option.split)
  have gen: "set (List.map_filter snd (case x of None \<Rightarrow> [] | Some g \<Rightarrow> [(''generation API key'', gn_apiKeySecretRef g)])) =
      (case x of None \<Rightarrow> {} | Some g \<Rightarrow> set_option (gn_apiKeySecretRef g))" for x
    by (cases x) (simp_all add: nil split: option.split)
  have oidc: "set (List.map_filter snd (case x of None \<Rightarrow> []
        | Some i \<Rightarrow> [(''OIDC client ID'', Some (oi_clientIDSecretRef i)),
                  (''OIDC client secret'', Some (oi_clientSecretSecretRef i)),
                  (''OIDC cookie secret'', Some (oi_cookieSecretRef i))])) =
      (case x of None \<Rightarrow> {} | Some i \<Rightarrow> {oi_clientIDSecretRef i, oi_clientSecretSecretRef i, oi_cookieSecretRef i})" for x
    by (cases x) (simp_all add: nil insert_commute split: option.split)
  show ?thesis
    unfolding checked_refs_def retriever_refs_def app cons nil rate gen oidc Un_empty_right by (simp only: Un_assoc)
qed

lemma rateLimit_refs:
  "set (env_refs (rateLimitEnv rt)) \<subseteq>
     (case rts_rateLimit (rtr_spec rt) of None \<Rightarrow> {}
      | Some r \<Rightarrow> if rl_backend r = ''redis'' then set_option (rl_redisURLSecretRef r) else {})"
  by (auto simp: rateLimitEnv_def Let_def split: option.split if_splits)

lemma generation_refs:
  "set (env_refs (generationEnv rt)) \<subseteq>
     (case rts_generation (rtr_spec rt) of None \<Rightarrow> {} | Some g \<Rightarrow> set_option (gn_apiKeySecretRef g))"
  by (auto simp: generationEnv_def split: option.split)

lemma retrieverEnv_refs:
  "set (env_refs (retrieverEnv rt kb)) \<subseteq> set (checked_refs rt kb) \<union> set_option (emb_apiKeySecretRef (servingEmbedding kb))"
  using rateLimit_refs [of rt] generation_refs [of rt]
  by (auto simp: retrieverEnv_def set_checked_refs split: option.split_asm)

lemma query_by_reference_parts:
  "list_all (query_by_reference rt kb) (queryEnv rt kb)" "list_all (query_by_reference rt kb) scratchEnv"
  "list_all (query_by_reference rt kb)
     [plainEnv ''DISABLE_PLAYGROUND_INGEST'' ''true'', plainEnv ''METRICS_ENABLED'' ''true'', plainEnv ''METRICS_PORT'' ''9090'']"
  by (simp_all add: queryEnv_def Let_def scratchEnv_def query_plain_names_def)

lemma query_by_reference_rateLimitEnv: "list_all (query_by_reference rt kb) (rateLimitEnv rt)"
  by (auto simp: rateLimitEnv_def Let_def query_plain_names_def query_credential_def split: option.split)

lemma query_by_reference_generationEnv: "list_all (query_by_reference rt kb) (generationEnv rt)"
  by (auto simp: generationEnv_def query_plain_names_def query_credential_def split: option.split)

lemma by_reference_retrieverEnv: "list_all (query_by_reference rt kb) (retrieverEnv rt kb)"
proof -
  have "list_all (query_by_reference rt kb)
      (opt_secret_env ''VECTORSTORE_CREDENTIAL'' (vs_credentialsSecretRef (ks_vectorStore (spec kb))))"
    "list_all (query_by_reference rt kb) (opt_secret_env ''EMBEDDING_API_KEY'' (emb_apiKeySecretRef (servingEmbedding kb)))"
    by (simp_all add: opt_secret_env_def query_credential_def split: option.split)
  moreover have "list_all (query_by_reference rt kb) (case rts_apiKeySecretRef (rtr_spec rt) of
        None \<Rightarrow> []
      | Some ref \<Rightarrow> [plainEnv ''RETRIEVER_AUTH_ENABLED'' ''true'', secretEnv ''RETRIEVER_API_KEY'' ref])"
    by (simp add: query_credential_def query_plain_names_def split: option.split)
  ultimately show ?thesis
    unfolding retrieverEnv_def list_all_append
    by (intro conjI query_by_reference_parts query_by_reference_rateLimitEnv query_by_reference_generationEnv)
qed

text \<open>A rendered Deployment, and when rendering panics.\<close>

lemma wp_proxyContainer:
  "wp (proxyContainer rt oidc) (\<lambda>tr r. tr = [] \<and> (r = None \<longleftrightarrow> rts_ingress (rtr_spec rt) = None) \<and>
     (\<forall>c. r = Some c \<longrightarrow> sc_security c = hardenedContainerSecurityContext \<and>
        (rts_oidc (rtr_spec rt) = Some oidc \<longrightarrow> list_all (query_by_reference rt kb) (sc_env c)) \<and>
        env_refs (sc_env c) = [oi_clientIDSecretRef oidc, oi_clientSecretSecretRef oidc, oi_cookieSecretRef oidc]))"
  by (simp add: proxyContainer_def Let_def query_credential_def split: option.split)

definition well_rendered :: "retriever \<Rightarrow> knowledge_base \<Rightarrow> string \<Rightarrow> deployment \<Rightarrow> bool" where
  "well_rendered rt kb h dep \<longleftrightarrow>
     m_name (dep_meta dep) = retrieverObjectName rt \<and> m_namespace (dep_meta dep) = rtr_namespace rt \<and>
     m_labels (dep_meta dep) = retriever_labels rt \<and>
     ds_templateLabels (dep_spec dep) = retriever_labels rt \<and> ds_matchLabels (dep_spec dep) = retriever_labels rt \<and>
     ds_templateAnnotations (dep_spec dep) ''checksum/secrets'' = Some h \<and>
     ds_replicas (dep_spec dep) = Some (desiredMinimumReplicas rt) \<and>
     hardened_server (ds_pod (dep_spec dep)) \<and>
     list_all (\<lambda>c. list_all (query_by_reference rt kb) (sc_env c)) (sp_containers (ds_pod (dep_spec dep))) \<and>
     set_option (emb_apiKeySecretRef (servingEmbedding kb)) \<subseteq> set (server_secret_refs (ds_pod (dep_spec dep))) \<and>
     set (server_secret_refs (ds_pod (dep_spec dep))) \<subseteq>
       set (checked_refs rt kb) \<union> set_option (emb_apiKeySecretRef (servingEmbedding kb))"

lemma serving_key_used: "set_option (emb_apiKeySecretRef (servingEmbedding kb)) \<subseteq> set (env_refs (retrieverEnv rt kb))"
  by (cases "emb_apiKeySecretRef (servingEmbedding kb)") (simp_all add: retrieverEnv_def)

lemma wp_desiredDeployment:
  "wp (desiredDeployment L rt kb h) (\<lambda>tr r. tr = [] \<and>
     (r = None \<longleftrightarrow> rts_oidc (rtr_spec rt) \<noteq> None \<and> rts_ingress (rtr_spec rt) = None) \<and>
     (\<forall>dep. r = Some dep \<longrightarrow> well_rendered rt kb h dep))"
proof -
  let ?C = "\<lambda>cs. list_all (\<lambda>c. hardened_context (sc_security c)) cs \<and>
        list_all (\<lambda>c. list_all (query_by_reference rt kb) (sc_env c)) cs \<and>
        set_option (emb_apiKeySecretRef (servingEmbedding kb)) \<subseteq> set (concat (map (\<lambda>c. env_refs (sc_env c)) cs)) \<and>
        set (concat (map (\<lambda>c. env_refs (sc_env c)) cs)) \<subseteq>
          set (checked_refs rt kb) \<union> set_option (emb_apiKeySecretRef (servingEmbedding kb))"
  have c: "sc_env (retrieverContainer rt kb) = retrieverEnv rt kb"
    "sc_security (retrieverContainer rt kb) = hardenedContainerSecurityContext"
    by (simp_all add: retrieverContainer_def)
  have base: "?C [retrieverContainer rt kb]"
    using retrieverEnv_refs [of rt kb] serving_key_used [of kb rt] by (simp add: c by_reference_retrieverEnv)
  have "wp (case rts_oidc (rtr_spec rt) of None \<Rightarrow> Done [retrieverContainer rt kb]
      | Some oidc \<Rightarrow> pbind (proxyContainer rt oidc) (\<lambda>c. Done [retrieverContainer rt kb, c]))
      (\<lambda>tr r. tr = [] \<and> (r = None \<longleftrightarrow> rts_oidc (rtr_spec rt) \<noteq> None \<and> rts_ingress (rtr_spec rt) = None) \<and>
        (\<forall>cs. r = Some cs \<longrightarrow> ?C cs))"
  proof (cases "rts_oidc (rtr_spec rt)")
    case None
    with base show ?thesis by simp
  next
    case (Some oidc)
    have refs: "{oi_clientIDSecretRef oidc, oi_clientSecretSecretRef oidc, oi_cookieSecretRef oidc} \<subseteq> set (checked_refs rt kb)"
      by (simp add: set_checked_refs Some)
    show ?thesis
      unfolding Some option.case
      by (rule wp_bindI [OF wp_proxyContainer [where kb = kb]]) (use base refs Some in auto)
  qed
  then show ?thesis
    unfolding desiredDeployment_def Let_def
  proof (rule wp_bindI, goal_cases)
    case (1 tr cs)
    then have C: "?C cs" and tr: "tr = []" and np: "\<not> (rts_oidc (rtr_spec rt) \<noteq> None \<and> rts_ingress (rtr_spec rt) = None)" by auto
    show ?case
      using C np by (simp add: tr wp_scratchVolume well_rendered_def hardened_server_def hardenedPodSecurityContext_def
          nonRootUID_def server_secret_refs_def new_meta_def)
  next
    case (2 tr)
    then show ?case by auto
  qed
qed


section \<open>The steps of a pass\<close>

text \<open>The Secret of a reference was read and holds a value under the key.\<close>

definition secret_present :: "string \<Rightarrow> event list \<Rightarrow> secret_key_ref \<Rightarrow> bool" where
  "secret_present ns tr ref \<longleftrightarrow>
     (\<exists>sec v. EvGetSecret (ns, skr_name ref) (Inr sec) \<in> set tr \<and> sec_data sec (skr_key ref) = Some v \<and> v \<noteq> '''')"

lemma secret_present_mono: "secret_present ns tr ref \<Longrightarrow> set tr \<subseteq> set tr' \<Longrightarrow> secret_present ns tr' ref"
  by (auto simp: secret_present_def)

lemma wp_validate_refs:
  "wp (validate_refs L ns refs) (\<lambda>tr r. \<exists>rsn msg. r = Some (rsn, msg) \<and>
     (rsn = '''' \<longrightarrow> list_all (secret_present ns tr) (List.map_filter snd refs)))"
proof (induction L ns refs rule: validate_refs.induct)
  case (3 L ns label ref refs)
  have step: "wp (validate_refs L ns refs) (\<lambda>tr r. \<exists>rsn msg. r = Some (rsn, msg) \<and>
      (rsn = '''' \<longrightarrow> list_all (secret_present ns (EvGetSecret (ns, skr_name ref) (Inr sec) # tr)) (List.map_filter snd ((label, Some ref) # refs))))"
    if v: "sec_data sec (skr_key ref) = Some v" "v \<noteq> ''''" for sec v
  proof (rule wp_mono [OF 3 [OF v]])
    fix tr r
    assume "\<exists>rsn msg. r = Some (rsn, msg) \<and> (rsn = '''' \<longrightarrow> list_all (secret_present ns tr) (List.map_filter snd refs))"
    moreover have "secret_present ns (EvGetSecret (ns, skr_name ref) (Inr sec) # tr) ref"
      using v by (auto simp: secret_present_def)
    moreover have "secret_present ns tr x \<Longrightarrow> secret_present ns (EvGetSecret (ns, skr_name ref) (Inr sec) # tr) x" for x
      by (rule secret_present_mono) auto
    ultimately show "\<exists>rsn msg. r = Some (rsn, msg) \<and>
      (rsn = '''' \<longrightarrow> list_all (secret_present ns (EvGetSecret (ns, skr_name ref) (Inr sec) # tr)) (List.map_filter snd ((label, Some ref) # refs)))"
      by (auto simp: list_all_iff)
  qed
  show ?case
    using step by (auto split: sum.split option.split)
qed simp_all

lemma never_validateRetrieverSecrets: "(\<And>k r. \<not> P (EvGetSecret k r)) \<Longrightarrow> never P (validateRetrieverSecrets L rt kb)"
  unfolding validateRetrieverSecrets_def by (rule never_validate_refs)

lemma wp_validateRetrieverSecrets:
  "wp (validateRetrieverSecrets L rt kb) (\<lambda>tr r. (\<forall>e \<in> set tr. \<exists>k a. e = EvGetSecret k a) \<and> (\<exists>rsn msg. r = Some (rsn, msg) \<and>
     (rsn = '''' \<longrightarrow> list_all (secret_present (rtr_namespace rt) tr) (checked_refs rt kb))))"
  unfolding wp_conj
proof
  show "wp (validateRetrieverSecrets L rt kb) (\<lambda>tr r. \<forall>e \<in> set tr. \<exists>k a. e = EvGetSecret k a)"
    using wp_never [OF never_validateRetrieverSecrets, of "\<lambda>e. \<not> (\<exists>k a. e = EvGetSecret k a)"] by simp
  show "wp (validateRetrieverSecrets L rt kb) (\<lambda>tr r. \<exists>rsn msg. r = Some (rsn, msg) \<and>
     (rsn = '''' \<longrightarrow> list_all (secret_present (rtr_namespace rt) tr) (checked_refs rt kb)))"
    unfolding validateRetrieverSecrets_def checked_refs_def by (rule wp_validate_refs)
qed

text \<open>The calls of a pass that applies the workload, with what each written object carries.\<close>

lemma never_applyWorkload:
  assumes "\<And>k r. \<not> P (EvGetSecret k r)" "\<And>k r. \<not> P (EvGetDeployment k r)" "\<And>k r. \<not> P (EvGetService k r)"
    and "\<And>k r. \<not> P (EvGetIngress k r)" "\<And>k r. \<not> P (EvGetNetworkPolicy k r)" "\<And>k r. \<not> P (EvGetDisruptionBudget k r)"
    and "\<And>k r. \<not> P (EvGetAutoscaler k r)" "\<And>kd k r. \<not> P (EvDelete kd DefaultPropagation k r)"
    and "\<And>d a. \<not> P (EvCreate (ODeployment d) a)" "\<And>d a. \<not> P (EvUpdate (ODeployment d) a)"
    and "\<And>s a. svc_ports s = svc_ports (desiredService rt) \<or> svc_ports s = svc_ports (desiredMetricsService rt) \<Longrightarrow>
           \<not> P (EvCreate (OService s) a) \<and> \<not> P (EvUpdate (OService s) a)"
    and "\<And>i x a. rts_ingress (rtr_spec rt) = Some i \<Longrightarrow> ing_spec x = ing_spec (desiredIngress rt i) \<Longrightarrow>
           \<not> P (EvCreate (OIngress x) a) \<and> \<not> P (EvUpdate (OIngress x) a)"
    and "\<And>x a. np_spec x = np_spec (desiredNetworkPolicy rt) \<Longrightarrow>
           \<not> P (EvCreate (ONetworkPolicy x) a) \<and> \<not> P (EvUpdate (ONetworkPolicy x) a)"
    and "\<And>x a. \<not> P (EvCreate (ODisruptionBudget x) a)" "\<And>x a. \<not> P (EvUpdate (ODisruptionBudget x) a)"
    and "\<And>x a. \<not> P (EvCreate (OAutoscaler x) a)" "\<And>x a. \<not> P (EvUpdate (OAutoscaler x) a)"
  shows "never P (applyWorkload L rt kb)"
proof -
  have svc: "never P (applyService (s\<lparr>svc_meta := m\<rparr>))"
    if "svc_ports s = svc_ports (desiredService rt) \<or> svc_ports s = svc_ports (desiredMetricsService rt)" for s m
    unfolding applyService_def using that by (intro services.never_apply) (simp_all add: assms)
  have dep: "never P (applyDeployment d b)" for d b
    unfolding applyDeployment_def by (intro deployments.never_apply assms)
  have ing: "never P (reconcileIngress L rt)"
    unfolding reconcileIngress_def Let_def
    by (cases "rts_ingress (rtr_spec rt)")
      (simp_all add: never_delete_if_present never_owned ingresses.never_apply assms)
  have pol: "never P (reconcileOIDCNetworkPolicy L rt)"
    unfolding reconcileOIDCNetworkPolicy_def Let_def
    by (simp add: never_delete_if_present never_owned policies.never_apply assms)
  have pdb: "never P (reconcilePodDisruptionBudget L rt)"
    unfolding reconcilePodDisruptionBudget_def Let_def
    by (simp add: never_delete_if_present never_owned budgets.never_apply assms)
  have hpa: "never P (reconcileHorizontalPodAutoscaler L rt)"
    unfolding reconcileHorizontalPodAutoscaler_def Let_def
    by (simp add: never_delete_if_present never_owned autoscalers.never_apply assms split: option.split)
  show ?thesis
    unfolding applyWorkload_def
    by (intro never_pbind never_computeRetrieverSecretsHash never_desiredDeployment never_and_then never_owned
        svc dep ing pol pdb hpa assms disjI1 disjI2 refl)
qed


definition is_write :: "event \<Rightarrow> bool" where
  "is_write e \<longleftrightarrow> (case e of EvCreate x a \<Rightarrow> True | EvUpdate x a \<Rightarrow> True | _ \<Rightarrow> False)"

definition is_status :: "event \<Rightarrow> bool" where
  "is_status e \<longleftrightarrow> (case e of EvUpdateStatus x a \<Rightarrow> True | _ \<Rightarrow> False)"

lemma is_write_simps [simp]:
  "is_write (EvCreate x1 a1)" "is_write (EvUpdate x2 a2)" "\<not> is_write (EvGetSecret x3 a3)" "\<not> is_write (EvGetKB x4 a4)"
  "\<not> is_write (EvDelete x5 p n a5)" "\<not> is_write (EvUpdateStatus x6 a6)" "\<not> is_write (EvGetDeployment x7 a7)"
  "\<not> is_write (EvGetVectorIndex x8 a8)" "\<not> is_write (EvGetRetriever x9 a9)"
  by (simp_all add: is_write_def)

lemma is_status_simps [simp]:
  "\<not> is_status (EvCreate x1 a1)" "\<not> is_status (EvUpdate x2 a2)" "\<not> is_status (EvGetSecret x3 a3)" "\<not> is_status (EvGetKB x4 a4)"
  "\<not> is_status (EvDelete x5 p n a5)" "is_status (EvUpdateStatus x6 a6)" "\<not> is_status (EvGetDeployment x7 a7)"
  "\<not> is_status (EvGetVectorIndex x8 a8)" "\<not> is_status (EvGetService x9 a9)" "\<not> is_status (EvGetIngress x10 a10)"
  "\<not> is_status (EvGetNetworkPolicy x11 a11)" "\<not> is_status (EvGetDisruptionBudget x12 a12)" "\<not> is_status (EvGetAutoscaler x13 a13)"
  "\<not> is_status (EvGetRetriever x14 a14)"
  by (simp_all add: is_status_def)

lemma no_status_applyWorkload: "never is_status (applyWorkload L rt kb)"
  by (intro never_applyWorkload) simp_all

text \<open>A completed application wrote something and, with an OIDC proxy, has the network policy in place.\<close>

definition policy_applied :: "retriever \<Rightarrow> event list \<Rightarrow> bool" where
  "policy_applied rt tr \<longleftrightarrow>
     (\<exists>np. np_spec np = np_spec (desiredNetworkPolicy rt) \<and>
        (EvCreate (ONetworkPolicy np) None \<in> set tr \<or> EvUpdate (ONetworkPolicy np) None \<in> set tr))"

lemma policy_appliedI:
  "EvCreate (ONetworkPolicy np) None \<in> set tr \<Longrightarrow> np_spec np = np_spec (desiredNetworkPolicy rt) \<Longrightarrow> policy_applied rt tr"
  "EvUpdate (ONetworkPolicy np) None \<in> set tr \<Longrightarrow> np_spec np = np_spec (desiredNetworkPolicy rt) \<Longrightarrow> policy_applied rt tr"
  by (auto simp: policy_applied_def)

lemma policy_applied_append: "policy_applied rt tr \<or> policy_applied rt tr' \<Longrightarrow> policy_applied rt (tr @ tr')"
  by (auto simp: policy_applied_def)

lemma wp_and_then_left:
  assumes "wp p (\<lambda>tr r. r = Some None \<longrightarrow> A tr)" "\<And>tr tr'. A tr \<Longrightarrow> A (tr @ tr')"
  shows "wp (and_then p q) (\<lambda>tr r. r = Some None \<longrightarrow> A tr)"
  by (rule wp_and_thenI [OF assms(1)]) (simp_all add: wpI assms(2))

lemma wp_and_then_right:
  assumes "wp q (\<lambda>tr r. r = Some None \<longrightarrow> A tr)" "\<And>tr tr'. A tr' \<Longrightarrow> A (tr @ tr')"
  shows "wp (and_then p q) (\<lambda>tr r. r = Some None \<longrightarrow> A tr)"
  by (rule wp_and_thenI [where P = "\<lambda>tr r. True"]) (auto intro: wpI wp_mono [OF assms(1)] assms(2))

lemma wp_bind_right:
  assumes "\<And>a. wp (f a) (\<lambda>tr r. r = Some None \<longrightarrow> A tr)" "\<And>tr tr'. A tr' \<Longrightarrow> A (tr @ tr')"
  shows "wp (pbind p f) (\<lambda>tr r. r = Some None \<longrightarrow> A tr)"
  by (rule wp_bindI [where P = "\<lambda>tr r. True"]) (auto intro: wpI wp_mono [OF assms(1)] assms(2))

lemma wp_applyDeployment_writes: "wp (applyDeployment d b) (\<lambda>tr r. r = Some None \<longrightarrow> (\<exists>e \<in> set tr. is_write e))"
  unfolding applyDeployment_def by (rule wp_mono [OF deployments.wp_apply]) auto

lemma wp_reconcileOIDC_applied:
  assumes "oidcEnabled rt"
  shows "wp (reconcileOIDCNetworkPolicy L rt) (\<lambda>tr r. r = Some None \<longrightarrow> policy_applied rt tr)"
proof -
  have on: "(\<not> oidcEnabled rt) = False" using assms by simp
  show ?thesis
    unfolding reconcileOIDCNetworkPolicy_def Let_def on if_False
  proof (rule wp_owned, goal_cases)
    case (1 m)
    show ?case
      by (rule wp_mono [OF policies.wp_apply_accepted]) (auto elim!: policy_appliedI)
  qed simp
qed

lemma wp_applyWorkload_writes: "wp (applyWorkload L rt kb) (\<lambda>tr r. r = Some None \<longrightarrow> (\<exists>e \<in> set tr. is_write e))"
  unfolding applyWorkload_def
  by (intro wp_bind_right wp_and_then_left wp_owned wp_applyDeployment_writes) auto

lemma wp_applyWorkload_policy:
  assumes "oidcEnabled rt"
  shows "wp (applyWorkload L rt kb) (\<lambda>tr r. r = Some None \<longrightarrow> policy_applied rt tr)"
  unfolding applyWorkload_def
  by (rule wp_bind_right, rule wp_bind_right, rule wp_and_then_right, rule wp_and_then_right, rule wp_and_then_right,
      rule wp_and_then_right, rule wp_and_then_left, rule wp_reconcileOIDC_applied [OF assms])
    (rule policy_applied_append, simp)+

lemma wp_applyWorkload:
  "wp (applyWorkload L rt kb) (\<lambda>tr r. (\<forall>e \<in> set tr. \<not> is_status e) \<and>
     (r = Some None \<longrightarrow> (\<exists>e \<in> set tr. is_write e) \<and> (oidcEnabled rt \<longrightarrow> policy_applied rt tr)))"
  using wp_never [OF no_status_applyWorkload] wp_applyWorkload_writes [of L rt kb] wp_applyWorkload_policy [of rt L kb]
  unfolding wp_iff by blast

text \<open>A withdrawn Retriever: what is deleted and what the status says.\<close>

definition withdrawn :: "lib \<Rightarrow> retriever \<Rightarrow> event list \<Rightarrow> bool" where
  "withdrawn L rt tr \<longleftrightarrow>
     (\<forall>e \<in> set tr. \<not> is_write e \<and> (\<forall>k x. e \<noteq> EvGetVectorIndex k x)) \<and>
     (\<forall>rt' a. EvUpdateStatus (ORetriever rt') a \<in> set tr \<longrightarrow>
        (\<exists>rsn msg. rt' = pending_status L rt rsn msg) \<and>
        (\<exists>d. EvDelete KindDeployment DefaultPropagation (retriever_key rt) d \<in> set tr \<and>
           (d = None \<or> (\<exists>e. d = Some e \<and> is_not_found e))))"

lemma ignoreNotFound_None: "ignoreNotFound e = None \<longleftrightarrow> is_not_found e"
  by (simp add: ignoreNotFound_def)

lemma wp_removeRetrieverWorkload:
  "wp (removeRetrieverWorkload rt) (\<lambda>tr r. (\<forall>e \<in> set tr. \<exists>kd k a. e = EvDelete kd DefaultPropagation k a) \<and>
     (r = Some None \<longrightarrow> (\<exists>d. EvDelete KindDeployment DefaultPropagation (retriever_key rt) d \<in> set tr \<and>
        (d = None \<or> (\<exists>e. d = Some e \<and> is_not_found e)))))"
  unfolding wp_conj
proof
  show "wp (removeRetrieverWorkload rt) (\<lambda>tr r. \<forall>e \<in> set tr. \<exists>kd k a. e = EvDelete kd DefaultPropagation k a)"
    using wp_never [OF never_removeRetrieverWorkload, of "\<lambda>e. \<not> (\<exists>kd k a. e = EvDelete kd DefaultPropagation k a)"] by simp
  have rest: "wp p (\<lambda>tr r. r = Some None \<longrightarrow>
      (\<exists>d. EvDelete KindDeployment DefaultPropagation (retriever_key rt) d \<in> set (pre @ tr) \<and>
        (d = None \<or> (\<exists>e. d = Some e \<and> is_not_found e))))"
    if "\<exists>d. EvDelete KindDeployment DefaultPropagation (retriever_key rt) d \<in> set pre \<and>
        (d = None \<or> (\<exists>e. d = Some e \<and> is_not_found e))" for pre and p :: "err option prog"
    by (rule wpI) (use that in auto)
  show "wp (removeRetrieverWorkload rt) (\<lambda>tr r. r = Some None \<longrightarrow>
      (\<exists>d. EvDelete KindDeployment DefaultPropagation (retriever_key rt) d \<in> set tr \<and>
        (d = None \<or> (\<exists>e. d = Some e \<and> is_not_found e))))"
    unfolding removeRetrieverWorkload_def
  proof (subst wp_and_then, unfold wp_delete_if_present, intro allI, goal_cases)
    case (1 d)
    show ?case
    proof (cases "case d of None \<Rightarrow> None | Some e \<Rightarrow> ignoreNotFound e")
      case None
      then have "d = None \<or> (\<exists>e. d = Some e \<and> is_not_found e)"
        by (cases d) (simp_all add: ignoreNotFound_None)
      then show ?thesis unfolding None option.case by (intro rest) auto
    next
      case (Some e)
      then show ?thesis by simp
    qed
  qed
qed

lemma wp_withdraw: "wp (withdraw L rt rsn msg) (\<lambda>tr r. withdrawn L rt tr)"
  unfolding withdraw_def
proof (rule wp_bindI [OF wp_removeRetrieverWorkload], goal_cases)
  case (1 tr a)
  then have d: "\<forall>e \<in> set tr. \<exists>kd k a. e = EvDelete kd DefaultPropagation k a" by blast
  show ?case
  proof (cases a)
    case None
    with 1 d show ?thesis by (fastforce simp: save_retriever_def withdrawn_def)
  next
    case (Some e)
    with d show ?thesis by (fastforce simp: withdrawn_def)
  qed
next
  case (2 tr)
  then show ?case by (fastforce simp: withdrawn_def)
qed


section \<open>A Retriever to try\<close>

definition demo_retriever :: retriever where
  "demo_retriever =
     \<lparr>rtr_meta = \<lparr>m_name = ''rt'', m_namespace = ''ns'', m_labels = (\<lambda>_. None), m_owners = [], m_finalizers = [],
        m_generation = 1, m_resourceVersion = ''1'', m_creationTimestamp = 0, m_deletionTimestamp = None\<rparr>,
      rtr_spec =
        \<lparr>rts_knowledgeBaseRef = ''kb'', rts_apiKeySecretRef = None, rts_rateLimit = None, rts_maxConcurrentRequests = 0,
         rts_maxRequestBodyBytes = 0, rts_podDisruptionBudget = None, rts_autoscaling = None, rts_ingress = None,
         rts_oidc = None, rts_generation = None, rts_topK = 0, rts_hybrid = False, rts_hybridDensePercent = None,
         rts_scoreThresholdPercent = 0, rts_rerank = None, rts_replicas = 1, rts_image = '''', rts_resources = None,
         rts_nodeSelector = '''', rts_tolerations = '''', rts_affinity = None\<rparr>,
      rtr_status = \<lparr>rtst_phase = '''', rtst_observedGeneration = 0, rtst_serviceEndpoint = '''',
         rtst_publicEndpoint = '''', rtst_readyReplicas = 0, rtst_conditions = []\<rparr>\<rparr>"

text \<open>The cluster: the Secret of the KnowledgeBase has a value, and one replica of the Deployment is ready.\<close>

definition live_deployment :: "int option \<Rightarrow> deployment" where
  "live_deployment n =
     \<lparr>dep_meta = new_meta ''rt-retriever'' ''ns'' (\<lambda>_. None),
      dep_spec = \<lparr>ds_replicas = n, ds_matchLabels = (\<lambda>_. None), ds_templateLabels = (\<lambda>_. None),
        ds_templateAnnotations = (\<lambda>_. None),
        ds_pod = \<lparr>sp_automountToken = None, sp_priorityClassName = '''', sp_terminationGracePeriodSeconds = 0,
          sp_security = hardenedPodSecurityContext, sp_volumes = [], sp_nodeSelector = '''', sp_tolerations = '''',
          sp_affinity = None, sp_topologySpread = [], sp_containers = []\<rparr>\<rparr>,
      dep_readyReplicas = 1\<rparr>"

definition serving_cluster :: environment where
  "serving_cluster =
     (empty_cluster 0)\<lparr>at_GetKB := (\<lambda>k. Inr demo_kb),
        at_GetSecret := (\<lambda>k. Inr \<lparr>sec_meta = kb_meta demo_kb, sec_data = (\<lambda>_. Some ''v'')\<rparr>),
        at_GetDeployment := (\<lambda>k. Inr (live_deployment (Some 3)))\<rparr>"

lemma serving_cluster_sels [simp]:
  "at_GetKB serving_cluster = (\<lambda>k. Inr demo_kb)"
  "at_GetSecret serving_cluster = (\<lambda>k. Inr \<lparr>sec_meta = kb_meta demo_kb, sec_data = (\<lambda>_. Some ''v'')\<rparr>)"
  "at_GetDeployment serving_cluster = (\<lambda>k. Inr (live_deployment (Some 3)))"
  "at_GetService serving_cluster = nothing" "at_GetIngress serving_cluster = nothing"
  "at_GetNetworkPolicy serving_cluster = nothing" "at_GetDisruptionBudget serving_cluster = nothing"
  "at_GetAutoscaler serving_cluster = nothing" "at_GetVectorIndex serving_cluster = nothing"
  "at_Create serving_cluster = (\<lambda>x. None)" "at_Update serving_cluster = (\<lambda>x. None)"
  "at_Delete serving_cluster = (\<lambda>k p n. None)" "at_UpdateStatus serving_cluster = (\<lambda>x. Inr ''2'')"
  by (simp_all add: serving_cluster_def)

text \<open>What the steps answer there, and the end of the pass.\<close>

lemmas workload_defs =
  applyWorkload_def computeRetrieverSecretsHash_def appendSecretHash_def desiredDeployment_def owned_def
  reconcileIngress_def reconcileOIDCNetworkPolicy_def reconcilePodDisruptionBudget_def disruptionBudgetEnabled_def
  reconcileHorizontalPodAutoscaler_def and_then_def applyDeployment_def applyService_def apply_object_def
  scratchVolume_def delete_if_present_def

lemma demo_validate:
  "snd (exec serving_cluster (validateRetrieverSecrets demo_lib demo_retriever demo_kb)) = Some ('''', '''')"
  by (simp add: validateRetrieverSecrets_def retriever_refs_def demo_retriever_def exec_simps)

lemma demo_applyWorkload:
  "snd (exec serving_cluster (applyWorkload demo_lib demo_retriever demo_kb)) = Some None"
  by (simp add: workload_defs demo_retriever_def exec_simps nothing_def autoscalingEnabled_def oidcEnabled_def
      desiredMinimumReplicas_def)

lemma exec_reconcileRetriever:
  assumes "snd (exec S (validateRetrieverSecrets L rt kb)) = Some ('''', '''')"
    and "snd (exec S (applyWorkload L rt kb)) = Some None"
    and "at_GetKB S (rtr_namespace rt, rts_knowledgeBaseRef (rtr_spec rt)) = Inr kb"
    and "at_GetDeployment S (retriever_key rt) = Inr live"
  shows "fst (exec S (reconcileRetriever L rt)) =
     [EvGetKB (rtr_namespace rt, rts_knowledgeBaseRef (rtr_spec rt)) (Inr kb)] @
      fst (exec S (validateRetrieverSecrets L rt kb)) @ fst (exec S (applyWorkload L rt kb)) @
      [EvGetDeployment (retriever_key rt) (Inr live),
       EvGetVectorIndex (kb_namespace kb, trunc_name L (kb_name kb @ ''-index''))
         (at_GetVectorIndex S (kb_namespace kb, trunc_name L (kb_name kb @ ''-index''))),
       EvUpdateStatus (ORetriever (observed_status L rt live
         (at_GetVectorIndex S (kb_namespace kb, trunc_name L (kb_name kb @ ''-index'')))))
         (at_UpdateStatus S (ORetriever (observed_status L rt live
           (at_GetVectorIndex S (kb_namespace kb, trunc_name L (kb_name kb @ ''-index''))))))]"
  using assms
  by (simp add: reconcileRetriever_def exec_pbind exec_then_def Let_def reportRetriever_def save_retriever_def)

lemmas demo_pass =
  exec_reconcileRetriever [OF demo_validate demo_applyWorkload, of "live_deployment (Some 3)", simplified]

section \<open>Passes that do not crash\<close>

definition returns :: "'a prog \<Rightarrow> bool" where
  "returns p \<longleftrightarrow> wp p (\<lambda>tr r. r \<noteq> None)"

lemma returns_pbind: "returns p \<Longrightarrow> (\<And>a. returns (f a)) \<Longrightarrow> returns (pbind p f)"
  unfolding returns_def by (erule wp_bindI) auto

lemma returns_and_then: "returns p \<Longrightarrow> returns q \<Longrightarrow> returns (and_then p q)"
  unfolding and_then_def by (rule returns_pbind) (simp_all add: returns_def split: option.split)

lemma returns_Done [simp]: "returns (Done a)"
  by (simp add: returns_def)

lemma returns_owned: "(\<And>m. returns (k m)) \<Longrightarrow> returns (owned L rt m k)"
  by (simp add: owned_def split: sum.split)

lemma returns_delete: "returns (delete_if_present kd k)"
  by (simp add: returns_def wp_delete_if_present)

lemmas returns_applied =
  deployments.wp_apply_total [folded returns_def] services.wp_apply_total [folded returns_def]
  ingresses.wp_apply_total [folded returns_def] policies.wp_apply_total [folded returns_def]
  budgets.wp_apply_total [folded returns_def] autoscalers.wp_apply_total [folded returns_def]

lemma returns_apply_steps:
  "returns (and_then (owned L rt (dep_meta dep) (\<lambda>m. applyDeployment (dep\<lparr>dep_meta := m\<rparr>) (autoscalingEnabled rt)))
     (and_then (owned L rt (svc_meta (desiredService rt)) (\<lambda>m. applyService ((desiredService rt)\<lparr>svc_meta := m\<rparr>)))
     (and_then (owned L rt (svc_meta (desiredMetricsService rt)) (\<lambda>m. applyService ((desiredMetricsService rt)\<lparr>svc_meta := m\<rparr>)))
     (and_then (reconcileIngress L rt)
     (and_then (reconcileOIDCNetworkPolicy L rt)
     (and_then (reconcilePodDisruptionBudget L rt)
     (reconcileHorizontalPodAutoscaler L rt)))))))"
  unfolding applyDeployment_def applyService_def reconcileIngress_def reconcileOIDCNetworkPolicy_def
    reconcilePodDisruptionBudget_def reconcileHorizontalPodAutoscaler_def Let_def
  by (simp add: returns_and_then returns_owned returns_delete returns_applied split: option.split)

lemma returns_withdraw: "returns (withdraw L rt rsn msg)"
  unfolding withdraw_def removeRetrieverWorkload_def
  by (intro returns_pbind returns_and_then returns_delete) (simp add: returns_def save_retriever_def split: option.split)

lemma returns_report: "returns (reportRetriever L rt kb)"
  by (simp add: returns_def reportRetriever_def save_retriever_def split: sum.split)

lemma returns_appendSecretHash: "returns (appendSecretHash ns label ref h)"
  by (simp add: returns_def appendSecretHash_def Let_def split: option.split sum.split)

lemma wp_hash: "wp (computeRetrieverSecretsHash L rt kb) (\<lambda>tr r. r \<noteq> None \<and> (\<forall>e \<in> set tr. \<not> is_write e))"
  unfolding wp_conj
proof
  have "returns (computeRetrieverSecretsHash L rt kb)"
    unfolding computeRetrieverSecretsHash_def Let_def
    by (intro returns_pbind returns_appendSecretHash returns_Done)
      (auto intro!: returns_pbind returns_appendSecretHash split: option.split)
  then show "wp (computeRetrieverSecretsHash L rt kb) (\<lambda>tr r. r \<noteq> None)" by (simp add: returns_def)
  show "wp (computeRetrieverSecretsHash L rt kb) (\<lambda>tr r. \<forall>e \<in> set tr. \<not> is_write e)"
    by (rule wp_never [OF never_computeRetrieverSecretsHash, of is_write]) simp
qed

section \<open>Properties\<close>

lemma desired_upd [simp]: "desiredMinimumReplicas (upd_rtr_status f rt) = desiredMinimumReplicas rt"
  by (simp add: desiredMinimumReplicas_def autoscalingEnabled_def)

lemma observed_available:
  "rtst_phase (rtr_status (observed_status L rt live vi)) = ''Available'' \<longleftrightarrow>
     desiredMinimumReplicas rt \<le> dep_readyReplicas live \<and> 0 < desiredMinimumReplicas rt \<and> \<not> index_unhealthy vi"
  by (auto simp: observed_status_def Let_def)

lemma wp_reportRetriever:
  "wp (reportRetriever L rt kb) (\<lambda>tr r. (\<exists>e. tr = [EvGetDeployment (retriever_key rt) (Inl e)]) \<or>
     (\<exists>live vi a. tr = [EvGetDeployment (retriever_key rt) (Inr live),
        EvGetVectorIndex (kb_namespace kb, trunc_name L (kb_name kb @ ''-index'')) vi,
        EvUpdateStatus (ORetriever (observed_status L rt live vi)) a]))"
  by (auto simp: reportRetriever_def save_retriever_def split: sum.split)

text \<open>How a pass ends: withdrawn, with an error and no status, or with a report on the validated workload.\<close>

definition reported :: "lib \<Rightarrow> retriever \<Rightarrow> knowledge_base \<Rightarrow> event list \<Rightarrow> bool" where
  "reported L rt kb tr \<longleftrightarrow>
     (\<exists>pre live vi a. (\<forall>e \<in> set pre. \<not> is_status e) \<and> (\<exists>e \<in> set pre. is_write e) \<and>
        (oidcEnabled rt \<longrightarrow> policy_applied rt pre) \<and>
        tr = EvGetKB (rtr_namespace rt, rts_knowledgeBaseRef (rtr_spec rt)) (Inr kb) # pre @
          [EvGetDeployment (retriever_key rt) (Inr live),
           EvGetVectorIndex (kb_namespace kb, trunc_name L (kb_name kb @ ''-index'')) vi,
           EvUpdateStatus (ORetriever (observed_status L rt live vi)) a])"

definition pass_shape :: "lib \<Rightarrow> retriever \<Rightarrow> event list \<Rightarrow> bool" where
  "pass_shape L rt tr \<longleftrightarrow>
     withdrawn L rt tr \<or>
     (\<exists>kb. hd tr = EvGetKB (rtr_namespace rt, rts_knowledgeBaseRef (rtr_spec rt)) (Inr kb) \<and>
        list_all (secret_present (rtr_namespace rt) tr) (checked_refs rt kb) \<and>
        ((\<forall>e \<in> set tr. \<not> is_status e) \<or> reported L rt kb tr))"

lemma withdrawn_reads:
  "withdrawn L rt tr \<Longrightarrow> \<forall>e \<in> set pre. \<not> is_write e \<and> \<not> is_status e \<and> (\<forall>k x. e \<noteq> EvGetVectorIndex k x) \<Longrightarrow>
   withdrawn L rt (pre @ tr)"
  by (fastforce simp: withdrawn_def)

lemma wp_reconcileRetriever: "wp (reconcileRetriever L rt) (\<lambda>tr r. pass_shape L rt tr)"
proof -
  let ?k = "(rtr_namespace rt, rts_knowledgeBaseRef (rtr_spec rt))"
  have w: "wp (withdraw L rt rsn msg) (\<lambda>tr. \<lambda>r. pass_shape L rt (pre @ tr))"
    if "\<forall>e \<in> set pre. \<not> is_write e \<and> \<not> is_status e \<and> (\<forall>k x. e \<noteq> EvGetVectorIndex k x)" for rsn msg pre
    by (rule wp_mono [OF wp_withdraw]) (simp add: pass_shape_def withdrawn_reads that)
  have work: "wp (pbind (applyWorkload L rt kb) (\<lambda>r. case r of Some e \<Rightarrow> Done (no_requeue, Some e) | None \<Rightarrow> reportRetriever L rt kb))
      (\<lambda>tr r. pass_shape L rt (EvGetKB ?k (Inr kb) # pre @ tr))"
    if pre: "\<forall>e \<in> set pre. \<not> is_status e" and ok: "list_all (secret_present (rtr_namespace rt) pre) (checked_refs rt kb)" for kb pre
  proof -
    have ok': "list_all (secret_present (rtr_namespace rt) (EvGetKB ?k (Inr kb) # pre @ tr)) (checked_refs rt kb)" for tr
      using ok by (rule list.pred_mono_strong) (erule secret_present_mono, auto)
    have err: "pass_shape L rt (EvGetKB ?k (Inr kb) # pre @ tr)" if "\<forall>e \<in> set tr. \<not> is_status e" for tr
      using ok' [of tr] pre that by (auto simp: pass_shape_def)
    show ?thesis
    proof (rule wp_bindI [OF wp_applyWorkload], goal_cases)
      case (1 tr a)
      show ?case
      proof (cases a)
        case (Some e)
        with 1 show ?thesis by (simp add: err)
      next
        case None
        with 1 have quiet: "\<forall>e \<in> set tr. \<not> is_status e" and wrote: "\<exists>e \<in> set tr. is_write e"
          and policy: "oidcEnabled rt \<longrightarrow> policy_applied rt tr" by auto
        show ?thesis
          unfolding None option.case
        proof (rule wp_mono [OF wp_reportRetriever], elim disjE exE, goal_cases)
          case (1 tr' r e)
          then show ?case using err [of "tr @ tr'"] quiet by simp
        next
          case (2 tr' r live vi x)
          have "\<forall>e \<in> set (pre @ tr). \<not> is_status e" "\<exists>e \<in> set (pre @ tr). is_write e"
            "oidcEnabled rt \<longrightarrow> policy_applied rt (pre @ tr)"
            using pre quiet wrote policy by (auto intro: policy_applied_append)
          with 2 have "reported L rt kb (EvGetKB ?k (Inr kb) # pre @ tr @ tr')"
            unfolding reported_def append.assoc [symmetric] by blast
          with ok' show ?case by (simp add: pass_shape_def)
        qed
      qed
    next
      case (2 tr)
      then show ?case by (simp add: err)
    qed
  qed
  show ?thesis
    unfolding reconcileRetriever_def wp.simps
  proof (intro allI)
    fix res
    show "wp (case res of Inl e \<Rightarrow>
         if is_not_found e then withdraw L rt ''KnowledgeBaseNotFound'' ''referenced KnowledgeBase not found''
         else Done (no_requeue, Some e)
     | Inr kb \<Rightarrow>
         pbind (validateRetrieverSecrets L rt kb) (\<lambda>(rsn, msg).
         if rsn \<noteq> '''' then withdraw L rt rsn msg
         else
           pbind (applyWorkload L rt kb) (\<lambda>r.
           case r of Some e \<Rightarrow> Done (no_requeue, Some e) | None \<Rightarrow> reportRetriever L rt kb)))
       (\<lambda>tr r. pass_shape L rt (EvGetKB ?k res # tr))"
    proof (cases res)
      case (Inl e)
      then show ?thesis
        using w [of "[EvGetKB ?k res]"] by (simp add: pass_shape_def withdrawn_def)
    next
      case (Inr kb)
      show ?thesis
        unfolding Inr sum.case
      proof (rule wp_bindI [OF wp_validateRetrieverSecrets], goal_cases)
        case (1 tr a)
        obtain rsn msg where a: "a = (rsn, msg)" by (cases a)
        from 1 a have reads: "\<forall>e \<in> set tr. \<exists>k a. e = EvGetSecret k a"
          and ok: "rsn = '''' \<longrightarrow> list_all (secret_present (rtr_namespace rt) tr) (checked_refs rt kb)" by auto
        from reads have quiet: "\<forall>e \<in> set tr. \<not> is_write e \<and> \<not> is_status e \<and> (\<forall>k x. e \<noteq> EvGetVectorIndex k x)" by fastforce
        then have q: "\<forall>e \<in> set (EvGetKB ?k (Inr kb) # tr). \<not> is_write e \<and> \<not> is_status e \<and> (\<forall>k x. e \<noteq> EvGetVectorIndex k x)" by simp
        show ?case
          using w [OF q] work [of tr kb] ok quiet by (simp add: a del: wp_pbind)
      next
        case (2 tr)
        then show ?case by blast
      qed
    qed
  qed
qed


text \<open>
  C15. A pass reports a Retriever as available exactly when the Deployment, read after everything was
  applied, has at least the wanted number of ready replicas and that number is positive, and the
  VectorIndex of the KnowledgeBase, read then, is not known to be missing or degraded.
\<close>

theorem retriever_available_iff:
  assumes "runs (reconcileRetriever L rt) tr r" "EvUpdateStatus (ORetriever rt') a \<in> set tr"
  shows "rtst_phase (rtr_status rt') = ''Available'' \<longleftrightarrow>
     (\<exists>kb pre live vi. tr = EvGetKB (rtr_namespace rt, rts_knowledgeBaseRef (rtr_spec rt)) (Inr kb) # pre @
          [EvGetDeployment (retriever_key rt) (Inr live),
           EvGetVectorIndex (kb_namespace kb, trunc_name L (kb_name kb @ ''-index'')) vi,
           EvUpdateStatus (ORetriever rt') a] \<and>
        desiredMinimumReplicas rt \<le> dep_readyReplicas live \<and> 0 < desiredMinimumReplicas rt \<and>
        \<not> (\<exists>v. vi = Inr v \<and> (vst_health (vi_status v) = IndexMissing \<or> vst_health (vi_status v) = IndexDegraded)))"
    (is "?A \<longleftrightarrow> (\<exists>kb pre live vi. ?E kb pre live vi)")
proof -
  have unhealthy: "index_unhealthy vi \<longleftrightarrow>
      (\<exists>v. vi = Inr v \<and> (vst_health (vi_status v) = IndexMissing \<or> vst_health (vi_status v) = IndexDegraded))" for vi
    by (auto simp: index_unhealthy_def split: sum.split)
  from wpD [OF wp_reconcileRetriever assms(1)] have "pass_shape L rt tr" .
  then consider "withdrawn L rt tr" | kb where "reported L rt kb tr"
    using assms(2) by (fastforce simp: pass_shape_def)
  then show ?thesis
  proof cases
    case 1
    with assms(2) obtain rsn msg where p: "rt' = pending_status L rt rsn msg" by (auto simp: withdrawn_def)
    then have "\<not> ?A" by (simp add: pending_status_def)
    moreover have "\<not> ?E kb pre live vi" for kb pre live vi
      using 1 by (auto simp: withdrawn_def)
    ultimately show ?thesis by blast
  next
    case (2 kb)
    then obtain pre live vi x where pre: "\<forall>e \<in> set pre. \<not> is_status e"
      and tr: "tr = EvGetKB (rtr_namespace rt, rts_knowledgeBaseRef (rtr_spec rt)) (Inr kb) # pre @
          [EvGetDeployment (retriever_key rt) (Inr live),
           EvGetVectorIndex (kb_namespace kb, trunc_name L (kb_name kb @ ''-index'')) vi,
           EvUpdateStatus (ORetriever (observed_status L rt live vi)) x]"
      by (auto simp: reported_def)
    from pre assms(2) have rt': "rt' = observed_status L rt live vi" "a = x" by (auto simp: tr)
    show ?thesis
      unfolding rt' observed_available unhealthy tr by auto
  qed
qed


theorem retriever_available_iff_witness:
  "\<exists>rt'. EvUpdateStatus (ORetriever rt') (Inr ''2'') \<in> set (fst (exec serving_cluster (reconcileRetriever demo_lib demo_retriever))) \<and>
     rtst_phase (rtr_status rt') = ''Available''"
proof -
  let ?vi = "nothing (''ns'', trunc_name demo_lib ''kb-index'') :: err + vector_index"
  let ?rt = "observed_status demo_lib demo_retriever (live_deployment (Some 3)) ?vi"
  have n: "desiredMinimumReplicas demo_retriever = 1" "dep_readyReplicas (live_deployment (Some 3)) = 1"
    by (simp_all add: desiredMinimumReplicas_def autoscalingEnabled_def demo_retriever_def live_deployment_def)
  have s: "EvUpdateStatus (ORetriever ?rt) (Inr ''2'') \<in> set (fst (exec serving_cluster (reconcileRetriever demo_lib demo_retriever)))"
    by (simp add: demo_pass)
  moreover have "rtst_phase (rtr_status ?rt) = ''Available''"
    unfolding retriever_available_iff [OF runs_exec s]
    by (rule exI [of _ demo_kb],
        rule exI [of _ "fst (exec serving_cluster (validateRetrieverSecrets demo_lib demo_retriever demo_kb)) @
           fst (exec serving_cluster (applyWorkload demo_lib demo_retriever demo_kb))"],
        rule exI [of _ "live_deployment (Some 3)"], rule exI [of _ ?vi])
      (simp add: demo_pass n, simp add: nothing_def)
  ultimately show ?thesis by blast
qed

text \<open>
  C16. Nothing of a Retriever is deployed without its prerequisites. A pass that creates or updates any
  object read the KnowledgeBase first and, for every Secret reference of the Retriever and of the
  KnowledgeBase's store and embedding, a Secret with a value. A pass that writes no object and still
  saves a status had its deletion of the Deployment answered as done or not found, and saves the
  pending status: no ready replicas and no endpoints.
\<close>

theorem workload_needs_valid_secrets:
  assumes "runs (reconcileRetriever L rt) tr r"
  shows "if list_ex is_write tr
     then \<exists>kb. hd tr = EvGetKB (rtr_namespace rt, rts_knowledgeBaseRef (rtr_spec rt)) (Inr kb) \<and>
        list_all (secret_present (rtr_namespace rt) tr) (checked_refs rt kb)
     else \<forall>rt' a. EvUpdateStatus (ORetriever rt') a \<in> set tr \<longrightarrow>
        rtst_phase (rtr_status rt') = ''Pending'' \<and> rtst_readyReplicas (rtr_status rt') = 0 \<and> rtst_serviceEndpoint (rtr_status rt') = '''' \<and>
        rtst_publicEndpoint (rtr_status rt') = '''' \<and>
        (\<exists>d. EvDelete KindDeployment DefaultPropagation (retriever_key rt) d \<in> set tr \<and>
           (d = None \<or> (\<exists>e. d = Some e \<and> is_not_found e)))"
proof -
  have wrote: "list_ex is_write tr" if "reported L rt kb tr" for kb
    using that unfolding reported_def by (auto simp: list_ex_iff)
  from wpD [OF wp_reconcileRetriever assms] have "pass_shape L rt tr" .
  then show ?thesis
    unfolding pass_shape_def
  proof (elim disjE exE conjE)
    assume w: "withdrawn L rt tr"
    then have "\<not> list_ex is_write tr" by (auto simp: withdrawn_def list_ex_iff)
    with w show ?thesis unfolding withdrawn_def by (auto simp: pending_status_def)
  next
    fix kb
    assume "hd tr = EvGetKB (rtr_namespace rt, rts_knowledgeBaseRef (rtr_spec rt)) (Inr kb)"
      "list_all (secret_present (rtr_namespace rt) tr) (checked_refs rt kb)" "\<forall>e \<in> set tr. \<not> is_status e"
    then show ?thesis by auto
  next
    fix kb
    assume "hd tr = EvGetKB (rtr_namespace rt, rts_knowledgeBaseRef (rtr_spec rt)) (Inr kb)"
      "list_all (secret_present (rtr_namespace rt) tr) (checked_refs rt kb)" "reported L rt kb tr"
    then show ?thesis using wrote by auto
  qed
qed


lemma no_kb_pass:
  "runs (reconcileRetriever demo_lib demo_retriever) (fst (exec (empty_cluster 0) (reconcileRetriever demo_lib demo_retriever)))
     (Some (no_requeue, None)) \<and>
   EvUpdateStatus (ORetriever (pending_status demo_lib demo_retriever ''KnowledgeBaseNotFound'' ''referenced KnowledgeBase not found'')) (Inr ''2'')
     \<in> set (fst (exec (empty_cluster 0) (reconcileRetriever demo_lib demo_retriever))) \<and>
   \<not> list_ex is_write (fst (exec (empty_cluster 0) (reconcileRetriever demo_lib demo_retriever)))"
  using runs_exec [of "reconcileRetriever demo_lib demo_retriever" "empty_cluster 0"]
  by (simp add: reconcileRetriever_def nothing_def withdraw_def removeRetrieverWorkload_def and_then_def delete_if_present_def
      save_retriever_def exec_simps)

theorem workload_needs_valid_secrets_witness:
  "\<exists>d. EvDelete KindDeployment DefaultPropagation (retriever_key demo_retriever) d
     \<in> set (fst (exec (empty_cluster 0) (reconcileRetriever demo_lib demo_retriever)))"
  using workload_needs_valid_secrets [OF conjunct1 [OF no_kb_pass]] no_kb_pass by (auto split: if_splits)

text \<open>
  C30. A rendered query Pod is hardened (non-root, no service account token, restricted containers, only
  an empty directory mounted) and carries the credential fingerprint as an annotation. Of the
  environment of each container, the OIDC proxy's included, only the listed settings have a value of
  their own; every other variable is a credential, given by a reference to the Secret of the field it
  is named for, and carries no value. The Pod refers only to Secrets the pass has validated - but for
  the API key of the embedding the index was built with, which may differ from the one of the spec.
\<close>

theorem query_pods_are_hardened:
  assumes "runs (desiredDeployment L rt kb h) tr (Some dep)"
  shows "hardened_server (ds_pod (dep_spec dep)) \<and>
     (\<forall>c \<in> set (sp_containers (ds_pod (dep_spec dep))). \<forall>e \<in> set (sc_env c).
        (case env_secret e of
           None \<Rightarrow> env_name e \<in> set query_plain_names
         | Some r \<Rightarrow> env_value e = '''' \<and> query_credential rt kb (env_name e) r)) \<and>
     ds_templateAnnotations (dep_spec dep) ''checksum/secrets'' = Some h \<and>
     m_labels (dep_meta dep) = retriever_labels rt \<and> ds_templateLabels (dep_spec dep) = ds_matchLabels (dep_spec dep) \<and>
     set (server_secret_refs (ds_pod (dep_spec dep))) \<subseteq>
       set (checked_refs rt kb) \<union> set_option (emb_apiKeySecretRef (servingEmbedding kb)) \<and>
     (observedEmbedding (status kb) = None \<longrightarrow> set (server_secret_refs (ds_pod (dep_spec dep))) \<subseteq> set (checked_refs rt kb))"
proof -
  from wpD [OF wp_desiredDeployment assms] have w: "well_rendered rt kb h dep" by simp
  have "set_option (emb_apiKeySecretRef (servingEmbedding kb)) \<subseteq> set (checked_refs rt kb)" if "observedEmbedding (status kb) = None"
    using that unfolding set_checked_refs by (auto simp: servingEmbedding_def split: if_splits)
  moreover from w have "\<forall>c \<in> set (sp_containers (ds_pod (dep_spec dep))). \<forall>e \<in> set (sc_env c). query_by_reference rt kb e"
    unfolding well_rendered_def list_all_iff by blast
  ultimately show ?thesis using w unfolding well_rendered_def by_reference_def by auto
qed

lemma demo_deployment: "\<exists>dep. runs (desiredDeployment demo_lib demo_retriever demo_kb ''h'') [] (Some dep)"
  by (simp add: desiredDeployment_def demo_retriever_def scratchVolume_def Let_def)

theorem query_pods_are_hardened_witness:
  "\<exists>dep. runs (desiredDeployment demo_lib demo_retriever demo_kb ''h'') [] (Some dep) \<and>
     hardened_server (ds_pod (dep_spec dep)) \<and>
     set (server_secret_refs (ds_pod (dep_spec dep))) \<subseteq> set (checked_refs demo_retriever demo_kb)"
proof -
  obtain dep where "runs (desiredDeployment demo_lib demo_retriever demo_kb ''h'') [] (Some dep)"
    using demo_deployment by blast
  with query_pods_are_hardened [OF this] show ?thesis by auto
qed

definition replicas_kept :: "retriever \<Rightarrow> event list \<Rightarrow> bool" where
  "replicas_kept rt tr \<longleftrightarrow>
     (\<forall>d a. EvUpdate (ODeployment d) a \<in> set tr \<longrightarrow>
        (\<exists>k existing. EvGetDeployment k (Inr existing) \<in> set tr \<and> dep_readyReplicas d = dep_readyReplicas existing \<and>
           ds_replicas (dep_spec d) = (if autoscalingEnabled rt then ds_replicas (dep_spec existing) else Some (rts_replicas (rtr_spec rt)))))"

lemma replicas_kept_none: "\<forall>e \<in> set tr. \<nexists>d a. e = EvUpdate (ODeployment d) a \<Longrightarrow> replicas_kept rt tr"
  unfolding replicas_kept_def by blast

lemma replicas_kept_append: "replicas_kept rt tr \<Longrightarrow> replicas_kept rt tr' \<Longrightarrow> replicas_kept rt (tr @ tr')"
  unfolding replicas_kept_def set_append by blast

lemma wp_applyDeployment_replicas:
  assumes "ds_replicas (dep_spec d) = Some (desiredMinimumReplicas rt)"
  shows "wp (applyDeployment d (autoscalingEnabled rt)) (\<lambda>tr r. replicas_kept rt tr)"
  unfolding applyDeployment_def
  by (rule wp_mono [OF deployments.wp_apply])
    (use assms in \<open>cases "autoscalingEnabled rt"; auto simp: desiredMinimumReplicas_def replicas_kept_def\<close>)

text \<open>
  C29. With autoscaling on, the replica count of an existing Deployment is the autoscaler's: every update
  of a Deployment keeps the count just read. Without it every update sets the count of the spec.
\<close>

theorem autoscaler_owns_replicas:
  assumes "runs (applyWorkload L rt kb) tr r" "EvUpdate (ODeployment d) a \<in> set tr"
  shows "\<exists>k existing. EvGetDeployment k (Inr existing) \<in> set tr \<and>
     dep_readyReplicas d = dep_readyReplicas existing \<and>
     ds_replicas (dep_spec d) = (if autoscalingEnabled rt then ds_replicas (dep_spec existing) else Some (rts_replicas (rtr_spec rt)))"
proof -
  let ?P = "\<lambda>e. \<exists>d a. e = EvUpdate (ODeployment d) a"
  have svc: "never ?P (applyService s)" for s
    unfolding applyService_def by (intro services.never_apply) simp_all
  have rest: "never ?P (and_then (owned L rt (svc_meta (desiredService rt)) (\<lambda>m. applyService ((desiredService rt)\<lparr>svc_meta := m\<rparr>)))
     (and_then (owned L rt (svc_meta (desiredMetricsService rt)) (\<lambda>m. applyService ((desiredMetricsService rt)\<lparr>svc_meta := m\<rparr>)))
     (and_then (reconcileIngress L rt) (and_then (reconcileOIDCNetworkPolicy L rt)
     (and_then (reconcilePodDisruptionBudget L rt) (reconcileHorizontalPodAutoscaler L rt))))))"
    unfolding reconcileIngress_def reconcileOIDCNetworkPolicy_def reconcilePodDisruptionBudget_def
      reconcileHorizontalPodAutoscaler_def Let_def
    by (simp add: never_and_then never_owned svc never_delete_if_present ingresses.never_apply policies.never_apply
        budgets.never_apply autoscalers.never_apply split: option.split)
  have "wp (applyWorkload L rt kb) (\<lambda>tr r. replicas_kept rt tr)"
    unfolding applyWorkload_def
  proof (rule wp_bindI [OF wp_never [OF never_computeRetrieverSecretsHash, where P = ?P]], goal_cases)
    case (2 tr h)
    show ?case
    proof (rule wp_bindI [OF wp_desiredDeployment], goal_cases)
      case (1 tr' dep)
      then have wr: "ds_replicas (dep_spec dep) = Some (desiredMinimumReplicas rt)" and tr': "tr' = []"
        by (simp_all add: well_rendered_def)
      have none: "replicas_kept rt tr" using 2 by (rule replicas_kept_none)
      have o: "wp (owned L rt (dep_meta dep) (\<lambda>m. applyDeployment (dep\<lparr>dep_meta := m\<rparr>) (autoscalingEnabled rt)))
          (\<lambda>tr r. replicas_kept rt tr)"
        by (rule wp_owned) (simp_all add: wp_applyDeployment_replicas wr replicas_kept_none)
      show ?case
        unfolding tr' append_Nil
        by (rule wp_and_thenI [OF o], rule wp_mono [OF wp_never [OF rest]])
          (simp_all add: none replicas_kept_append replicas_kept_none)
    qed (use 2 in \<open>simp add: replicas_kept_none\<close>)
  qed (simp_all add: replicas_kept_none)
  from wpD [OF this assms(1)] assms(2) show ?thesis unfolding replicas_kept_def by blast
qed


definition autoscaled_retriever :: retriever where
  "autoscaled_retriever = demo_retriever\<lparr>rtr_spec := (rtr_spec demo_retriever)\<lparr>rts_autoscaling :=
     Some \<lparr>as_enabled = Some True, as_minReplicas = 0, as_maxReplicas = 0, as_targetCPU = 0\<rparr>\<rparr>\<rparr>"

lemma autoscaled_update:
  "\<exists>d. EvUpdate (ODeployment d) None \<in> set (fst (exec serving_cluster (applyWorkload demo_lib autoscaled_retriever demo_kb)))"
  by (simp add: workload_defs autoscaled_retriever_def demo_retriever_def exec_simps nothing_def autoscalingEnabled_def
      oidcEnabled_def desiredMinimumReplicas_def boolPtrVal_def defaultInt32_def)

theorem autoscaler_owns_replicas_witness:
  "\<exists>d k existing. EvUpdate (ODeployment d) None \<in> set (fst (exec serving_cluster (applyWorkload demo_lib autoscaled_retriever demo_kb))) \<and>
     EvGetDeployment k (Inr existing) \<in> set (fst (exec serving_cluster (applyWorkload demo_lib autoscaled_retriever demo_kb))) \<and>
     ds_replicas (dep_spec d) = ds_replicas (dep_spec existing)"
proof -
  have on: "autoscalingEnabled autoscaled_retriever"
    by (simp add: autoscalingEnabled_def autoscaled_retriever_def boolPtrVal_def)
  obtain d where d: "EvUpdate (ODeployment d) None \<in> set (fst (exec serving_cluster (applyWorkload demo_lib autoscaled_retriever demo_kb)))"
    using autoscaled_update by blast
  from autoscaler_owns_replicas [OF runs_exec d] on d show ?thesis by auto
qed

text \<open>
  What an object opens of the Pods. A Service opens the ports it forwards to. A NetworkPolicy closes the
  Pods only if it selects them and has the ingress type; then each of its ingress rules opens the
  ports it lists, and a rule without ports opens all of them.
\<close>

definition proxy_ports :: "(string \<times> int) set" where
  "proxy_ports = {(''TCP'', 4180), (''TCP'', 9090)}"

definition policy_closes :: "retriever \<Rightarrow> network_policy \<Rightarrow> bool" where
  "policy_closes rt n \<longleftrightarrow>
     nps_podSelector (np_spec n) = retriever_labels rt \<and> ''Ingress'' \<in> set (nps_policyTypes (np_spec n)) \<and>
     (\<forall>rule \<in> set (nps_ingressPorts (np_spec n)). rule \<noteq> [] \<and> set rule \<subseteq> proxy_ports)"

fun opens_more :: "retriever \<Rightarrow> obj \<Rightarrow> bool" where
  "opens_more rt (OService s) = (\<exists>p \<in> set (svc_ports s). svp_targetPort p \<notin> snd ` proxy_ports)"
| "opens_more rt (ONetworkPolicy n) = (\<not> policy_closes rt n)"
| "opens_more rt _ = False"

definition opens_other :: "retriever \<Rightarrow> event \<Rightarrow> bool" where
  "opens_other rt e \<longleftrightarrow>
     (case e of EvCreate x a \<Rightarrow> opens_more rt x | EvUpdate x a \<Rightarrow> opens_more rt x | _ \<Rightarrow> False)"

lemma opens_other_simps [simp]:
  "opens_other rt (EvCreate x a) = opens_more rt x" "opens_other rt (EvUpdate x a) = opens_more rt x"
  by (simp_all add: opens_other_def)

lemma desiredNetworkPolicy_closes: "np_spec n = np_spec (desiredNetworkPolicy rt) \<Longrightarrow> policy_closes rt n"
  by (simp add: policy_closes_def desiredNetworkPolicy_def proxy_ports_def)

text \<open>
  C17. An OIDC proxy cannot be bypassed through the objects of a pass: every Service it writes forwards
  to the proxy's port or the metrics' only, every NetworkPolicy it writes selects the Pods of the
  Retriever and opens no other port of them, and an endpoint is published in the status only after
  the API server accepted such a policy in the same pass.
\<close>

theorem oidc_exposes_only_the_proxy:
  assumes "oidcEnabled rt" "runs (reconcileRetriever L rt) tr r"
  shows "(\<forall>s a. EvCreate (OService s) a \<in> set tr \<or> EvUpdate (OService s) a \<in> set tr \<longrightarrow>
        (\<forall>p \<in> set (svc_ports s). svp_targetPort p = 4180 \<or> svp_targetPort p = 9090)) \<and>
     (\<forall>n a. EvCreate (ONetworkPolicy n) a \<in> set tr \<or> EvUpdate (ONetworkPolicy n) a \<in> set tr \<longrightarrow> policy_closes rt n) \<and>
     (\<forall>rt' a. EvUpdateStatus (ORetriever rt') a \<in> set tr \<and> rtst_serviceEndpoint (rtr_status rt') \<noteq> '''' \<longrightarrow>
        (\<exists>n. policy_closes rt n \<and> (EvCreate (ONetworkPolicy n) None \<in> set tr \<or> EvUpdate (ONetworkPolicy n) None \<in> set tr)))"
proof -
  let ?bad = "opens_other rt"
  have work: "never ?bad (applyWorkload L rt kb)" for kb
    using assms(1)
    by (intro never_applyWorkload)
      (auto simp: opens_other_def desiredService_def desiredMetricsService_def
        proxy_ports_def desiredNetworkPolicy_closes)
  have del: "never ?bad (withdraw L rt rsn msg)" for rsn msg
    unfolding withdraw_def
    by (intro never_pbind never_removeRetrieverWorkload)
      (simp_all add: save_retriever_def opens_other_def split: option.split)
  have rep: "never ?bad (reportRetriever L rt kb)" for kb
    by (simp add: reportRetriever_def save_retriever_def opens_other_def split: sum.split)
  have val: "never ?bad (validateRetrieverSecrets L rt kb)" for kb
    by (rule never_validateRetrieverSecrets) (simp add: opens_other_def)
  have body: "never ?bad (pbind (validateRetrieverSecrets L rt kb) (\<lambda>(rsn, msg).
         if rsn \<noteq> '''' then withdraw L rt rsn msg
         else pbind (applyWorkload L rt kb) (\<lambda>r. case r of Some e \<Rightarrow> Done (no_requeue, Some e) | None \<Rightarrow> reportRetriever L rt kb)))" for kb
    by (intro never_pbind val, rule prod.case_eq_if [THEN ssubst])
      (auto simp: del rep intro!: never_pbind work split: option.split)
  have "never ?bad (reconcileRetriever L rt)"
    unfolding reconcileRetriever_def
    using del body by (simp add: opens_other_def [of rt "EvGetKB _ _"] split: sum.split)
  from wpD [OF wp_never [OF this] assms(2)] have quiet: "\<And>e. e \<in> set tr \<Longrightarrow> \<not> opens_other rt e" by blast
  have applied: "policy_applied rt tr"
    if s: "EvUpdateStatus (ORetriever rt') a \<in> set tr \<and> rtst_serviceEndpoint (rtr_status rt') \<noteq> ''''" for rt' a
  proof -
    have "\<not> withdrawn L rt tr" using s by (auto simp: withdrawn_def pending_status_def)
    with wpD [OF wp_reconcileRetriever assms(2)] s obtain kb where "reported L rt kb tr"
      by (fastforce simp: pass_shape_def)
    with assms(1) obtain pre e rest where p: "policy_applied rt pre" "tr = e # pre @ rest"
      unfolding reported_def by blast
    have "policy_applied rt ([e] @ pre @ rest)" by (intro policy_applied_append disjI1 disjI2 p(1))
    then show "policy_applied rt tr" by (simp add: p(2))
  qed
  have "\<exists>n. policy_closes rt n \<and> (EvCreate (ONetworkPolicy n) None \<in> set tr \<or> EvUpdate (ONetworkPolicy n) None \<in> set tr)"
    if "policy_applied rt tr"
    using that desiredNetworkPolicy_closes unfolding policy_applied_def by blast
  with applied quiet show ?thesis by (fastforce simp: proxy_ports_def)
qed


definition oidc_retriever :: retriever where
  "oidc_retriever = demo_retriever\<lparr>rtr_spec := (rtr_spec demo_retriever)\<lparr>
     rts_ingress := Some \<lparr>ri_host = ''h'', ri_className = '''', ri_path = '''', ri_annotations = (\<lambda>_. None),
       ri_tlsSecretName = ''t'', ri_clusterIssuer = ''''\<rparr>,
     rts_oidc := Some \<lparr>oi_issuerURL = ''i'', oi_clientIDSecretRef = \<lparr>skr_name = ''o'', skr_key = ''a''\<rparr>,
       oi_clientSecretSecretRef = \<lparr>skr_name = ''o'', skr_key = ''b''\<rparr>,
       oi_cookieSecretRef = \<lparr>skr_name = ''o'', skr_key = ''c''\<rparr>, oi_emailDomains = [], oi_groups = [], oi_image = ''''\<rparr>\<rparr>\<rparr>"

lemma oidc_validate:
  "snd (exec serving_cluster (validateRetrieverSecrets demo_lib oidc_retriever demo_kb)) = Some ('''', '''')"
  by (simp add: validateRetrieverSecrets_def retriever_refs_def oidc_retriever_def demo_retriever_def exec_simps)

lemma oidc_applyWorkload:
  "snd (exec serving_cluster (applyWorkload demo_lib oidc_retriever demo_kb)) = Some None"
  by (simp add: workload_defs oidc_retriever_def demo_retriever_def exec_simps nothing_def autoscalingEnabled_def
      oidcEnabled_def desiredMinimumReplicas_def proxyContainer_def)

theorem oidc_exposes_only_the_proxy_witness:
  "\<exists>n. policy_closes oidc_retriever n \<and>
     (EvCreate (ONetworkPolicy n) None \<in> set (fst (exec serving_cluster (reconcileRetriever demo_lib oidc_retriever))) \<or>
      EvUpdate (ONetworkPolicy n) None \<in> set (fst (exec serving_cluster (reconcileRetriever demo_lib oidc_retriever))))"
proof -
  let ?vi = "nothing (''ns'', trunc_name demo_lib ''kb-index'') :: err + vector_index"
  let ?rt = "observed_status demo_lib oidc_retriever (live_deployment (Some 3)) ?vi"
  note pass = exec_reconcileRetriever [OF oidc_validate oidc_applyWorkload, of "live_deployment (Some 3)", simplified]
  have on: "oidcEnabled oidc_retriever" by (simp add: oidcEnabled_def oidc_retriever_def)
  have s: "EvUpdateStatus (ORetriever ?rt) (Inr ''2'') \<in> set (fst (exec serving_cluster (reconcileRetriever demo_lib oidc_retriever)))"
    by (simp add: pass)
  have e: "rtst_serviceEndpoint (rtr_status ?rt) \<noteq> ''''" by (simp add: observed_status_def Let_def)
  from oidc_exposes_only_the_proxy [OF on runs_exec] s e show ?thesis by blast
qed

text \<open>
  C39. A pass crashes only for a Retriever with an OIDC proxy and no Ingress, the combination the API's
  validation rule excludes: then the KnowledgeBase and all Secrets were there, and nothing was
  written.
\<close>

theorem retriever_crashes_only_without_ingress:
  assumes "runs (reconcileRetriever L rt) tr None"
  shows "rts_oidc (rtr_spec rt) \<noteq> None \<and> rts_ingress (rtr_spec rt) = None \<and> list_all (\<lambda>e. \<not> is_write e) tr"
proof -
  let ?Q = "\<lambda>tr r. r = None \<longrightarrow>
    rts_oidc (rtr_spec rt) \<noteq> None \<and> rts_ingress (rtr_spec rt) = None \<and> (\<forall>e \<in> set tr. \<not> is_write e)"
  have ok: "wp p (\<lambda>tr. ?Q (pre @ tr))" if "returns p" for p :: "reconcile_result prog" and pre
    using that unfolding returns_def by (rule wp_mono) blast
  have applied: "wp (applyWorkload L rt kb) ?Q" for kb
    unfolding applyWorkload_def
  proof (rule wp_bindI [OF wp_hash], goal_cases)
    case (1 tr h)
    then have q: "\<forall>e \<in> set tr. \<not> is_write e" by simp
    show ?case
    proof (rule wp_bindI [OF wp_desiredDeployment], goal_cases)
      case (1 tr' dep)
      show ?case
        using returns_apply_steps [of L rt dep] unfolding returns_def by (rule wp_mono) blast
    next
      case (2 tr')
      then show ?case using q by simp
    qed
  next
    case (2 tr)
    then show ?case by simp
  qed
  have "wp (reconcileRetriever L rt) ?Q"
    unfolding reconcileRetriever_def wp.simps
  proof (intro allI, goal_cases)
    case (1 res)
    let ?e = "EvGetKB (rtr_namespace rt, rts_knowledgeBaseRef (rtr_spec rt)) res"
    show ?case
    proof (cases res)
      case (Inl e)
      then show ?thesis using ok [of "withdraw L rt ''KnowledgeBaseNotFound'' ''referenced KnowledgeBase not found''" "[?e]"]
        by (simp add: returns_withdraw)
    next
      case (Inr kb)
      show ?thesis
        unfolding Inr sum.case
      proof (rule wp_bindI [OF wp_validateRetrieverSecrets], goal_cases)
        case (1 tr a)
        obtain rsn msg where a: "a = (rsn, msg)" by (cases a)
        from 1 have q: "\<forall>e \<in> set (EvGetKB (rtr_namespace rt, rts_knowledgeBaseRef (rtr_spec rt)) (Inr kb) # tr). \<not> is_write e"
          by fastforce
        show ?case
        proof (cases "rsn = ''''")
          case False
          then show ?thesis using ok [of "withdraw L rt rsn msg" "EvGetKB (rtr_namespace rt, rts_knowledgeBaseRef (rtr_spec rt)) (Inr kb) # tr"] returns_withdraw
            by (simp add: a)
        next
          case True
          have "wp (pbind (applyWorkload L rt kb) (\<lambda>r. case r of Some e \<Rightarrow> Done (no_requeue, Some e) | None \<Rightarrow> reportRetriever L rt kb))
              (\<lambda>tr'. ?Q ((EvGetKB (rtr_namespace rt, rts_knowledgeBaseRef (rtr_spec rt)) (Inr kb) # tr) @ tr'))"
          proof (rule wp_bindI [OF applied], goal_cases)
            case (1 tr' r)
            have "returns (case r of Some e \<Rightarrow> Done (no_requeue, Some e) | None \<Rightarrow> reportRetriever L rt kb)"
              by (cases r) (simp_all add: returns_report)
            from ok [OF this, of "(EvGetKB (rtr_namespace rt, rts_knowledgeBaseRef (rtr_spec rt)) (Inr kb) # tr) @ tr'"]
            show ?case by (simp only: append.assoc)
          next
            case (2 tr')
            then show ?case using q by auto
          qed
          then show ?thesis by (simp add: a True del: wp_pbind)
        qed
      next
        case (2 tr)
        then show ?case by blast
      qed
    qed
  qed
  from wpD [OF this assms] show ?thesis by (simp add: list_all_iff)
qed


definition bare_oidc_retriever :: retriever where
  "bare_oidc_retriever = oidc_retriever\<lparr>rtr_spec := (rtr_spec oidc_retriever)\<lparr>rts_ingress := None\<rparr>\<rparr>"

lemma bare_oidc_panics: "snd (exec serving_cluster (reconcileRetriever demo_lib bare_oidc_retriever)) = None"
proof -
  have k: "rts_oidc (rtr_spec bare_oidc_retriever) \<noteq> None" "rts_ingress (rtr_spec bare_oidc_retriever) = None"
    by (simp_all add: bare_oidc_retriever_def oidc_retriever_def)
  have v: "snd (exec serving_cluster (validateRetrieverSecrets demo_lib bare_oidc_retriever demo_kb)) = Some ('''', '''')"
    by (simp add: validateRetrieverSecrets_def retriever_refs_def bare_oidc_retriever_def oidc_retriever_def
        demo_retriever_def exec_simps)
  have d: "snd (exec serving_cluster (desiredDeployment demo_lib bare_oidc_retriever demo_kb h)) = None" for h
    using wpD [OF wp_desiredDeployment [of demo_lib bare_oidc_retriever demo_kb h] runs_exec [of _ serving_cluster]] k by blast
  have "snd (exec serving_cluster (applyWorkload demo_lib bare_oidc_retriever demo_kb)) = None"
    unfolding applyWorkload_def exec_pbind exec_then_def by (simp add: exec_pbind exec_then_def d split: option.split)
  then show ?thesis
    by (simp add: reconcileRetriever_def exec_pbind exec_then_def v Let_def)
qed

theorem retriever_crashes_only_without_ingress_witness:
  "list_all (\<lambda>e. \<not> is_write e) (fst (exec serving_cluster (reconcileRetriever demo_lib bare_oidc_retriever)))"
proof -
  have "runs (reconcileRetriever demo_lib bare_oidc_retriever)
      (fst (exec serving_cluster (reconcileRetriever demo_lib bare_oidc_retriever))) None"
    using runs_exec [of "reconcileRetriever demo_lib bare_oidc_retriever" serving_cluster] by (simp only: bare_oidc_panics)
  from retriever_crashes_only_without_ingress [OF this] show ?thesis by blast
qed

lemma checked_names:
  assumes "ref \<in> set (checked_refs rt kb)"
  shows "retrieverNamesSecret rt (skr_name ref) \<or> kbNamesSecret kb (skr_name ref)"
proof (cases "retrieverNamesSecret rt (skr_name ref)")
  case False
  then have "ref \<in> set_option (vs_credentialsSecretRef (ks_vectorStore (spec kb))) \<or>
      ref \<in> set_option (emb_apiKeySecretRef (ks_embedding (spec kb)))"
    using assms unfolding set_checked_refs
    by (elim UnE) (auto simp: retrieverNamesSecret_def Let_def split: option.split_asm if_splits)
  then show ?thesis by (auto simp: kbNamesSecret_def Let_def)
qed simp

lemma wp_secret_requests:
  "wp (secret_requests rts name) (\<lambda>tr r. \<exists>reqs. r = Some reqs \<and>
     (\<forall>rt \<in> set rts. \<forall>kb. (\<forall>a. EvGetKB (rtr_namespace rt, rts_knowledgeBaseRef (rtr_spec rt)) a \<in> set tr \<longrightarrow> a = Inr kb) \<longrightarrow>
        retrieverNamesSecret rt name \<or> kbNamesSecret kb name \<longrightarrow> retriever_request rt \<in> set reqs))"
proof (induction rts name rule: secret_requests.induct)
  case (2 rt rts name)
  show ?case
    unfolding secret_requests.simps wp.simps
  proof (intro allI, rule wp_bindI [OF 2], goal_cases)
    case (1 res tr reqs)
    then show ?case by (cases res) auto
  next
    case (2 res tr)
    then show ?case by simp
  qed
qed simp

text \<open>
  C28. A change of a Secret wakes every Retriever it matters to: the watch on Secrets, listing the
  Retrievers, requests a pass for each one for which a validated reference - of the Retriever or of
  its KnowledgeBase, which the watch could read - names the Secret.
\<close>

theorem secret_change_wakes_retriever:
  assumes "runs (secretRetrieverRequests (Inr rts) name) tr r" "rt \<in> set rts"
    and "\<forall>a. EvGetKB (rtr_namespace rt, rts_knowledgeBaseRef (rtr_spec rt)) a \<in> set tr \<longrightarrow> a = Inr kb"
    and "ref \<in> set (checked_refs rt kb)" "skr_name ref = name"
  shows "\<exists>reqs. r = Some reqs \<and> retriever_request rt \<in> set reqs"
proof -
  have run: "runs (secret_requests rts name) tr r"
    using assms(1) by (simp add: secretRetrieverRequests_def)
  from wpD [OF wp_secret_requests run] obtain reqs where r: "r = Some reqs"
    and all: "\<forall>rt \<in> set rts. \<forall>kb. (\<forall>a. EvGetKB (rtr_namespace rt, rts_knowledgeBaseRef (rtr_spec rt)) a \<in> set tr \<longrightarrow> a = Inr kb) \<longrightarrow>
        retrieverNamesSecret rt name \<or> kbNamesSecret kb name \<longrightarrow> retriever_request rt \<in> set reqs" by blast
  have "retrieverNamesSecret rt name \<or> kbNamesSecret kb name"
    using checked_names [OF assms(4)] assms(5) by simp
  with all assms(2,3) have "retriever_request rt \<in> set reqs" by blast
  with r show ?thesis by blast
qed

theorem secret_change_wakes_retriever_witness:
  "\<exists>reqs. snd (exec serving_cluster (secretRetrieverRequests (Inr [demo_retriever]) ''s'')) = Some reqs \<and>
     (''ns'', ''rt'') \<in> set reqs"
proof -
  let ?p = "secretRetrieverRequests (Inr [demo_retriever]) ''s''"
  have tr: "fst (exec serving_cluster ?p) = [EvGetKB (''ns'', ''kb'') (Inr demo_kb)]"
    by (simp add: secretRetrieverRequests_def exec_simps demo_retriever_def)
  have a: "\<forall>a. EvGetKB (rtr_namespace demo_retriever, rts_knowledgeBaseRef (rtr_spec demo_retriever)) a
      \<in> set (fst (exec serving_cluster ?p)) \<longrightarrow> a = Inr demo_kb"
    by (simp add: tr)
  have c: "\<lparr>skr_name = ''s'', skr_key = ''k''\<rparr> \<in> set (checked_refs demo_retriever demo_kb)"
    by (simp add: set_checked_refs)
  have "retriever_request demo_retriever = (''ns'', ''rt'')"
    by (simp add: retriever_request_def demo_retriever_def)
  with secret_change_wakes_retriever [OF runs_exec _ a c] show ?thesis by simp
qed

text \<open>No pass reads a Secret that no checked reference names.\<close>

lemma never_other_refs:
  "n \<notin> skr_name ` set (List.map_filter snd refs) \<Longrightarrow> never (\<lambda>e. \<exists>ns a. e = EvGetSecret (ns, n) a) (validate_refs L ns' refs)"
  by (induction L ns' refs rule: validate_refs.induct) (auto split: sum.split option.split)

lemma never_other_validate:
  "n \<notin> skr_name ` set (checked_refs rt kb) \<Longrightarrow> never (\<lambda>e. \<exists>ns a. e = EvGetSecret (ns, n) a) (validateRetrieverSecrets L rt kb)"
  unfolding validateRetrieverSecrets_def checked_refs_def by (rule never_other_refs)

lemma never_other_append:
  "n \<notin> skr_name ` set_option ref \<Longrightarrow> never (\<lambda>e. \<exists>ns a. e = EvGetSecret (ns, n) a) (appendSecretHash ns' label ref h)"
  by (cases ref) (auto simp: appendSecretHash_def Let_def split: sum.split option.split)

lemma never_other_hash:
  assumes "n \<notin> skr_name ` set (checked_refs rt kb)"
  shows "never (\<lambda>e. \<exists>ns a. e = EvGetSecret (ns, n) a) (computeRetrieverSecretsHash L rt kb)"
  unfolding computeRetrieverSecretsHash_def Let_def
  using assms unfolding set_checked_refs image_Un Un_iff de_Morgan_disj
  by (intro never_pbind never_other_append)
    (auto intro!: never_pbind never_other_append split: option.split if_splits)

text \<open>
  The API key of the observed embedding escapes the credential handling: when the index was built
  with another key reference than the spec has now, the rendered Pods use that Secret, but no pass
  validates it (and neither the fingerprint nor the watch looks at it).
\<close>

theorem observed_key_is_not_validated:
  assumes "runs (desiredDeployment L rt kb h) tr (Some dep)"
    and "observedEmbedding (status kb) = Some e" "emb_apiKeySecretRef e = Some ref"
    and "skr_name ref \<notin> skr_name ` set (checked_refs rt kb)"
  shows "ref \<in> set (server_secret_refs (ds_pod (dep_spec dep))) \<and>
     (\<forall>tr' r a. runs (validateRetrieverSecrets L rt kb) tr' r \<longrightarrow> EvGetSecret (rtr_namespace rt, skr_name ref) a \<notin> set tr') \<and>
     (\<forall>tr' r a. runs (computeRetrieverSecretsHash L rt kb) tr' r \<longrightarrow> EvGetSecret (rtr_namespace rt, skr_name ref) a \<notin> set tr')"
proof (intro conjI allI impI)
  from wpD [OF wp_desiredDeployment assms(1)] have "well_rendered rt kb h dep" by simp
  then show "ref \<in> set (server_secret_refs (ds_pod (dep_spec dep)))"
    using assms(2,3) by (auto simp: well_rendered_def servingEmbedding_def)
next
  fix tr' r a
  assume "runs (validateRetrieverSecrets L rt kb) tr' r"
  from wpD [OF wp_never [OF never_other_validate [OF assms(4)]] this]
  show "EvGetSecret (rtr_namespace rt, skr_name ref) a \<notin> set tr'" by blast
next
  fix tr' r a
  assume "runs (computeRetrieverSecretsHash L rt kb) tr' r"
  from wpD [OF wp_never [OF never_other_hash [OF assms(4)]] this]
  show "EvGetSecret (rtr_namespace rt, skr_name ref) a \<notin> set tr'" by blast
qed

definition migrating_kb :: knowledge_base where
  "migrating_kb = upd_status (\<lambda>s. s\<lparr>observedEmbedding := Some ((ks_embedding demo_spec)\<lparr>emb_apiKeySecretRef :=
     Some \<lparr>skr_name = ''old'', skr_key = ''k''\<rparr>\<rparr>)\<rparr>) demo_kb"

theorem observed_key_is_not_validated_witness:
  "\<exists>dep. runs (desiredDeployment demo_lib demo_retriever migrating_kb ''h'') [] (Some dep) \<and>
     \<lparr>skr_name = ''old'', skr_key = ''k''\<rparr> \<in> set (server_secret_refs (ds_pod (dep_spec dep)))"
proof -
  obtain dep where d: "runs (desiredDeployment demo_lib demo_retriever migrating_kb ''h'') [] (Some dep)"
    by (simp add: desiredDeployment_def demo_retriever_def scratchVolume_def Let_def)
  have o: "observedEmbedding (status migrating_kb) = Some ((ks_embedding demo_spec)\<lparr>emb_apiKeySecretRef :=
     Some \<lparr>skr_name = ''old'', skr_key = ''k''\<rparr>\<rparr>)" by (simp add: migrating_kb_def)
  have n: "skr_name \<lparr>skr_name = ''old'', skr_key = ''k''\<rparr> \<notin> skr_name ` set (checked_refs demo_retriever migrating_kb)"
    by (simp add: set_checked_refs migrating_kb_def demo_retriever_def)
  from observed_key_is_not_validated [OF d o _ n] d show ?thesis by auto
qed

end
