(* ===== verification/Vector_Index.thy ===== *)
theory Vector_Index
  imports Jobs
begin

text \<open>
  The VectorIndex reconciler (\<open>internal/controller/vectorindex_controller.go\<close>): a health probe of a
  Qdrant, pgvector or Milvus collection, kept for thirty seconds in a cache that all VectorIndexes
  share. The cache, a package variable behind a mutex, is an argument and a result. The deadlines of
  the HTTP client and of the database calls belong to the environment, which may answer any call
  with an error.
\<close>

section \<open>The probe cache\<close>

record probe_result =
  pr_health :: vector_index_health
  pr_points :: int
  pr_dimension :: int
  pr_message :: string

record probe_entry =
  pe_health :: vector_index_health
  pe_points :: int
  pe_dim :: int
  pe_message :: string
  pe_checkedAt :: time

type_synonym probe_cache = "string \<rightharpoonup> probe_entry"

definition probe_key :: "string \<Rightarrow> string \<Rightarrow> string \<Rightarrow> string" where
  "probe_key storeType endpoint collection = storeType @ ''|'' @ endpoint @ ''|'' @ collection"

definition entry_result :: "probe_entry \<Rightarrow> probe_result" where
  "entry_result e =
     \<lparr>pr_health = pe_health e, pr_points = pe_points e, pr_dimension = pe_dim e, pr_message = pe_message e\<rparr>"

definition store_probe :: "string \<Rightarrow> probe_cache \<Rightarrow> probe_result prog \<Rightarrow> (probe_result \<times> probe_cache) prog" where
  "store_probe k cache probeFn =
     pbind probeFn (\<lambda>res.
     Now (\<lambda>now.
     Done (res, cache(k \<mapsto> \<lparr>pe_health = pr_health res, pe_points = pr_points res, pe_dim = pr_dimension res,
                            pe_message = pr_message res, pe_checkedAt = now\<rparr>))))"

definition cachedProbe ::
  "string \<Rightarrow> string \<Rightarrow> string \<Rightarrow> probe_cache \<Rightarrow> probe_result prog \<Rightarrow> (probe_result \<times> probe_cache) prog" where
  "cachedProbe storeType endpoint collection cache probeFn =
     (let k = probe_key storeType endpoint collection
      in case cache k of
           None \<Rightarrow> store_probe k cache probeFn
         | Some entry \<Rightarrow>
             Now (\<lambda>now.
             if now - pe_checkedAt entry < 30 * second then Done (entry_result entry, cache)
             else store_probe k cache probeFn))"

section \<open>The probes\<close>

definition failed_probe :: "vector_index_health \<Rightarrow> string \<Rightarrow> probe_result" where
  "failed_probe h msg = \<lparr>pr_health = h, pr_points = 0, pr_dimension = 0, pr_message = msg\<rparr>"

abbreviation vi_store :: "vector_index \<Rightarrow> vector_store_spec" where "vi_store vi \<equiv> vis_store (vi_spec vi)"

definition vi_collection :: "vector_index \<Rightarrow> string" where
  "vi_collection vi =
     (if vs_collection (vi_store vi) = '''' then vis_knowledgeBaseRef (vi_spec vi) else vs_collection (vi_store vi))"

definition qdrantURL :: "vector_index \<Rightarrow> string" where
  "qdrantURL vi = vs_endpoint (vi_store vi) @ ''/collections/'' @ vi_collection vi"

text \<open>What an answer of Qdrant means.\<close>

definition qdrantResult :: "lib \<Rightarrow> vector_index \<Rightarrow> http_response \<Rightarrow> probe_result" where
  "qdrantResult L vi resp =
     (if hr_status resp = 404 then failed_probe IndexMissing ''collection does not exist yet''
      else if hr_status resp \<noteq> 200 then failed_probe IndexDegraded (''qdrant returned HTTP '' @ itoa (hr_status resp))
      else
        case parse_qdrant L (hr_body resp) of
          Inl e \<Rightarrow> failed_probe IndexUnknown (''decode error: '' @ message e)
        | Inr body \<Rightarrow>
            let dim = qr_vectorSize body;
                expected = vis_dimension (vi_spec vi);
                res = \<lparr>pr_health = IndexHealthy, pr_points = qr_pointsCount body, pr_dimension = dim,
                       pr_message = ''collection status='' @ qr_status body\<rparr>
            in if 0 < expected \<and> 0 < dim \<and> dim \<noteq> expected
               then res\<lparr>pr_health := IndexDegraded,
                        pr_message := ''dimension mismatch: store='' @ itoa dim @ '' expected='' @ itoa expected\<rparr>
               else res)"

definition askQdrant :: "lib \<Rightarrow> vector_index \<Rightarrow> (string \<times> string) list \<Rightarrow> probe_result prog" where
  "askQdrant L vi headers =
     HttpDo \<lparr>hq_url = qdrantURL vi, hq_headers = headers\<rparr> (\<lambda>res.
     case res of
       Inl e \<Rightarrow> Done (failed_probe IndexUnknown (''probe error: '' @ message e))
     | Inr resp \<Rightarrow> Done (qdrantResult L vi resp))"

definition probeQdrant :: "lib \<Rightarrow> vector_index \<Rightarrow> probe_result prog" where
  "probeQdrant L vi =
     (case request_error L (qdrantURL vi) of
        Some e \<Rightarrow> Done (failed_probe IndexUnknown (message e))
      | None \<Rightarrow>
          (case vs_credentialsSecretRef (vi_store vi) of
             None \<Rightarrow> askQdrant L vi []
           | Some ref \<Rightarrow>
               GetSecret (m_namespace (vi_meta vi), skr_name ref) (\<lambda>res.
               case res of
                 Inl e \<Rightarrow> Done (failed_probe IndexUnknown
                   (''could not read Qdrant credential secret '' @ skr_name ref @ '': '' @ message e))
               | Inr secret \<Rightarrow>
                   (case sec_data secret (skr_key ref) of
                      None \<Rightarrow> Done (failed_probe IndexUnknown
                        (''Qdrant credential secret '' @ skr_name ref @ '' is missing key '' @ skr_key ref))
                    | Some apiKey \<Rightarrow> askQdrant L vi [(''api-key'', apiKey)]))))"

text \<open>The collection name is pasted into the count query, not passed as a parameter.\<close>

definition probePgvector :: "lib \<Rightarrow> vector_index \<Rightarrow> probe_result prog" where
  "probePgvector L vi =
     (let collection = vi_collection vi
      in SqlDo (SqlOpen (vs_endpoint (vi_store vi))) (\<lambda>r.
         case r of
           Inl e \<Rightarrow> Done (failed_probe IndexUnknown (''pgvector: invalid DSN: '' @ message e))
         | Inr _ \<Rightarrow>
             SqlDo SqlPing (\<lambda>r.
             case r of
               Inl e \<Rightarrow> Done (failed_probe IndexDegraded (''pgvector: unreachable: '' @ message e))
             | Inr _ \<Rightarrow>
                 SqlDo (SqlQuery ''SELECT EXISTS (SELECT FROM information_schema.tables WHERE table_name = $1)'' [collection]) (\<lambda>r.
                 if (case r of Inl e \<Rightarrow> True | Inr exists \<Rightarrow> exists = 0)
                 then Done (failed_probe IndexMissing (''pgvector: table '' @ quote L collection @ '' does not exist''))
                 else
                   SqlDo (SqlQuery (''SELECT count(*) FROM '' @ collection) []) (\<lambda>r.
                   case r of
                     Inl e \<Rightarrow> Done (failed_probe IndexDegraded (''pgvector: count query failed: '' @ message e))
                   | Inr n \<Rightarrow>
                       Done \<lparr>pr_health = IndexHealthy, pr_points = n, pr_dimension = vis_dimension (vi_spec vi),
                             pr_message = ''table '' @ collection @ '' exists, '' @ itoa n @ '' points''\<rparr>)))))"

definition milvusEndpoint :: "lib \<Rightarrow> vector_index \<Rightarrow> string" where
  "milvusEndpoint L vi =
     (let endpoint = vs_endpoint (vi_store vi)
      in case url_host L endpoint of
           None \<Rightarrow> ''http://'' @ endpoint
         | Some host \<Rightarrow> if host = '''' then ''http://'' @ endpoint else endpoint)"

definition bearer :: "secret_key_ref \<Rightarrow> secret \<Rightarrow> (string \<times> string) list" where
  "bearer ref secret =
     (case sec_data secret (skr_key ref) of
        None \<Rightarrow> [] | Some token \<Rightarrow> [(''Authorization'', ''Bearer '' @ token)])"

text \<open>What the answer about the collection adds once the service is reachable.\<close>

definition milvusResult :: "lib \<Rightarrow> vector_index \<Rightarrow> err + http_response \<Rightarrow> probe_result" where
  "milvusResult L vi res =
     (let unavailable = \<lparr>pr_health = IndexHealthy, pr_points = - 1, pr_dimension = vis_dimension (vi_spec vi),
            pr_message = ''milvus service reachable; collection detail unavailable via REST (collection='' @ vi_collection vi @ '')''\<rparr>
      in case res of
           Inl e \<Rightarrow> unavailable
         | Inr resp \<Rightarrow>
             if hr_status resp = 200 then
               (case parse_milvus L (hr_body resp) of
                  Inl e \<Rightarrow> unavailable
                | Inr body \<Rightarrow>
                    if mr_code body = 0 \<and> mr_collectionName body \<noteq> '''' then
                      \<lparr>pr_health = IndexHealthy, pr_points = mr_numEntities body, pr_dimension = vis_dimension (vi_spec vi),
                       pr_message = ''collection '' @ mr_collectionName body @ '', '' @ itoa (mr_numEntities body) @ '' entities''\<rparr>
                    else unavailable)
             else unavailable)"

text \<open>
  The second request is built without looking at the error: when its URL is refused the request is
  nil and using it panics.
\<close>

definition describeMilvus :: "lib \<Rightarrow> vector_index \<Rightarrow> probe_result prog" where
  "describeMilvus L vi =
     (let url = milvusEndpoint L vi @ ''/v2/vectordb/collections/describe?collectionName='' @ vi_collection vi;
          ask = (\<lambda>headers.
            if request_error L url \<noteq> None then Panic
            else HttpDo \<lparr>hq_url = url, hq_headers = headers\<rparr> (\<lambda>res. Done (milvusResult L vi res)))
      in case vs_credentialsSecretRef (vi_store vi) of
           None \<Rightarrow> ask []
         | Some ref \<Rightarrow>
             GetSecret (m_namespace (vi_meta vi), skr_name ref) (\<lambda>res.
             case res of Inl e \<Rightarrow> ask [] | Inr secret \<Rightarrow> ask (bearer ref secret)))"

definition askMilvus :: "lib \<Rightarrow> vector_index \<Rightarrow> (string \<times> string) list \<Rightarrow> probe_result prog" where
  "askMilvus L vi headers =
     HttpDo \<lparr>hq_url = milvusEndpoint L vi @ ''/health'', hq_headers = headers\<rparr> (\<lambda>res.
     case res of
       Inl e \<Rightarrow> Done (failed_probe IndexDegraded (''milvus: unreachable: '' @ message e))
     | Inr resp \<Rightarrow>
         if 500 \<le> hr_status resp
         then Done (failed_probe IndexDegraded (''milvus: health endpoint returned '' @ itoa (hr_status resp)))
         else describeMilvus L vi)"

definition probeMilvus :: "lib \<Rightarrow> vector_index \<Rightarrow> probe_result prog" where
  "probeMilvus L vi =
     (case request_error L (milvusEndpoint L vi @ ''/health'') of
        Some e \<Rightarrow> Done (failed_probe IndexUnknown (message e))
      | None \<Rightarrow>
          (case vs_credentialsSecretRef (vi_store vi) of
             None \<Rightarrow> askMilvus L vi []
           | Some ref \<Rightarrow>
               GetSecret (m_namespace (vi_meta vi), skr_name ref) (\<lambda>res.
               case res of
                 Inl e \<Rightarrow> Done (failed_probe IndexUnknown
                   (''could not read Milvus credential secret '' @ skr_name ref @ '': '' @ message e))
               | Inr secret \<Rightarrow> askMilvus L vi (bearer ref secret))))"

definition probeStore :: "lib \<Rightarrow> vector_index \<Rightarrow> probe_result prog" where
  "probeStore L vi =
     (if vs_type (vi_store vi) = ''qdrant'' then probeQdrant L vi
      else if vs_type (vi_store vi) = ''pgvector'' then probePgvector L vi
      else if vs_type (vi_store vi) = ''milvus'' then probeMilvus L vi
      else Done (failed_probe IndexUnknown
        (''health probing not implemented for store type '' @ quote L (vs_type (vi_store vi)) @ ''; relies on ingestion success'')))"

section \<open>The reconciler\<close>

text \<open>An empty collection counts as degraded once the dimension is known.\<close>

definition adjust_empty :: "vector_index \<Rightarrow> probe_result \<Rightarrow> probe_result" where
  "adjust_empty vi p =
     (if pr_health p = IndexHealthy \<and> pr_points p = 0 \<and> 0 < vis_dimension (vi_spec vi)
      then p\<lparr>pr_health := IndexDegraded,
             pr_message := ''collection exists with 0 points (ingestion may have failed or not yet run)''\<rparr>
      else p)"

definition probed_status :: "lib \<Rightarrow> vector_index \<Rightarrow> probe_result \<Rightarrow> time \<Rightarrow> vector_index" where
  "probed_status L vi p now =
     vi\<lparr>vi_status := (vi_status vi)
       \<lparr>vst_observedGeneration := m_generation (vi_meta vi), vst_health := pr_health p,
        vst_pointCount := pr_points p, vst_dimension := pr_dimension p, vst_message := pr_message p,
        vst_lastProbeTime := Some now,
        vst_conditions := set_status_condition L (vst_conditions (vi_status vi))
          \<lparr>c_type = ConditionReady,
           c_status = (if pr_health p \<noteq> IndexHealthy then ConditionFalse else ConditionTrue),
           c_reason = health_string (pr_health p), c_message = pr_message p,
           c_observedGeneration = m_generation (vi_meta vi)\<rparr>\<rparr>\<rparr>"

definition probeInterval :: "vector_index \<Rightarrow> int" where
  "probeInterval vi =
     (if vis_probeIntervalSeconds (vi_spec vi) < 10 then 60 else vis_probeIntervalSeconds (vi_spec vi))"

definition probeIndex :: "lib \<Rightarrow> probe_cache \<Rightarrow> vector_index \<Rightarrow> (probe_result \<times> probe_cache) prog" where
  "probeIndex L cache vi =
     cachedProbe (vs_type (vi_store vi)) (vs_endpoint (vi_store vi)) (vi_collection vi) cache (probeStore L vi)"

definition reconcileVectorIndex ::
  "lib \<Rightarrow> probe_cache \<Rightarrow> vector_index \<Rightarrow> (reconcile_result \<times> probe_cache) prog" where
  "reconcileVectorIndex L cache vi =
     pbind (probeIndex L cache vi) (\<lambda>(probe, cache).
     Now (\<lambda>now.
     UpdateStatus (OVectorIndex (probed_status L vi (adjust_empty vi probe) now)) (\<lambda>r.
     case r of
       Inl e \<Rightarrow> Done ((no_requeue, Some e), cache)
     | Inr _ \<Rightarrow> Done ((requeue_after (wrap64 (probeInterval vi * second)), None), cache))))"

definition reconcile_vector_index ::
  "lib \<Rightarrow> probe_cache \<Rightarrow> key \<Rightarrow> (reconcile_result \<times> probe_cache) prog" where
  "reconcile_vector_index L cache k =
     GetVectorIndex k (\<lambda>res.
     case res of
       Inl e \<Rightarrow> Done ((no_requeue, ignoreNotFound e), cache)
     | Inr vi \<Rightarrow> reconcileVectorIndex L cache vi)"

end
