(* ===== verification/Vector_Index_Correct.thy ===== *)
theory Vector_Index_Correct
  imports Vector_Index
begin

text \<open>
  What a reported health means: the answers of the store behind a healthy status, what the probe cache
  may answer instead, and that every cached result came from a probe in one of the passes before.
\<close>

section \<open>The cache\<close>

definition index_key :: "vector_index \<Rightarrow> string" where
  "index_key vi = probe_key (vs_type (vi_store vi)) (vs_endpoint (vi_store vi)) (vi_collection vi)"

definition new_entry :: "probe_result \<Rightarrow> time \<Rightarrow> probe_entry" where
  "new_entry res t = \<lparr>pe_health = pr_health res, pe_points = pr_points res, pe_dim = pr_dimension res,
     pe_message = pr_message res, pe_checkedAt = t\<rparr>"

lemma entry_result_new [simp]: "entry_result (new_entry res t) = res"
  by (simp add: entry_result_def new_entry_def)

text \<open>A probe of the store and the entry it leaves; the prefix is the look at the clock for a stale entry.\<close>

definition probed_afresh ::
  "lib \<Rightarrow> probe_cache \<Rightarrow> vector_index \<Rightarrow> event list \<Rightarrow> probe_result \<Rightarrow> probe_cache \<Rightarrow> bool" where
  "probed_afresh L cache vi tr res cache' \<longleftrightarrow>
     (\<exists>pre ptr t. tr = pre @ ptr @ [EvNow t] \<and> runs (probeStore L vi) ptr (Some res) \<and>
        cache' = cache(index_key vi \<mapsto> new_entry res t) \<and>
        (case cache (index_key vi) of
           None \<Rightarrow> pre = []
         | Some e \<Rightarrow> (\<exists>now. pre = [EvNow now] \<and> 30 * second \<le> now - pe_checkedAt e)))"

definition answered_from_cache ::
  "probe_cache \<Rightarrow> vector_index \<Rightarrow> event list \<Rightarrow> probe_result \<Rightarrow> probe_cache \<Rightarrow> bool" where
  "answered_from_cache cache vi tr res cache' \<longleftrightarrow>
     (\<exists>e now. cache (index_key vi) = Some e \<and> tr = [EvNow now] \<and> now - pe_checkedAt e < 30 * second \<and>
        res = entry_result e \<and> cache' = cache)"

lemma wp_store_probe:
  "wp (store_probe k cache p) (\<lambda>tr r. (r = None \<longrightarrow> runs p tr None) \<and>
     (\<forall>res cache'. r = Some (res, cache') \<longrightarrow>
        (\<exists>ptr t. tr = ptr @ [EvNow t] \<and> runs p ptr (Some res) \<and> cache' = cache(k \<mapsto> new_entry res t))))"
  unfolding store_probe_def
  by (rule wp_bindI [OF wpI]) (auto simp: new_entry_def)

lemma wp_probeIndex:
  "wp (probeIndex L cache vi) (\<lambda>tr r. \<forall>res cache'. r = Some (res, cache') \<longrightarrow>
     answered_from_cache cache vi tr res cache' \<or> probed_afresh L cache vi tr res cache')"
proof (cases "cache (index_key vi)")
  case None
  have "wp (store_probe (index_key vi) cache (probeStore L vi)) (\<lambda>tr r. \<forall>res cache'. r = Some (res, cache') \<longrightarrow>
     answered_from_cache cache vi tr res cache' \<or> probed_afresh L cache vi tr res cache')"
    by (rule wp_mono [OF wp_store_probe]) (simp add: probed_afresh_def None)
  with None show ?thesis
    by (simp add: probeIndex_def cachedProbe_def index_key_def Let_def)
next
  case (Some e)
  have "wp (store_probe (index_key vi) cache (probeStore L vi)) (\<lambda>tr r. \<forall>res cache'. r = Some (res, cache') \<longrightarrow>
     answered_from_cache cache vi (EvNow now # tr) res cache' \<or> probed_afresh L cache vi (EvNow now # tr) res cache')"
    if "\<not> now - pe_checkedAt e < 30 * second" for now
    by (rule wp_mono [OF wp_store_probe]) (use that in \<open>fastforce simp: probed_afresh_def Some\<close>)
  moreover have "answered_from_cache cache vi [EvNow now] (entry_result e) cache"
    if "now - pe_checkedAt e < 30 * second" for now
    using that by (simp add: answered_from_cache_def Some)
  ultimately show ?thesis
    using Some by (simp add: probeIndex_def cachedProbe_def index_key_def [symmetric] Let_def)
qed

text \<open>
  The cache after the passes of a process, from the empty one of its start: the history lists, newest
  first, the key of each pass and what it did.
\<close>

inductive cache_after :: "lib \<Rightarrow> (key \<times> event list) list \<Rightarrow> probe_cache \<Rightarrow> bool" for L where
  start: "cache_after L [] (\<lambda>k. None)"
| pass: "cache_after L history cache \<Longrightarrow> runs (reconcile_vector_index L cache q) tr (Some (r, cache')) \<Longrightarrow>
    cache_after L ((q, tr) # history) cache'"

text \<open>
  A pass over the index \<open>vi\<close> in which its store was probed: the read of the index, the probe with its
  result, and then the look at the clock.
\<close>

definition probed_in :: "lib \<Rightarrow> vector_index \<Rightarrow> key \<times> event list \<Rightarrow> probe_result \<Rightarrow> time \<Rightarrow> bool" where
  "probed_in L vi pass res t \<longleftrightarrow>
     (\<exists>pre ptr post. snd pass = EvGetVectorIndex (fst pass) (Inr vi) # pre @ ptr @ EvNow t # post \<and>
        runs (probeStore L vi) ptr (Some res))"

section \<open>What the probes answer\<close>

text \<open>The answers of a store that make a collection healthy.\<close>

definition evidence :: "lib \<Rightarrow> vector_index \<Rightarrow> event list \<Rightarrow> bool" where
  "evidence L vi tr \<longleftrightarrow>
     (if vs_type (vi_store vi) = ''qdrant'' then
        (\<exists>hs resp body. EvHttpDo \<lparr>hq_url = qdrantURL vi, hq_headers = hs\<rparr> (Inr resp) \<in> set tr \<and> hr_status resp = 200 \<and>
           parse_qdrant L (hr_body resp) = Inr body \<and>
           \<not> (0 < vis_dimension (vi_spec vi) \<and> 0 < qr_vectorSize body \<and> qr_vectorSize body \<noteq> vis_dimension (vi_spec vi)))
      else if vs_type (vi_store vi) = ''pgvector'' then
        (\<exists>x n. EvSqlDo (SqlQuery ''SELECT EXISTS (SELECT FROM information_schema.tables WHERE table_name = $1)'' [vi_collection vi]) (Inr x) \<in> set tr \<and>
           x \<noteq> 0 \<and> EvSqlDo (SqlQuery (''SELECT count(*) FROM '' @ vi_collection vi) []) (Inr n) \<in> set tr)
      else vs_type (vi_store vi) = ''milvus'' \<and>
        (\<exists>hs resp. EvHttpDo \<lparr>hq_url = milvusEndpoint L vi @ ''/health'', hq_headers = hs\<rparr> (Inr resp) \<in> set tr \<and> hr_status resp < 500))"

lemma failed_probe_sels [simp]:
  "pr_health (failed_probe h m) = h" "pr_points (failed_probe h m) = 0" "pr_dimension (failed_probe h m) = 0"
  by (simp_all add: failed_probe_def)

definition healthy_has :: "(event list \<Rightarrow> bool) \<Rightarrow> event list \<Rightarrow> probe_result option \<Rightarrow> bool" where
  "healthy_has E tr r \<longleftrightarrow> (\<forall>p. r = Some p \<longrightarrow> pr_health p = IndexHealthy \<longrightarrow> E tr)"

lemma wp_probeQdrant:
  "wp (probeQdrant L vi) (healthy_has (\<lambda>tr. \<exists>hs resp body.
     EvHttpDo \<lparr>hq_url = qdrantURL vi, hq_headers = hs\<rparr> (Inr resp) \<in> set tr \<and> hr_status resp = 200 \<and>
     parse_qdrant L (hr_body resp) = Inr body \<and>
     \<not> (0 < vis_dimension (vi_spec vi) \<and> 0 < qr_vectorSize body \<and> qr_vectorSize body \<noteq> vis_dimension (vi_spec vi))))"
proof -
  have res: "\<exists>body. hr_status resp = 200 \<and> parse_qdrant L (hr_body resp) = Inr body \<and>
      \<not> (0 < vis_dimension (vi_spec vi) \<and> 0 < qr_vectorSize body \<and> qr_vectorSize body \<noteq> vis_dimension (vi_spec vi))"
    if "pr_health (qdrantResult L vi resp) = IndexHealthy" for resp
    using that by (auto simp: qdrantResult_def Let_def split: if_splits sum.split_asm)
  show ?thesis
    by (auto simp: probeQdrant_def askQdrant_def healthy_has_def dest!: res split: option.split sum.split)
qed

lemma wp_probePgvector:
  "wp (probePgvector L vi) (healthy_has (\<lambda>tr. \<exists>x n.
     EvSqlDo (SqlQuery ''SELECT EXISTS (SELECT FROM information_schema.tables WHERE table_name = $1)'' [vi_collection vi]) (Inr x) \<in> set tr \<and>
     x \<noteq> 0 \<and> EvSqlDo (SqlQuery (''SELECT count(*) FROM '' @ vi_collection vi) []) (Inr n) \<in> set tr))"
  by (auto simp: probePgvector_def Let_def healthy_has_def split: sum.split)

lemma wp_probeMilvus:
  "wp (probeMilvus L vi) (healthy_has (\<lambda>tr. \<exists>hs resp.
     EvHttpDo \<lparr>hq_url = milvusEndpoint L vi @ ''/health'', hq_headers = hs\<rparr> (Inr resp) \<in> set tr \<and> hr_status resp < 500))"
proof -
  have ask: "wp (askMilvus L vi hs) (\<lambda>tr. healthy_has (\<lambda>tr. \<exists>hs resp.
     EvHttpDo \<lparr>hq_url = milvusEndpoint L vi @ ''/health'', hq_headers = hs\<rparr> (Inr resp) \<in> set tr \<and> hr_status resp < 500) (pre @ tr))"
    for hs pre
  proof -
    have "wp (describeMilvus L vi) (\<lambda>tr. healthy_has (\<lambda>tr. \<exists>hs resp.
       EvHttpDo \<lparr>hq_url = milvusEndpoint L vi @ ''/health'', hq_headers = hs\<rparr> (Inr resp) \<in> set tr \<and> hr_status resp < 500)
       (pre @ EvHttpDo \<lparr>hq_url = milvusEndpoint L vi @ ''/health'', hq_headers = hs\<rparr> (Inr resp) # tr))"
      if "\<not> 500 \<le> hr_status resp" for resp
    proof (rule wpI, unfold healthy_has_def, intro allI impI exI)
      show "EvHttpDo \<lparr>hq_url = milvusEndpoint L vi @ ''/health'', hq_headers = hs\<rparr> (Inr resp)
          \<in> set (pre @ EvHttpDo \<lparr>hq_url = milvusEndpoint L vi @ ''/health'', hq_headers = hs\<rparr> (Inr resp) # tr) \<and>
        hr_status resp < 500" for tr
        using that by simp
    qed
    then show ?thesis by (simp add: askMilvus_def split: sum.split) (simp add: healthy_has_def)
  qed
  show ?thesis
    using ask [where pre = "[]"] ask [where pre = "[e]" for e]
    by (simp add: probeMilvus_def split: option.split sum.split) (simp add: healthy_has_def)
qed

lemma wp_probeStore: "wp (probeStore L vi) (healthy_has (evidence L vi))"
  using wp_probeQdrant [of L vi] wp_probePgvector [of L vi] wp_probeMilvus [of L vi]
  by (simp add: probeStore_def evidence_def [abs_def] healthy_has_def)


section \<open>Properties\<close>

lemma evidence_mono: "evidence L vi tr \<Longrightarrow> set tr \<subseteq> set tr' \<Longrightarrow> evidence L vi tr'"
  unfolding evidence_def by (simp split: if_splits) blast+

lemma adjust_empty_healthy:
  "pr_health (adjust_empty vi p) = IndexHealthy \<longleftrightarrow>
     pr_health p = IndexHealthy \<and> (pr_points p \<noteq> 0 \<or> vis_dimension (vi_spec vi) \<le> 0)"
  "pr_points (adjust_empty vi p) = pr_points p"
  by (auto simp: adjust_empty_def)

lemma probed_status_sels [simp]:
  "vst_health (vi_status (probed_status L vi p now)) = pr_health p"
  "vst_pointCount (vi_status (probed_status L vi p now)) = pr_points p"
  by (simp_all add: probed_status_def)

lemma never_status_probe: "never (\<lambda>e. \<exists>x a. e = EvUpdateStatus x a) (probeStore L vi)"
  by (simp add: probeStore_def probeQdrant_def askQdrant_def probePgvector_def probeMilvus_def askMilvus_def
      describeMilvus_def Let_def split: option.split sum.split)

lemma never_status_probeIndex: "never (\<lambda>e. \<exists>x a. e = EvUpdateStatus x a) (probeIndex L cache vi)"
  by (simp add: probeIndex_def cachedProbe_def store_probe_def Let_def never_pbind never_status_probe split: option.split)

text \<open>A pass: the probe, the look at the clock, the status.\<close>

lemma wp_reconcileVectorIndex:
  "wp (reconcileVectorIndex L cache vi) (\<lambda>tr r.
     (\<forall>x a. EvUpdateStatus x a \<in> set tr \<longrightarrow>
        (\<exists>res cache' ptr now. tr = ptr @ [EvNow now, EvUpdateStatus x a] \<and>
           x = OVectorIndex (probed_status L vi (adjust_empty vi res) now) \<and>
           (answered_from_cache cache vi ptr res cache' \<or> probed_afresh L cache vi ptr res cache'))) \<and>
     (\<forall>q cache'. r = Some (q, cache') \<longrightarrow>
        (\<exists>ptr post res. tr = ptr @ post \<and>
           (answered_from_cache cache vi ptr res cache' \<or> probed_afresh L cache vi ptr res cache'))))"
  unfolding reconcileVectorIndex_def
proof (rule wp_bindI [OF iffD2 [OF wp_conj conjI [OF wp_probeIndex wp_never [OF never_status_probeIndex]]]], goal_cases)
  case (1 tr a)
  obtain res cache' where a: "a = (res, cache')" by (cases a)
  from 1 a have c: "answered_from_cache cache vi tr res cache' \<or> probed_afresh L cache vi tr res cache'"
    and q: "\<forall>e \<in> set tr. \<nexists>x a. e = EvUpdateStatus x a" by auto
  show ?case
    using c q by (fastforce simp: a split: sum.split)
next
  case (2 tr)
  then show ?case by blast
qed

text \<open>
  C24. A VectorIndex is reported healthy only on evidence: the store gave the answers that show the
  collection (Qdrant returned it with no other dimension than the expected one; the pgvector table
  exists and was counted; the Milvus service is up), in this pass, or a healthy result for the same
  store, endpoint and collection is less than thirty seconds old. A healthy collection is not empty
  when its dimension is known.
\<close>

theorem healthy_index_has_evidence:
  assumes "runs (reconcileVectorIndex L cache vi) tr r" "EvUpdateStatus (OVectorIndex vi') a \<in> set tr"
    and "vst_health (vi_status vi') = IndexHealthy"
  shows "(evidence L vi tr \<or>
      (\<exists>e now. cache (vs_type (vi_store vi) @ ''|'' @ vs_endpoint (vi_store vi) @ ''|'' @ vi_collection vi) = Some e \<and>
         pe_health e = IndexHealthy \<and> hd tr = EvNow now \<and> now - pe_checkedAt e < 30 * second)) \<and>
     (vst_pointCount (vi_status vi') \<noteq> 0 \<or> vis_dimension (vi_spec vi) \<le> 0)"
proof -
  from wpD [OF wp_reconcileVectorIndex assms(1)] assms(2) obtain res cache' ptr now
    where tr: "tr = ptr @ [EvNow now, EvUpdateStatus (OVectorIndex vi') a]"
      and vi': "vi' = probed_status L vi (adjust_empty vi res) now"
      and c: "answered_from_cache cache vi ptr res cache' \<or> probed_afresh L cache vi ptr res cache'" by blast
  from assms(3) have h: "pr_health res = IndexHealthy" "pr_points res \<noteq> 0 \<or> vis_dimension (vi_spec vi) \<le> 0"
    by (simp_all add: vi' adjust_empty_healthy)
  from c have "evidence L vi tr \<or> (\<exists>e now. cache (index_key vi) = Some e \<and> pe_health e = IndexHealthy \<and> hd tr = EvNow now \<and>
      now - pe_checkedAt e < 30 * second)"
  proof
    assume "answered_from_cache cache vi ptr res cache'"
    with h(1) show ?thesis by (fastforce simp: answered_from_cache_def entry_result_def tr)
  next
    assume "probed_afresh L cache vi ptr res cache'"
    then obtain pre qtr t where p: "ptr = pre @ qtr @ [EvNow t]" "runs (probeStore L vi) qtr (Some res)"
      by (auto simp: probed_afresh_def)
    from wpD [OF wp_probeStore p(2)] h(1) have "evidence L vi qtr" by (simp add: healthy_has_def)
    then have "evidence L vi tr" by (rule evidence_mono) (auto simp: tr p(1))
    then show ?thesis by blast
  qed
  with h(2) show ?thesis by (simp add: vi' adjust_empty_healthy index_key_def probe_key_def)
qed

definition demo_index :: vector_index where
  "demo_index =
     \<lparr>vi_meta = kb_meta demo_kb,
      vi_spec = \<lparr>vis_knowledgeBaseRef = ''kb'',
        vis_store = \<lparr>vs_type = ''qdrant'', vs_endpoint = ''e'', vs_collection = ''c'', vs_distance = '''',
          vs_credentialsSecretRef = None\<rparr>,
        vis_dimension = 8, vis_probeIntervalSeconds = 60, vis_probeTimeoutSeconds = 5\<rparr>,
      vi_status = \<lparr>vst_observedGeneration = 0, vst_health = HealthUnset, vst_pointCount = 0, vst_dimension = 0,
        vst_message = '''', vst_lastProbeTime = None, vst_conditions = []\<rparr>\<rparr>"

definition qdrant_up :: environment where
  "qdrant_up = (empty_cluster 0)\<lparr>at_HttpDo := (\<lambda>q. Inr \<lparr>hr_status = 200, hr_body = ''xyz''\<rparr>)\<rparr>"

lemma demo_probe:
  "\<exists>vi'. EvUpdateStatus (OVectorIndex vi') (Inr ''2'') \<in> set (fst (exec qdrant_up (reconcileVectorIndex demo_lib (\<lambda>k. None) demo_index))) \<and>
     vst_health (vi_status vi') = IndexHealthy"
  by (simp add: reconcileVectorIndex_def probeIndex_def cachedProbe_def store_probe_def probeStore_def probeQdrant_def
      askQdrant_def qdrantResult_def qdrant_up_def demo_index_def exec_simps probed_status_def adjust_empty_def)

theorem healthy_index_has_evidence_witness:
  "evidence demo_lib demo_index (fst (exec qdrant_up (reconcileVectorIndex demo_lib (\<lambda>k. None) demo_index)))"
proof -
  obtain vi' where s: "EvUpdateStatus (OVectorIndex vi') (Inr ''2'') \<in> set (fst (exec qdrant_up (reconcileVectorIndex demo_lib (\<lambda>k. None) demo_index)))"
    and h: "vst_health (vi_status vi') = IndexHealthy" using demo_probe by blast
  from healthy_index_has_evidence [OF runs_exec s h] show ?thesis by simp
qed

text \<open>What one pass does to the cache: it keeps it, or puts the fresh probe of the index under its key.\<close>

lemma pass_probes:
  assumes "runs (reconcile_vector_index L cache q) tr (Some (r, cache'))"
  shows "cache' = cache \<or>
     (\<exists>vi res t. cache' = cache(index_key vi \<mapsto> new_entry res t) \<and> probed_in L vi (q, tr) res t)"
proof -
  from assms obtain res tr0 where x: "tr = EvGetVectorIndex q res # tr0"
    "runs (case res of Inl e \<Rightarrow> Done ((no_requeue, ignoreNotFound e), cache)
      | Inr vi \<Rightarrow> reconcileVectorIndex L cache vi) tr0 (Some (r, cache'))"
    unfolding reconcile_vector_index_def runs_GetVectorIndex_iff by blast
  show ?thesis
  proof (cases res)
    case (Inl e)
    with x(2) show ?thesis by simp
  next
    case (Inr vi)
    with x(2) have "runs (reconcileVectorIndex L cache vi) tr0 (Some (r, cache'))" by simp
    from wpD [OF wp_reconcileVectorIndex this] obtain ptr post p where tr0: "tr0 = ptr @ post"
      and "answered_from_cache cache vi ptr p cache' \<or> probed_afresh L cache vi ptr p cache'" by blast
    from this(2) show ?thesis
    proof
      assume "answered_from_cache cache vi ptr p cache'"
      then show ?thesis by (auto simp: answered_from_cache_def)
    next
      assume "probed_afresh L cache vi ptr p cache'"
      then obtain pre qtr t where a: "ptr = pre @ qtr @ [EvNow t]" "runs (probeStore L vi) qtr (Some p)"
        "cache' = cache(index_key vi \<mapsto> new_entry p t)"
        unfolding probed_afresh_def by blast
      have "probed_in L vi (q, tr) p t"
        unfolding probed_in_def fst_conv snd_conv x(1) Inr tr0 a(1) using a(2) by fastforce
      with a(3) show ?thesis by blast
    qed
  qed
qed

text \<open>
  C25. Every result in the cache was measured: for an entry of the cache the passes of a process leave,
  one of these passes read an index of the entry's store type, endpoint and collection - these three
  are its key - and probed the store of that index; the entry holds the result and the time read from
  the clock right after the probe.
\<close>

theorem cached_results_were_probed:
  assumes "cache_after L history cache" "cache k = Some e"
  shows "\<exists>vi pass. pass \<in> set history \<and> probed_in L vi pass (entry_result e) (pe_checkedAt e) \<and>
     k = vs_type (vi_store vi) @ ''|'' @ vs_endpoint (vi_store vi) @ ''|'' @ vi_collection vi"
  using assms
proof (induction arbitrary: k e rule: cache_after.induct)
  case start
  then show ?case by simp
next
  case (pass history cache q tr r cache')
  from pass_probes [OF pass.hyps(2)] show ?case
  proof (elim disjE exE conjE)
    assume "cache' = cache"
    with pass.prems have "cache k = Some e" by simp
    from pass.IH [OF this] show ?thesis by fastforce
  next
    fix vi res t
    assume new: "cache' = cache(index_key vi \<mapsto> new_entry res t)" "probed_in L vi (q, tr) res t"
    show ?thesis
    proof (cases "k = index_key vi")
      case True
      with new(1) pass.prems have e: "e = new_entry res t" by simp
      have "pe_checkedAt e = t" by (simp add: e new_entry_def)
      with new(2) True show ?thesis
        by (intro exI [of _ vi] exI [of _ "(q, tr)"]) (simp add: e index_key_def probe_key_def)
    next
      case False
      with new(1) pass.prems have "cache k = Some e" by simp
      from pass.IH [OF this] show ?thesis by fastforce
    qed
  qed
qed

lemma demo_cached:
  "\<exists>tr c e. runs (reconcile_vector_index demo_lib (\<lambda>k. None) (''ns'', ''i'')) tr (Some ((requeue_after (60 * second), None), c)) \<and>
     c (index_key demo_index) = Some e"
proof -
  let ?S = "qdrant_up\<lparr>at_GetVectorIndex := (\<lambda>k. Inr demo_index)\<rparr>"
  let ?p = "reconcile_vector_index demo_lib (\<lambda>k. None) (''ns'', ''i'')"
  have "\<exists>c e. snd (exec ?S ?p) = Some ((requeue_after (60 * second), None), c) \<and> c (index_key demo_index) = Some e"
    by (simp add: reconcile_vector_index_def reconcileVectorIndex_def probeIndex_def cachedProbe_def store_probe_def
        probeStore_def probeQdrant_def askQdrant_def qdrantResult_def qdrant_up_def demo_index_def exec_simps
        index_key_def probeInterval_def wrap64_def second_def probe_key_def vi_collection_def)
  with runs_exec [of ?p ?S] show ?thesis by metis
qed

theorem cached_results_were_probed_witness:
  "\<exists>tr c e vi. runs (reconcile_vector_index demo_lib (\<lambda>k. None) (''ns'', ''i'')) tr (Some ((requeue_after (60 * second), None), c)) \<and>
     c (index_key demo_index) = Some e \<and> probed_in demo_lib vi ((''ns'', ''i''), tr) (entry_result e) (pe_checkedAt e)"
proof -
  obtain tr c e where r: "runs (reconcile_vector_index demo_lib (\<lambda>k. None) (''ns'', ''i'')) tr (Some ((requeue_after (60 * second), None), c))"
    and e: "c (index_key demo_index) = Some e" using demo_cached by blast
  have "cache_after demo_lib [((''ns'', ''i''), tr)] c" by (rule cache_after.pass [OF cache_after.start r])
  from cached_results_were_probed [OF this e] r e show ?thesis by auto
qed

text \<open>
  The cache answers across indexes: while a healthy result for the store type, endpoint and
  collection is fresh, an index in any namespace, with any credentials and any expected dimension, is
  reported healthy without a call of the store.
\<close>

theorem cached_health_ignores_the_index:
  assumes "cache (index_key vi) = Some e" "pe_health e = IndexHealthy" "pe_points e \<noteq> 0"
    and "runs (reconcileVectorIndex L cache vi) (EvNow now # tr) r" "now - pe_checkedAt e < 30 * second"
  shows "\<exists>t a vi'. tr = [EvNow t, EvUpdateStatus (OVectorIndex vi') a] \<and> vst_health (vi_status vi') = IndexHealthy"
proof -
  have t: "wp p (\<lambda>tr. case_option True (\<lambda>a. wp (f a) (\<lambda>tr' r. True)))"
    for p :: "(probe_result \<times> probe_cache) prog" and f :: "probe_result \<times> probe_cache \<Rightarrow> (reconcile_result \<times> probe_cache) prog"
    by (rule wpI) (simp add: wpI split: option.split)
  have "wp (reconcileVectorIndex L cache vi) (\<lambda>tr' r. \<forall>now tr. tr' = EvNow now # tr \<longrightarrow> now - pe_checkedAt e < 30 * second \<longrightarrow>
      (\<exists>t a vi'. tr = [EvNow t, EvUpdateStatus (OVectorIndex vi') a] \<and> vst_health (vi_status vi') = IndexHealthy))"
    using assms(1-3)
    by (auto simp: reconcileVectorIndex_def probeIndex_def cachedProbe_def index_key_def Let_def adjust_empty_def
        entry_result_def t split: sum.split)
  from wpD [OF this assms(4)] assms(5) show ?thesis by blast
qed

definition other_index :: vector_index where
  "other_index = demo_index\<lparr>vi_spec := (vi_spec demo_index)\<lparr>vis_dimension := 1024,
     vis_store := (vi_store demo_index)\<lparr>vs_credentialsSecretRef := Some \<lparr>skr_name = ''gone'', skr_key = ''k''\<rparr>\<rparr>\<rparr>\<rparr>"

definition warm_cache :: probe_cache where
  "warm_cache = [index_key demo_index \<mapsto> new_entry \<lparr>pr_health = IndexHealthy, pr_points = 3, pr_dimension = 8, pr_message = ''''\<rparr> 0]"

theorem cached_health_ignores_the_index_witness:
  "\<exists>t a vi'. fst (exec (empty_cluster 0) (reconcileVectorIndex demo_lib warm_cache other_index)) =
     [EvNow 0, EvNow t, EvUpdateStatus (OVectorIndex vi') a] \<and> vst_health (vi_status vi') = IndexHealthy"
proof -
  have k: "index_key other_index = index_key demo_index"
    by (simp add: index_key_def other_index_def vi_collection_def)
  let ?e = "new_entry \<lparr>pr_health = IndexHealthy, pr_points = 3, pr_dimension = 8, pr_message = ''''\<rparr> 0"
  have c: "warm_cache (index_key other_index) = Some ?e" by (simp add: warm_cache_def k)
  have hd: "\<exists>tr. fst (exec (empty_cluster 0) (reconcileVectorIndex demo_lib warm_cache other_index)) = EvNow 0 # tr"
    using c by (simp add: reconcileVectorIndex_def probeIndex_def cachedProbe_def index_key_def Let_def exec_pbind exec_then_def
        new_entry_def second_def)
  then obtain tr where tr: "fst (exec (empty_cluster 0) (reconcileVectorIndex demo_lib warm_cache other_index)) = EvNow 0 # tr" by blast
  have r: "runs (reconcileVectorIndex demo_lib warm_cache other_index) (EvNow 0 # tr)
      (snd (exec (empty_cluster 0) (reconcileVectorIndex demo_lib warm_cache other_index)))"
    using runs_exec [of "reconcileVectorIndex demo_lib warm_cache other_index" "empty_cluster 0"] by (simp only: tr)
  show ?thesis
    using cached_health_ignores_the_index [OF c _ _ r] by (simp add: tr new_entry_def second_def)
qed

end
