(* ===== verification/Composition.thy ===== *)
theory Composition
  imports KB_Reconcile Retriever_Objects Vector_Index
begin

text \<open>
  Where the controllers meet: the worker that fills a collection, the VectorIndex that probes it and
  the Retriever that queries it each derive it from the same KnowledgeBase, with defaults of their own.
\<close>

definition env_named :: "string \<Rightarrow> env_var list \<Rightarrow> env_var list" where
  "env_named n env = filter (\<lambda>e. env_name e = n) env"

lemma env_named_simps [simp]:
  "env_named n [] = []" "env_named n (e # es) = (if env_name e = n then e # env_named n es else env_named n es)"
  "env_named n (es @ fs) = env_named n es @ env_named n fs"
  "env_name (plainEnv m v) = m" "env_name (secretEnv m r) = m"
  by (simp_all add: env_named_def plainEnv_def secretEnv_def)







end
