(* ===== verification/Operator_Main.thy ===== *)
theory Operator_Main
  imports Prelude "HOL-Library.Sublist" "HOL-Library.Multiset"
begin

text \<open>
  The operator process around the controllers: which namespaces it watches (\<open>cmd/main.go\<close>,
  \<open>WATCH_NAMESPACE\<close>) and the freshness metric the controllers share (\<open>internal/controller/metrics.go\<close>).
\<close>

section \<open>Blanks and separators\<close>

text \<open>
  \<open>strings.TrimSpace\<close> drops the code points with the Unicode property White_Space; strings are
  bytes, so these are the UTF-8 encodings of them.
\<close>

definition space_runes :: "string list" where
  "space_runes =
     map (\<lambda>b. [char_of b]) [9, 10, 11, 12, 13, 32 :: nat] @
     map (map char_of) ([[0xC2, 0x85], [0xC2, 0xA0], [0xE1, 0x9A, 0x80]] @
       map (\<lambda>b. [0xE2, 0x80, b]) ([0x80 ..< 0x8B] @ [0xA8, 0xA9, 0xAF]) @
       [[0xE2, 0x81, 0x9F], [0xE3, 0x80, 0x80 :: nat]])"

lemma space_runes_nonempty: "[] \<notin> set space_runes"
  by (auto simp: space_runes_def)

function trim_prefixes :: "string list \<Rightarrow> string \<Rightarrow> string" where
  "trim_prefixes ws s =
     (case find (\<lambda>w. w \<noteq> [] \<and> prefix w s) ws of
        None \<Rightarrow> s
      | Some w \<Rightarrow> trim_prefixes ws (drop (length w) s))"
  by pat_completeness auto
termination
  by (relation "measure (\<lambda>(ws, s). length s)") (auto simp: find_Some_iff prefix_def)

declare trim_prefixes.simps [simp del]

definition TrimSpace :: "string \<Rightarrow> string" where
  "TrimSpace s = rev (trim_prefixes (map rev space_runes) (rev (trim_prefixes space_runes s)))"

text \<open>\<open>strings.Split(s, sep)\<close> for a separator of one byte.\<close>

fun split_on :: "char \<Rightarrow> string \<Rightarrow> string list" where
  "split_on sep [] = [[]]"
| "split_on sep (c # cs) =
     (if c = sep then [] # split_on sep cs
      else case split_on sep cs of [] \<Rightarrow> [[c]] | w # ws \<Rightarrow> (c # w) # ws)"

section \<open>The watched namespaces\<close>

text \<open>The map to empty cache configurations is the set of its keys.\<close>

definition parseWatchNamespaces :: "string \<Rightarrow> string set" where
  "parseWatchNamespaces raw =
     fold (\<lambda>ns acc. let ns = TrimSpace ns in if ns \<noteq> '''' then insert ns acc else acc)
       (split_on (CHR '','') raw) {}"

text \<open>
  What \<open>main\<close> makes of the variable: exit, or the namespaces of the cache - \<open>None\<close> and the empty
  set are both the whole cluster to the manager.
\<close>

datatype watch = Exit | Watch "string set option"

definition watch_namespaces :: "string \<Rightarrow> watch" where
  "watch_namespaces env =
     (let raw = TrimSpace env
      in if raw \<noteq> '''' then
           let nss = parseWatchNamespaces raw
           in if nss = {} then Exit else Watch (Some nss)
         else Watch None)"

section \<open>The freshness metric\<close>

text \<open>
  The newest successful ingestion of each namespace in Unix seconds; a missing key reads as 0. A call
  runs under the mutex, so it is one step: the new map, and the value the gauge is set to, if any.
\<close>

type_synonym freshness = "string \<Rightarrow> int option"

definition unix :: "time \<Rightarrow> int" where
  "unix t = t div second"

definition map_get :: "freshness \<Rightarrow> string \<Rightarrow> int" where
  "map_get m k = (case m k of None \<Rightarrow> 0 | Some v \<Rightarrow> v)"

definition observeSuccessfulIngestion :: "string \<Rightarrow> time \<Rightarrow> freshness \<Rightarrow> freshness \<times> int option" where
  "observeSuccessfulIngestion ns t m =
     (let seconds = unix t
      in if seconds \<le> map_get m ns then (m, None) else (m(ns \<mapsto> seconds), Some seconds))"

text \<open>The map after a sequence of calls.\<close>

definition observe_all :: "(string \<times> time) list \<Rightarrow> freshness \<Rightarrow> freshness" where
  "observe_all calls m = fold (\<lambda>(ns, t) m. fst (observeSuccessfulIngestion ns t m)) calls m"

section \<open>Lemmas\<close>

lemma trim_prefixes_id: "(\<And>w. w \<in> set ws \<Longrightarrow> w \<noteq> [] \<Longrightarrow> \<not> prefix w s) \<Longrightarrow> trim_prefixes ws s = s"
  by (subst trim_prefixes.simps) (auto split: option.split simp: find_Some_iff dest: nth_mem)

lemma trim_prefixes_clean:
  "w \<in> set ws \<Longrightarrow> w \<noteq> [] \<Longrightarrow> \<not> prefix w (trim_prefixes ws s)"
proof (induction ws s rule: trim_prefixes.induct)
  case (1 ws s)
  show ?case
  proof (cases "find (\<lambda>w. w \<noteq> [] \<and> prefix w s) ws")
    case None
    then have "trim_prefixes ws s = s" by (subst trim_prefixes.simps) simp
    with 1(2,3) None show ?thesis by (auto simp: find_None_iff)
  next
    case (Some u)
    from 1(1) [OF Some 1(2,3)] Some show ?thesis by (subst trim_prefixes.simps) simp
  qed
qed

lemma split_on_word: "sep \<notin> set w \<Longrightarrow> split_on sep w = [w]"
  by (induction w) auto

lemma split_on_cons: "sep \<notin> set w \<Longrightarrow> split_on sep (w @ sep # s) = w # split_on sep s"
  by (induction w) auto

lemma parse_iff: "ns \<in> parseWatchNamespaces raw \<longleftrightarrow> ns \<noteq> '''' \<and> ns \<in> TrimSpace ` set (split_on (CHR '','') raw)"
proof -
  have "fold (\<lambda>ns acc. let ns = TrimSpace ns in if ns \<noteq> '''' then insert ns acc else acc) xs A =
      A \<union> (TrimSpace ` set xs - {''''})" for xs A
    by (induction xs arbitrary: A) (auto simp: Let_def)
  then show ?thesis by (auto simp: parseWatchNamespaces_def)
qed


section \<open>Properties\<close>

text \<open>DNS labels are words without blanks and commas.\<close>

definition solid :: "string \<Rightarrow> bool" where
  "solid w \<longleftrightarrow> list_all (\<lambda>c. of_char c < (128 :: nat) \<and> 32 < (of_char c :: nat)) w"

definition clean_word :: "string \<Rightarrow> bool" where
  "clean_word w \<longleftrightarrow> w \<noteq> '''' \<and> CHR '','' \<notin> set w \<and> solid w"

fun join_commas :: "string list \<Rightarrow> string" where
  "join_commas [] = []"
| "join_commas [w] = w"
| "join_commas (w # ws) = w @ CHR '','' # join_commas ws"

lemma space_runes_blank:
  "w \<in> set space_runes \<Longrightarrow> c \<in> set w \<Longrightarrow> of_char c < (128 :: nat) \<Longrightarrow> (of_char c :: nat) \<le> 32"
  by (auto simp: space_runes_def)

lemma trim_solid:
  assumes "solid w"
  shows "TrimSpace w = w"
proof -
  have no: "\<not> prefix v u" if "v \<in> set space_runes \<or> rev v \<in> set space_runes" "v \<noteq> []" "set u = set w" for u v
  proof
    assume "prefix v u"
    with that(2) have c: "hd v \<in> set v" "hd v \<in> set u" by (cases v; auto simp: prefix_def)+
    with assms that(3) have "of_char (hd v) < (128 :: nat)" "32 < (of_char (hd v) :: nat)" by (auto simp: solid_def list_all_iff)
    with that(1) c(1) space_runes_blank [of v "hd v"] space_runes_blank [of "rev v" "hd v"] show False by auto
  qed
  have 1: "trim_prefixes space_runes w = w" using no [of _ w] by (intro trim_prefixes_id) blast
  have "trim_prefixes (map rev space_runes) (rev w) = rev w" using no [of _ "rev w"] by (intro trim_prefixes_id) auto
  with 1 show ?thesis by (simp add: TrimSpace_def)
qed

lemma split_join: "ws \<noteq> [] \<Longrightarrow> list_all clean_word ws \<Longrightarrow> split_on (CHR '','') (join_commas ws) = ws"
  by (induction ws rule: join_commas.induct) (auto simp: split_on_word split_on_cons clean_word_def)

lemma solid_join: "list_all clean_word ws \<Longrightarrow> solid (join_commas ws)"
  by (induction ws rule: join_commas.induct) (auto simp: clean_word_def solid_def)

lemma join_nonempty: "ws \<noteq> [] \<Longrightarrow> list_all clean_word ws \<Longrightarrow> join_commas ws \<noteq> ''''"
  by (induction ws rule: join_commas.induct) (auto simp: clean_word_def)

text \<open>
  C38. The watched namespaces are what was listed: parsing names joined by commas gives back their
  set, and the process then watches exactly it. And a variable with anything but blanks in it never
  widens the watch to the whole cluster.
\<close>

theorem watch_list_roundtrip:
  assumes "ws \<noteq> []" "list_all clean_word ws"
  shows "parseWatchNamespaces (join_commas ws) = set ws \<and> watch_namespaces (join_commas ws) = Watch (Some (set ws)) \<and>
     (\<forall>env. TrimSpace env \<noteq> '''' \<longrightarrow>
        watch_namespaces env = Exit \<or> (\<exists>nss. nss \<noteq> {} \<and> '''' \<notin> nss \<and> watch_namespaces env = Watch (Some nss)))"
proof -
  have trim: "TrimSpace w = w \<and> w \<noteq> ''''" if "w \<in> set ws" for w
    using assms(2) that trim_solid by (auto simp: list_all_iff clean_word_def)
  then have "parseWatchNamespaces (join_commas ws) = set ws"
    by (auto simp: parse_iff split_join [OF assms] image_iff)
  moreover have "TrimSpace (join_commas ws) = join_commas ws" by (rule trim_solid) (rule solid_join [OF assms(2)])
  moreover have "watch_namespaces env = Exit \<or> (\<exists>nss. nss \<noteq> {} \<and> '''' \<notin> nss \<and> watch_namespaces env = Watch (Some nss))"
    if "TrimSpace env \<noteq> ''''" for env
    using that by (auto simp: watch_namespaces_def Let_def parse_iff)
  ultimately show ?thesis using assms(1) join_nonempty [OF assms] by (auto simp: watch_namespaces_def Let_def)
qed

theorem watch_list_roundtrip_witness:
  "watch_namespaces (join_commas [''team-a'', ''team-b'']) = Watch (Some (set [''team-a'', ''team-b'']))"
  using watch_list_roundtrip [of "[''team-a'', ''team-b'']"] by (simp add: clean_word_def solid_def)


text \<open>
  The specification of the gauge: the newest of the reports of a namespace, if it is newer than what
  was known.
\<close>

definition newest :: "string \<Rightarrow> (string \<times> time) list \<Rightarrow> int \<Rightarrow> int" where
  "newest ns calls start = Max (insert start {unix t |t. (ns, t) \<in> set calls})"

lemma reports_finite: "finite {unix t |t. (ns, t) \<in> set calls}"
proof -
  have "{unix t |t. (ns, t) \<in> set calls} \<subseteq> (unix \<circ> snd) ` set calls" by force
  then show ?thesis by (rule finite_subset) simp
qed

lemma newest_simps:
  "newest ns [] v = v"
  "newest ns ((k, t) # calls) v = newest ns calls (if k = ns then max v (unix t) else v)"
proof -
  have r: "{unix u |u. (ns, u) \<in> set ((k, t) # calls)} =
      (if k = ns then insert (unix t) {unix u |u. (ns, u) \<in> set calls} else {unix u |u. (ns, u) \<in> set calls})"
    by auto
  show "newest ns ((k, t) # calls) v = newest ns calls (if k = ns then max v (unix t) else v)"
    unfolding newest_def r using reports_finite [of ns calls]
    by (cases "{unix u |u. (ns, u) \<in> set calls} = {}") (simp_all add: Max_insert max.assoc)
qed (simp add: newest_def)

lemma newest_ge: "v \<le> newest ns calls v"
  unfolding newest_def using reports_finite by (intro Max_ge) auto

lemma observe_all_at:
  "observe_all calls m ns =
     (if newest ns calls (map_get m ns) = map_get m ns then m ns else Some (newest ns calls (map_get m ns)))"
proof (induction calls arbitrary: m)
  case Nil
  show ?case by (simp add: observe_all_def newest_simps)
next
  case (Cons c calls)
  obtain k t where c: "c = (k, t)" by (cases c)
  let ?m = "fst (observeSuccessfulIngestion k t m)"
  have get: "map_get ?m ns = (if k = ns then max (map_get m ns) (unix t) else map_get m ns)"
    by (auto simp: observeSuccessfulIngestion_def Let_def map_get_def max_def split: option.split)
  have "observe_all (c # calls) m ns = observe_all calls ?m ns" by (simp add: observe_all_def c)
  also have "\<dots> = (if newest ns calls (map_get ?m ns) = map_get ?m ns then ?m ns else Some (newest ns calls (map_get ?m ns)))"
    by (rule Cons.IH)
  also have "newest ns calls (map_get ?m ns) = newest ns (c # calls) (map_get m ns)"
    by (simp add: c newest_simps get)
  finally have o': "observe_all (c # calls) m ns =
     (if newest ns (c # calls) (map_get m ns) = map_get ?m ns then ?m ns else Some (newest ns (c # calls) (map_get m ns)))" .
  show ?case
  proof (cases "k = ns \<and> map_get m ns < unix t")
    case True
    then have m: "?m ns = Some (unix t)" "map_get ?m ns = unix t"
      by (simp_all add: observeSuccessfulIngestion_def Let_def map_get_def)
    from True have "unix t \<le> newest ns (c # calls) (map_get m ns)"
      using newest_ge [of "unix t" ns calls] by (simp add: c newest_simps max_def)
    with True show ?thesis unfolding o' m by auto
  next
    case False
    then have m: "?m ns = m ns" "map_get ?m ns = map_get m ns"
      by (auto simp: observeSuccessfulIngestion_def Let_def map_get_def)
    show ?thesis unfolding o' m ..
  qed
qed

text \<open>
  The freshness gauge of a namespace shows the newest of its successful ingestions, whatever the
  order in which the reconcilers report them: calls that report the same ingestions give the same
  map, and it holds the greatest of the known value and the reported Unix seconds - the old entry, or
  none, if nothing newer was reported.
\<close>

theorem freshness_is_newest_report:
  assumes "set calls = set calls'"
  shows "observe_all calls m = observe_all calls' m \<and>
     (\<forall>ns. let best = Max (insert (map_get m ns) {unix t |t. (ns, t) \<in> set calls})
           in observe_all calls m ns = (if best = map_get m ns then m ns else Some best))"
proof -
  have "newest ns calls v = newest ns calls' v" for ns v by (simp add: newest_def assms)
  then show ?thesis by (simp add: fun_eq_iff observe_all_at Let_def newest_def)
qed

theorem freshness_is_newest_report_witness:
  "observe_all [(''a'', 7 * second), (''a'', 3 * second)] Map.empty =
     observe_all [(''a'', 3 * second), (''a'', 7 * second), (''a'', 3 * second)] Map.empty"
proof -
  have "set [(''a'', 7 * second), (''a'', 3 * second)] = set [(''a'', 3 * second), (''a'', 7 * second), (''a'', 3 * second)]"
    by auto
  from freshness_is_newest_report [OF this, of Map.empty] show ?thesis by blast
qed

end
