(* ===== verification/Startup.thy ===== *)
theory Startup
  imports Operator_Main Effects
begin

text \<open>
  The start of the process (\<open>main\<close> and \<open>initTracer\<close> of \<open>cmd/main.go\<close>), what each controller watches
  (the functions \<open>SetupWithManager\<close>), and the collectors of \<open>internal/controller/metrics.go\<close>.  The
  library calls of the start are answered by the environment: an error or none.
\<close>

section \<open>What the controllers watch\<close>

text \<open>
  The builder calls \<open>For\<close>, \<open>Owns\<close> and \<open>Watches\<close>, by kind; the functions that map a change of a
  watched object to requests are in \<open>KB_Reconcile\<close> and \<open>Retriever\<close>.
\<close>

record wiring =
  w_for :: string
  w_owns :: "string list"
  w_watches :: "string list"

definition KnowledgeBase_wiring :: wiring where
  "KnowledgeBase_wiring =
     \<lparr>w_for = ''KnowledgeBase'', w_owns = [''Job'', ''VectorIndex'', ''ServiceAccount'', ''Role'', ''RoleBinding''],
      w_watches = [''ServiceAccount'', ''Secret'']\<rparr>"

definition Retriever_wiring :: wiring where
  "Retriever_wiring =
     \<lparr>w_for = ''Retriever'',
      w_owns = [''Deployment'', ''Service'', ''PodDisruptionBudget'', ''HorizontalPodAutoscaler'', ''Ingress'', ''NetworkPolicy''],
      w_watches = [''KnowledgeBase'', ''Secret'']\<rparr>"

definition VectorIndex_wiring :: wiring where
  "VectorIndex_wiring = \<lparr>w_for = ''VectorIndex'', w_owns = [], w_watches = []\<rparr>"

definition Backup_wiring :: wiring where
  "Backup_wiring = \<lparr>w_for = ''Backup'', w_owns = [''Job''], w_watches = []\<rparr>"

definition Restore_wiring :: wiring where
  "Restore_wiring = \<lparr>w_for = ''Restore'', w_owns = [''Job''], w_watches = []\<rparr>"

section \<open>The start\<close>

text \<open>The flags with their defaults; parsing them is the library's.\<close>

record flags =
  metricsAddr :: string
  probeAddr :: string
  enableLeaderElection :: bool

definition default_flags :: flags where
  "default_flags = \<lparr>metricsAddr = '':8080'', probeAddr = '':8081'', enableLeaderElection = False\<rparr>"

record manager_options =
  mo_bindAddress :: string
  mo_secureServing :: bool
  mo_healthProbeBindAddress :: string
  mo_leaderElection :: bool
  mo_leaderElectionID :: string
  mo_defaultNamespaces :: "string set option"

datatype startup_call =
    NewExporter
  | SetTracerProvider
  | GetConfigOrDie
  | NewManager manager_options
  | SetupController wiring
  | AddHealthzCheck string
  | AddReadyzCheck string
  | StartManager
  | ShutdownTracer

text \<open>Calls one after the other; the first error ends the process.\<close>

fun perform :: "(startup_call \<Rightarrow> err option) \<Rightarrow> startup_call list \<Rightarrow> startup_call list \<times> bool" where
  "perform ans [] = ([], True)"
| "perform ans (c # cs) =
     (case ans c of
        Some e \<Rightarrow> ([c], False)
      | None \<Rightarrow> let (calls, ok) = perform ans cs in (c # calls, ok))"

text \<open>The calls, whether it succeeded, and whether there is a provider to shut down.\<close>

definition initTracer :: "(startup_call \<Rightarrow> err option) \<Rightarrow> string \<Rightarrow> startup_call list \<times> bool \<times> bool" where
  "initTracer ans endpoint =
     (if endpoint = '''' then ([], True, False)
      else case ans NewExporter of
        Some e \<Rightarrow> ([NewExporter], False, False)
      | None \<Rightarrow> ([NewExporter, SetTracerProvider], True, True))"

definition managerOptions :: "flags \<Rightarrow> string set option \<Rightarrow> manager_options" where
  "managerOptions fl nss =
     \<lparr>mo_bindAddress = metricsAddr fl, mo_secureServing = False, mo_healthProbeBindAddress = probeAddr fl,
      mo_leaderElection = enableLeaderElection fl, mo_leaderElectionID = ''kuberag.furkan.dev'',
      mo_defaultNamespaces = nss\<rparr>"

text \<open>The calls of the manager before it is started.\<close>

definition manager_calls :: "flags \<Rightarrow> string set option \<Rightarrow> startup_call list" where
  "manager_calls fl nss =
     [GetConfigOrDie, NewManager (managerOptions fl nss)] @
     map SetupController [KnowledgeBase_wiring, Retriever_wiring, VectorIndex_wiring, Backup_wiring, Restore_wiring] @
     [AddHealthzCheck ''healthz'', AddReadyzCheck ''readyz'']"

text \<open>
  \<open>main\<close>, from the flags, the endpoint of the exporter and \<open>WATCH_NAMESPACE\<close> to the calls made and the
  exit code.  The deferred shutdown of the tracer runs when \<open>main\<close> returns, not at \<open>os.Exit(1)\<close>.
\<close>

definition operator_main ::
  "(startup_call \<Rightarrow> err option) \<Rightarrow> flags \<Rightarrow> string \<Rightarrow> string \<Rightarrow> startup_call list \<times> int" where
  "operator_main ans fl endpoint watch_namespace =
     (case initTracer ans endpoint of
        (traced, ok, tp) \<Rightarrow>
          if \<not> ok then (traced, 1)
          else case watch_namespaces watch_namespace of
            Exit \<Rightarrow> (traced, 1)
          | Watch nss \<Rightarrow>
              (case perform ans
                 (manager_calls fl nss @ [StartManager]) of
                 (calls, ok) \<Rightarrow>
                   if \<not> ok then (traced @ calls, 1)
                   else (traced @ calls @ (if tp then [ShutdownTracer] else []), 0)))"

lemma perform_ok: "snd (perform ans cs) \<longleftrightarrow> (\<forall>c \<in> set cs. ans c = None)"
  by (induction cs) (simp_all add: split_beta Let_def split: option.split)

lemma perform_ok_calls: "\<forall>c \<in> set cs. ans c = None \<Longrightarrow> fst (perform ans cs) = cs"
  by (induction cs) (simp_all add: split_beta Let_def)

lemma perform_all: "perform ans cs = (calls, True) \<longleftrightarrow> calls = cs \<and> (\<forall>c \<in> set cs. ans c = None)"
  using perform_ok [of ans cs] perform_ok_calls [of cs ans] by (cases "perform ans cs") auto

lemma perform_prefix: "perform ans cs = (calls, ok) \<Longrightarrow> prefix calls cs"
  by (induction cs arbitrary: calls) (auto split: option.splits prod.splits)

text \<open>What was called before the last call succeeded.\<close>

lemma perform_before: "perform ans cs = (pre @ c # post, ok) \<Longrightarrow> d \<in> set pre \<Longrightarrow> ans d = None"
proof (induction cs arbitrary: pre)
  case (Cons x xs)
  then show ?case by (cases pre) (auto split: option.splits prod.splits)
qed simp

lemma perform_last:
  assumes "perform ans (cs @ [c]) = (calls, ok)" "c \<in> set calls" "c \<notin> set cs"
  shows "calls = cs @ [c] \<and> (\<forall>d \<in> set cs. ans d = None)"
proof -
  have "calls = cs @ [c]"
    using perform_prefix [OF assms(1)] assms(2,3) by (auto simp: prefix_snoc dest: set_mono_prefix)
  with perform_before [of ans "cs @ [c]" cs c "[]" ok] assms(1) show ?thesis by auto
qed

lemma perform_end:
  assumes "perform ans (cs @ [c]) = (calls, ok)" "c \<notin> set cs"
  shows "ok \<longleftrightarrow> c \<in> set calls \<and> ans c = None"
proof
  assume ok
  with assms(1) show "c \<in> set calls \<and> ans c = None" using perform_all [of ans "cs @ [c]" calls] by auto
next
  assume c: "c \<in> set calls \<and> ans c = None"
  with perform_last [OF assms(1) _ assms(2)] have "\<forall>d \<in> set (cs @ [c]). ans d = None" by auto
  then have "perform ans (cs @ [c]) = (cs @ [c], True)" by (simp add: perform_all)
  with assms(1) show ok by simp
qed

lemma operator_main_cases:
  assumes "operator_main ans fl endpoint raw = (calls, code)" "initTracer ans endpoint = (traced, ok, tp)"
  shows "calls = traced \<and> code = 1 \<or>
    (\<exists>nss made good. ok \<and> watch_namespaces raw = Watch nss \<and> perform ans (manager_calls fl nss @ [StartManager]) = (made, good) \<and>
       calls = traced @ made @ (if good \<and> tp then [ShutdownTracer] else []) \<and> code = (if good then 0 else 1))"
proof (cases "ok \<and> watch_namespaces raw \<noteq> Exit")
  case False
  with assms show ?thesis by (auto simp: operator_main_def split: watch.splits if_splits)
next
  case True
  then obtain nss where nss: "watch_namespaces raw = Watch nss" by (cases "watch_namespaces raw") auto
  obtain made good where p: "perform ans (manager_calls fl nss @ [StartManager]) = (made, good)" by fastforce
  from assms True nss p have
    "calls = traced @ made @ (if good \<and> tp then [ShutdownTracer] else []) \<and> code = (if good then 0 else 1)"
    by (auto simp: operator_main_def simp del: perform.simps split: if_splits)
  with True nss p show ?thesis by blast
qed

lemma not_manager_call [simp]: "StartManager \<notin> set (manager_calls fl nss)" "ShutdownTracer \<notin> set (manager_calls fl nss)"
  by (simp_all add: manager_calls_def)

lemma operator_main_shape:
  assumes "operator_main ans fl endpoint raw = (calls, code)"
  shows "(StartManager \<in> set calls \<longrightarrow> (\<exists>traced nss rest. watch_namespaces raw = Watch nss \<and>
      calls = traced @ manager_calls fl nss @ [StartManager] @ rest \<and>
      set traced \<subseteq> {NewExporter, SetTracerProvider} \<and> set rest \<subseteq> {ShutdownTracer} \<and>
      (\<forall>c \<in> set (manager_calls fl nss). ans c = None) \<and> (NewExporter \<in> set traced \<longrightarrow> ans NewExporter = None))) \<and>
    (code = 0 \<longleftrightarrow> StartManager \<in> set calls \<and> ans StartManager = None) \<and>
    (ShutdownTracer \<in> set calls \<longleftrightarrow> code = 0 \<and> endpoint \<noteq> '''')"
proof -
  obtain traced ok tp where t: "initTracer ans endpoint = (traced, ok, tp)" by (cases "initTracer ans endpoint")
  then have tr: "set traced \<subseteq> {NewExporter, SetTracerProvider}" "tp \<longleftrightarrow> ok \<and> endpoint \<noteq> ''''"
    "ok \<Longrightarrow> NewExporter \<in> set traced \<Longrightarrow> ans NewExporter = None"
    by (auto simp: initTracer_def split: if_splits option.splits)
  from operator_main_cases [OF assms t] show ?thesis
  proof (elim disjE exE conjE)
    assume "calls = traced" "code = 1"
    with tr show ?thesis by auto
  next
    fix nss made good
    assume ok and nss: "watch_namespaces raw = Watch nss" and p: "perform ans (manager_calls fl nss @ [StartManager]) = (made, good)"
      and calls: "calls = traced @ made @ (if good \<and> tp then [ShutdownTracer] else [])" and code: "code = (if good then 0 else 1)"
    have sub: "set made \<subseteq> set (manager_calls fl nss @ [StartManager])"
      using perform_prefix [OF p] by (rule set_mono_prefix)
    have start: "StartManager \<in> set calls \<longleftrightarrow> StartManager \<in> set made" using calls tr(1) by auto
    have shut: "ShutdownTracer \<in> set calls \<longleftrightarrow> good \<and> tp"
      using calls tr(1) sub not_manager_call(2) [of fl nss] by auto
    from perform_end [OF p] start have exit: "code = 0 \<longleftrightarrow> StartManager \<in> set calls \<and> ans StartManager = None"
      by (simp add: code)
    have flush: "ShutdownTracer \<in> set calls \<longleftrightarrow> code = 0 \<and> endpoint \<noteq> ''''"
      using shut tr(2) \<open>ok\<close> by (simp add: code)
    show ?thesis
    proof (intro conjI impI exit flush exI)
      assume "StartManager \<in> set calls"
      with start perform_last [OF p] have made: "made = manager_calls fl nss @ [StartManager]" "\<forall>c \<in> set (manager_calls fl nss). ans c = None"
        by auto
      show "watch_namespaces raw = Watch nss" by (rule nss)
      show "calls = traced @ manager_calls fl nss @ [StartManager] @ (if good \<and> tp then [ShutdownTracer] else [])"
        by (simp add: calls made(1))
      show "set (if good \<and> tp then [ShutdownTracer] else []) \<subseteq> {ShutdownTracer}" by auto
      show "\<forall>c \<in> set (manager_calls fl nss). ans c = None" by (rule made(2))
    qed (use tr \<open>ok\<close> in auto)
  qed
qed

text \<open>
  C37. The process starts as a whole or not at all.  The manager runs only after the variable named
  namespaces or was blank, a manager restricted to exactly those was made with the flags given, and
  all five controllers and both probes were accepted by it, in this order.  The exit code is zero
  exactly when every call succeeded, and the spans still buffered are flushed in that case only.
\<close>

theorem manager_starts_fully_wired:
  assumes "operator_main ans fl endpoint raw = (calls, code)"
  shows "(StartManager \<in> set calls \<longrightarrow> (\<exists>traced nss rest. watch_namespaces raw = Watch nss \<and>
      (let wired = [GetConfigOrDie,
           NewManager \<lparr>mo_bindAddress = metricsAddr fl, mo_secureServing = False, mo_healthProbeBindAddress = probeAddr fl,
             mo_leaderElection = enableLeaderElection fl, mo_leaderElectionID = ''kuberag.furkan.dev'', mo_defaultNamespaces = nss\<rparr>] @
         map SetupController [KnowledgeBase_wiring, Retriever_wiring, VectorIndex_wiring, Backup_wiring, Restore_wiring] @
         [AddHealthzCheck ''healthz'', AddReadyzCheck ''readyz'']
       in calls = traced @ wired @ [StartManager] @ rest \<and> (\<forall>c \<in> set wired. ans c = None)) \<and>
      set traced \<subseteq> {NewExporter, SetTracerProvider} \<and> set rest \<subseteq> {ShutdownTracer} \<and>
      (NewExporter \<in> set traced \<longrightarrow> ans NewExporter = None))) \<and>
    (code = 0 \<longleftrightarrow> StartManager \<in> set calls \<and> ans StartManager = None) \<and>
    (ShutdownTracer \<in> set calls \<longleftrightarrow> code = 0 \<and> endpoint \<noteq> '''')"
  using operator_main_shape [OF assms] unfolding Let_def manager_calls_def managerOptions_def by blast

theorem manager_starts_fully_wired_witness:
  "\<exists>calls. operator_main (\<lambda>c. None) default_flags ''otel:4317'' ''team-a'' = (calls, 0) \<and>
     StartManager \<in> set calls \<and> ShutdownTracer \<in> set calls"
proof -
  obtain calls code where run: "operator_main (\<lambda>c. None) default_flags ''otel:4317'' ''team-a'' = (calls, code)"
    by fastforce
  have "solid ''team-a''" by (simp add: solid_def)
  then have "TrimSpace ''team-a'' = ''team-a''" by (rule trim_solid)
  moreover from this have "''team-a'' \<in> parseWatchNamespaces ''team-a''"
    by (simp add: parse_iff)
  ultimately have "watch_namespaces ''team-a'' \<noteq> Exit"
    by (auto simp: watch_namespaces_def Let_def)
  moreover have "perform (\<lambda>c. None) cs = (cs, True)" for cs by (simp add: perform_all)
  ultimately have "StartManager \<in> set calls"
    using run by (auto simp: operator_main_def initTracer_def split: watch.splits)
  with manager_starts_fully_wired [OF run] run show ?thesis by auto
qed

section \<open>The collectors\<close>

datatype collector_kind = Counter | Gauge | Histogram "int list"

record collector =
  co_name :: string
  co_help :: string
  co_kind :: collector_kind
  co_labels :: "string list"

definition ingestionsTotal :: collector where
  "ingestionsTotal =
     \<lparr>co_name = ''rag_knowledgebase_ingestions_total'',
      co_help = ''Total ingestion jobs completed, partitioned by result.'',
      co_kind = Counter, co_labels = [''namespace'', ''result'']\<rparr>"

definition indexedChunks_gauge :: collector where
  "indexedChunks_gauge =
     \<lparr>co_name = ''rag_knowledgebase_indexed_chunks'', co_help = ''Number of chunks currently indexed.'',
      co_kind = Gauge, co_labels = [''namespace'']\<rparr>"

definition lastSuccessfulIngestionTimestamp :: collector where
  "lastSuccessfulIngestionTimestamp =
     \<lparr>co_name = ''rag_knowledgebase_last_successful_ingestion_timestamp_seconds'',
      co_help = ''Unix timestamp of the latest successful KnowledgeBase ingestion in the namespace.'',
      co_kind = Gauge, co_labels = [''namespace'']\<rparr>"

definition retrievalRecall :: collector where
  "retrievalRecall =
     \<lparr>co_name = ''rag_knowledgebase_recall_percent'', co_help = ''Last measured retrieval recall@k as a percentage.'',
      co_kind = Gauge, co_labels = [''namespace'']\<rparr>"

definition autoTuneAttempts_gauge :: collector where
  "autoTuneAttempts_gauge =
     \<lparr>co_name = ''rag_knowledgebase_autotune_attempts'', co_help = ''Number of auto-tune iterations applied.'',
      co_kind = Gauge, co_labels = [''namespace'']\<rparr>"

definition autoTuneBestRecall :: collector where
  "autoTuneBestRecall =
     \<lparr>co_name = ''rag_knowledgebase_autotune_best_recall_percent'',
      co_help = ''Best retrieval recall@k observed across auto-tune attempts.'',
      co_kind = Gauge, co_labels = [''namespace'']\<rparr>"

text \<open>\<open>ExponentialBuckets(start, factor, n)\<close>: \<open>n\<close> bounds, each the factor times the one before.\<close>

definition exponential_buckets :: "int \<Rightarrow> int \<Rightarrow> nat \<Rightarrow> int list" where
  "exponential_buckets start factor n = map (\<lambda>i. start * factor ^ i) [0 ..< n]"

definition autoTuneDurationSeconds :: collector where
  "autoTuneDurationSeconds =
     \<lparr>co_name = ''rag_knowledgebase_autotune_duration_seconds'',
      co_help = ''Duration of auto-tune runs (start to settle/reset), per result.'',
      co_kind = Histogram (exponential_buckets 30 2 12), co_labels = [''namespace'', ''result'']\<rparr>"

text \<open>\<open>MustRegister\<close> of \<open>init\<close>.\<close>

definition registered :: "collector list" where
  "registered =
     [ingestionsTotal, indexedChunks_gauge, lastSuccessfulIngestionTimestamp,
      retrievalRecall, autoTuneAttempts_gauge, autoTuneBestRecall,
      autoTuneDurationSeconds]"

lemmas collector_defs =
  ingestionsTotal_def indexedChunks_gauge_def lastSuccessfulIngestionTimestamp_def retrievalRecall_def
  autoTuneAttempts_gauge_def autoTuneBestRecall_def autoTuneDurationSeconds_def

text \<open>The collector an emission of a pass goes to, with the values of its labels.\<close>

definition emission_target :: "emission \<Rightarrow> (collector \<times> string list) option" where
  "emission_target e =
     (case e of
        Event ty rsn msg \<Rightarrow> None
      | IngestionsTotal ns result \<Rightarrow> Some (ingestionsTotal, [ns, result])
      | IndexedChunksGauge ns n \<Rightarrow> Some (indexedChunks_gauge, [ns])
      | FreshnessGauge ns t \<Rightarrow> Some (lastSuccessfulIngestionTimestamp, [ns])
      | RecallGauge ns r \<Rightarrow> Some (retrievalRecall, [ns])
      | AutoTuneAttemptsGauge ns n \<Rightarrow> Some (autoTuneAttempts_gauge, [ns])
      | AutoTuneBestRecallGauge ns r \<Rightarrow> Some (autoTuneBestRecall, [ns])
      | AutoTuneDuration ns result d \<Rightarrow> Some (autoTuneDurationSeconds, [ns, result]))"

text \<open>
  Neither call can panic: \<open>MustRegister\<close> does on two collectors of one name, \<open>WithLabelValues\<close> on a
  wrong number of values.
\<close>

lemma registered_names_differ: "distinct (map co_name registered)"
  by (simp add: registered_def collector_defs)

lemma emission_labels_fit:
  "emission_target e = Some (c, values) \<Longrightarrow> c \<in> set registered \<and> length values = length (co_labels c)"
  by (cases e) (auto simp: emission_target_def registered_def collector_defs)

lemma duration_buckets_sorted: "sorted (exponential_buckets 30 2 12)"
  by (simp add: exponential_buckets_def upt_rec)

end
