(* ===== verification/Spec2Isabelle.thy ===== *)
theory Spec2Isabelle
  imports Wakeful Status_Invariant Credentials Deep_Copy_Correct Auto_Tune Deletion_Correct Transfers Retriever_Correct Vector_Index_Correct Composition Startup
begin

text \<open>
  A model of kuberag, a Kubernetes operator that keeps retrieval indexes in step with their sources
  (Go, \<open>api/v1alpha1\<close>, \<open>internal/controller\<close>, \<open>cmd/main.go\<close>).

  \<^bold>\<open>The program.\<close> Five custom resources, five reconcilers. A KnowledgeBase names sources, an embedding
  and a vector store; its reconciler (\<open>knowledgebase_controller.go\<close>, with \<open>ingestion_controller.go\<close>,
  \<open>evaluation_controller.go\<close> and \<open>deletion_controller.go\<close>) decides when the index is stale, runs one
  worker Job at a time - ingestion, evaluation, cleanup -, reads the ConfigMap in which the worker
  leaves its result, and records everything in the status: fingerprints of the spec and of the
  credentials, the chunking in force, the state of the auto-tune loop. It also maintains a
  VectorIndex, whose reconciler (\<open>vectorindex_controller.go\<close>) probes the store. A Retriever serves
  the index (\<open>retriever_controller.go\<close>). Backup and Restore each run one Job
  (\<open>backup_controller.go\<close>, \<open>restore_controller.go\<close>, \<open>backup_jobs.go\<close>).

  \<^bold>\<open>The shape of the model.\<close> Structs are records, enumerations datatypes or strings as in the code,
  pointers options, Go's \<open>int\<close> and \<open>time.Duration\<close> integers with their wrap-around written out
  (\<open>wrap64\<close>), strings lists of bytes. A reconciler is a program: a tree of calls - of the Kubernetes
  client, the clock, the event recorder, the metrics, HTTP and SQL - branching over every answer, so
  conflicts, refusals and lost objects are covered; a nil dereference or \<open>MustParse\<close> on a bad quantity
  is the program \<open>Panic\<close>. \<open>runs p tr r\<close> relates a program to the sequence of its calls with
  their answers and to its value; \<open>wp\<close> is the weakest precondition of a statement on both. The
  properties of a pass speak of the calls and their order in \<open>tr\<close>. Concurrency between controllers
  and with users is in the answers, which are arbitrary; one object has one pass at a time, as the
  work queue of the library guarantees.
\<close>

text \<open>
  \<^bold>\<open>The theories.\<close>

  \<^item> \<open>Prelude\<close>: wrap-around, Go's division, decimal printing and scanning, string functions.
    \<open>Api_Types\<close>: the structs of \<open>api/v1alpha1\<close>. \<open>Effects\<close>: the Kubernetes objects, programs, runs
    and \<open>wp\<close>. \<open>Traces\<close>: counting calls (\<open>at_most\<close>, \<open>never\<close>), order of calls (\<open>guards\<close>), running a
    program against an environment (\<open>exec\<close>). \<open>Lib\<close>: the parameters - SHA-256, JSON, the cron parser,
    status conditions, finalizers, owner references, quantities, URLs - with what is assumed of them
    as named predicates and one instance for the witnesses.
  \<^item> \<open>Naming\<close>, \<open>Scheduling\<close>, \<open>Decisions\<close>, \<open>Secrets\<close>: the pure helpers of \<open>jobs.go\<close>, \<open>scheduling.go\<close>,
    \<open>decision_helpers.go\<close>, \<open>secrets.go\<close>; bounded names, due schedules and wake-ups, staleness, the ladder
    of chunkings, the credential fingerprint.
  \<^item> \<open>Jobs\<close>, \<open>Worker_Identity\<close>: the rendered Jobs and the worker's ServiceAccount, Role and ConfigMaps;
    hardening, credentials by reference, least privilege, the round trip of the labels.
  \<^item> \<open>Status_Update\<close>: the conflict-retrying status write as the loop it is and as the single call
    the reconcilers use; what one call stands for is stated apart from the loop, as at most five reads,
    each directly followed by a write of the object read, and replacing one by the other refines every
    program.
  \<^item> \<open>Ingestion\<close>, \<open>Evaluation\<close>, \<open>Deletion\<close>, \<open>KB_Reconcile\<close>: the operations of the KnowledgeBase
    controller. \<open>Launch\<close>: starting a Job, one locale for ingestion and evaluation.
    \<open>Ingestion_Correct\<close>: the decision to ingest and its mode, what a finished ingestion records, the
    pruning of the history.
    \<open>Single_Flight\<close>: a whole pass, the one under deletion included - at most one Job, none beside one in
    flight, and what may be deleted before the status is saved. \<open>Wakeful\<close>: a pass that ends without a
    requeue has a reason. \<open>Status_Laws\<close>: the locales \<open>status_law\<close> and \<open>status_law_launch\<close>, what it takes for
    a property to hold of every status a pass writes. \<open>Status_Invariant\<close>: two instances of them - a Job is
    named only once it exists, and what the fields of the status promise each other in every object
    that passes, edits and stale reads can reach.
    \<open>Credentials\<close>: the Secrets of the worker Pods, of the fingerprint and of the watch agree.
    \<open>Deletion_Correct\<close>: the finalizer. \<open>Auto_Tune\<close>: the recall gate against an
    abstract judgement, and the bound on the number of re-indexes.
  \<^item> \<open>Backup\<close>, \<open>Restore\<close>, \<open>Transfers\<close>: the two reconcilers and the locale \<open>one_shot\<close> of which both are
    instances: an end is final and is reached on evidence only.
  \<^item> \<open>Retriever_Objects\<close>, \<open>Retriever\<close>, \<open>Retriever_Correct\<close>: rendered objects, one pass, and its
    properties; the locale \<open>kept_object\<close> is the contract of reading and creating or updating one object,
    with an instance for each of the six kinds.
  \<^item> \<open>Vector_Index\<close>, \<open>Vector_Index_Correct\<close>: the probes, the shared cache with the history of passes it
    stems from, the health they report.
  \<^item> \<open>Go_Heap\<close>, \<open>Deep_Copy\<close>, \<open>Deep_Copy_Correct\<close>: values with pointers in a heap, the generated
    functions of \<open>zz_generated.deepcopy.go\<close> over the declared types, and that they copy deeply - why the
    other theories may treat the objects as values.
  \<^item> \<open>Composition\<close>: worker, probe and query service of a KnowledgeBase address one collection; the
    dimension is common to workers and probes only.
  \<^item> \<open>Operator_Main\<close>: the watched namespaces of \<open>cmd/main.go\<close> and the freshness map of \<open>metrics.go\<close>.
    \<open>Startup\<close>: the rest of \<open>main\<close>, from the flags to the exit code, what each controller watches, and the
    metric collectors.
\<close>

text \<open>
  \<^bold>\<open>Bounds.\<close> No fuel is used for the program's loops: they are recursions over lists, the five attempts
  of the status write, or, for blanks and digits, recursions with a measure. The configurations of the
  ladder are assumed below two to the thirty-first where its additions must not wrap; the attempt
  counter and its maximum are 64-bit integers. Times are nanoseconds, unbounded, and differences of
  times saturate as in Go.

  \<^bold>\<open>Not modelled.\<close> The parsing of flags, logging and tracing spans, the libraries behind the manager,
  the cache and the metrics registry (what they are asked is in the model, what they answer is
  arbitrary), and the Python images of worker and retriever, of which the operator sees the result
  ConfigMaps only. Transition times of conditions are left to the library that sets them. Resource
  versions appear where the status write uses them.
\<close>

end
